(* ===== verification/Prelude.thy ===== *)
theory Prelude
  imports Main Complex_Main "HOL-Library.Word" "HOL-Library.AList"
begin

text \<open>
  Shared vocabulary of the development: the outcome of a Go function (a value, an error or a
  panic), Go's 64-bit wrap-around on durations, instants and durations in nanoseconds, float64
  values, and the small list and map lemmas that several components use.
\<close>

unbundle bit_operations_syntax

named_theorems go_simps \<open>unfolding rules for the sequencing of Go statements\<close>
named_theorems http_simps \<open>unfolding rules for the error to HTTP status tables\<close>

section \<open>Outcomes of Go functions\<close>

text \<open>A Go call returns normally, returns a non-nil error, or panics (index out of range, nil
  dereference).\<close>

datatype ('e, 'a) outcome = Ok 'a | Fail 'e | Panic

fun bind_o :: "('e, 'a) outcome \<Rightarrow> ('a \<Rightarrow> ('e, 'b) outcome) \<Rightarrow> ('e, 'b) outcome" where
  "bind_o (Ok x) k = k x"
| "bind_o (Fail e) k = Fail e"
| "bind_o Panic k = Panic"

fun is_ok :: "('e, 'a) outcome \<Rightarrow> bool" where
  "is_ok (Ok x) = True"
| "is_ok (Fail e) = False"
| "is_ok Panic = False"

definition guard_o :: "bool \<Rightarrow> 'e \<Rightarrow> ('e, unit) outcome" where
  "guard_o b e = (if b then Ok () else Fail e)"

lemma bind_o_eq_Ok [go_simps]: "bind_o m k = Ok y \<longleftrightarrow> (\<exists>x. m = Ok x \<and> k x = Ok y)"
  by (cases m) auto

lemma bind_o_eq_Fail [go_simps]:
  "bind_o m k = Fail e \<longleftrightarrow> m = Fail e \<or> (\<exists>x. m = Ok x \<and> k x = Fail e)"
  by (cases m) auto

lemma bind_o_eq_Panic [go_simps]:
  "bind_o m k = Panic \<longleftrightarrow> m = Panic \<or> (\<exists>x. m = Ok x \<and> k x = Panic)"
  by (cases m) auto

lemma guard_o_eq [go_simps]:
  "guard_o b e = Ok u \<longleftrightarrow> b"
  "guard_o b e = Fail e' \<longleftrightarrow> \<not> b \<and> e' = e"
  "guard_o b e = Panic \<longleftrightarrow> False"
  by (auto simp: guard_o_def)

lemma is_ok_iff: "is_ok r \<longleftrightarrow> (\<exists>x. r = Ok x)"
  by (cases r) auto

text \<open>Indexing and slicing as Go does it: out of range is a panic.\<close>

definition go_at :: "'a list \<Rightarrow> nat \<Rightarrow> ('e, 'a) outcome" where
  "go_at xs i = (if i < length xs then Ok (xs ! i) else Panic)"

definition go_slice :: "'a list \<Rightarrow> nat \<Rightarrow> nat \<Rightarrow> ('e, 'a list) outcome" where
  "go_slice xs lo hi =
    (if lo \<le> hi \<and> hi \<le> length xs then Ok (take (hi - lo) (drop lo xs)) else Panic)"

lemma go_at_in [simp]: "i < length xs \<Longrightarrow> go_at xs i = Ok (xs ! i)"
  by (simp add: go_at_def)

lemma go_slice_in [simp]:
  "lo \<le> hi \<Longrightarrow> hi \<le> length xs \<Longrightarrow> go_slice xs lo hi = Ok (take (hi - lo) (drop lo xs))"
  by (simp add: go_slice_def)

section \<open>Time\<close>

text \<open>An instant is the number of nanoseconds since the Unix epoch, a duration a number of
  nanoseconds. Durations are int64 in Go; products of durations wrap.\<close>

type_synonym instant = int
type_synonym duration = int

definition wrap64 :: "int \<Rightarrow> int" where
  "wrap64 i = (i + 2 ^ 63) mod 2 ^ 64 - 2 ^ 63"

lemma wrap64_id [simp]: "- (2 ^ 63) \<le> i \<Longrightarrow> i < 2 ^ 63 \<Longrightarrow> wrap64 i = i"
  by (simp add: wrap64_def)

lemma wrap64_range: "- (2 ^ 63) \<le> wrap64 i" "wrap64 i < 2 ^ 63"
  using pos_mod_bound [of "2 ^ 64" "i + 2 ^ 63"] pos_mod_sign [of "2 ^ 64" "i + 2 ^ 63"]
  by (simp_all add: wrap64_def)

definition millisecond :: duration where "millisecond = 10 ^ 6"
definition second :: duration where "second = 10 ^ 9"
definition hour :: duration where "hour = 3600 * second"

text \<open>The zero \<open>time.Time\<close>: January 1, year 1, 00:00:00 UTC.\<close>

definition zero_time :: instant where "zero_time = - 62135596800 * 10 ^ 9"

section \<open>float64\<close>

text \<open>A float64 is a finite real or one of the three special values; the code only stores and
  compares them.\<close>

datatype f64 = Fin real | PosInf | NegInf | NaN

fun f64_lt :: "f64 \<Rightarrow> f64 \<Rightarrow> bool" where
  "f64_lt (Fin x) (Fin y) = (x < y)"
| "f64_lt NegInf y = (y = PosInf \<or> (case y of Fin _ \<Rightarrow> True | _ \<Rightarrow> False))"
| "f64_lt x PosInf = (case x of Fin _ \<Rightarrow> True | _ \<Rightarrow> False)"
| "f64_lt _ _ = False"

fun f64_eq :: "f64 \<Rightarrow> f64 \<Rightarrow> bool" where
  "f64_eq NaN _ = False"
| "f64_eq x y = (x = y)"

definition f64_le :: "f64 \<Rightarrow> f64 \<Rightarrow> bool" where
  "f64_le x y = (f64_lt x y \<or> f64_eq x y)"

definition f64_of_u16 :: "16 word \<Rightarrow> f64" where
  "f64_of_u16 w = Fin (real (unat w))"

lemma f64_of_u16_inject [simp]: "f64_of_u16 v = f64_of_u16 w \<longleftrightarrow> v = w"
  unfolding f64_of_u16_def f64.inject of_nat_eq_iff word_unat_eq_iff ..

section \<open>Lists and maps\<close>

text \<open>\<open>strings.Split\<close> at a single character; \<open>acc\<close> is the piece read so far.\<close>

fun split_on :: "char \<Rightarrow> string \<Rightarrow> string \<Rightarrow> string list" where
  "split_on d acc [] = [acc]"
| "split_on d acc (c # s) = (if c = d then acc # split_on d [] s else split_on d (acc @ [c]) s)"

lemma split_on_not_Nil [simp]: "split_on d acc s \<noteq> []"
  by (induction d acc s rule: split_on.induct) auto

lemma split_on_word: "d \<notin> set w \<Longrightarrow> split_on d acc (w @ d # s) = (acc @ w) # split_on d [] s"
  by (induction w arbitrary: acc) auto

lemma split_on_last: "d \<notin> set w \<Longrightarrow> split_on d acc w = [acc @ w]"
  by (induction w arbitrary: acc) auto

lemma fold_map_upd_dom:
  "dom (fold (\<lambda>x m. m(f x \<mapsto> g x)) xs m) = f ` set xs \<union> dom m"
  by (induction xs arbitrary: m) auto

lemma fold_map_upd_notin:
  "k \<notin> f ` set xs \<Longrightarrow> fold (\<lambda>x m. m(f x \<mapsto> g x)) xs m k = m k"
  by (induction xs arbitrary: m) auto

lemma fold_map_upd_distinct:
  "distinct (map f xs) \<Longrightarrow> x \<in> set xs \<Longrightarrow> fold (\<lambda>x m. m(f x \<mapsto> g x)) xs m (f x) = Some (g x)"
  by (induction xs arbitrary: m) (auto simp: fold_map_upd_notin)

lemma fold_map_upd_Some:
  "fold (\<lambda>x m. m(f x \<mapsto> g x)) xs m k = Some v \<Longrightarrow> m k = Some v \<or> (\<exists>x\<in>set xs. f x = k \<and> v = g x)"
proof (induction xs arbitrary: m)
  case (Cons x xs)
  from Cons.IH [of "m(f x \<mapsto> g x)"] Cons.prems show ?case by (auto split: if_splits)
qed simp

lemma update_notin: "k \<notin> fst ` set m \<Longrightarrow> AList.update k v m = m @ [(k, v)]"
  by (induction m) auto

end
