(* ===== verification/Ingest_Domain.thy ===== *)
theory Ingest_Domain
  imports Prelude
begin

text \<open>
  The domain of the ingestion service (services/ingestion/internal/domain): its errors, readings,
  device schemas, and the checks on channel ids and timestamps. A Go map that the code ranges over
  is the list of its entries in the iteration order of the run (distinct keys); a Go map that is
  only looked up is an Isabelle map. The clock is an argument: the calls of time.Now() made while
  one reading is checked read the same instant.
\<close>

section \<open>Errors\<close>

text \<open>The sentinel errors; wrapping with \<open>%w\<close> keeps the sentinel, so a wrapped error is its
  sentinel. \<open>ErrDecode\<close> is a failure of the json or msgpack decoder, \<open>ErrInfra\<close> one of Kafka,
  Redis or HTTP, \<open>ErrMarshal\<close> one of the json encoder.\<close>

datatype ingest_err =
    ErrInvalidChannelID | ErrEmptyFields | ErrCacheMiss | ErrDeviceNotFound
  | ErrTimestampTooOld | ErrTimestampFuture | ErrTimestampOutOfReplayWindow
  | ErrSchemaMismatch | ErrMissingSchemaVersion | ErrUnknownFieldIndex
  | ErrPayloadTooLarge | ErrBodyReadError | ErrCRCMismatch | ErrDeviceIDMismatch
  | ErrInvalidFrameLength | ErrTSDeltaOverflow | ErrTSDeltaInvalid
  | SchemaMismatchError "32 word" string
  | ErrDecode | ErrMarshal | ErrInfra

section \<open>Readings and schemas\<close>

type_synonym field_map = "(string \<times> f64) list"
type_synonym tag_map = "(string \<times> string) list"

record reading =
  r_channel :: string
  r_device :: string
  r_fields :: field_map
  r_tags :: tag_map
  r_timestamp :: instant

definition NewReading :: "string \<Rightarrow> string \<Rightarrow> field_map \<Rightarrow> tag_map \<Rightarrow> instant \<Rightarrow> reading" where
  "NewReading channel device flds tags ts =
    \<lparr> r_channel = channel, r_device = device, r_fields = flds, r_tags = tags, r_timestamp = ts \<rparr>"

record field_entry =
  fe_index :: "8 word"
  fe_name :: string
  fe_type :: string

record device_schema =
  ds_device :: string
  ds_channel :: string
  ds_fields :: "field_entry list"
  ds_version :: "32 word"

section \<open>Channel ids\<close>

definition hex_char :: "char \<Rightarrow> bool" where
  "hex_char c = (let n = (of_char c :: nat) in
     (48 \<le> n \<and> n \<le> 57) \<or> (97 \<le> n \<and> n \<le> 102) \<or> (65 \<le> n \<and> n \<le> 70))"

text \<open>The regular expression \<open>uuidRE\<close>: groups of 8, 4, 4, 4 and 12 hex digits of either case,
  separated by hyphens, and nothing before or after.\<close>

fun uuid_groups :: "nat list \<Rightarrow> string \<Rightarrow> bool" where
  "uuid_groups [] s = (s = [])"
| "uuid_groups [n] s = (length s = n \<and> list_all hex_char s)"
| "uuid_groups (n # ns) s =
    (length s > n \<and> list_all hex_char (take n s) \<and> s ! n = CHR ''-'' \<and> uuid_groups ns (drop (Suc n) s))"

definition uuidRE :: "string \<Rightarrow> bool" where
  "uuidRE s = uuid_groups [8, 4, 4, 4, 12] s"

definition nil_uuid :: string where
  "nil_uuid = ''00000000-0000-0000-0000-000000000000''"

definition ValidateChannelID :: "string \<Rightarrow> (ingest_err, unit) outcome" where
  "ValidateChannelID ident =
    (if \<not> uuidRE ident then Fail ErrInvalidChannelID
     else if ident = nil_uuid then Fail ErrInvalidChannelID
     else Ok ())"

section \<open>Timestamps\<close>

definition ValidateTimestamp :: "instant \<Rightarrow> instant \<Rightarrow> duration \<Rightarrow> (ingest_err, unit) outcome" where
  "ValidateTimestamp now ts maxAge =
    (if ts > now + 30 * second then Fail ErrTimestampFuture
     else if maxAge > 0 \<and> ts < now + (- maxAge) then Fail ErrTimestampTooOld
     else Ok ())"

text \<open>The window is a product of durations and wraps at 64 bits, and so does its negation.\<close>

definition replay_window :: "int \<Rightarrow> duration" where
  "replay_window windowDays = wrap64 (wrap64 (windowDays * 24) * hour)"

definition ValidateReplayTimestamp :: "instant \<Rightarrow> instant \<Rightarrow> int \<Rightarrow> (ingest_err, unit) outcome" where
  "ValidateReplayTimestamp now ts windowDays =
    (if ts > now + 30 * second then Fail ErrTimestampFuture
     else if ts < now + wrap64 (- replay_window windowDays) then Fail ErrTimestampOutOfReplayWindow
     else Ok ())"

section \<open>Lemmas\<close>

lemma uuid_groups_length:
  "uuid_groups ns s \<Longrightarrow> ns \<noteq> [] \<Longrightarrow> length s = sum_list ns + (length ns - 1)"
  by (induction ns s rule: uuid_groups.induct) auto

lemma uuid_groups_chars:
  "uuid_groups ns s \<Longrightarrow> c \<in> set s \<Longrightarrow> hex_char c \<or> c = CHR ''-''"
proof (induction ns s arbitrary: c rule: uuid_groups.induct)
  case (3 n m ns s)
  have "s = take n s @ s ! n # drop (Suc n) s"
    using 3(2) by (intro id_take_nth_drop) simp
  then have "c \<in> set (take n s) \<or> c = s ! n \<or> c \<in> set (drop (Suc n) s)"
    using 3(3) by (metis Un_iff set_append set_ConsD)
  with 3 show ?case by (auto simp: list_all_iff)
qed (auto simp: list_all_iff)

lemma ValidateChannelID_Ok [go_simps]:
  "ValidateChannelID s = Ok u \<longleftrightarrow> uuidRE s \<and> s \<noteq> nil_uuid"
  by (auto simp: ValidateChannelID_def)

lemma ValidateChannelID_not_Panic [simp]: "ValidateChannelID s \<noteq> Panic"
  by (auto simp: ValidateChannelID_def)

lemma ValidateTimestamp_Ok [go_simps]:
  "ValidateTimestamp now ts maxAge = Ok u \<longleftrightarrow>
    ts \<le> now + 30 * second \<and> (maxAge > 0 \<longrightarrow> now - maxAge \<le> ts)"
  by (auto simp: ValidateTimestamp_def)

lemma ValidateTimestamp_not_Panic [simp]: "ValidateTimestamp now ts maxAge \<noteq> Panic"
  by (auto simp: ValidateTimestamp_def)

text \<open>Up to 106751 days the multiplication does not overflow.\<close>

lemma replay_window_exact:
  assumes "0 \<le> d" "d \<le> 106751"
  shows "replay_window d = d * 24 * hour" "wrap64 (- replay_window d) = - (d * 24 * hour)"
  using assms by (simp_all add: replay_window_def hour_def second_def)

lemma ValidateReplayTimestamp_Ok:
  assumes "0 \<le> d" "d \<le> 106751"
  shows "ValidateReplayTimestamp now ts d = Ok u \<longleftrightarrow>
    ts \<le> now + 30 * second \<and> now - d * 24 * hour \<le> ts"
  using replay_window_exact(2) [OF assms] by (auto simp: ValidateReplayTimestamp_def)

end
