(* ===== verification/Compact_Format.thy ===== *)
theory Compact_Format
  imports Ingest_Domain
begin

text \<open>
  The compact payload formats of the ingestion service: the binary frame with its CRC and device
  check, the positional json and msgpack payloads (after the decoders, which are the json package
  and the vendored msgpack module), the timestamp offsets and the shared pipeline
  \<open>deserializeCompact\<close> (transport/http/deserialize*.go, resolve_td_offsets.go).
\<close>

section \<open>CRC16/CCITT-FALSE\<close>

definition crc_shift :: "16 word \<Rightarrow> 16 word" where
  "crc_shift crc = (if crc AND 0x8000 \<noteq> 0 then push_bit 1 crc XOR 0x1021 else push_bit 1 crc)"

definition crc_byte :: "8 word \<Rightarrow> 16 word \<Rightarrow> 16 word" where
  "crc_byte b crc = (crc_shift ^^ 8) (crc XOR push_bit 8 (ucast b))"

definition crc16CCITTFalse :: "8 word list \<Rightarrow> 16 word" where
  "crc16CCITTFalse data = fold crc_byte data 0xFFFF"

section \<open>Big-endian integers\<close>

definition be16 :: "8 word list \<Rightarrow> 16 word" where
  "be16 bs = push_bit 8 (ucast (bs ! 0)) OR ucast (bs ! 1)"

definition be32 :: "8 word list \<Rightarrow> 32 word" where
  "be32 bs = push_bit 24 (ucast (bs ! 0)) OR push_bit 16 (ucast (bs ! 1))
    OR push_bit 8 (ucast (bs ! 2)) OR ucast (bs ! 3)"

definition BigEndian_Uint16 :: "8 word list \<Rightarrow> ('e, 16 word) outcome" where
  "BigEndian_Uint16 bs = (if length bs < 2 then Panic else Ok (be16 bs))"

definition BigEndian_Uint32 :: "8 word list \<Rightarrow> ('e, 32 word) outcome" where
  "BigEndian_Uint32 bs = (if length bs < 4 then Panic else Ok (be32 bs))"

section \<open>The device id of the frame\<close>

definition hexVal :: "char \<Rightarrow> int" where
  "hexVal c = (let n = (of_char c :: int) in
     if 48 \<le> n \<and> n \<le> 57 then n - 48
     else if 97 \<le> n \<and> n \<le> 102 then n - 97 + 10
     else if 65 \<le> n \<and> n \<le> 70 then n - 65 + 10
     else - 1)"

text \<open>\<open>hex_bytes n s\<close> decodes n bytes from the first 2 n characters, as the loop over
  \<open>expected\<close> does.\<close>

fun hex_bytes :: "nat \<Rightarrow> string \<Rightarrow> (ingest_err, 8 word list) outcome" where
  "hex_bytes 0 s = Ok []"
| "hex_bytes (Suc n) (a # b # s) =
    (let hi = hexVal a; lo = hexVal b in
     if hi < 0 \<or> lo < 0 then Fail ErrDeviceIDMismatch
     else bind_o (hex_bytes n s) (\<lambda>bs. Ok (word_of_int (push_bit 4 hi OR lo) # bs)))"
| "hex_bytes (Suc n) _ = Panic"

definition strip_hyphens :: "string \<Rightarrow> string" where
  "strip_hyphens s = filter (\<lambda>c. c \<noteq> CHR ''-'') s"

definition validateDevID :: "8 word list \<Rightarrow> string \<Rightarrow> (ingest_err, unit) outcome" where
  "validateDevID devIDBytes authDeviceID =
    (let clean = strip_hyphens authDeviceID in
     if length clean < 8 then Fail ErrDeviceIDMismatch
     else bind_o (hex_bytes 4 clean) (\<lambda>expected.
       if length devIDBytes < 4 then Panic
       else if take 4 devIDBytes \<noteq> expected then Fail ErrDeviceIDMismatch
       else Ok ()))"

section \<open>The intermediate batch\<close>

text \<open>The conversion \<open>uint8(n)\<close>, which wraps at 256.\<close>

definition uint8 :: "nat \<Rightarrow> 8 word" where
  "uint8 n = word_of_nat n"

lemma uint8_eq: "a < 256 \<Longrightarrow> b < 256 \<Longrightarrow> uint8 a = uint8 b \<longleftrightarrow> a = b"
  by (simp add: uint8_def word_of_nat_eq_iff take_bit_nat_eq_self)

record compact_batch =
  cb_values :: "8 word \<rightharpoonup> f64"
  cb_timestamp :: "instant option"
  cb_td :: "16 word list"
  cb_version :: "32 word"
  cb_device :: string

section \<open>The binary frame\<close>

definition binaryFrameMinLen :: nat where "binaryFrameMinLen = 12"

definition OnesCount8 :: "8 word \<Rightarrow> nat" where
  "OnesCount8 m = length (filter (bit m) [0..<8])"

text \<open>One round of the loop over the bits of the field mask.\<close>

definition frame_value :: "8 word list \<Rightarrow> 8 word \<Rightarrow> nat
    \<Rightarrow> (ingest_err, (8 word \<rightharpoonup> f64) \<times> nat) outcome
    \<Rightarrow> (ingest_err, (8 word \<rightharpoonup> f64) \<times> nat) outcome" where
  "frame_value body fieldMsk i acc = bind_o acc (\<lambda>(m, valueOffset).
     if fieldMsk AND push_bit i 1 \<noteq> 0 then
       bind_o (go_slice body valueOffset (valueOffset + 2)) (\<lambda>bs.
       bind_o (BigEndian_Uint16 bs) (\<lambda>raw.
         Ok (m(uint8 (i + 1) \<mapsto> f64_of_u16 raw), valueOffset + 2)))
     else Ok (m, valueOffset))"

definition frame_values :: "8 word list \<Rightarrow> 8 word \<Rightarrow> (ingest_err, 8 word \<rightharpoonup> f64) outcome" where
  "frame_values body fieldMsk =
    bind_o (fold (frame_value body fieldMsk) [0..<8] (Ok (Map.empty, 10))) (\<lambda>(m, off). Ok m)"

definition binary_Parse :: "string \<Rightarrow> 8 word list \<Rightarrow> (ingest_err, compact_batch) outcome" where
  "binary_Parse authDeviceID body =
    (if length body < binaryFrameMinLen then Fail ErrInvalidFrameLength else
     bind_o (go_at body 9) (\<lambda>fieldMsk.
     let n = OnesCount8 fieldMsk; expectedLen = binaryFrameMinLen + n * 2 in
     if length body \<noteq> expectedLen then Fail ErrInvalidFrameLength else
     bind_o (go_slice body 0 (length body - 2)) (\<lambda>payload.
     bind_o (go_slice body (length body - 2) (length body)) (\<lambda>tail.
     bind_o (BigEndian_Uint16 tail) (\<lambda>gotCRC.
     if crc16CCITTFalse payload \<noteq> gotCRC then Fail ErrCRCMismatch else
     bind_o (go_slice body 1 5) (\<lambda>devIDBytes.
     bind_o (validateDevID devIDBytes authDeviceID) (\<lambda>_.
     bind_o (go_slice body 5 9) (\<lambda>tsBytes.
     bind_o (BigEndian_Uint32 tsBytes) (\<lambda>tsSec.
     bind_o (frame_values body fieldMsk) (\<lambda>fieldValues.
       Ok \<lparr> cb_values = fieldValues, cb_timestamp = Some (int (unat tsSec) * second),
            cb_td = [], cb_version = 0, cb_device = authDeviceID \<rparr>))))))))))"

section \<open>The positional formats\<close>

record compact_payload =
  cp_f :: "f64 list"
  cp_t :: "int option"
  cp_td :: "16 word list"
  cp_sv :: "32 word"

text \<open>The loop shared by both parsers: value number i (from 0) is stored under \<open>uint8(i+1)\<close>, so the
  index wraps for more than 255 values.\<close>

fun positional_values :: "nat \<Rightarrow> f64 list \<Rightarrow> (8 word \<rightharpoonup> f64) \<Rightarrow> (8 word \<rightharpoonup> f64)" where
  "positional_values i [] m = m"
| "positional_values i (v # vs) m = positional_values (Suc i) vs (m(uint8 (i + 1) \<mapsto> v))"

definition ojson_Parse :: "('body \<Rightarrow> compact_payload option) \<Rightarrow> 'body
    \<Rightarrow> (ingest_err, compact_batch) outcome" where
  "ojson_Parse unmarshal body =
    (case unmarshal body of
       None \<Rightarrow> Fail ErrDecode
     | Some p \<Rightarrow>
         if cp_f p = [] then Fail ErrEmptyFields
         else Ok \<lparr> cb_values = positional_values 0 (cp_f p) Map.empty,
                   cb_timestamp = map_option (\<lambda>t. t * millisecond) (cp_t p),
                   cb_td = cp_td p, cb_version = cp_sv p, cb_device = [] \<rparr>)"

definition msgpack_Parse :: "('body \<Rightarrow> compact_payload option) \<Rightarrow> 'body
    \<Rightarrow> (ingest_err, compact_batch) outcome" where
  "msgpack_Parse unmarshal body =
    (case unmarshal body of
       None \<Rightarrow> Fail ErrDecode
     | Some p \<Rightarrow>
         if cp_f p = [] then Fail ErrEmptyFields
         else Ok \<lparr> cb_values = positional_values 0 (cp_f p) Map.empty,
                   cb_timestamp = map_option (\<lambda>t. t * millisecond) (cp_t p),
                   cb_td = cp_td p, cb_version = cp_sv p, cb_device = [] \<rparr>)"

section \<open>Timestamp offsets\<close>

fun td_map :: "instant \<Rightarrow> (16 word \<times> string) list \<Rightarrow> (string \<rightharpoonup> instant option)
    \<Rightarrow> (string \<rightharpoonup> instant option)" where
  "td_map baseTS [] m = m"
| "td_map baseTS ((d, name) # r) m =
    td_map baseTS r (m(name \<mapsto> Some (baseTS + int (unat d) * millisecond)))"

definition resolveTDOffsets :: "instant \<Rightarrow> 16 word list \<Rightarrow> string list
    \<Rightarrow> (ingest_err, string \<rightharpoonup> instant option) outcome" where
  "resolveTDOffsets baseTS td fieldNames =
    (if td = [] then Ok (fold (\<lambda>name m. m(name \<mapsto> Some baseTS)) fieldNames Map.empty)
     else if length td \<noteq> length fieldNames then Fail ErrTSDeltaInvalid
     else Ok (td_map baseTS (zip td fieldNames) Map.empty))"

section \<open>The pipeline\<close>

record ingest_input =
  in_channel :: string
  in_device :: string
  in_fields :: field_map
  in_field_ts :: "string \<rightharpoonup> instant option"
  in_tags :: tag_map
  in_timestamp :: "instant option"

fun index_fields :: "field_entry list \<Rightarrow> (8 word \<rightharpoonup> field_entry) \<Rightarrow> (8 word \<rightharpoonup> field_entry)" where
  "index_fields [] m = m"
| "index_fields (f # fs) m = index_fields fs (m(fe_index f \<mapsto> f))"

text \<open>Step 4, for the indexes 1 to 8 in order.\<close>

fun resolve_fields :: "(8 word \<rightharpoonup> f64) \<Rightarrow> (8 word \<rightharpoonup> field_entry) \<Rightarrow> nat list
    \<Rightarrow> (ingest_err, (string \<times> f64) list) outcome" where
  "resolve_fields vals indexToField [] = Ok []"
| "resolve_fields vals indexToField (i # idxs) =
    (case vals (uint8 i) of
       None \<Rightarrow> resolve_fields vals indexToField idxs
     | Some v \<Rightarrow> (case indexToField (uint8 i) of
           None \<Rightarrow> Fail ErrUnknownFieldIndex
         | Some fe \<Rightarrow> bind_o (resolve_fields vals indexToField idxs) (\<lambda>r. Ok ((fe_name fe, v) # r))))"

definition field_map_of :: "(string \<times> f64) list \<Rightarrow> field_map" where
  "field_map_of rs = fold (\<lambda>(k, v). AList.update k v) rs []"

definition deserializeCompact :: "instant \<Rightarrow> 'body \<Rightarrow> device_schema
    \<Rightarrow> ('body \<Rightarrow> (ingest_err, compact_batch) outcome) \<Rightarrow> string
    \<Rightarrow> (ingest_err, ingest_input list) outcome" where
  "deserializeCompact now body schema parse channelID =
    bind_o (parse body) (\<lambda>batch.
    if ds_version schema \<noteq> 0 \<and> cb_version batch \<noteq> 0 \<and> cb_version batch \<noteq> ds_version schema
    then Fail (SchemaMismatchError (ds_version schema) channelID)
    else
     (let indexToField = index_fields (ds_fields schema) Map.empty;
          baseTS = (case cb_timestamp batch of Some t \<Rightarrow> t | None \<Rightarrow> now)
      in bind_o (resolve_fields (cb_values batch) indexToField [1..<9]) (\<lambda>resolved.
         bind_o (resolveTDOffsets baseTS (cb_td batch) (map fst resolved)) (\<lambda>fieldTimestamps.
           Ok [\<lparr> in_channel = [], in_device = [], in_fields = field_map_of resolved,
                 in_field_ts = fieldTimestamps, in_tags = [],
                 in_timestamp = cb_timestamp batch \<rparr>]))))"

section \<open>CRC: one corrupted byte is always noticed\<close>

lemma xor_cancel_right: "(a XOR c = b XOR c) \<longleftrightarrow> a = b" for a b c :: "'a::len word"
  by (metis (no_types) xor.assoc xor.right_neutral xor_self_eq)

lemma xor_cancel_left: "(c XOR a = c XOR b) \<longleftrightarrow> a = b" for a b c :: "'a::len word"
  by (metis (no_types) xor.commute xor_cancel_right)

lemma and_top_bit: "(crc :: 16 word) AND 0x8000 \<noteq> 0 \<longleftrightarrow> bit crc 15"
proof -
  have "(0x8000 :: 16 word) = push_bit 15 1" by simp
  then show ?thesis by (simp only: and_exp_eq_0_iff_not_bit push_bit_of_1) (simp add: and_exp_eq_0_iff_not_bit)
qed

lemma bit0_crc_shift: "bit (crc_shift a) 0 \<longleftrightarrow> bit a 15"
  unfolding crc_shift_def and_top_bit by (simp add: bit_0 even_xor_iff)

lemma crc_shift_inj: "crc_shift a = crc_shift b \<Longrightarrow> a = b"
proof -
  assume eq: "crc_shift a = crc_shift b"
  then have top: "bit a 15 \<longleftrightarrow> bit b 15" by (metis bit0_crc_shift)
  then have "push_bit 1 a = push_bit 1 b"
    using eq unfolding crc_shift_def and_top_bit by (auto simp only: xor_cancel_right split: if_splits)
  then have "bit (push_bit 1 a) (Suc n) \<longleftrightarrow> bit (push_bit 1 b) (Suc n)" for n by simp
  then have low: "bit a n \<longleftrightarrow> bit b n" if "n < 15" for n
    using that by (simp only: bit_push_bit_iff) auto
  show "a = b"
  proof (rule bit_word_eqI)
    fix n assume "n < LENGTH(16)"
    then have "n < 15 \<or> n = 15" by auto
    then show "bit a n \<longleftrightarrow> bit b n" using low top by auto
  qed
qed

lemma crc_shifts_inj: "(crc_shift ^^ n) a = (crc_shift ^^ n) b \<Longrightarrow> a = b"
  by (induction n) (auto dest: crc_shift_inj)

lemma crc_byte_inj_reg: "crc_byte b x = crc_byte b y \<Longrightarrow> x = y"
  unfolding crc_byte_def by (drule crc_shifts_inj) (simp only: xor_cancel_right)

lemma crc_byte_inj_byte: "crc_byte b x = crc_byte c x \<Longrightarrow> b = c"
proof -
  assume "crc_byte b x = crc_byte c x"
  then have "x XOR push_bit 8 (ucast b) = x XOR push_bit 8 (ucast c :: 16 word)"
    unfolding crc_byte_def by (rule crc_shifts_inj)
  then have eq: "push_bit 8 (ucast b :: 16 word) = push_bit 8 (ucast c)"
    by (simp only: xor_cancel_left)
  show "b = c"
  proof (rule bit_word_eqI)
    fix n assume "n < LENGTH(8)"
    then show "bit b n \<longleftrightarrow> bit c n"
      using arg_cong [OF eq, of "\<lambda>w. bit w (n + 8)"] by (simp add: bit_simps)
  qed
qed

lemma fold_crc_inj: "fold crc_byte xs x = fold crc_byte xs y \<Longrightarrow> x = y"
  by (induction xs arbitrary: x y) (auto dest: crc_byte_inj_reg)

lemma fold_crc_update:
  "i < length xs \<Longrightarrow> b \<noteq> xs ! i \<Longrightarrow> fold crc_byte (xs[i := b]) x \<noteq> fold crc_byte xs x"
proof (induction xs arbitrary: i x)
  case (Cons y ys)
  show ?case
  proof (cases i)
    case 0
    then show ?thesis using Cons.prems(2) by (auto dest!: fold_crc_inj crc_byte_inj_byte)
  next
    case (Suc j)
    then show ?thesis using Cons.IH [of j] Cons.prems by simp
  qed
qed simp

lemma crc_update_neq:
  "i < length xs \<Longrightarrow> b \<noteq> xs ! i \<Longrightarrow> crc16CCITTFalse (xs[i := b]) \<noteq> crc16CCITTFalse xs"
  unfolding crc16CCITTFalse_def by (rule fold_crc_update)

section \<open>The shape of an accepted frame\<close>

lemma mask_bit: "(m :: 8 word) AND push_bit i 1 \<noteq> 0 \<longleftrightarrow> bit m i"
  "(m :: 8 word) AND 2 ^ i \<noteq> 0 \<longleftrightarrow> bit m i"
  by (simp_all add: and_exp_eq_0_iff_not_bit push_bit_of_1)

text \<open>The number of values before the one of bit i, and that value.\<close>

definition mask_rank :: "8 word \<Rightarrow> nat \<Rightarrow> nat" where
  "mask_rank m i = length (filter (bit m) [0..<i])"

definition frame_slot :: "8 word list \<Rightarrow> 8 word \<Rightarrow> nat \<Rightarrow> f64" where
  "frame_slot body m i = f64_of_u16 (be16 (take 2 (drop (10 + 2 * mask_rank m i) body)))"

lemma mask_rank_Suc: "mask_rank m (Suc i) = mask_rank m i + (if bit m i then 1 else 0)"
  by (simp add: mask_rank_def)

lemma mask_rank_mono: "i \<le> j \<Longrightarrow> mask_rank m i \<le> mask_rank m j"
  by (induction j) (auto simp: mask_rank_Suc le_Suc_eq)

lemma OnesCount8_rank: "OnesCount8 m = mask_rank m 8"
  by (simp add: OnesCount8_def mask_rank_def)

lemma OnesCount8_le: "OnesCount8 m \<le> 8"
  by (metis OnesCount8_def length_filter_le length_upt diff_zero)

lemma mask_rank_lt: "bit m i \<Longrightarrow> i < 8 \<Longrightarrow> mask_rank m i < OnesCount8 m"
  using mask_rank_mono [of "Suc i" 8 m] by (simp add: OnesCount8_rank mask_rank_Suc)

text \<open>The map after k rounds of the loop.\<close>

definition frame_map :: "8 word list \<Rightarrow> 8 word \<Rightarrow> nat \<Rightarrow> (8 word \<rightharpoonup> f64)" where
  "frame_map body m k = fold (\<lambda>i g. if bit m i then g(uint8 (i + 1) \<mapsto> frame_slot body m i) else g)
     [0..<k] Map.empty"

lemma frame_map_simps:
  "frame_map body m 0 = Map.empty"
  "frame_map body m (Suc k) = (if bit m k then (frame_map body m k)(uint8 (k + 1) \<mapsto> frame_slot body m k)
     else frame_map body m k)"
  by (simp_all add: frame_map_def)

lemma frame_value_Ok:
  "frame_value body m k (Ok (g, off)) =
    (if bit m k then if off + 2 \<le> length body
       then Ok (g(uint8 (k + 1) \<mapsto> f64_of_u16 (be16 (take 2 (drop off body)))), off + 2)
       else Panic
     else Ok (g, off))"
  by (simp add: frame_value_def mask_bit BigEndian_Uint16_def go_slice_def)

lemma frame_fold:
  assumes "length body = 12 + 2 * OnesCount8 m" "k \<le> 8"
  shows "fold (frame_value body m) [0..<k] (Ok (Map.empty, 10)) =
    Ok (frame_map body m k, 10 + 2 * mask_rank m k)"
  using assms(2)
proof (induction k)
  case 0
  then show ?case by (simp add: frame_map_simps mask_rank_def)
next
  case (Suc k)
  show ?case
  proof (cases "bit m k")
    case True
    then have "mask_rank m k < OnesCount8 m" using Suc.prems by (simp add: mask_rank_lt)
    then have "10 + 2 * mask_rank m k + 2 \<le> length body" using assms(1) by simp
    then show ?thesis using Suc True
      by (simp add: frame_value_Ok frame_map_simps frame_slot_def mask_rank_Suc fun_eq_iff)
  next
    case False
    then show ?thesis using Suc
      by (simp add: frame_value_Ok frame_map_simps mask_rank_Suc)
  qed
qed

lemma frame_values_ok:
  "length body = 12 + 2 * OnesCount8 m \<Longrightarrow> frame_values body m = Ok (frame_map body m 8)"
  by (simp add: frame_values_def frame_fold)

lemma frame_map_lookup:
  "k \<le> 8 \<Longrightarrow> frame_map body m k (uint8 (Suc i)) =
     (if i < k \<and> bit m i then Some (frame_slot body m i) else None)" if "i < 8" for i
proof (induction k)
  case 0
  then show ?case by (simp add: frame_map_simps)
next
  case (Suc k)
  have "uint8 (Suc i) = uint8 (Suc k) \<longleftrightarrow> i = k"
    using that Suc.prems by (simp add: uint8_eq)
  then show ?case using Suc by (auto simp: frame_map_simps less_Suc_eq)
qed

lemma hex_bytes_not_Panic: "2 * n \<le> length s \<Longrightarrow> hex_bytes n s \<noteq> Panic"
  by (induction n s rule: hex_bytes.induct) (auto simp: Let_def go_simps)

lemma validateDevID_not_Panic: "4 \<le> length bs \<Longrightarrow> validateDevID bs auth \<noteq> Panic"
  by (auto simp: validateDevID_def Let_def go_simps hex_bytes_not_Panic)

text \<open>What a frame of the right length contains.\<close>

definition frame_batch :: "string \<Rightarrow> 8 word list \<Rightarrow> compact_batch" where
  "frame_batch auth body = \<lparr> cb_values = frame_map body (body ! 9) 8,
     cb_timestamp = Some (int (unat (be32 (take 4 (drop 5 body)))) * second),
     cb_td = [], cb_version = 0, cb_device = auth \<rparr>"

lemma binary_Parse_unfold:
  "binary_Parse auth body =
    (if length body < 12 \<or> length body \<noteq> 12 + 2 * OnesCount8 (body ! 9) then Fail ErrInvalidFrameLength
     else if crc16CCITTFalse (take (length body - 2) body) \<noteq> be16 (drop (length body - 2) body)
     then Fail ErrCRCMismatch
     else bind_o (validateDevID (take 4 (drop 1 body)) auth) (\<lambda>_. Ok (frame_batch auth body)))"
  by (auto simp: binary_Parse_def binaryFrameMinLen_def Let_def BigEndian_Uint16_def
      BigEndian_Uint32_def frame_values_ok frame_batch_def mult.commute)

section \<open>A reference encoder of the frame\<close>

text \<open>The layout of the format's documentation: version, device id, seconds, msk, the present
  values in index order, CRC.\<close>

definition u16_bytes :: "16 word \<Rightarrow> 8 word list" where
  "u16_bytes v = [ucast (drop_bit 8 v), ucast v]"

definition u32_bytes :: "32 word \<Rightarrow> 8 word list" where
  "u32_bytes v = [ucast (drop_bit 24 v), ucast (drop_bit 16 v), ucast (drop_bit 8 v), ucast v]"

definition frame_payload :: "8 word \<Rightarrow> 8 word list \<Rightarrow> 32 word \<Rightarrow> 8 word \<Rightarrow> (nat \<Rightarrow> 16 word) \<Rightarrow> 8 word list" where
  "frame_payload ver dev ts msk vals =
     ver # dev @ u32_bytes ts @ [msk] @ concat (map (\<lambda>i. u16_bytes (vals i)) (filter (bit msk) [0..<8]))"

definition encode_frame :: "8 word \<Rightarrow> 8 word list \<Rightarrow> 32 word \<Rightarrow> 8 word \<Rightarrow> (nat \<Rightarrow> 16 word) \<Rightarrow> 8 word list" where
  "encode_frame ver dev ts msk vals =
     (let p = frame_payload ver dev ts msk vals in p @ u16_bytes (crc16CCITTFalse p))"

lemma length_u16_bytes [simp]: "length (u16_bytes v) = 2" by (simp add: u16_bytes_def)
lemma length_u32_bytes [simp]: "length (u32_bytes v) = 4" by (simp add: u32_bytes_def)

lemma be16_u16_bytes [simp]: "be16 (u16_bytes v) = v"
  unfolding be16_def u16_bytes_def
  by (rule bit_word_eqI) (auto simp: bit_simps not_le)

lemma be32_u32_bytes [simp]: "be32 (u32_bytes v) = v"
  unfolding be32_def u32_bytes_def
  by (rule bit_word_eqI) (rename_tac n, case_tac "n < 16"; case_tac "n < 24"; auto simp: bit_simps not_le)

lemma length_concat_u16: "length (concat (map (\<lambda>i. u16_bytes (vals i)) xs)) = 2 * length xs"
  by (induction xs) auto

lemma length_frame_payload:
  "length dev = 4 \<Longrightarrow> length (frame_payload ver dev ts msk vals) = 10 + 2 * OnesCount8 msk"
  by (simp add: frame_payload_def length_concat_u16 OnesCount8_def)

lemma length_encode_frame:
  "length dev = 4 \<Longrightarrow> length (encode_frame ver dev ts msk vals) = 12 + 2 * OnesCount8 msk"
  by (simp add: encode_frame_def Let_def length_frame_payload)

lemma take_drop_concat_u16:
  "sorted_wrt (<) xs \<Longrightarrow> x \<in> set xs \<Longrightarrow>
   take 2 (drop (2 * length (filter (\<lambda>y. y < x) xs)) (concat (map (\<lambda>i. u16_bytes (vals i)) xs) @ r))
     = u16_bytes (vals x)" for x :: nat
proof (induction xs)
  case (Cons a xs)
  show ?case
  proof (cases "x = a")
    case True
    then have "filter (\<lambda>y. y < x) (a # xs) = []" using Cons.prems(1) by (auto simp: filter_empty_conv)
    then show ?thesis using True by simp
  next
    case False
    then have "x \<in> set xs" "a < x" using Cons.prems by auto
    then show ?thesis using Cons.IH Cons.prems(1) by simp
  qed
qed simp

lemma mask_rank_filter: "i \<le> 8 \<Longrightarrow> mask_rank m i = length (filter (\<lambda>y. y < i) (filter (bit m) [0..<8]))"
proof -
  assume "i \<le> 8"
  then have "[0..<8] = [0..<i] @ [i..<8]" by (metis le0 upt_add_eq_append le_add_diff_inverse)
  moreover have "filter (\<lambda>y. y < i \<and> bit m y) [i..<8] = []" by (auto simp: filter_empty_conv)
  moreover have "filter (\<lambda>y. y < i \<and> bit m y) [0..<i] = filter (bit m) [0..<i]"
    by (rule filter_cong) auto
  ultimately show ?thesis by (simp add: mask_rank_def conj_commute)
qed

lemma encode_frame_slot:
  assumes "length dev = 4" "i < 8" "bit msk i"
  shows "frame_slot (encode_frame ver dev ts msk vals) msk i = f64_of_u16 (vals i)"
proof -
  let ?xs = "filter (bit msk) [0..<8]"
  let ?p = "frame_payload ver dev ts msk vals"
  have "drop (10 + 2 * mask_rank msk i) (encode_frame ver dev ts msk vals) =
    drop (2 * mask_rank msk i) (concat (map (\<lambda>i. u16_bytes (vals i)) ?xs) @ u16_bytes (crc16CCITTFalse ?p))"
    using assms(1) by (simp add: encode_frame_def Let_def frame_payload_def u32_bytes_def drop_Cons' )
  moreover have "sorted_wrt (<) ?xs" by (rule sorted_wrt_filter) simp
  ultimately show ?thesis
    using take_drop_concat_u16 [of ?xs i vals] assms(2,3) mask_rank_filter [of i msk]
    by (simp add: frame_slot_def)
qed

section \<open>Properties\<close>

lemma frame_accepted:
  "binary_Parse auth body = Ok cb \<longleftrightarrow>
     length body = 12 + 2 * OnesCount8 (body ! 9) \<and>
     crc16CCITTFalse (take (length body - 2) body) = be16 (drop (length body - 2) body) \<and>
     validateDevID (take 4 (drop 1 body)) auth = Ok () \<and> cb = frame_batch auth body"
  by (auto simp: binary_Parse_unfold go_simps)

lemma encode_frame_accepted:
  assumes "length dev = 4" "validateDevID dev auth = Ok ()"
  shows "encode_frame ver dev ts msk vals ! 9 = msk"
    "take 4 (drop 5 (encode_frame ver dev ts msk vals)) = u32_bytes ts"
    "binary_Parse auth (encode_frame ver dev ts msk vals) = Ok (frame_batch auth (encode_frame ver dev ts msk vals))"
proof -
  let ?b = "encode_frame ver dev ts msk vals" and ?p = "frame_payload ver dev ts msk vals"
  obtain d0 d1 d2 d3 where dev: "dev = [d0, d1, d2, d3]"
    using assms(1) by (auto simp: length_Suc_conv numeral_eq_Suc)
  show msk: "?b ! 9 = msk" "take 4 (drop 5 ?b) = u32_bytes ts"
    by (simp_all add: encode_frame_def Let_def frame_payload_def u32_bytes_def dev)
  have "take 4 (drop 1 ?b) = dev"
    by (simp add: encode_frame_def Let_def frame_payload_def u32_bytes_def dev)
  moreover have "length ?b = 12 + 2 * OnesCount8 msk" using assms(1) by (rule length_encode_frame)
  moreover have "take (length ?b - 2) ?b = ?p" "drop (length ?b - 2) ?b = u16_bytes (crc16CCITTFalse ?p)"
    by (simp_all add: encode_frame_def Let_def)
  ultimately show "binary_Parse auth ?b = Ok (frame_batch auth ?b)"
    unfolding frame_accepted using assms(2) msk(1) by simp
qed

text \<open>Parsing a binary frame never panics: whatever the bytes and the authenticated device id,
  every index and slice of the parser is in range, so the outcome is a batch or an error.\<close>

theorem binary_Parse_no_panic: "binary_Parse auth body \<noteq> Panic"
  by (auto simp: binary_Parse_unfold go_simps validateDevID_not_Panic)

lemma be16_neq_fst:
  "a \<noteq> a' \<Longrightarrow> be16 [a, b] \<noteq> be16 [a', b]"
proof -
  assume "a \<noteq> a'"
  then obtain n where n: "n < 8" "bit a n \<noteq> bit a' n"
    using bit_word_eqI [of a a'] by auto
  then have "bit (be16 [a, b]) (n + 8) \<noteq> bit (be16 [a', b]) (n + 8)"
    by (auto simp: be16_def bit_simps dest: bit_imp_le_length)
  then show ?thesis by metis
qed

lemma be16_neq_snd:
  "b \<noteq> b' \<Longrightarrow> be16 [a, b] \<noteq> be16 [a, b']"
proof -
  assume "b \<noteq> b'"
  then obtain n where n: "n < 8" "bit b n \<noteq> bit b' n"
    using bit_word_eqI [of b b'] by auto
  then have "bit (be16 [a, b]) n \<noteq> bit (be16 [a, b']) n"
    by (auto simp: be16_def bit_simps)
  then show ?thesis by metis
qed

lemma be16_update_neq:
  assumes "length t = 2" "i < 2" "b \<noteq> t ! i"
  shows "be16 (t[i := b]) \<noteq> be16 t"
proof -
  obtain x y where t: "t = [x, y]" using assms(1) by (auto simp: length_Suc_conv numeral_2_eq_2)
  from assms(2) have "i = 0 \<or> i = 1" by auto
  with t assms(3) show ?thesis using be16_neq_fst be16_neq_snd by auto
qed

text \<open>C15. A single corrupted byte is always noticed: if a frame is accepted, the frame with any one
  byte replaced by a different one (in the header, the values or the CRC itself) is rejected with a
  length or a CRC error, never accepted with other values and never reported as another device.\<close>

theorem frame_corruption_detected:
  assumes ok: "binary_Parse auth body = Ok cb" and i: "i < length body" and b: "b \<noteq> body ! i"
  shows "binary_Parse auth (body[i := b]) \<in> {Fail ErrInvalidFrameLength, Fail ErrCRCMismatch}"
proof -
  let ?n = "length body - 2" and ?body' = "body[i := b]"
  from ok have len: "length body \<ge> 12"
    and crc: "crc16CCITTFalse (take ?n body) = be16 (drop ?n body)"
    by (auto simp: frame_accepted)
  have "crc16CCITTFalse (take ?n ?body') \<noteq> be16 (drop ?n ?body')"
  proof (cases "i < ?n")
    case True
    then have "take ?n ?body' = (take ?n body)[i := b]" "drop ?n ?body' = drop ?n body"
      by (simp_all add: take_update_swap)
    moreover have "crc16CCITTFalse ((take ?n body)[i := b]) \<noteq> crc16CCITTFalse (take ?n body)"
      using True b by (intro crc_update_neq) auto
    ultimately show ?thesis using crc by simp
  next
    case False
    then have *: "take ?n ?body' = take ?n body" "drop ?n ?body' = (drop ?n body)[i - ?n := b]"
      by (simp_all add: drop_update_swap)
    moreover have "drop ?n body ! (i - ?n) = body ! i" using False i by simp
    moreover have "be16 ((drop ?n body)[i - ?n := b]) \<noteq> be16 (drop ?n body)"
      using False i b len calculation(3) by (intro be16_update_neq) simp_all
    ultimately show ?thesis using crc by simp
  qed
  then show ?thesis unfolding binary_Parse_unfold length_list_update by (simp only: if_False simp_thms split: if_split) simp
qed

theorem frame_corruption_detected_witness:
  "binary_Parse ''6ba7b810-9dad-11d1-80b4-00c04fd430c8''
     ((encode_frame 1 [0x6b, 0xa7, 0xb8, 0x10] 1700000000 5 (\<lambda>i. 300))[10 := 7])
   \<in> {Fail ErrInvalidFrameLength, Fail ErrCRCMismatch}"
proof (rule frame_corruption_detected)
  show "binary_Parse ''6ba7b810-9dad-11d1-80b4-00c04fd430c8''
     (encode_frame 1 [0x6b, 0xa7, 0xb8, 0x10] 1700000000 5 (\<lambda>i. 300)) =
     Ok (frame_batch ''6ba7b810-9dad-11d1-80b4-00c04fd430c8''
       (encode_frame 1 [0x6b, 0xa7, 0xb8, 0x10] 1700000000 5 (\<lambda>i. 300)))"
    by (rule encode_frame_accepted) code_simp+
qed (simp_all add: encode_frame_def Let_def frame_payload_def u32_bytes_def u16_bytes_def upt_rec)

text \<open>C16. The parser inverts the documented layout: a frame built by the reference encoder from a
  version, the device's own id bytes, a time in seconds, a mask and 16-bit values is accepted, its
  timestamp is that time, and field index i + 1 carries the i-th value when bit i of the mask is
  set and is absent otherwise.\<close>

theorem binary_frame_roundtrip:
  assumes "length dev = 4" "validateDevID dev auth = Ok ()"
  shows "\<exists>cb. binary_Parse auth (encode_frame ver dev ts msk vals) = Ok cb \<and>
    cb_timestamp cb = Some (int (unat ts) * second) \<and> cb_td cb = [] \<and>
    (\<forall>i<8. cb_values cb (uint8 (i + 1)) = (if bit msk i then Some (f64_of_u16 (vals i)) else None))"
proof -
  note acc = encode_frame_accepted [OF assms, of ver ts msk vals]
  have "cb_values (frame_batch auth (encode_frame ver dev ts msk vals)) (uint8 (i + 1)) =
      (if bit msk i then Some (f64_of_u16 (vals i)) else None)" if "i < 8" for i
    using that assms(1) by (simp add: frame_batch_def acc(1) frame_map_lookup encode_frame_slot)
  with acc(3) show ?thesis by (auto simp: frame_batch_def acc(2))
qed

theorem binary_frame_roundtrip_witness:
  "\<exists>cb. binary_Parse ''6ba7b810-9dad-11d1-80b4-00c04fd430c8''
      (encode_frame 1 [0x6b, 0xa7, 0xb8, 0x10] 1700000000 5 (\<lambda>i. 300)) = Ok cb \<and>
    cb_timestamp cb = Some (int (unat (1700000000 :: 32 word)) * second) \<and>
    cb_values cb (uint8 (2 + 1)) = Some (f64_of_u16 300)"
proof -
  have "length [0x6b, 0xa7, 0xb8, 0x10 :: 8 word] = 4"
    "validateDevID [0x6b, 0xa7, 0xb8, 0x10] ''6ba7b810-9dad-11d1-80b4-00c04fd430c8'' = Ok ()" by code_simp+
  from binary_frame_roundtrip [OF this, of 1 1700000000 5 "\<lambda>i. 300"] obtain cb where cb:
    "binary_Parse ''6ba7b810-9dad-11d1-80b4-00c04fd430c8''
      (encode_frame 1 [0x6b, 0xa7, 0xb8, 0x10] 1700000000 5 (\<lambda>i. 300)) = Ok cb"
    "cb_timestamp cb = Some (int (unat (1700000000 :: 32 word)) * second)"
    "\<forall>i<8. cb_values cb (uint8 (i + 1)) = (if bit (5 :: 8 word) i then Some (f64_of_u16 300) else None)" by blast
  moreover have "bit (5 :: 8 word) 2" by code_simp
  with cb(3) [rule_format, of 2] have "cb_values cb (uint8 (2 + 1)) = Some (f64_of_u16 300)" by simp
  with cb(1,2) show ?thesis by blast
qed

section \<open>Positional values and field resolution\<close>

lemma positional_values_lookup:
  "i + length vs < 256 \<Longrightarrow> 0 < k \<Longrightarrow> k < 256 \<Longrightarrow>
   positional_values i vs m (uint8 k) =
     (if i < k \<and> k \<le> i + length vs then Some (vs ! (k - Suc i)) else m (uint8 k))"
proof (induction i vs m rule: positional_values.induct)
  case (2 i v vs m)
  have eq: "uint8 k = uint8 (Suc i) \<longleftrightarrow> k = Suc i"
    using 2(2,4) by (simp add: uint8_eq)
  have "positional_values i (v # vs) m = positional_values (Suc i) vs (m(uint8 (Suc i) \<mapsto> v))"
    by simp
  moreover have "positional_values (Suc i) vs (m(uint8 (Suc i) \<mapsto> v)) (uint8 k) =
    (if Suc i < k \<and> k \<le> Suc i + length vs then Some (vs ! (k - Suc (Suc i)))
     else if k = Suc i then Some v else m (uint8 k))"
    using 2 eq by (simp add: fun_upd_def)
  ultimately show ?case by (auto simp: nth_Cons' not_less le_Suc_eq)
qed auto

lemma positional_lookup:
  assumes "length vs < 256" "0 < k" "k < 256"
  shows "positional_values 0 vs Map.empty (uint8 k) =
     (if k \<le> length vs then Some (vs ! (k - 1)) else None)"
  using assms positional_values_lookup [of 0 vs k Map.empty] by simp

lemma index_fields_notin:
  "k \<notin> fe_index ` set fs \<Longrightarrow> index_fields fs m k = m k"
  by (induction fs m rule: index_fields.induct) auto

lemma index_fields_lookup:
  "distinct (map fe_index fs) \<Longrightarrow> f \<in> set fs \<Longrightarrow> index_fields fs m (fe_index f) = Some f"
  by (induction fs m rule: index_fields.induct) (auto simp: index_fields_notin)

lemma resolve_fields_length:
  "resolve_fields vals itf idxs = Ok rs \<Longrightarrow> length rs \<le> length idxs"
  by (induction idxs arbitrary: rs) (fastforce simp: go_simps split: option.splits)+

lemma resolve_fields_names:
  "resolve_fields vals itf idxs = Ok rs \<Longrightarrow> (n, v) \<in> set rs \<Longrightarrow>
   \<exists>i fe. i \<in> set idxs \<and> vals (uint8 i) = Some v \<and> itf (uint8 i) = Some fe \<and> fe_name fe = n"
  by (induction idxs arbitrary: rs) (fastforce simp: go_simps split: option.splits)+

lemma resolve_fields_not_Panic: "resolve_fields vals itf idxs \<noteq> Panic"
  by (induction idxs) (auto simp: go_simps split: option.splits)

lemma resolve_fields_append:
  "resolve_fields vals itf (xs @ ys) =
    bind_o (resolve_fields vals itf xs) (\<lambda>a. bind_o (resolve_fields vals itf ys) (\<lambda>b. Ok (a @ b)))"
proof (induction xs)
  case Nil
  show ?case by (cases "resolve_fields vals itf ys") simp_all
next
  case (Cons x xs)
  then show ?case
    by (cases "resolve_fields vals itf xs"; cases "resolve_fields vals itf ys")
      (auto split: option.splits)
qed

lemma resolve_fields_present:
  "(\<And>i. i \<in> set idxs \<Longrightarrow> vals (uint8 i) = Some (v i) \<and> itf (uint8 i) = Some (fe i)) \<Longrightarrow>
   resolve_fields vals itf idxs = Ok (map (\<lambda>i. (fe_name (fe i), v i)) idxs)"
  by (induction idxs) auto

lemma resolve_fields_absent:
  "(\<And>i. i \<in> set idxs \<Longrightarrow> vals (uint8 i) = None) \<Longrightarrow> resolve_fields vals itf idxs = Ok []"
  by (induction idxs) auto

lemma field_map_of_fold_distinct:
  "distinct (map fst m) \<Longrightarrow> distinct (map fst (fold (\<lambda>(k, v). AList.update k v) rs m))"
  by (induction rs arbitrary: m) (auto simp: distinct_update)

lemma field_map_of_distinct: "distinct (map fst (field_map_of rs))"
  by (simp add: field_map_of_def field_map_of_fold_distinct)

lemma field_map_of_fold_id:
  "distinct (map fst (m @ rs)) \<Longrightarrow> fold (\<lambda>(k, v). AList.update k v) rs m = m @ rs"
proof (induction rs arbitrary: m)
  case (Cons r rs)
  then have "AList.update (fst r) (snd r) m = m @ [r]" by (auto simp: update_notin)
  with Cons.IH [of "m @ [r]"] Cons.prems show ?case by (simp add: case_prod_beta)
qed simp

lemma field_map_of_id: "distinct (map fst rs) \<Longrightarrow> field_map_of rs = rs"
  by (simp add: field_map_of_def field_map_of_fold_id)

lemma td_map_notin: "k \<notin> snd ` set xs \<Longrightarrow> td_map b xs m k = m k"
  by (induction b xs m rule: td_map.induct) auto

lemma td_map_lookup:
  "distinct (map snd xs) \<Longrightarrow> (d, n) \<in> set xs \<Longrightarrow>
   td_map b xs m n = Some (Some (b + int (unat d) * millisecond))"
  by (induction b xs m rule: td_map.induct) (auto simp: td_map_notin image_iff)

lemma td_map_range:
  "td_map b xs m n = Some t \<Longrightarrow> m n = Some t \<or> (\<exists>d. (d, n) \<in> set xs \<and> t = Some (b + int (unat d) * millisecond))"
  by (induction b xs m rule: td_map.induct) (auto split: if_splits)


lemma resolve_dense:
  assumes "length vs \<le> 8"
    and itf: "\<And>i. i < length vs \<Longrightarrow> itf (uint8 (i + 1)) = Some (fe i)"
  shows "resolve_fields (positional_values 0 vs Map.empty) itf [1..<9] =
    Ok (map (\<lambda>i. (fe_name (fe i), vs ! i)) [0..<length vs])"
proof -
  have "[1..<9] = [1..<length vs + 1] @ [length vs + 1..<9]"
    using assms(1) upt_add_eq_append [of 1 "length vs + 1" "8 - length vs"] by simp
  moreover have "resolve_fields (positional_values 0 vs Map.empty) itf [1..<length vs + 1] =
      Ok (map (\<lambda>i. (fe_name (fe (i - 1)), vs ! (i - 1))) [1..<length vs + 1])"
  proof (rule resolve_fields_present)
    fix i assume "i \<in> set [1..<length vs + 1]"
    then have "0 < i" "i \<le> length vs" by auto
    then show "positional_values 0 vs Map.empty (uint8 i) = Some (vs ! (i - 1)) \<and>
        itf (uint8 i) = Some (fe (i - 1))"
      using assms(1) itf [of "i - 1"] by (simp add: positional_lookup)
  qed
  moreover have "map (\<lambda>i. (fe_name (fe (i - 1)), vs ! (i - 1))) [1..<length vs + 1] =
      map (\<lambda>i. (fe_name (fe i), vs ! i)) [0..<length vs]"
    by (rule nth_equalityI) (auto simp del: upt_Suc)
  moreover have "resolve_fields (positional_values 0 vs Map.empty) itf [length vs + 1..<9] = Ok []"
    using assms(1) by (intro resolve_fields_absent) (auto simp: positional_lookup)
  ultimately show ?thesis by (simp only: resolve_fields_append bind_o.simps append_Nil2)
qed

lemma resolveTD_lookup:
  assumes "distinct names" "td = [] \<or> length td = length names"
  shows "\<exists>m. resolveTDOffsets base td names = Ok m \<and>
    (\<forall>i<length names. m (names ! i) =
       Some (Some (base + (if td = [] then 0 else int (unat (td ! i)) * millisecond))))"
proof (cases "td = []")
  case True
  have "fold (\<lambda>n m. m(n \<mapsto> Some base)) names Map.empty (names ! i) = Some (Some base)"
    if "i < length names" for i
    using that assms(1) fold_map_upd_distinct [of "\<lambda>n. n" names "names ! i" "\<lambda>_. Some base"] by simp
  with True show ?thesis by (simp add: resolveTDOffsets_def)
next
  case False
  with assms have len: "length td = length names" by simp
  have "td_map base (zip td names) Map.empty (names ! i) =
      Some (Some (base + int (unat (td ! i)) * millisecond))" if "i < length names" for i
    using that len assms(1) by (intro td_map_lookup) (auto simp: set_zip)
  with False len show ?thesis by (simp add: resolveTDOffsets_def)
qed

lemma length_field_map_of: "length (field_map_of rs) \<le> length rs"
proof -
  have "length (AList.update k v m) \<le> Suc (length m)" for k :: string and v :: f64 and m
    by (induction m) auto
  then have "length (fold (\<lambda>(k, v). AList.update k v) rs m) \<le> length rs + length m" for m :: field_map
    by (induction rs arbitrary: m) (auto, metis (no_types) add_Suc_right le_trans nat_add_left_cancel_le)
  from this [of "[]"] show ?thesis by (simp add: field_map_of_def)
qed

lemma resolveTDOffsets_range:
  assumes "resolveTDOffsets base td names = Ok m" "m n = Some t"
  shows "\<exists>ts. t = Some ts \<and> base \<le> ts \<and> ts \<le> base + 65535 * millisecond"
proof (cases "td = []")
  case True
  then have "m = fold (\<lambda>n m. m(n \<mapsto> Some base)) names Map.empty"
    using assms(1) by (simp add: resolveTDOffsets_def)
  then show ?thesis
    using assms(2) fold_map_upd_Some [of "\<lambda>n. n" "\<lambda>_. Some base" names Map.empty n t]
    by (auto simp: millisecond_def)
next
  case False
  then have "m = td_map base (zip td names) Map.empty"
    using assms(1) by (simp add: resolveTDOffsets_def split: if_splits)
  with assms(2) obtain d :: "16 word" where "t = Some (base + int (unat d) * millisecond)"
    using td_map_range [of base "zip td names" Map.empty n t] by auto
  moreover have "uint d \<le> 65535" using unsigned_less [of d, where ?'a = int] by simp
  ultimately show ?thesis by (auto simp: millisecond_def)
qed

text \<open>Positional payloads reach the right fields: for a payload of at most eight values whose
  indexes the schema defines, with the current (or no) schema version and either no offsets or one
  per value, the json pipeline yields one input that gives value i to the field of index i + 1,
  timestamped at the batch time plus that field's own offset, and nothing else.\<close>

theorem compact_fields_aligned:
  assumes "unmarshal body = Some p" "cp_f p \<noteq> []" "length (cp_f p) \<le> 8"
    and idx: "distinct (map fe_index (ds_fields schema))"
    and nam: "distinct (map fe_name (ds_fields schema))"
    and cover: "\<forall>i<length (cp_f p). \<exists>f\<in>set (ds_fields schema). fe_index f = uint8 (i + 1)"
    and ver: "ds_version schema = 0 \<or> cp_sv p = 0 \<or> cp_sv p = ds_version schema"
    and td: "cp_td p = [] \<or> length (cp_td p) = length (cp_f p)"
  shows "\<exists>inp. deserializeCompact now body schema (ojson_Parse unmarshal) channelID = Ok [inp] \<and>
    length (in_fields inp) = length (cp_f p) \<and>
    (\<forall>f\<in>set (ds_fields schema). \<forall>i<length (cp_f p). fe_index f = uint8 (i + 1) \<longrightarrow>
       map_of (in_fields inp) (fe_name f) = Some (cp_f p ! i) \<and>
       in_field_ts inp (fe_name f) = Some (Some
         ((case cp_t p of Some t \<Rightarrow> t * millisecond | None \<Rightarrow> now)
          + (if cp_td p = [] then 0 else int (unat (cp_td p ! i)) * millisecond))))"
proof -
  let ?n = "length (cp_f p)" and ?itf = "index_fields (ds_fields schema) Map.empty"
  let ?base = "case cp_t p of Some t \<Rightarrow> t * millisecond | None \<Rightarrow> now"
  obtain fe where fe: "\<forall>i<?n. fe i \<in> set (ds_fields schema) \<and> fe_index (fe i) = uint8 (i + 1)"
    using cover by metis
  have itf: "?itf (uint8 (i + 1)) = Some (fe i)" if "i < ?n" for i
    using fe that index_fields_lookup [OF idx, of "fe i"] by simp
  let ?rs = "map (\<lambda>i. (fe_name (fe i), cp_f p ! i)) [0..<?n]"
  have unique: "f = fe i" if "f \<in> set (ds_fields schema)" "i < ?n" "fe_index f = uint8 (i + 1)" for f i
    using fe that idx by (auto simp: distinct_map inj_on_def)
  have dist: "distinct (map fst ?rs)" unfolding map_map comp_def fst_conv distinct_map
  proof (intro conjI inj_onI)
    fix i j assume ij: "i \<in> set [0..<?n]" "j \<in> set [0..<?n]" "fe_name (fe i) = fe_name (fe j)"
    then have "fe i = fe j" using nam fe unfolding distinct_map inj_on_def by simp
    then have "fe_index (fe i) = fe_index (fe j)" by simp
    then show "i = j" using fe ij assms(3) uint8_eq [of "i + 1" "j + 1"] by auto
  qed simp
  obtain m where m: "resolveTDOffsets ?base (cp_td p) (map fst ?rs) = Ok m"
    "\<forall>i<?n. m (map fst ?rs ! i) = Some (Some (?base + (if cp_td p = [] then 0 else int (unat (cp_td p ! i)) * millisecond)))"
    using resolveTD_lookup [OF dist, of "cp_td p" ?base] td by auto
  let ?inp = "\<lparr> in_channel = [], in_device = [], in_fields = ?rs, in_field_ts = m, in_tags = [],
                 in_timestamp = map_option (\<lambda>t. t * millisecond) (cp_t p) \<rparr>"
  have "deserializeCompact now body schema (ojson_Parse unmarshal) channelID = Ok [?inp]"
    using assms(1,2) ver m(1) field_map_of_id [OF dist] resolve_dense [OF assms(3), of ?itf fe] itf
    by (auto simp: deserializeCompact_def ojson_Parse_def Let_def option.case_eq_if comp_def)
  moreover have "map_of ?rs (fe_name f) = Some (cp_f p ! i) \<and> map fst ?rs ! i = fe_name f"
    if f: "f \<in> set (ds_fields schema)" "i < ?n" "fe_index f = uint8 (i + 1)" for f i
    using unique [OF f] f(2) dist by (auto intro!: image_eqI [of _ _ i])
  ultimately show ?thesis using m(2) by (intro exI [of _ ?inp]) (auto simp del: map_map)
qed

theorem compact_fields_aligned_witness:
  "\<exists>inp. deserializeCompact 5 () \<lparr> ds_device = ''d'', ds_channel = ''c'',
       ds_fields = [\<lparr> fe_index = 2, fe_name = ''hum'', fe_type = ''float'' \<rparr>,
                    \<lparr> fe_index = 1, fe_name = ''temp'', fe_type = ''float'' \<rparr>], ds_version = 3 \<rparr>
     (ojson_Parse (\<lambda>_. Some \<lparr> cp_f = [Fin 42, Fin 28], cp_t = Some 1000, cp_td = [0, 180], cp_sv = 3 \<rparr>)) ''c''
     = Ok [inp] \<and> map_of (in_fields inp) ''hum'' = Some (Fin 28)"
proof -
  let ?schema = "\<lparr> ds_device = ''d'', ds_channel = ''c'',
       ds_fields = [\<lparr> fe_index = 2, fe_name = ''hum'', fe_type = ''float'' \<rparr>,
                    \<lparr> fe_index = 1, fe_name = ''temp'', fe_type = ''float'' \<rparr>], ds_version = 3 \<rparr>"
  let ?p = "\<lparr> cp_f = [Fin 42, Fin 28], cp_t = Some 1000, cp_td = [0, 180], cp_sv = 3 \<rparr>"
  obtain inp where "deserializeCompact 5 () ?schema (ojson_Parse (\<lambda>_. Some ?p)) ''c'' = Ok [inp]"
    "\<forall>f\<in>set (ds_fields ?schema). \<forall>i<length (cp_f ?p). fe_index f = uint8 (i + 1) \<longrightarrow>
       map_of (in_fields inp) (fe_name f) = Some (cp_f ?p ! i)"
    using compact_fields_aligned [of "\<lambda>_. Some ?p" "()" ?p ?schema 5 "''c''"]
    by (fastforce simp: uint8_def less_Suc_eq numeral_2_eq_2)
  then show ?thesis by (intro exI [of _ inp]) (auto simp: uint8_def dest: spec [of _ 1])
qed

text \<open>A field's effective time stays within 65.535 seconds after the batch time, and a batch never
  yields more than eight fields nor two values for one field, whichever parser produced it.\<close>

theorem compact_batch_bounds:
  assumes "deserializeCompact now body schema parse channelID = Ok inps"
  shows "\<exists>inp batch. inps = [inp] \<and> parse body = Ok batch \<and> length (in_fields inp) \<le> 8 \<and>
    distinct (map fst (in_fields inp)) \<and>
    (\<forall>n t. in_field_ts inp n = Some t \<longrightarrow> (\<exists>ts. t = Some ts \<and>
       (case cb_timestamp batch of Some b \<Rightarrow> b | None \<Rightarrow> now) \<le> ts \<and>
       ts \<le> (case cb_timestamp batch of Some b \<Rightarrow> b | None \<Rightarrow> now) + 65535 * millisecond))"
proof -
  from assms obtain batch where b: "parse body = Ok batch"
    by (auto simp: deserializeCompact_def go_simps)
  let ?base = "case cb_timestamp batch of Some b \<Rightarrow> b | None \<Rightarrow> now"
  from assms b obtain rs m where r: "resolve_fields (cb_values batch) (index_fields (ds_fields schema) Map.empty) [1..<9] = Ok rs"
    "resolveTDOffsets ?base (cb_td batch) (map fst rs) = Ok m"
    "inps = [\<lparr> in_channel = [], in_device = [], in_fields = field_map_of rs, in_field_ts = m,
       in_tags = [], in_timestamp = cb_timestamp batch \<rparr>]"
    by (auto simp: deserializeCompact_def Let_def go_simps split: if_splits)
  have "length (field_map_of rs) \<le> 8"
    using resolve_fields_length [OF r(1)] length_field_map_of [of rs] by simp
  moreover have "\<exists>ts. t = Some ts \<and> ?base \<le> ts \<and> ts \<le> ?base + 65535 * millisecond" if "m n = Some t" for n t
    using resolveTDOffsets_range [OF r(2) that] .
  ultimately show ?thesis using b r(3) field_map_of_distinct [of rs] by auto
qed

theorem compact_batch_bounds_witness:
  "\<exists>inp batch. deserializeCompact 5 () \<lparr> ds_device = ''d'', ds_channel = ''c'',
       ds_fields = [\<lparr> fe_index = 1, fe_name = ''temp'', fe_type = ''float'' \<rparr>], ds_version = 0 \<rparr>
     (ojson_Parse (\<lambda>_. Some \<lparr> cp_f = [Fin 42], cp_t = None, cp_td = [65535], cp_sv = 3 \<rparr>)) ''c''
     = Ok [inp] \<and> length (in_fields inp) \<le> 8 \<and> batch = (0 :: nat)"
proof -
  let ?d = "deserializeCompact 5 () \<lparr> ds_device = ''d'', ds_channel = ''c'',
       ds_fields = [\<lparr> fe_index = 1, fe_name = ''temp'', fe_type = ''float'' \<rparr>], ds_version = 0 \<rparr>
     (ojson_Parse (\<lambda>_. Some \<lparr> cp_f = [Fin 42], cp_t = None, cp_td = [65535], cp_sv = 3 \<rparr>)) ''c''"
  obtain inps where "?d = Ok inps"
    by (simp add: deserializeCompact_def ojson_Parse_def resolveTDOffsets_def uint8_def upt_rec)
  with compact_batch_bounds [of 5 "()" _ _ "''c''" inps] show ?thesis by blast
qed

lemma positional_append:
  "positional_values i (xs @ ys) m = positional_values (i + length xs) ys (positional_values i xs m)"
  by (induction i xs m rule: positional_values.induct) (simp_all add: fun_upd_def)

text \<open>Indexes above eight are dropped and indexes wrap: with 257 or more values the value stored
  for field 1 is the 257th (or a later one), although the first is what the sender assigned to it.\<close>

theorem positional_index_wraps:
  assumes "length vs \<ge> 257" "length vs < 512"
  shows "positional_values 0 vs Map.empty (uint8 1) = Some (vs ! 256)"
proof -
  have keep: "positional_values i ys m (uint8 1) = m (uint8 1)"
    if "i + length ys < 512" "256 < i" for i ys m
    using that
  proof (induction i ys m rule: positional_values.induct)
    case (2 i y ys m)
    have "uint8 1 = uint8 (Suc i) \<longleftrightarrow> False"
      using 2(2,3) by (auto simp: uint8_def word_of_nat_eq_0_iff dvd_def)
    with 2 show ?case by (simp add: fun_upd_def)
  qed simp
  obtain a b where split: "vs = a @ vs ! 256 # b" "length a = 256"
    using id_take_nth_drop [of 256 vs] assms by force
  then have "positional_values 0 vs Map.empty =
      positional_values 257 b ((positional_values 0 a Map.empty)(uint8 257 \<mapsto> vs ! 256))"
    using positional_append [of 0 a "vs ! 256 # b" Map.empty] by (simp add: fun_upd_def)
  moreover have "length vs = 257 + length b"
    using arg_cong [OF split(1), of length] \<open>length a = 256\<close> by simp
  ultimately show ?thesis using keep [of 257 b] assms(2) by (simp add: uint8_def)
qed

theorem positional_index_wraps_witness:
  "positional_values 0 (replicate 256 (Fin 0) @ [Fin 1]) Map.empty (uint8 1) = Some (Fin 1)"
  using positional_index_wraps [of "replicate 256 (Fin 0) @ [Fin 1]"] by (simp add: nth_append)

end
