(* ===== verification/Ingest_Service.thy ===== *)
theory Ingest_Service
  imports Compact_Format
begin

text \<open>
  The ingestion service (application/ingest_service.go), the Kafka producer it publishes through
  (infrastructure/kafka/producer.go) and the Redis list that keeps failed replays
  (infrastructure/redis/replay_dlq.go). The service is stated over its interfaces: a publisher and
  a dead-letter writer are functions on a state of any type; the producer and the Redis list are
  the instances the repository provides.
\<close>

section \<open>Interfaces\<close>

text \<open>A method that returns only an error: None is nil.\<close>

type_synonym 's effect = "'s \<Rightarrow> ingest_err option \<times> 's"

record dlq_entry =
  de_channel :: string
  de_device :: string
  de_timestamp :: instant
  de_fields :: field_map
  de_failed_at :: instant

record 's event_publisher =
  PublishReadings :: "reading list \<Rightarrow> 's effect"
  PublishReplayReadings :: "reading list \<Rightarrow> 's effect"

record 's dlq_writer =
  Push :: "dlq_entry \<Rightarrow> 's effect"
  IncrFailureMetric :: "'s effect"

section \<open>Grouping fields by timestamp\<close>

type_synonym group = "instant \<times> field_map"

fun add_to_group :: "instant \<Rightarrow> string \<Rightarrow> f64 \<Rightarrow> group list \<Rightarrow> group list" where
  "add_to_group ts k v [] = [(ts, [(k, v)])]"
| "add_to_group ts k v ((t, m) # gs) =
    (if t = ts then (t, AList.update k v m) # gs else (t, m) # add_to_group ts k v gs)"

fun group_fields :: "instant \<Rightarrow> duration \<Rightarrow> (string \<rightharpoonup> instant option) \<Rightarrow> instant \<Rightarrow> field_map
    \<Rightarrow> group list \<Rightarrow> (ingest_err, group list) outcome" where
  "group_fields now maxAge fieldTS defaultTS [] gs = Ok gs"
| "group_fields now maxAge fieldTS defaultTS ((k, v) # flds) gs =
    (case fieldTS k of
       Some (Some ft) \<Rightarrow> bind_o (ValidateTimestamp now ft maxAge) (\<lambda>_.
         group_fields now maxAge fieldTS defaultTS flds (add_to_group ft k v gs))
     | _ \<Rightarrow> group_fields now maxAge fieldTS defaultTS flds (add_to_group defaultTS k v gs))"

definition groupByTimestamp :: "instant \<Rightarrow> duration \<Rightarrow> string \<Rightarrow> string \<Rightarrow> field_map
    \<Rightarrow> (string \<rightharpoonup> instant option) \<Rightarrow> tag_map \<Rightarrow> instant \<Rightarrow> (ingest_err, reading list) outcome" where
  "groupByTimestamp now maxAge channelID deviceID flds fieldTS tags defaultTS =
    bind_o (group_fields now maxAge fieldTS defaultTS flds []) (\<lambda>gs.
      Ok (map (\<lambda>(ts, m). NewReading channelID deviceID m tags ts) gs))"

section \<open>Ingest and IngestBatch\<close>

text \<open>The part of both that precedes the publish call, for one input.\<close>

definition ingest_readings :: "instant \<Rightarrow> duration \<Rightarrow> ingest_input
    \<Rightarrow> (ingest_err, reading list) outcome" where
  "ingest_readings now maxAge inp =
    bind_o (ValidateChannelID (in_channel inp)) (\<lambda>_.
    if length (in_fields inp) = 0 then Fail ErrEmptyFields else
    bind_o (case in_timestamp inp of
        None \<Rightarrow> Ok now
      | Some ts \<Rightarrow> bind_o (ValidateTimestamp now ts maxAge) (\<lambda>_. Ok ts)) (\<lambda>defaultTS.
    groupByTimestamp now maxAge (in_channel inp) (in_device inp) (in_fields inp) (in_field_ts inp)
      (in_tags inp) defaultTS))"

definition as_result :: "ingest_err option \<Rightarrow> (ingest_err, unit) outcome" where
  "as_result e = (case e of None \<Rightarrow> Ok () | Some x \<Rightarrow> Fail x)"

definition Ingest :: "instant \<Rightarrow> duration \<Rightarrow> 's event_publisher \<Rightarrow> ingest_input \<Rightarrow> 's
    \<Rightarrow> (ingest_err, unit) outcome \<times> 's" where
  "Ingest now maxAge pub inp s =
    (case ingest_readings now maxAge inp of
       Fail e \<Rightarrow> (Fail e, s)
     | Panic \<Rightarrow> (Panic, s)
     | Ok readings \<Rightarrow> (let (e, s') = PublishReadings pub readings s in (as_result e, s')))"

fun batch_readings :: "instant \<Rightarrow> duration \<Rightarrow> ingest_input list \<Rightarrow> (ingest_err, reading list) outcome" where
  "batch_readings now maxAge [] = Ok []"
| "batch_readings now maxAge (inp # inps) =
    bind_o (ingest_readings now maxAge inp) (\<lambda>grouped.
    bind_o (batch_readings now maxAge inps) (\<lambda>rest. Ok (grouped @ rest)))"

definition IngestBatch :: "instant \<Rightarrow> duration \<Rightarrow> 's event_publisher \<Rightarrow> ingest_input list \<Rightarrow> 's
    \<Rightarrow> (ingest_err, unit) outcome \<times> 's" where
  "IngestBatch now maxAge pub inps s =
    (if length inps = 0 then (Ok (), s) else
     case batch_readings now maxAge inps of
       Fail e \<Rightarrow> (Fail e, s)
     | Panic \<Rightarrow> (Panic, s)
     | Ok batch \<Rightarrow> (let (e, s') = PublishReadings pub batch s in (as_result e, s')))"

section \<open>Replay\<close>

fun replay_readings :: "instant \<Rightarrow> int \<Rightarrow> ingest_input list \<Rightarrow> (ingest_err, reading list) outcome" where
  "replay_readings now windowDays [] = Ok []"
| "replay_readings now windowDays (inp # inps) =
    bind_o (ValidateChannelID (in_channel inp)) (\<lambda>_.
    if length (in_fields inp) = 0 then Fail ErrEmptyFields else
    bind_o (case in_timestamp inp of
        None \<Rightarrow> Ok now
      | Some ts \<Rightarrow> bind_o (ValidateReplayTimestamp now ts windowDays) (\<lambda>_. Ok ts)) (\<lambda>ts.
    bind_o (replay_readings now windowDays inps) (\<lambda>rest.
      Ok (NewReading (in_channel inp) (in_device inp) (in_fields inp) (in_tags inp) ts # rest))))"

text \<open>At most n attempts; the error of the last one is kept. The back-off sleeps change no state.\<close>

fun publish_attempts :: "nat \<Rightarrow> ingest_err option \<Rightarrow> 's effect \<Rightarrow> 's effect" where
  "publish_attempts 0 lastErr pub s = (lastErr, s)"
| "publish_attempts (Suc n) lastErr pub s =
    (case pub s of
       (None, s') \<Rightarrow> (None, s')
     | (Some e, s') \<Rightarrow> publish_attempts n (Some e) pub s')"

definition entry_of :: "instant \<Rightarrow> reading \<Rightarrow> dlq_entry" where
  "entry_of now r =
    \<lparr> de_channel = r_channel r, de_device = r_device r, de_timestamp = r_timestamp r,
      de_fields = r_fields r, de_failed_at = now \<rparr>"

fun push_all :: "'s dlq_writer \<Rightarrow> instant \<Rightarrow> reading list \<Rightarrow> 's \<Rightarrow> 's" where
  "push_all dlq now [] s = s"
| "push_all dlq now (r # rs) s = push_all dlq now rs (snd (Push dlq (entry_of now r) s))"

text \<open>The dead-letter writer is an interface value that may be nil; calling a method of a nil
  interface panics.\<close>

definition IngestReplay :: "instant \<Rightarrow> 's event_publisher \<Rightarrow> ingest_input list \<Rightarrow> int
    \<Rightarrow> 's dlq_writer option \<Rightarrow> 's \<Rightarrow> (ingest_err, unit) outcome \<times> 's" where
  "IngestReplay now pub inps windowDays dlq s =
    (if length inps = 0 then (Ok (), s) else
     case replay_readings now windowDays inps of
       Fail e \<Rightarrow> (Fail e, s)
     | Panic \<Rightarrow> (Panic, s)
     | Ok batch \<Rightarrow>
        (case publish_attempts 3 None (PublishReplayReadings pub batch) s of
           (None, s') \<Rightarrow> (Ok (), s')
         | (Some lastErr, s') \<Rightarrow>
            (case dlq of
               None \<Rightarrow> (Panic, s')
             | Some w \<Rightarrow> (Fail lastErr, snd (IncrFailureMetric w (push_all w now batch s'))))))"

section \<open>The Kafka producer\<close>

text \<open>The value of a message is the event itself; json.Marshal of it fails exactly when a field is
  not a finite number or a time is outside the years 0 to 9999.\<close>

record reading_event =
  ev_id :: string
  ev_type :: string
  ev_published_at :: instant
  ev_reading :: reading

record kafka_message =
  km_key :: string
  km_value :: reading_event
  km_headers :: "(string \<times> string) list"

definition json_time_ok :: "instant \<Rightarrow> bool" where
  "json_time_ok t = (- 62167219200 * second \<le> t \<and> t < 253402300800 * second)"

definition json_fields_ok :: "field_map \<Rightarrow> bool" where
  "json_fields_ok flds = list_all (\<lambda>(k, v). case v of Fin _ \<Rightarrow> True | _ \<Rightarrow> False) flds"

definition json_event_ok :: "reading_event \<Rightarrow> bool" where
  "json_event_ok e = (json_time_ok (ev_published_at e) \<and> json_time_ok (r_timestamp (ev_reading e))
     \<and> json_fields_ok (r_fields (ev_reading e)))"

definition message_headers :: "bool \<Rightarrow> (string \<times> string) option \<Rightarrow> (string \<times> string) list" where
  "message_headers replay spanCtx =
    (if replay then [(''replay'', ''true'')] else []) @
    (case spanCtx of None \<Rightarrow> []
     | Some (traceID, spanID) \<Rightarrow> [(''traceparent'', ''00-'' @ traceID @ ''-'' @ spanID @ ''-01'')])"

text \<open>\<open>fresh i\<close> is the id uuid.New() returns for the i-th message of the call.\<close>

fun buildMessages :: "(nat \<Rightarrow> string) \<Rightarrow> instant \<Rightarrow> (string \<times> string) option \<Rightarrow> nat \<Rightarrow> reading list \<Rightarrow> bool
    \<Rightarrow> (ingest_err, kafka_message list) outcome" where
  "buildMessages fresh now spanCtx i [] replay = Ok []"
| "buildMessages fresh now spanCtx i (r # rs) replay =
    (let evt = \<lparr> ev_id = fresh i, ev_type = ''reading.ingested'', ev_published_at = now, ev_reading = r \<rparr> in
     if \<not> json_event_ok evt then Fail ErrMarshal
     else bind_o (buildMessages fresh now spanCtx (Suc i) rs replay) (\<lambda>msgs.
       Ok (\<lparr> km_key = r_channel r, km_value = evt, km_headers = message_headers replay spanCtx \<rparr> # msgs)))"

definition publish_with :: "(nat \<Rightarrow> string) \<Rightarrow> instant \<Rightarrow> (string \<times> string) option
    \<Rightarrow> (kafka_message list \<Rightarrow> 's effect) \<Rightarrow> bool \<Rightarrow> reading list \<Rightarrow> 's effect" where
  "publish_with fresh now spanCtx WriteMessages replay readings s =
    (case buildMessages fresh now spanCtx 0 readings replay of
       Ok msgs \<Rightarrow> if length msgs = 0 then (None, s) else WriteMessages msgs s
     | Fail e \<Rightarrow> (Some e, s)
     | Panic \<Rightarrow> (Some ErrMarshal, s))"

definition ReadingProducer :: "(nat \<Rightarrow> string) \<Rightarrow> instant \<Rightarrow> (string \<times> string) option
    \<Rightarrow> (kafka_message list \<Rightarrow> 's effect) \<Rightarrow> 's event_publisher" where
  "ReadingProducer fresh now spanCtx WriteMessages =
    \<lparr> PublishReadings = publish_with fresh now spanCtx WriteMessages False,
      PublishReplayReadings = publish_with fresh now spanCtx WriteMessages True \<rparr>"

section \<open>The Redis dead-letter list\<close>

definition dlqKey :: "string \<Rightarrow> string" where
  "dlqKey channelID = ''replay_dlq:'' @ channelID"

definition replayFailureMetricKey :: string where
  "replayFailureMetricKey = ''metric:replay_publish_failure_total''"

definition json_dlq_ok :: "dlq_entry \<Rightarrow> bool" where
  "json_dlq_ok e = (json_time_ok (de_timestamp e) \<and> json_time_ok (de_failed_at e) \<and> json_fields_ok (de_fields e))"

definition ReplayDLQ_Push :: "(string \<Rightarrow> dlq_entry \<Rightarrow> 's effect) \<Rightarrow> dlq_entry \<Rightarrow> 's effect" where
  "ReplayDLQ_Push RPush entry s =
    (if \<not> json_dlq_ok entry then (Some ErrMarshal, s)
     else case RPush (dlqKey (de_channel entry)) entry s of
       (Some e, s') \<Rightarrow> (Some e, s') | (None, s') \<Rightarrow> (None, s'))"

definition ReplayDLQ_IncrFailureMetric :: "(string \<Rightarrow> 's effect) \<Rightarrow> 's effect" where
  "ReplayDLQ_IncrFailureMetric Incr s =
    (case Incr replayFailureMetricKey s of (Some e, s') \<Rightarrow> (Some e, s') | (None, s') \<Rightarrow> (None, s'))"

definition ReplayDLQ :: "(string \<Rightarrow> dlq_entry \<Rightarrow> 's effect) \<Rightarrow> (string \<Rightarrow> 's effect) \<Rightarrow> 's dlq_writer" where
  "ReplayDLQ RPush Incr =
    \<lparr> Push = ReplayDLQ_Push RPush, IncrFailureMetric = ReplayDLQ_IncrFailureMetric Incr \<rparr>"

section \<open>What the services promise\<close>

text \<open>A world with one topic and the Redis lists, where the environment decides which calls fail:
  a write that returns nil has appended its messages, a push that returns nil has appended its
  entry.\<close>

record world =
  w_topic :: "kafka_message list"
  w_kafka_down :: "bool list"
  w_lists :: "string \<Rightarrow> dlq_entry list"
  w_counter :: "string \<Rightarrow> nat"
  w_redis_up :: bool

definition topic_write :: "kafka_message list \<Rightarrow> world effect" where
  "topic_write msgs w =
    (case w_kafka_down w of
       True # r \<Rightarrow> (Some ErrInfra, w\<lparr> w_kafka_down := r \<rparr>)
     | False # r \<Rightarrow> (None, w\<lparr> w_kafka_down := r, w_topic := w_topic w @ msgs \<rparr>)
     | [] \<Rightarrow> (None, w\<lparr> w_topic := w_topic w @ msgs \<rparr>))"

definition list_rpush :: "string \<Rightarrow> dlq_entry \<Rightarrow> world effect" where
  "list_rpush k e w =
    (if w_redis_up w then (None, w\<lparr> w_lists := (w_lists w)(k := w_lists w k @ [e]) \<rparr>)
     else (Some ErrInfra, w))"

definition counter_incr :: "string \<Rightarrow> world effect" where
  "counter_incr k w =
    (if w_redis_up w then (None, w\<lparr> w_counter := (w_counter w)(k := Suc (w_counter w k)) \<rparr>)
     else (Some ErrInfra, w))"

text \<open>The contract the service relies on, and what follows for any publisher and writer that keep it.\<close>

locale ingest_backend =
  fixes pub :: "'s event_publisher"
    and dlq :: "'s dlq_writer"
    and published :: "'s \<Rightarrow> reading list"
    and queued :: "'s \<Rightarrow> string \<Rightarrow> dlq_entry list"
    and dlq_up :: "'s \<Rightarrow> bool"
    and storable :: "dlq_entry \<Rightarrow> bool"
  assumes publish_ok: "PublishReadings pub rs s = (None, s') \<Longrightarrow> published s' = published s @ rs"
    and replay_ok: "PublishReplayReadings pub rs s = (None, s') \<Longrightarrow> published s' = published s @ rs"
    and replay_fail: "PublishReplayReadings pub rs s = (Some e, s') \<Longrightarrow> published s' = published s"
    and replay_keeps: "PublishReplayReadings pub rs s = (r, s') \<Longrightarrow> queued s' = queued s \<and> dlq_up s' = dlq_up s"
    and push_up: "dlq_up s \<Longrightarrow> storable d \<Longrightarrow> \<exists>s'. Push dlq d s = (None, s') \<and> dlq_up s' \<and>
      published s' = published s \<and> queued s' = (queued s)(de_channel d := queued s (de_channel d) @ [d])"
    and incr_keeps: "IncrFailureMetric dlq s = (r, s') \<Longrightarrow> queued s' = queued s \<and> published s' = published s"
begin

lemma Ingest_publishes:
  "Ingest now maxAge pub inp s = (Ok (), s') \<Longrightarrow>
   \<exists>rs. ingest_readings now maxAge inp = Ok rs \<and> published s' = published s @ rs"
  by (auto simp: Ingest_def as_result_def publish_ok Let_def
      split: outcome.splits prod.splits option.splits)

lemma IngestBatch_publishes:
  "IngestBatch now maxAge pub inps s = (Ok (), s') \<Longrightarrow>
   \<exists>rs. batch_readings now maxAge inps = Ok rs \<and> published s' = published s @ rs"
  by (auto simp: IngestBatch_def as_result_def publish_ok Let_def
      split: outcome.splits prod.splits option.splits if_splits)

lemma attempts_keep:
  "publish_attempts n e0 (PublishReplayReadings pub rs) s = (r, s') \<Longrightarrow>
   queued s' = queued s \<and> dlq_up s' = dlq_up s"
  by (induction n arbitrary: e0 s) (auto dest: replay_keeps split: prod.splits option.splits)

lemma attempts_fail:
  "publish_attempts n e0 (PublishReplayReadings pub rs) s = (Some e, s') \<Longrightarrow> published s' = published s"
  by (induction n arbitrary: e0 s) (auto dest: replay_fail split: prod.splits option.splits)

lemma attempts_publish:
  "publish_attempts n e0 (PublishReplayReadings pub rs) s = (None, s') \<Longrightarrow> n > 0 \<or> e0 \<noteq> None \<Longrightarrow>
   published s' = published s @ rs"
proof (induction n arbitrary: e0 s)
  case (Suc n)
  show ?case
  proof (cases "PublishReplayReadings pub rs s")
    case (Pair r t)
    then show ?thesis using Suc.prems Suc.IH [of r t] replay_ok replay_fail by (cases r) auto
  qed
qed simp

lemma push_all_queues:
  "dlq_up s \<Longrightarrow> (\<And>r. r \<in> set rs \<Longrightarrow> storable (entry_of now r)) \<Longrightarrow>
   published (push_all dlq now rs s) = published s \<and>
   queued (push_all dlq now rs s) c =
     queued s c @ map (entry_of now) (filter (\<lambda>r. r_channel r = c) rs)"
proof (induction rs arbitrary: s)
  case (Cons r rs)
  then obtain s' where "Push dlq (entry_of now r) s = (None, s')" "dlq_up s'" "published s' = published s"
    "queued s' = (queued s)(r_channel r := queued s (r_channel r) @ [entry_of now r])"
    using push_up [of s "entry_of now r"] by (auto simp: entry_of_def)
  moreover have "de_channel (entry_of now r) = r_channel r" by (simp add: entry_of_def)
  ultimately show ?case using Cons by simp
qed simp

end

section \<open>The repository's producer and list keep the contract\<close>

lemma dlqKey_inject [simp]: "dlqKey a = dlqKey b \<longleftrightarrow> a = b"
  by (simp add: dlqKey_def)

definition topic_readings :: "world \<Rightarrow> reading list" where
  "topic_readings w = map (\<lambda>m. ev_reading (km_value m)) (w_topic w)"

definition dlq_entries :: "world \<Rightarrow> string \<Rightarrow> dlq_entry list" where
  "dlq_entries w c = w_lists w (dlqKey c)"

lemma buildMessages_readings:
  "buildMessages fresh now ctx i rs replay = Ok msgs \<Longrightarrow>
   map (\<lambda>m. ev_reading (km_value m)) msgs = rs \<and> list_all (\<lambda>m. km_key m = r_channel (ev_reading (km_value m))) msgs"
  by (induction fresh now ctx i rs replay arbitrary: msgs rule: buildMessages.induct)
    (auto simp: Let_def go_simps split: if_splits)

lemma publish_with_topic:
  "publish_with fresh now ctx topic_write replay rs w = (r, w') \<Longrightarrow>
   topic_readings w' = topic_readings w @ (if r = None then rs else []) \<and>
   w_lists w' = w_lists w \<and> w_redis_up w' = w_redis_up w"
  by (auto simp: publish_with_def topic_write_def topic_readings_def
      dest!: buildMessages_readings split: outcome.splits list.splits bool.splits if_splits)

interpretation kafka_redis: ingest_backend
    "ReadingProducer fresh now ctx topic_write" "ReplayDLQ list_rpush counter_incr"
    topic_readings dlq_entries w_redis_up json_dlq_ok
  for fresh now ctx
proof (unfold_locales, goal_cases)
  case (1 rs s s')
  then show ?case by (auto simp: ReadingProducer_def dest: publish_with_topic)
next
  case (2 rs s s')
  then show ?case by (auto simp: ReadingProducer_def dest: publish_with_topic)
next
  case (3 rs s e s')
  then show ?case by (auto simp: ReadingProducer_def dest: publish_with_topic)
next
  case (4 rs s r s')
  then show ?case by (auto simp: ReadingProducer_def dlq_entries_def fun_eq_iff dest: publish_with_topic)
next
  case (5 s d)
  then show ?case
    by (auto simp: ReplayDLQ_def ReplayDLQ_Push_def list_rpush_def dlq_entries_def topic_readings_def fun_eq_iff)
next
  case (6 s r s')
  then show ?case
    by (auto simp: ReplayDLQ_def ReplayDLQ_IncrFailureMetric_def counter_incr_def dlq_entries_def
        topic_readings_def fun_eq_iff split: if_splits)
qed

section \<open>Grouping\<close>

definition group_find :: "group list \<Rightarrow> instant \<Rightarrow> string \<Rightarrow> f64 option" where
  "group_find gs t k = (case map_of gs t of None \<Rightarrow> None | Some m \<Rightarrow> map_of m k)"

definition effective_ts :: "(string \<rightharpoonup> instant option) \<Rightarrow> instant \<Rightarrow> string \<Rightarrow> instant" where
  "effective_ts fieldTS defaultTS k = (case fieldTS k of Some (Some ft) \<Rightarrow> ft | _ \<Rightarrow> defaultTS)"

lemma add_to_group_find:
  "group_find (add_to_group ts k v gs) t k' = (if t = ts \<and> k' = k then Some v else group_find gs t k')"
  by (induction ts k v gs rule: add_to_group.induct) (auto simp: group_find_def update_conv')

lemma add_to_group_keys:
  "map fst (add_to_group ts k v gs) = (if ts \<in> fst ` set gs then map fst gs else map fst gs @ [ts])"
  by (induction ts k v gs rule: add_to_group.induct) auto

lemma add_to_group_nonempty:
  "\<forall>g\<in>set gs. snd g \<noteq> [] \<Longrightarrow> \<forall>g\<in>set (add_to_group ts k v gs). snd g \<noteq> []"
  by (induction ts k v gs rule: add_to_group.induct) auto

lemma group_fields_step:
  "group_fields now maxAge fieldTS defaultTS ((k, v) # flds) gs = Ok gs' \<Longrightarrow>
   group_fields now maxAge fieldTS defaultTS flds (add_to_group (effective_ts fieldTS defaultTS k) k v gs) = Ok gs'"
  by (auto simp: go_simps effective_ts_def split: option.splits)

lemma group_fields_find:
  "group_fields now maxAge fieldTS defaultTS flds gs = Ok gs' \<Longrightarrow> distinct (map fst flds) \<Longrightarrow>
   group_find gs' t k = (case map_of flds k of
       Some v \<Rightarrow> if t = effective_ts fieldTS defaultTS k then Some v else group_find gs t k
     | None \<Rightarrow> group_find gs t k)"
proof (induction flds arbitrary: gs)
  case (Cons f flds)
  obtain k0 v0 where f: "f = (k0, v0)" by (cases f)
  with Cons.prems have "k0 \<notin> fst ` set flds" by auto
  then have "map_of flds k0 = None" by (simp add: map_of_eq_None_iff)
  with Cons.IH [OF group_fields_step] Cons.prems f show ?case
    by (auto simp: add_to_group_find split: option.splits)
qed simp

lemma group_fields_wf:
  "group_fields now maxAge fieldTS defaultTS flds gs = Ok gs' \<Longrightarrow> distinct (map fst gs) \<Longrightarrow>
   \<forall>g\<in>set gs. snd g \<noteq> [] \<Longrightarrow> distinct (map fst gs') \<and> (\<forall>g\<in>set gs'. snd g \<noteq> [])"
proof (induction flds arbitrary: gs)
  case (Cons f flds)
  obtain k0 v0 where f: "f = (k0, v0)" by (cases f)
  let ?gs = "add_to_group (effective_ts fieldTS defaultTS k0) k0 v0 gs"
  have "distinct (map fst ?gs)" using Cons.prems(2) by (simp add: add_to_group_keys)
  moreover have "\<forall>g\<in>set ?gs. snd g \<noteq> []" using Cons.prems(3) by (rule add_to_group_nonempty)
  ultimately show ?case using Cons.IH [OF group_fields_step] Cons.prems(1) f by blast
qed simp

lemma groupByTimestamp_Ok:
  "groupByTimestamp now maxAge ch dev flds fieldTS tags defaultTS = Ok rs \<longleftrightarrow>
   (\<exists>gs. group_fields now maxAge fieldTS defaultTS flds [] = Ok gs \<and>
     rs = map (\<lambda>(ts, m). NewReading ch dev m tags ts) gs)"
  by (auto simp: groupByTimestamp_def go_simps)

text \<open>Grouping loses and invents nothing: on success the readings have pairwise different
  timestamps, none is empty, all carry the channel, device and tags of the request, and a field has
  a value at a time in some reading exactly when the request gave it that value and that time is its
  own timestamp (or the default when it has none).\<close>

theorem groupByTimestamp_partition:
  assumes "distinct (map fst flds)"
    and ok: "groupByTimestamp now maxAge ch dev flds fieldTS tags defaultTS = Ok rs"
  shows "distinct (map r_timestamp rs) \<and>
    (\<forall>r\<in>set rs. r_channel r = ch \<and> r_device r = dev \<and> r_tags r = tags \<and> r_fields r \<noteq> []) \<and>
    (\<forall>k v t. (\<exists>r\<in>set rs. r_timestamp r = t \<and> map_of (r_fields r) k = Some v) \<longleftrightarrow>
       map_of flds k = Some v \<and> t = effective_ts fieldTS defaultTS k)"
proof -
  from ok obtain gs where gs: "group_fields now maxAge fieldTS defaultTS flds [] = Ok gs"
    and rs: "rs = map (\<lambda>(ts, m). NewReading ch dev m tags ts) gs" by (auto simp: groupByTimestamp_Ok)
  have wf: "distinct (map fst gs)" "\<forall>g\<in>set gs. snd g \<noteq> []" using group_fields_wf [OF gs] by auto
  have ts: "map r_timestamp rs = map fst gs" by (auto simp: rs NewReading_def)
  have "(\<exists>r\<in>set rs. r_timestamp r = t \<and> map_of (r_fields r) k = Some v) \<longleftrightarrow> group_find gs t k = Some v" for t k v
  proof -
    have "(\<exists>r\<in>set rs. r_timestamp r = t \<and> map_of (r_fields r) k = Some v) \<longleftrightarrow>
      (\<exists>m. (t, m) \<in> set gs \<and> map_of m k = Some v)" by (force simp: rs NewReading_def)
    then show ?thesis
      by (simp add: group_find_def map_of_eq_Some_iff [OF wf(1), symmetric] split: option.splits)
  qed
  with group_fields_find [OF gs assms(1)] wf show ?thesis
    unfolding ts by (auto simp: rs NewReading_def group_find_def split: option.splits if_splits)
qed

theorem groupByTimestamp_partition_witness:
  "let rs = [NewReading ''c'' ''d'' [(''a'', Fin 1)] [] 100, NewReading ''c'' ''d'' [(''b'', Fin 2)] [] 50]
   in groupByTimestamp 100 0 ''c'' ''d'' [(''a'', Fin 1), (''b'', Fin 2)] [''b'' \<mapsto> Some 50] [] 100 = Ok rs
     \<and> distinct (map r_timestamp rs)"
proof -
  let ?rs = "[NewReading ''c'' ''d'' [(''a'', Fin 1)] [] 100, NewReading ''c'' ''d'' [(''b'', Fin 2)] [] 50]"
  have ok: "groupByTimestamp 100 0 ''c'' ''d'' [(''a'', Fin 1), (''b'', Fin 2)] [''b'' \<mapsto> Some 50] [] 100 = Ok ?rs"
    by (simp add: groupByTimestamp_def ValidateTimestamp_def second_def)
  from groupByTimestamp_partition [OF _ ok] have "distinct (map r_timestamp ?rs)" by simp
  with ok show ?thesis by (simp add: Let_def)
qed

lemma group_fields_ok_iff:
  "is_ok (group_fields now maxAge fieldTS defaultTS flds gs) \<longleftrightarrow>
   (\<forall>k v ft. (k, v) \<in> set flds \<longrightarrow> fieldTS k = Some (Some ft) \<longrightarrow> is_ok (ValidateTimestamp now ft maxAge))"
proof (induction flds arbitrary: gs)
  case (Cons f flds)
  obtain k v where f: "f = (k, v)" by (cases f)
  have "is_ok (group_fields now maxAge fieldTS defaultTS ((k, v) # flds) gs) \<longleftrightarrow>
    (\<forall>ft. fieldTS k = Some (Some ft) \<longrightarrow> is_ok (ValidateTimestamp now ft maxAge)) \<and>
    is_ok (group_fields now maxAge fieldTS defaultTS flds (add_to_group (effective_ts fieldTS defaultTS k) k v gs))"
    by (auto simp: is_ok_iff go_simps effective_ts_def split: option.splits)
  then show ?case unfolding f Cons.IH by auto
qed simp

lemma groupByTimestamp_ok_iff:
  "is_ok (groupByTimestamp now maxAge ch dev flds fieldTS tags defaultTS) \<longleftrightarrow>
   is_ok (group_fields now maxAge fieldTS defaultTS flds [])"
  unfolding groupByTimestamp_def by (cases "group_fields now maxAge fieldTS defaultTS flds []") auto

text \<open>The result does not depend on the order in which the Go runtime ranges over the map: for two
  orders of the same entries the grouping succeeds for both or for neither, and the readings of both
  hold the same values at the same times (their order in the batch may differ).\<close>

theorem groupByTimestamp_order_independent:
  assumes "distinct (map fst flds)" "distinct (map fst flds')" "set flds = set flds'"
  shows "is_ok (groupByTimestamp now maxAge ch dev flds fieldTS tags defaultTS) =
      is_ok (groupByTimestamp now maxAge ch dev flds' fieldTS tags defaultTS) \<and>
    (\<forall>rs rs'. groupByTimestamp now maxAge ch dev flds fieldTS tags defaultTS = Ok rs \<longrightarrow>
       groupByTimestamp now maxAge ch dev flds' fieldTS tags defaultTS = Ok rs' \<longrightarrow>
       (\<forall>k v t. (\<exists>r\<in>set rs. r_timestamp r = t \<and> map_of (r_fields r) k = Some v) \<longleftrightarrow>
          (\<exists>r\<in>set rs'. r_timestamp r = t \<and> map_of (r_fields r) k = Some v)))"
proof -
  have find: "(\<exists>r\<in>set rs. r_timestamp r = t \<and> map_of (r_fields r) k = Some v) \<longleftrightarrow>
      map_of xs k = Some v \<and> t = effective_ts fieldTS defaultTS k"
    if "groupByTimestamp now maxAge ch dev xs fieldTS tags defaultTS = Ok rs" "distinct (map fst xs)" for xs rs k v t
  proof -
    from that(1) obtain gs where gs: "group_fields now maxAge fieldTS defaultTS xs [] = Ok gs"
      and rs: "rs = map (\<lambda>(ts, m). NewReading ch dev m tags ts) gs" by (auto simp: groupByTimestamp_Ok)
    have wf: "distinct (map fst gs)" using group_fields_wf [OF gs] by auto
    have "(\<exists>r\<in>set rs. r_timestamp r = t \<and> map_of (r_fields r) k = Some v) \<longleftrightarrow>
      (\<exists>m. (t, m) \<in> set gs \<and> map_of m k = Some v)" by (force simp: rs NewReading_def)
    also have "\<dots> \<longleftrightarrow> group_find gs t k = Some v"
      by (simp add: group_find_def map_of_eq_Some_iff [OF wf, symmetric] split: option.splits)
    finally show ?thesis using group_fields_find [OF gs that(2), of t k]
      by (auto simp: group_find_def split: option.splits if_splits)
  qed
  have "map_of flds = map_of flds'" using assms by (simp add: map_of_inject_set)
  with find assms show ?thesis by (simp add: groupByTimestamp_ok_iff group_fields_ok_iff)
qed

theorem groupByTimestamp_order_independent_witness:
  "is_ok (groupByTimestamp 100 0 ''c'' ''d'' [(''a'', Fin 1), (''b'', Fin 2)] [''b'' \<mapsto> Some 50] [] 100) =
   is_ok (groupByTimestamp 100 0 ''c'' ''d'' [(''b'', Fin 2), (''a'', Fin 1)] [''b'' \<mapsto> Some 50] [] 100)"
  using groupByTimestamp_order_independent [of "[(''a'', Fin 1), (''b'', Fin 2)]" "[(''b'', Fin 2), (''a'', Fin 1)]"
      100 0 "''c''" "''d''" "[''b'' \<mapsto> Some 50]" "[]" 100] by auto

section \<open>What reaches Kafka\<close>

lemma groupByTimestamp_not_Panic: "groupByTimestamp now maxAge ch dev flds fieldTS tags defaultTS \<noteq> Panic"
proof -
  have "group_fields now maxAge fieldTS defaultTS flds gs \<noteq> Panic" for gs
    by (induction now maxAge fieldTS defaultTS flds gs rule: group_fields.induct)
      (auto simp: go_simps split: option.splits)
  then show ?thesis by (simp add: groupByTimestamp_def go_simps)
qed

definition input_valid :: "instant \<Rightarrow> duration \<Rightarrow> ingest_input \<Rightarrow> bool" where
  "input_valid now maxAge inp \<longleftrightarrow>
     uuidRE (in_channel inp) \<and> in_channel inp \<noteq> nil_uuid \<and> in_fields inp \<noteq> [] \<and>
     (\<forall>ts. in_timestamp inp = Some ts \<longrightarrow> is_ok (ValidateTimestamp now ts maxAge)) \<and>
     (\<forall>k v ft. (k, v) \<in> set (in_fields inp) \<longrightarrow> in_field_ts inp k = Some (Some ft) \<longrightarrow>
        is_ok (ValidateTimestamp now ft maxAge))"

definition default_ts :: "instant \<Rightarrow> ingest_input \<Rightarrow> instant" where
  "default_ts now inp = (case in_timestamp inp of None \<Rightarrow> now | Some ts \<Rightarrow> ts)"

lemma ingest_readings_Ok:
  "ingest_readings now maxAge inp = Ok rs \<longleftrightarrow> input_valid now maxAge inp \<and>
     groupByTimestamp now maxAge (in_channel inp) (in_device inp) (in_fields inp) (in_field_ts inp)
       (in_tags inp) (default_ts now inp) = Ok rs"
proof -
  have "groupByTimestamp now maxAge (in_channel inp) (in_device inp) (in_fields inp) (in_field_ts inp)
       (in_tags inp) d = Ok rs \<Longrightarrow> (k, v) \<in> set (in_fields inp) \<Longrightarrow> in_field_ts inp k = Some (Some ft) \<Longrightarrow>
        is_ok (ValidateTimestamp now ft maxAge)" for d k v ft
    using groupByTimestamp_ok_iff [of now maxAge "in_channel inp" "in_device inp" "in_fields inp"
        "in_field_ts inp" "in_tags inp" d] group_fields_ok_iff by fastforce
  then show ?thesis
    by (auto simp: ingest_readings_def go_simps input_valid_def default_ts_def is_ok_iff
        split: option.splits if_splits)
qed

lemma ingest_readings_not_Panic: "ingest_readings now maxAge inp \<noteq> Panic"
  by (auto simp: ingest_readings_def go_simps groupByTimestamp_not_Panic split: option.splits)

lemma batch_readings_not_Panic: "batch_readings now maxAge inps \<noteq> Panic"
  by (induction inps) (auto simp: go_simps ingest_readings_not_Panic)

lemma batch_readings_Ok:
  "batch_readings now maxAge inps = Ok rs \<Longrightarrow> inp \<in> set inps \<Longrightarrow>
   \<exists>g. ingest_readings now maxAge inp = Ok g \<and> set g \<subseteq> set rs"
  by (induction inps arbitrary: rs) (fastforce simp: go_simps)+



section \<open>Replay\<close>


text \<open>A concrete world used by the witnesses.\<close>

definition demo_world :: "bool list \<Rightarrow> world" where
  "demo_world downs = \<lparr> w_topic = [], w_kafka_down = downs, w_lists = (\<lambda>_. []), w_counter = (\<lambda>_. 0), w_redis_up = True \<rparr>"

definition demo_input :: ingest_input where
  "demo_input = \<lparr> in_channel = ''550e8400-e29b-41d4-a716-446655440000'', in_device = ''d'',
     in_fields = [(''a'', Fin 1)], in_field_ts = Map.empty, in_tags = [], in_timestamp = Some 100 \<rparr>"

lemma demo_replay:
  "replay_readings 100 30 [demo_input] =
     Ok [NewReading ''550e8400-e29b-41d4-a716-446655440000'' ''d'' [(''a'', Fin 1)] [] 100]"
proof -
  have "ValidateChannelID ''550e8400-e29b-41d4-a716-446655440000'' = Ok ()" by code_simp
  moreover have "ValidateReplayTimestamp 100 100 30 = Ok ()" by code_simp
  ultimately show ?thesis by (simp add: demo_input_def)
qed


text \<open>Without a dead-letter writer a failing Kafka makes the replay panic: the service calls a
  method of the nil interface after the third failed attempt, where its comment and the handler's
  expect an error for the caller.\<close>

theorem IngestReplay_nil_dlq_panics:
  assumes "inps \<noteq> []" "replay_readings now windowDays inps = Ok rs"
    and down: "\<forall>s. \<exists>e s'. PublishReplayReadings pub rs s = (Some e, s')"
  shows "fst (IngestReplay now pub inps windowDays None w) = Panic"
proof -
  have "\<exists>e s'. publish_attempts (Suc n) e0 (PublishReplayReadings pub rs) s = (Some e, s')" for n e0 s
  proof (induction n arbitrary: e0 s)
    case 0
    obtain e s' where "PublishReplayReadings pub rs s = (Some e, s')" using down by blast
    then show ?case by simp
  next
    case (Suc n)
    obtain e s' where "PublishReplayReadings pub rs s = (Some e, s')" using down by blast
    then show ?case using Suc.IH [of "Some e" s'] by simp
  qed
  from this [of 2 None w] obtain e s' where
    "publish_attempts 3 None (PublishReplayReadings pub rs) w = (Some e, s')" by (auto simp: numeral_eq_Suc)
  with assms(1,2) show ?thesis by (simp add: IngestReplay_def)
qed

theorem IngestReplay_nil_dlq_panics_witness:
  "fst (IngestReplay 100 \<lparr> PublishReadings = (\<lambda>rs s. (Some ErrInfra, s)),
      PublishReplayReadings = (\<lambda>rs s. (Some ErrInfra, s)) \<rparr> [demo_input] 30 None ()) = Panic"
  by (rule IngestReplay_nil_dlq_panics [OF _ demo_replay]) simp_all

end
