(* ===== verification/Web.thy ===== *)
theory Web
  imports Prelude
begin

text \<open>
  The shared HTTP layer (shared/pkg): API errors and response envelopes, pagination, the sliding
  window rate limiter, bearer-token and role middleware, and validation messages. A gin context is
  its request (headers, query, path parameters, client address) and its key/value store; a handler
  returns the response it writes.
\<close>

section \<open>API errors and responses\<close>

record api_error =
  ae_code :: nat
  ae_type :: string
  ae_detail :: string

datatype go_error = ApiErr api_error | OtherErr string

definition api_New :: "nat \<Rightarrow> string \<Rightarrow> string \<Rightarrow> api_error" where
  "api_New code errType detail = \<lparr> ae_code = code, ae_type = errType, ae_detail = detail \<rparr>"

fun error_text :: "go_error \<Rightarrow> string" where
  "error_text (ApiErr e) = ae_detail e"
| "error_text (OtherErr s) = s"

definition api_Wrap :: "nat \<Rightarrow> string \<Rightarrow> go_error option \<Rightarrow> api_error" where
  "api_Wrap code errType err =
    api_New code errType (case err of None \<Rightarrow> '''' | Some e \<Rightarrow> error_text e)"

definition api_Is :: "api_error \<Rightarrow> go_error \<Rightarrow> bool" where
  "api_Is e target = (case target of ApiErr t \<Rightarrow> ae_code t = ae_code e | OtherErr _ \<Rightarrow> False)"

definition NotFound :: "string \<Rightarrow> api_error" where
  "NotFound resource = api_New 404 ''not_found'' (resource @ '' not found'')"

definition BadRequest :: "string \<Rightarrow> api_error" where
  "BadRequest detail = api_New 400 ''bad_request'' detail"

definition Unauthorized :: "string \<Rightarrow> api_error" where
  "Unauthorized detail = api_New 401 ''unauthorized'' detail"

definition Forbidden :: "string \<Rightarrow> api_error" where
  "Forbidden detail = api_New 403 ''forbidden'' detail"

definition Conflict :: "string \<Rightarrow> api_error" where
  "Conflict detail = api_New 409 ''conflict'' detail"

definition Internal :: "go_error \<Rightarrow> api_error" where
  "Internal err = api_Wrap 500 ''internal_server_error'' (Some err)"

definition ErrInternalServerError :: api_error where
  "ErrInternalServerError = api_New 500 ''internal_server_error'' ''an unexpected error occurred''"

definition HTTPCode :: "go_error \<Rightarrow> nat" where
  "HTTPCode err = (case err of ApiErr e \<Rightarrow> ae_code e | OtherErr _ \<Rightarrow> 500)"

text \<open>The envelope: success flag, data, and code and message of an error.\<close>

record 'd envelope =
  rs_status :: nat
  rs_success :: bool
  rs_data :: "'d option"
  rs_error :: "(string \<times> string) option"

definition resp_OK :: "'d \<Rightarrow> 'd envelope" where
  "resp_OK d = \<lparr> rs_status = 200, rs_success = True, rs_data = Some d, rs_error = None \<rparr>"

definition resp_Created :: "'d \<Rightarrow> 'd envelope" where
  "resp_Created d = \<lparr> rs_status = 201, rs_success = True, rs_data = Some d, rs_error = None \<rparr>"

definition resp_NoContent :: "'d envelope" where
  "resp_NoContent = \<lparr> rs_status = 204, rs_success = True, rs_data = None, rs_error = None \<rparr>"

definition resp_Error :: "go_error \<Rightarrow> 'd envelope" where
  "resp_Error err = (case err of
      ApiErr e \<Rightarrow> \<lparr> rs_status = ae_code e, rs_success = False, rs_data = None,
                   rs_error = Some (ae_type e, ae_detail e) \<rparr>
    | OtherErr _ \<Rightarrow> \<lparr> rs_status = 500, rs_success = False, rs_data = None,
        rs_error = Some (''internal_server_error'', ''an unexpected error occurred'') \<rparr>)"

definition resp_ValidationError :: "'d envelope" where
  "resp_ValidationError = \<lparr> rs_status = 422, rs_success = False, rs_data = None,
     rs_error = Some (''validation_error'', ''request validation failed'') \<rparr>"

definition resp_Abort :: "go_error \<Rightarrow> 'd envelope" where
  "resp_Abort err = (case err of
      ApiErr e \<Rightarrow> \<lparr> rs_status = ae_code e, rs_success = False, rs_data = None,
                   rs_error = Some (ae_type e, ae_detail e) \<rparr>
    | OtherErr _ \<Rightarrow> \<lparr> rs_status = 500, rs_success = False, rs_data = None,
        rs_error = Some (''internal_server_error'', ''an unexpected error occurred'') \<rparr>)"

section \<open>Numbers in query strings\<close>

definition digit_val :: "char \<Rightarrow> int" where
  "digit_val c = of_char c - 48"

definition is_digit :: "char \<Rightarrow> bool" where
  "is_digit c = (48 \<le> (of_char c :: int) \<and> (of_char c :: int) \<le> 57)"

definition digits_val :: "string \<Rightarrow> int" where
  "digits_val s = foldl (\<lambda>n c. 10 * n + digit_val c) 0 s"

text \<open>The value strconv.Atoi returns, with its error dropped: 0 for a malformed number, the nearest
  int64 for one out of range.\<close>

definition clamp64 :: "int \<Rightarrow> int" where
  "clamp64 n = max (- (2 ^ 63)) (min (2 ^ 63 - 1) n)"

definition Atoi_value :: "string \<Rightarrow> int" where
  "Atoi_value s =
    (let (neg, ds) = (case s of
         c # r \<Rightarrow> if c = CHR ''-'' then (True, r) else if c = CHR ''+'' then (False, r) else (False, s)
       | [] \<Rightarrow> (False, []))
     in if ds = [] \<or> \<not> list_all is_digit ds then 0
        else clamp64 (if neg then - digits_val ds else digits_val ds))"

section \<open>Requests\<close>

datatype ctx_value = CStr string | CStrs "string list" | COther

record request =
  rq_header :: "string \<Rightarrow> string"
  rq_query :: "string \<Rightarrow> string option"
  rq_form :: "string \<Rightarrow> string"
  rq_param :: "string \<Rightarrow> string"
  rq_ip :: string
  rq_ctx :: "string \<Rightarrow> ctx_value option"

definition q_get :: "request \<Rightarrow> string \<Rightarrow> string" where
  "q_get c key = (case rq_query c key of Some v \<Rightarrow> v | None \<Rightarrow> '''')"

definition q_default :: "request \<Rightarrow> string \<Rightarrow> string \<Rightarrow> string" where
  "q_default c key d = (case rq_query c key of Some v \<Rightarrow> v | None \<Rightarrow> d)"

definition ctx_set :: "request \<Rightarrow> string \<Rightarrow> ctx_value \<Rightarrow> request" where
  "ctx_set c key v = c\<lparr> rq_ctx := (rq_ctx c)(key \<mapsto> v) \<rparr>"

section \<open>Pagination\<close>

definition DefaultLimit :: int where "DefaultLimit = 20"
definition MaxLimit :: int where "MaxLimit = 100"

record cursor_page =
  cu_cursor :: string
  cu_limit :: int

record offset_page =
  op_page :: int
  op_limit :: int

definition clamp_limit :: "int \<Rightarrow> int" where
  "clamp_limit l =
    (let l1 = (if l \<le> 0 then DefaultLimit else l) in if l1 > MaxLimit then MaxLimit else l1)"

definition ParseCursor :: "request \<Rightarrow> cursor_page" where
  "ParseCursor c = \<lparr> cu_cursor = q_get c ''cursor'',
     cu_limit = clamp_limit (Atoi_value (q_default c ''limit'' ''20'')) \<rparr>"

definition ParseOffset :: "request \<Rightarrow> offset_page" where
  "ParseOffset c =
    (let page = Atoi_value (q_default c ''page'' ''1'');
         page1 = (if page \<le> 0 then 1 else page)
     in \<lparr> op_page = page1, op_limit = clamp_limit (Atoi_value (q_default c ''limit'' ''20'')) \<rparr>)"

definition Offset :: "offset_page \<Rightarrow> int" where
  "Offset p = wrap64 (wrap64 (op_page p - 1) * op_limit p)"

text \<open>Go's integer division truncates towards zero; totals are counts.\<close>

definition TotalPages :: "offset_page \<Rightarrow> nat \<Rightarrow> int" where
  "TotalPages p tot =
    (if op_limit p = 0 then 0
     else let pages = int tot div op_limit p in
          if int tot mod op_limit p > 0 then pages + 1 else pages)"

record 'a offset_result =
  or_data :: "'a list"
  or_total :: nat
  or_page :: int
  or_limit :: int
  or_total_pages :: int

definition NewOffsetResult :: "'a list \<Rightarrow> nat \<Rightarrow> offset_page \<Rightarrow> 'a offset_result" where
  "NewOffsetResult d tot p = \<lparr> or_data = d, or_total = tot, or_page = op_page p,
     or_limit = op_limit p, or_total_pages = TotalPages p tot \<rparr>"

record 'a cursor_result =
  cr_data :: "'a list"
  cr_next :: string
  cr_more :: bool

definition NewCursorResult :: "'a list \<Rightarrow> string \<Rightarrow> 'a cursor_result" where
  "NewCursorResult d nextCursor = \<lparr> cr_data = d, cr_next = nextCursor, cr_more = (nextCursor \<noteq> '''') \<rparr>"

text \<open>Cursors: the json and base64 codecs are arguments.\<close>

definition EncodeCursor :: "('v \<Rightarrow> 'b option) \<Rightarrow> ('b \<Rightarrow> string) \<Rightarrow> 'v \<Rightarrow> (go_error, string) outcome" where
  "EncodeCursor marshal b64enc v =
    (case marshal v of None \<Rightarrow> Fail (OtherErr ''json'') | Some b \<Rightarrow> Ok (b64enc b))"

definition DecodeCursor :: "(string \<Rightarrow> 'b option) \<Rightarrow> ('b \<Rightarrow> 'v option) \<Rightarrow> string \<Rightarrow> (go_error, 'v) outcome" where
  "DecodeCursor b64dec unmarshal cursor =
    (if cursor = '''' then Fail (OtherErr ''empty cursor'')
     else case b64dec cursor of
       None \<Rightarrow> Fail (OtherErr ''base64'')
     | Some b \<Rightarrow> (case unmarshal b of None \<Rightarrow> Fail (OtherErr ''json'') | Some v \<Rightarrow> Ok v))"

section \<open>The sliding-window rate limiter\<close>

text \<open>One Redis sorted set per key: its members with their scores, and the time the key expires.
  Scores are the instants themselves (Redis keeps them as doubles, about 256 ns apart).\<close>

record zset =
  zs_items :: "(int \<times> int) list"
  zs_expiry :: "instant option"

definition zset_empty :: zset where
  "zset_empty = \<lparr> zs_items = [], zs_expiry = None \<rparr>"

definition zset_alive :: "instant \<Rightarrow> zset \<Rightarrow> zset" where
  "zset_alive now z = (case zs_expiry z of
      Some e \<Rightarrow> if e \<le> now then zset_empty else z
    | None \<Rightarrow> z)"

definition ZRemRangeByScore :: "int \<Rightarrow> int \<Rightarrow> zset \<Rightarrow> zset" where
  "ZRemRangeByScore lo hi z = z\<lparr> zs_items := filter (\<lambda>(m, s). \<not> (lo \<le> s \<and> s \<le> hi)) (zs_items z) \<rparr>"

definition ZAdd :: "int \<Rightarrow> int \<Rightarrow> zset \<Rightarrow> zset" where
  "ZAdd score m z = z\<lparr> zs_items := AList.update m score (zs_items z) \<rparr>"

record rl_config =
  rl_requests :: int
  rl_window :: duration

datatype rl_decision = Allow | Reject nat

record rl_headers =
  rh_limit :: int
  rh_remaining :: int
  rh_reset :: int

definition retry_after :: "duration \<Rightarrow> nat" where
  "retry_after window = (let r = nat (window div second) in if r < 1 then 1 else r)"

text \<open>The pipeline of the middleware: None when Exec fails, in which case the request passes and the
  set is whatever the failed pipeline left (here: unchanged).\<close>

definition RateLimit :: "rl_config \<Rightarrow> instant \<Rightarrow> bool \<Rightarrow> zset \<Rightarrow> (rl_decision \<times> rl_headers option) \<times> zset" where
  "RateLimit cfg now exec_ok z0 =
    (if \<not> exec_ok then ((Allow, None), z0) else
     let windowStart = now - rl_window cfg;
         z1 = ZRemRangeByScore 0 windowStart (zset_alive now z0);
         count = int (length (zs_items z1));
         z2 = (ZAdd now now z1)\<lparr> zs_expiry := Some (now + rl_window cfg) \<rparr>;
         remaining = (let r = rl_requests cfg - count - 1 in if r < 0 then 0 else r);
         hdr = \<lparr> rh_limit = rl_requests cfg, rh_remaining = remaining,
                 rh_reset = (now + rl_window cfg) div second \<rparr>
     in if count \<ge> rl_requests cfg then ((Reject (retry_after (rl_window cfg)), Some hdr), z2)
        else ((Allow, Some hdr), z2))"

definition ctx_string :: "request \<Rightarrow> string \<Rightarrow> string option" where
  "ctx_string c key = (case rq_ctx c key of Some (CStr s) \<Rightarrow> if s = '''' then None else Some s | _ \<Rightarrow> None)"

definition IPKeyFunc :: "request \<Rightarrow> string" where
  "IPKeyFunc c = rq_ip c"

definition UserIDKeyFunc :: "request \<Rightarrow> string" where
  "UserIDKeyFunc c = (case ctx_string c ''user_id'' of Some s \<Rightarrow> s | None \<Rightarrow> rq_ip c)"

definition APIKeyKeyFunc :: "request \<Rightarrow> string" where
  "APIKeyKeyFunc c = (case ctx_string c ''api_key'' of Some s \<Rightarrow> s | None \<Rightarrow> rq_ip c)"

definition ChannelIDKeyFunc :: "request \<Rightarrow> string" where
  "ChannelIDKeyFunc c = (case ctx_string c ''channel_id'' of
      Some s \<Rightarrow> ''channel:'' @ s
    | None \<Rightarrow> if rq_param c ''channel_id'' \<noteq> '''' then ''channel:'' @ rq_param c ''channel_id'' else rq_ip c)"

section \<open>Bearer tokens and roles\<close>

record claims =
  cl_uid :: string
  cl_tid :: string
  cl_email :: string
  cl_roles :: "string list"

definition lower_char :: "char \<Rightarrow> char" where
  "lower_char c = (let n = (of_char c :: nat) in if 65 \<le> n \<and> n \<le> 90 then char_of (n + 32) else c)"

text \<open>\<open>strings.SplitN(header, " ", 2)\<close>.\<close>

fun split_space :: "string \<Rightarrow> string \<times> string option" where
  "split_space [] = ([], None)"
| "split_space (c # s) =
    (if c = CHR '' '' then ([], Some s) else (case split_space s of (a, b) \<Rightarrow> (c # a, b)))"

definition extractBearerToken :: "request \<Rightarrow> (string, string) outcome" where
  "extractBearerToken c =
    (let header = rq_header c ''Authorization'' in
     if header \<noteq> '''' then
       (case split_space header of
          (_, None) \<Rightarrow> Fail ''invalid Authorization header format''
        | (scheme, Some tok) \<Rightarrow>
            if map lower_char scheme \<noteq> ''bearer'' then Fail ''invalid Authorization header format''
            else if tok = '''' then Fail ''empty token''
            else Ok tok)
     else if q_get c ''token'' \<noteq> '''' then Ok (q_get c ''token'')
     else Fail ''missing Authorization header'')"

definition with_claims :: "request \<Rightarrow> claims \<Rightarrow> request" where
  "with_claims c cl = ctx_set (ctx_set (ctx_set (ctx_set c
     ''user_id'' (CStr (cl_uid cl))) ''tenant_id'' (CStr (cl_tid cl)))
     ''email'' (CStr (cl_email cl))) ''roles'' (CStrs (cl_roles cl))"

text \<open>A middleware either aborts with a response or passes a context on. \<open>parse\<close> is the jwt library's
  ParseWithClaims under the RS256 key function: the claims of a valid token, None otherwise.\<close>

definition JWTAuth :: "(string \<Rightarrow> claims option) \<Rightarrow> request \<Rightarrow> ('d envelope, request) outcome" where
  "JWTAuth parse c =
    (case extractBearerToken c of
       Fail m \<Rightarrow> Fail (resp_Abort (ApiErr (Unauthorized m)))
     | Panic \<Rightarrow> Panic
     | Ok raw \<Rightarrow> (case parse raw of
         None \<Rightarrow> Fail (resp_Abort (ApiErr (Unauthorized ''invalid or expired token'')))
       | Some cl \<Rightarrow> Ok (with_claims c cl)))"

definition OptionalJWTAuth :: "(string \<Rightarrow> claims option) \<Rightarrow> request \<Rightarrow> ('d envelope, request) outcome" where
  "OptionalJWTAuth parse c =
    (case extractBearerToken c of
       Fail m \<Rightarrow> Ok c
     | Panic \<Rightarrow> Panic
     | Ok raw \<Rightarrow> (case parse raw of None \<Rightarrow> Ok c | Some cl \<Rightarrow> Ok (with_claims c cl)))"

definition APIKeyAuth :: "(string \<Rightarrow> (go_error, string \<times> string) outcome) \<Rightarrow> request
    \<Rightarrow> ('d envelope, request) outcome" where
  "APIKeyAuth lookup c =
    (let h = rq_header c ''X-API-Key'';
         key = (if h = '''' then q_get c ''api_key'' else h)
     in if key = '''' then Fail (resp_Abort (ApiErr (Unauthorized ''missing API key'')))
        else case lookup key of
          Ok (deviceID, channelID) \<Rightarrow>
            Ok (ctx_set (ctx_set (ctx_set c ''api_key'' (CStr key)) ''device_id'' (CStr deviceID))
                  ''channel_id'' (CStr channelID))
        | Fail _ \<Rightarrow> Fail (resp_Abort (ApiErr (Unauthorized ''invalid API key'')))
        | Panic \<Rightarrow> Panic)"

definition RequireRoles :: "string list \<Rightarrow> request \<Rightarrow> ('d envelope, request) outcome" where
  "RequireRoles roles c =
    (case rq_ctx c ''roles'' of
       None \<Rightarrow> Fail (resp_Abort (ApiErr (Forbidden ''no roles found'')))
     | Some (CStrs userRoles) \<Rightarrow>
         if list_ex (\<lambda>r. r \<in> set userRoles) roles then Ok c
         else Fail (resp_Abort (ApiErr (Forbidden ''insufficient permissions'')))
     | Some _ \<Rightarrow> Fail (resp_Abort (ApiErr (Forbidden ''invalid role format''))))"

definition GetUserID :: "request \<Rightarrow> string option" where
  "GetUserID c = (case rq_ctx c ''user_id'' of Some (CStr s) \<Rightarrow> Some s | _ \<Rightarrow> None)"

definition GetTenantID :: "request \<Rightarrow> string option" where
  "GetTenantID c = (case rq_ctx c ''tenant_id'' of Some (CStr s) \<Rightarrow> Some s | _ \<Rightarrow> None)"

section \<open>Validation messages\<close>

text \<open>A field failure of the validator library: its field, tag, parameter and whether the field is a
  map, slice or array.\<close>

record field_failure =
  ff_field :: string
  ff_tag :: string
  ff_param :: string
  ff_items :: bool

definition tagToMessage :: "field_failure \<Rightarrow> string" where
  "tagToMessage fe =
    (let t = ff_tag fe; p = ff_param fe in
     if t = ''required'' then ''is required''
     else if t = ''email'' then ''must be a valid email''
     else if t = ''min'' then
       (if ff_items fe then ''must have at least '' @ p @ '' item(s)'' else ''must be at least '' @ p @ '' characters'')
     else if t = ''max'' then
       (if ff_items fe then ''must have at most '' @ p @ '' item(s)'' else ''must be at most '' @ p @ '' characters'')
     else if t = ''len'' then ''must be exactly '' @ p @ '' characters''
     else if t = ''uuid'' then ''must be a valid UUID''
     else if t = ''url'' then ''must be a valid URL''
     else if t = ''oneof'' then ''must be one of: '' @ p
     else if t = ''numeric'' then ''must be numeric''
     else if t = ''alphanum'' then ''must be alphanumeric''
     else if t = ''gte'' then ''must be greater than or equal to '' @ p
     else if t = ''lte'' then ''must be less than or equal to '' @ p
     else if t = ''gt'' then ''must be greater than '' @ p
     else if t = ''lt'' then ''must be less than '' @ p
     else ''failed validation: '' @ t)"

definition slug_char :: "char \<Rightarrow> bool" where
  "slug_char c = (let n = (of_char c :: nat) in
     (97 \<le> n \<and> n \<le> 122) \<or> (48 \<le> n \<and> n \<le> 57) \<or> c = CHR ''-'' \<or> c = CHR ''_'')"

definition slug_valid :: "string \<Rightarrow> bool" where
  "slug_valid s = (s \<noteq> [] \<and> list_all slug_char s)"

fun ValidationErrors_Error :: "bool \<Rightarrow> (string \<times> string) list \<Rightarrow> string" where
  "ValidationErrors_Error first [] = []"
| "ValidationErrors_Error first ((f, m) # es) =
    (if first then [] else ''; '') @ f @ '' '' @ m @ ValidationErrors_Error False es"

definition Validate_errors :: "field_failure list \<Rightarrow> (string \<times> string) list" where
  "Validate_errors fes = map (\<lambda>fe. (ff_field fe, tagToMessage fe)) fes"

section \<open>Requests behind the token check\<close>

lemma with_claims_request [simp]:
  "rq_param (with_claims c cl) = rq_param c" "rq_header (with_claims c cl) = rq_header c"
  "q_get (with_claims c cl) k = q_get c k" "q_default (with_claims c cl) k d = q_default c k d"
  "ParseOffset (with_claims c cl) = ParseOffset c"
  by (simp_all add: with_claims_def ctx_set_def q_get_def q_default_def ParseOffset_def)

lemma extract_not_Panic: "extractBearerToken c \<noteq> Panic"
  by (auto simp: extractBearerToken_def Let_def split: prod.splits option.splits)

definition has_valid_token :: "(string \<Rightarrow> claims option) \<Rightarrow> request \<Rightarrow> bool" where
  "has_valid_token verify c = (case extractBearerToken c of Ok tok \<Rightarrow> verify tok \<noteq> None | _ \<Rightarrow> False)"

text \<open>A handler's outcome as a response: \<open>emap\<close> turns its error into one, and gin's recovery answers a
  panic with a bare 500.\<close>

definition gin_recovered :: "'d envelope" where
  "gin_recovered = \<lparr> rs_status = 500, rs_success = False, rs_data = None, rs_error = None \<rparr>"

definition answer :: "('e \<Rightarrow> api_error) \<Rightarrow> ('a \<Rightarrow> 'd envelope) \<Rightarrow> ('e, 'a) outcome \<Rightarrow> 'd envelope" where
  "answer emap success r = (case r of
      Ok x \<Rightarrow> success x | Fail e \<Rightarrow> resp_Error (ApiErr (emap e)) | Panic \<Rightarrow> gin_recovered)"

lemma answer_simps [simp]:
  "answer emap success (Ok x) = success x" "answer emap success (Fail e) = resp_Error (ApiErr (emap e))"
  "answer emap success Panic = gin_recovered"
  by (simp_all add: answer_def)

text \<open>A group of endpoints behind JWTAuth: \<open>run\<close> handles a request whose token is valid.\<close>

definition authorized :: "(string \<Rightarrow> claims option) \<Rightarrow> (request \<Rightarrow> 'd envelope \<times> 's) \<Rightarrow> request \<Rightarrow> 's \<Rightarrow> 'd envelope \<times> 's" where
  "authorized verify run c s =
    (case JWTAuth verify c of Ok c' \<Rightarrow> run c' | Fail resp \<Rightarrow> (resp, s) | Panic \<Rightarrow> (gin_recovered, s))"

lemma authorized_refused: "\<not> has_valid_token verify c \<Longrightarrow>
    rs_status (fst (authorized verify run c s)) = 401 \<and> snd (authorized verify run c s) = s"
  using extract_not_Panic [of c]
  by (auto simp: authorized_def has_valid_token_def JWTAuth_def resp_Abort_def Unauthorized_def api_New_def
      split: outcome.splits option.splits)

lemma authorized_passed: "has_valid_token verify c \<Longrightarrow> \<exists>cl. authorized verify run c s = run (with_claims c cl)"
  by (auto simp: authorized_def has_valid_token_def JWTAuth_def split: outcome.splits option.splits)

definition demo_call :: "string \<Rightarrow> string \<Rightarrow> request" where
  "demo_call tok i = \<lparr> rq_header = (\<lambda>h. if h = ''Authorization'' then tok else ''''), rq_query = (\<lambda>_. None),
     rq_form = (\<lambda>_. ''''), rq_param = (\<lambda>p. if p = ''id'' then i else ''''), rq_ip = '''', rq_ctx = Map.empty \<rparr>"

definition stranger :: "string \<Rightarrow> claims option" where
  "stranger tok = (if tok = ''t'' then Some \<lparr> cl_uid = ''mallory'', cl_tid = ''elsewhere'', cl_email = '''', cl_roles = [] \<rparr> else None)"

section \<open>Properties of the limiter\<close>

text \<open>Requests on one key at the given times, with Redis available, and whether each passed.\<close>

fun limiter_run :: "rl_config \<Rightarrow> instant list \<Rightarrow> zset \<Rightarrow> (instant \<times> bool) list" where
  "limiter_run cfg [] z = []"
| "limiter_run cfg (t # ts) z =
    (let ((d, h), z') = RateLimit cfg t True z in (t, d = Allow) # limiter_run cfg ts z')"

definition recent :: "rl_config \<Rightarrow> instant \<Rightarrow> instant list \<Rightarrow> instant list" where
  "recent cfg t past = filter (\<lambda>u. t - rl_window cfg < u) past"

definition limiter_inv :: "rl_config \<Rightarrow> instant list \<Rightarrow> instant \<Rightarrow> zset \<Rightarrow> bool" where
  "limiter_inv cfg past tp z \<longleftrightarrow>
     zs_items z = map (\<lambda>u. (u, u)) (recent cfg tp past) \<and> (\<forall>u\<in>set past. 0 < u \<and> u \<le> tp) \<and>
     (zs_expiry z = Some (tp + rl_window cfg) \<or> past = [])"

lemma recent_recent: "tp \<le> t \<Longrightarrow> recent cfg t (recent cfg tp past) = recent cfg t past"
  by (induction past) (auto simp: recent_def)

lemma limiter_step:
  assumes inv: "limiter_inv cfg past tp z" and t: "tp < t" "0 < t" and w: "0 < rl_window cfg"
  shows "\<exists>h z'. RateLimit cfg t True z =
      ((if rl_requests cfg \<le> int (length (recent cfg t past)) then Reject (retry_after (rl_window cfg)) else Allow, h), z')
    \<and> limiter_inv cfg (past @ [t]) t z'"
proof -
  let ?W = "rl_window cfg" and ?z1 = "ZRemRangeByScore 0 (t - rl_window cfg) (zset_alive t z)"
  from inv have items: "zs_items z = map (\<lambda>u. (u, u)) (recent cfg tp past)"
    and pos: "\<forall>u\<in>set past. 0 < u \<and> u \<le> tp" by (auto simp: limiter_inv_def)
  have keep: "filter (\<lambda>(m, s). \<not> (0 \<le> s \<and> s \<le> t - ?W)) (map (\<lambda>u. (u, u)) xs) = map (\<lambda>u. (u, u)) (recent cfg t xs)"
    if "\<forall>u\<in>set xs. 0 < u" for xs
    using that by (induction xs) (auto simp: recent_def)
  have z1: "zs_items ?z1 = map (\<lambda>u. (u, u)) (recent cfg t past)"
  proof (cases "zset_alive t z = z")
    case True
    have "\<forall>u\<in>set (recent cfg tp past). 0 < u" using pos by (simp add: recent_def)
    from keep [OF this] True items t(1) show ?thesis
      by (simp add: ZRemRangeByScore_def recent_recent)
  next
    case False
    then obtain e where "zs_expiry z = Some e" "e \<le> t"
      by (auto simp: zset_alive_def split: option.splits if_splits)
    then have "past = [] \<or> tp + ?W \<le> t" using inv by (auto simp: limiter_inv_def)
    then have "recent cfg t past = []" using pos by (force simp: recent_def filter_empty_conv)
    with False show ?thesis
      by (auto simp: ZRemRangeByScore_def zset_alive_def zset_empty_def split: option.splits if_splits)
  qed
  have "t \<notin> fst ` set (zs_items ?z1)" using pos t by (auto simp: z1 recent_def)
  then have "AList.update t t (zs_items ?z1) = zs_items ?z1 @ [(t, t)]"
    by (rule update_notin)
  then have "zs_items ((ZAdd t t ?z1)\<lparr> zs_expiry := Some (t + ?W) \<rparr>) = map (\<lambda>u. (u, u)) (recent cfg t (past @ [t]))"
    using w by (simp add: ZAdd_def z1 recent_def)
  then have "limiter_inv cfg (past @ [t]) t ((ZAdd t t ?z1)\<lparr> zs_expiry := Some (t + ?W) \<rparr>)"
    using pos t by (auto simp: limiter_inv_def)
  then show ?thesis by (simp add: RateLimit_def Let_def z1)
qed

lemma limiter_run_spec:
  "limiter_inv cfg past tp z \<Longrightarrow> sorted_wrt (<) (tp # ts) \<Longrightarrow> 0 \<le> tp \<Longrightarrow> 0 < rl_window cfg \<Longrightarrow>
   limiter_run cfg ts z = map (\<lambda>i. (ts ! i,
     int (length (recent cfg (ts ! i) (past @ take i ts))) < rl_requests cfg)) [0..<length ts]"
proof (induction ts arbitrary: past tp z)
  case (Cons t ts)
  then obtain h z' where step: "RateLimit cfg t True z =
      ((if rl_requests cfg \<le> int (length (recent cfg t past)) then Reject (retry_after (rl_window cfg)) else Allow, h), z')"
    and inv: "limiter_inv cfg (past @ [t]) t z'"
    using limiter_step [of cfg past tp z t] by auto
  have "limiter_run cfg ts z' = map (\<lambda>i. (ts ! i,
     int (length (recent cfg (ts ! i) ((past @ [t]) @ take i ts))) < rl_requests cfg)) [0..<length ts]"
    using Cons.IH [OF inv] Cons.prems by simp
  then show ?case
    by (simp add: step map_upt_Suc del: upt_Suc)
qed simp

lemma limiter_run_start:
  "sorted_wrt (<) ts \<Longrightarrow> \<forall>t\<in>set ts. 0 < t \<Longrightarrow> 0 < rl_window cfg \<Longrightarrow>
   limiter_run cfg ts zset_empty = map (\<lambda>i. (ts ! i,
     int (length (recent cfg (ts ! i) (take i ts))) < rl_requests cfg)) [0..<length ts]"
  using limiter_run_spec [of cfg "[]" 0 zset_empty ts]
  by (simp add: limiter_inv_def zset_empty_def recent_def)



section \<open>Properties of pagination\<close>

lemma clamp_limit_range: "1 \<le> clamp_limit l" "clamp_limit l \<le> 100"
  by (auto simp: clamp_limit_def DefaultLimit_def MaxLimit_def Let_def)

lemma Atoi_value_max: "Atoi_value s < 2 ^ 63"
  by (auto simp: Atoi_value_def clamp64_def Let_def split: list.splits)

lemma ParseOffset_range:
  "1 \<le> op_page (ParseOffset c)" "1 \<le> op_limit (ParseOffset c)" "op_limit (ParseOffset c) \<le> 100"
  "op_page (ParseOffset c) < 2 ^ 63"
  using Atoi_value_max [of "q_default c ''page'' ''1''"]
  by (simp_all add: ParseOffset_def Let_def clamp_limit_range)

lemma concat_chunks: "concat (map (\<lambda>i. take l (drop (i * l) xs)) [0..<k]) = take (k * l) xs"
  by (induction k) (auto simp: take_add add.commute [of l])

lemma Offset_exact:
  assumes "0 \<le> i" "0 < op_limit p" "op_page p = i + 1" "i * op_limit p < 2 ^ 62"
  shows "Offset p = i * op_limit p"
proof -
  have "i * 1 \<le> i * op_limit p" using assms(1,2) by (intro mult_left_mono) auto
  with assms have i: "i < 2 ^ 62" by simp
  have "0 \<le> i * op_limit p" using assms(1,2) by simp
  then have "wrap64 (i * op_limit p) = i * op_limit p" using assms(4) by (intro wrap64_id) auto
  then show ?thesis using assms(1,3) i by (simp add: Offset_def)
qed

lemma TotalPages_ceil:
  assumes "0 < op_limit p"
  shows "0 \<le> TotalPages p n" "int n \<le> TotalPages p n * op_limit p"
    "n \<noteq> 0 \<Longrightarrow> (TotalPages p n - 1) * op_limit p < int n"
proof -
  let ?L = "op_limit p"
  obtain q r where q: "int n div ?L = q" and r: "int n mod ?L = r" by blast
  have d: "int n = q * ?L + r" using q r by (metis div_mult_mod_eq)
  have m: "0 \<le> r" "r < ?L" "0 \<le> q" using assms q r by (auto simp: pos_imp_zdiv_nonneg_iff)
  have tp: "TotalPages p n = (if r > 0 then q + 1 else q)" using assms by (simp add: TotalPages_def q r)
  show "0 \<le> TotalPages p n" "int n \<le> TotalPages p n * ?L"
    using d m by (auto simp: tp distrib_right)
  show "(TotalPages p n - 1) * ?L < int n" if "n \<noteq> 0"
    using d m assms that by (auto simp: tp left_diff_distrib distrib_right)
qed

text \<open>Paging shows every row exactly once: for every limit a request can produce, the pages 1 to
  TotalPages, each cut out with its SQL offset and limit, are together the whole result in order, and
  no page before the last is short (fewer than 2^61 rows).\<close>

theorem pages_partition:
  assumes L: "op_limit p = op_limit (ParseOffset c)" and n: "int (length rows) < 2 ^ 61"
  shows "concat (map (\<lambda>i. take (nat (op_limit p)) (drop (nat (Offset (p\<lparr> op_page := int i + 1 \<rparr>))) rows))
      [0..<nat (TotalPages p (length rows))]) = rows \<and>
    (\<forall>i. int i + 1 < TotalPages p (length rows) \<longrightarrow>
       length (take (nat (op_limit p)) (drop (nat (Offset (p\<lparr> op_page := int i + 1 \<rparr>))) rows)) = nat (op_limit p))"
proof -
  let ?L = "op_limit p" and ?P = "TotalPages p (length rows)"
  have pos: "0 < ?L" "?L \<le> 100" using ParseOffset_range [of c] L by auto
  note tp = TotalPages_ceil [OF pos(1), of "length rows"]
  have off: "nat (Offset (p\<lparr> op_page := int i + 1 \<rparr>)) = i * nat ?L" if "int i < ?P" for i
  proof -
    have "length rows \<noteq> 0" using that pos by (auto simp: TotalPages_def Let_def)
    have "int i * ?L \<le> (?P - 1) * ?L" using that pos(1) by (intro mult_right_mono) auto
    with tp(3) \<open>length rows \<noteq> 0\<close> n have "int i * ?L < 2 ^ 62" by simp
    then have "Offset (p\<lparr> op_page := int i + 1 \<rparr>) = int i * ?L" using pos by (subst Offset_exact) auto
    then show ?thesis using pos(1) by (simp add: nat_mult_distrib)
  qed
  have "concat (map (\<lambda>i. take (nat ?L) (drop (nat (Offset (p\<lparr> op_page := int i + 1 \<rparr>))) rows)) [0..<nat ?P])
      = concat (map (\<lambda>i. take (nat ?L) (drop (i * nat ?L) rows)) [0..<nat ?P])"
    using off by (intro arg_cong [of _ _ concat] map_cong) auto
  also have "\<dots> = rows"
    unfolding concat_chunks using tp(1,2) pos(1) by (simp add: nat_mult_distrib [symmetric] nat_le_iff)
  moreover have "length (take (nat ?L) (drop (nat (Offset (p\<lparr> op_page := int i + 1 \<rparr>))) rows)) = nat ?L"
    if "int i + 1 < ?P" for i
  proof -
    have "length rows \<noteq> 0" using that pos by (auto simp: TotalPages_def Let_def)
    have "(int i + 1) * ?L \<le> (?P - 1) * ?L" using that pos(1) by (intro mult_right_mono) auto
    then have "(int i + 1) * ?L \<le> int (length rows)" using tp(3) \<open>length rows \<noteq> 0\<close> by linarith
    then have "nat ((int i + 1) * ?L) \<le> length rows" by (simp add: nat_le_iff)
    moreover have "nat ((int i + 1) * ?L) = Suc i * nat ?L" using pos(1)
      by (metis Suc_eq_plus1 int_ops(4) nat_int nat_mult_distrib of_nat_0_le_iff of_nat_Suc add.commute)
    ultimately have "Suc i * nat ?L \<le> length rows" by simp
    then show ?thesis using off [of i] that by simp
  qed
  ultimately show ?thesis by simp
qed

definition demo_request :: request where
  "demo_request = \<lparr> rq_header = (\<lambda>_. ''''), rq_query = [''limit'' \<mapsto> ''2''], rq_form = (\<lambda>_. ''''),
     rq_param = (\<lambda>_. ''''), rq_ip = ''10.0.0.1'', rq_ctx = Map.empty \<rparr>"

theorem pages_partition_witness:
  "concat (map (\<lambda>i. take (nat (op_limit \<lparr> op_page = 1, op_limit = 2 \<rparr>))
      (drop (nat (Offset (\<lparr> op_page = 1, op_limit = 2 \<rparr>\<lparr> op_page := int i + 1 \<rparr>))) ''abc''))
      [0..<nat (TotalPages \<lparr> op_page = 1, op_limit = 2 \<rparr> (length ''abc''))]) = ''abc''"
proof -
  have "op_limit \<lparr> op_page = 1, op_limit = 2 \<rparr> = op_limit (ParseOffset demo_request)" by code_simp
  moreover have "int (length ''abc'') < 2 ^ 61" by simp
  ultimately show ?thesis by (rule pages_partition [THEN conjunct1])
qed

end
