(* ===== verification/Redis_Store.thy ===== *)
theory Redis_Store
  imports Web
begin

text \<open>
  What the services use of Redis: string values with an expiry time, GET, SET with a TTL, SETNX,
  DEL, INCR and EXPIRE, with the decimal conversions of strconv. The server is not repository code:
  its commands are collected in a locale with the documented laws, and the store defined here is the
  instance on which the components run.
\<close>

section \<open>Decimal numbers\<close>

fun dec :: "nat \<Rightarrow> string" where
  "dec n = (if n < 10 then [char_of (48 + n)] else dec (n div 10) @ [char_of (48 + n mod 10)])"

declare dec.simps [simp del]

definition ParseUint :: "nat \<Rightarrow> string \<Rightarrow> nat option" where
  "ParseUint bits s =
    (if s = [] \<or> \<not> list_all is_digit s then None
     else let n = nat (digits_val s) in if n < 2 ^ bits then Some n else None)"

definition ParseInt64 :: "string \<Rightarrow> int option" where
  "ParseInt64 s =
    (let (neg, ds) = (case s of
         c # r \<Rightarrow> if c = CHR ''-'' then (True, r) else if c = CHR ''+'' then (False, r) else (False, s)
       | [] \<Rightarrow> (False, []))
     in if ds = [] \<or> \<not> list_all is_digit ds then None
        else let n = (if neg then - digits_val ds else digits_val ds) in
             if - (2 ^ 63) \<le> n \<and> n < 2 ^ 63 then Some n else None)"

lemma digit_char: "d < 10 \<Longrightarrow> is_digit (char_of (48 + d))" "d < 10 \<Longrightarrow> digit_val (char_of (48 + d)) = int d"
  for d :: nat
proof -
  assume "d < 10"
  then have "(of_char (char_of (48 + d) :: char) :: nat) = 48 + d" by simp
  then have "(of_char (char_of (48 + d) :: char) :: int) = int (48 + d)" by (metis of_nat_of_char)
  with \<open>d < 10\<close> show "is_digit (char_of (48 + d))" "digit_val (char_of (48 + d)) = int d"
    by (simp_all add: is_digit_def digit_val_def)
qed

lemma dec_all_digits: "list_all is_digit (dec n)"
proof (induction n rule: dec.induct)
  case (1 n)
  then show ?case by (cases "n < 10") (simp_all add: dec.simps [of n] digit_char)
qed

lemma dec_value: "digits_val (dec n) = int n"
proof (induction n rule: dec.induct)
  case (1 n)
  show ?case
  proof (cases "n < 10")
    case True
    then show ?thesis by (simp add: dec.simps [of n] digits_val_def digit_char)
  next
    case False
    then have "digits_val (dec n) = 10 * digits_val (dec (n div 10)) + int (n mod 10)"
      by (simp add: dec.simps [of n] digits_val_def digit_char)
    with False 1 show ?thesis by (simp flip: of_nat_add of_nat_mult add: zdiv_int zmod_int)
  qed
qed

lemma dec_nonempty: "dec n \<noteq> []"
  by (simp add: dec.simps [of n])

lemmas dec_digits = dec_all_digits dec_nonempty dec_value

lemma ParseUint_dec: "n < 2 ^ bits \<Longrightarrow> ParseUint bits (dec n) = Some n"
  by (simp add: ParseUint_def dec_digits)

lemma dec_no_sign: "\<exists>c r. dec n = c # r \<and> c \<noteq> CHR ''-'' \<and> c \<noteq> CHR ''+''"
proof -
  obtain c r where "dec n = c # r" using dec_digits(2) by (cases "dec n") auto
  moreover from this have "is_digit c" using dec_digits(1) [of n] by simp
  ultimately show ?thesis by (auto simp: is_digit_def)
qed

lemma ParseInt64_dec: "int n < 2 ^ 63 \<Longrightarrow> ParseInt64 (dec n) = Some (int n)"
  using dec_no_sign [of n] dec_digits [of n] by (auto simp: ParseInt64_def Let_def)

section \<open>The store\<close>

type_synonym redis = "string \<rightharpoonup> string \<times> instant option"

definition redis_get :: "instant \<Rightarrow> redis \<Rightarrow> string \<Rightarrow> string option" where
  "redis_get now db k = (case db k of
      None \<Rightarrow> None
    | Some (v, None) \<Rightarrow> Some v
    | Some (v, Some e) \<Rightarrow> if now < e then Some v else None)"

definition redis_set :: "instant \<Rightarrow> string \<Rightarrow> string \<Rightarrow> duration \<Rightarrow> redis \<Rightarrow> redis" where
  "redis_set now k v ttl db = db(k \<mapsto> (v, if ttl = 0 then None else Some (now + ttl)))"

definition redis_setnx :: "instant \<Rightarrow> string \<Rightarrow> string \<Rightarrow> duration \<Rightarrow> redis \<Rightarrow> redis" where
  "redis_setnx now k v ttl db = (if redis_get now db k = None then redis_set now k v ttl db else db)"

definition redis_del :: "string \<Rightarrow> redis \<Rightarrow> redis" where
  "redis_del k db = db(k := None)"

definition redis_expire :: "instant \<Rightarrow> string \<Rightarrow> duration \<Rightarrow> redis \<Rightarrow> redis" where
  "redis_expire now k ttl db = (case redis_get now db k of
      None \<Rightarrow> db(k := None) | Some v \<Rightarrow> db(k \<mapsto> (v, Some (now + ttl))))"

text \<open>INCR of a missing key starts from 0 and keeps the expiry of an existing one; a value that is not
  an integer, or would overflow, is an error (None).\<close>

definition redis_incr :: "instant \<Rightarrow> string \<Rightarrow> redis \<Rightarrow> (nat \<times> redis) option" where
  "redis_incr now k db = (case redis_get now db k of
      None \<Rightarrow> Some (1, db(k \<mapsto> (dec 1, None)))
    | Some v \<Rightarrow> (case ParseUint 63 v of
        Some n \<Rightarrow> if n + 1 < 2 ^ 63 then Some (n + 1, db(k \<mapsto> (dec (n + 1), snd (the (db k))))) else None
      | None \<Rightarrow> None))"

section \<open>The contract\<close>

locale ttl_store =
  fixes get :: "instant \<Rightarrow> 'db \<Rightarrow> string \<Rightarrow> string option"
    and put :: "instant \<Rightarrow> string \<Rightarrow> string \<Rightarrow> duration \<Rightarrow> 'db \<Rightarrow> 'db"
    and del :: "string \<Rightarrow> 'db \<Rightarrow> 'db"
  assumes get_put_live: "0 < ttl \<Longrightarrow> t < now + ttl \<Longrightarrow> get t (put now k v ttl db) k = Some v"
    and get_put_dead: "0 < ttl \<Longrightarrow> now + ttl \<le> t \<Longrightarrow> get t (put now k v ttl db) k = None"
    and get_put_other: "k' \<noteq> k \<Longrightarrow> get t (put now k v ttl db) k' = get t db k'"
    and get_del: "get t (del k db) k' = (if k' = k then None else get t db k')"
    and get_expires: "get t' db k = Some v \<Longrightarrow> t \<le> t' \<Longrightarrow> get t db k = Some v"
begin

lemma get_put: "0 < ttl \<Longrightarrow> get now (put now k v ttl db) k = Some v"
  by (rule get_put_live) auto

lemma get_put_Some:
  "0 < ttl \<Longrightarrow> get t (put now k v ttl db) k = Some w \<longleftrightarrow> w = v \<and> t < now + ttl"
  by (cases "t < now + ttl") (auto simp: get_put_live get_put_dead)

end

lemma redis_get_del: "redis_get t (redis_del k db) k' = (if k' = k then None else redis_get t db k')"
  by (simp add: redis_get_def redis_del_def)

interpretation rs: ttl_store redis_get redis_set redis_del
proof (unfold_locales, goal_cases)
  case (5 t' db k v t)
  then show ?case by (auto simp: redis_get_def split: option.splits if_splits prod.splits)
qed (auto simp: redis_get_def redis_set_def redis_del_def)

lemmas redis_get_simps = rs.get_put_other rs.get_put_Some rs.get_put redis_get_del

lemma redis_get_setnx_other: "k' \<noteq> k \<Longrightarrow> redis_get t (redis_setnx now k v ttl db) k' = redis_get t db k'"
  by (simp add: redis_setnx_def rs.get_put_other)

end
