(* ===== verification/Key_Cache.thy ===== *)
theory Key_Cache
  imports Redis_Store Ingest_Domain
begin

text \<open>
  How the ingestion service authenticates a device and tracks its schema: the Redis cache of API
  keys, the validator in front of it, the client of device-registry, and the schema acknowledgement
  store (infrastructure/redis/apikey_cache.go, schema_ack.go, apikey/validator.go,
  deviceregistry/client.go). \<open>io i\<close> says whether the i-th Redis round trip of a call succeeds; the
  json codec and the hash are arguments.
\<close>

section \<open>The API key cache\<close>

definition apiKeyCacheTTL :: duration where "apiKeyCacheTTL = 600 * second"

record cached_entry =
  ce_schema :: device_schema
  ce_version :: int

definition cacheKey :: "(string \<Rightarrow> string) \<Rightarrow> string \<Rightarrow> string \<Rightarrow> string" where
  "cacheKey sha256hex apiKey channelID = ''apikey:'' @ sha256hex (apiKey @ '':'' @ channelID)"

definition deviceVersionKey :: "string \<Rightarrow> string" where
  "deviceVersionKey deviceID = ''device_version:'' @ deviceID"

definition cache_Validate :: "(string \<Rightarrow> string) \<Rightarrow> (string \<Rightarrow> cached_entry option) \<Rightarrow> instant \<Rightarrow> (nat \<Rightarrow> bool)
    \<Rightarrow> redis \<Rightarrow> string \<Rightarrow> string \<Rightarrow> (ingest_err, device_schema) outcome" where
  "cache_Validate sha decode now io db apiKey channelID =
    (if \<not> io 0 then Fail ErrInfra else
     case redis_get now db (cacheKey sha apiKey channelID) of
       None \<Rightarrow> Fail ErrCacheMiss
     | Some val \<Rightarrow> (case decode val of
         None \<Rightarrow> Fail ErrCacheMiss
       | Some entry \<Rightarrow>
           if \<not> io 1 then Fail ErrCacheMiss else
           (case redis_get now db (deviceVersionKey (ds_device (ce_schema entry))) of
              None \<Rightarrow> Ok (ce_schema entry)
            | Some currentVersionStr \<Rightarrow> (case ParseInt64 currentVersionStr of
                None \<Rightarrow> Fail ErrCacheMiss
              | Some currentVersion \<Rightarrow>
                  if currentVersion \<noteq> ce_version entry then Fail ErrCacheMiss
                  else Ok (ce_schema entry)))))"

text \<open>The value strconv.ParseInt returns, its error dropped.\<close>

definition ParseInt64_value :: "string \<Rightarrow> int" where
  "ParseInt64_value s = Atoi_value s"

definition cache_Set :: "(string \<Rightarrow> string) \<Rightarrow> (cached_entry \<Rightarrow> string option) \<Rightarrow> instant \<Rightarrow> (nat \<Rightarrow> bool)
    \<Rightarrow> redis \<Rightarrow> string \<Rightarrow> string \<Rightarrow> device_schema \<Rightarrow> ingest_err option \<times> redis" where
  "cache_Set sha encode now io db apiKey channelID schema =
    (let version = (if \<not> io 0 then 0 else
           case redis_get now db (deviceVersionKey (ds_device schema)) of
             None \<Rightarrow> 0 | Some vStr \<Rightarrow> ParseInt64_value vStr)
     in case encode \<lparr> ce_schema = schema, ce_version = version \<rparr> of
          None \<Rightarrow> (Some ErrMarshal, db)
        | Some b \<Rightarrow> if \<not> io 1 then (Some ErrInfra, db)
            else (None, redis_set now (cacheKey sha apiKey channelID) b apiKeyCacheTTL db))"

definition cache_Delete :: "(string \<Rightarrow> string) \<Rightarrow> (nat \<Rightarrow> bool) \<Rightarrow> redis \<Rightarrow> string \<Rightarrow> string
    \<Rightarrow> ingest_err option \<times> redis" where
  "cache_Delete sha io db apiKey channelID =
    (if \<not> io 0 then (Some ErrInfra, db) else (None, redis_del (cacheKey sha apiKey channelID) db))"

section \<open>The validator\<close>

text \<open>The two interfaces of the validator, on a state of any type.\<close>

record 's key_backend =
  kb_validate :: "string \<Rightarrow> string \<Rightarrow> 's \<Rightarrow> (ingest_err, device_schema) outcome"
  kb_set :: "string \<Rightarrow> string \<Rightarrow> device_schema \<Rightarrow> 's \<Rightarrow> ingest_err option \<times> 's"
  kb_store :: "string \<Rightarrow> string \<Rightarrow> 's \<Rightarrow> (ingest_err, device_schema) outcome"

definition Validator_Validate :: "'s key_backend \<Rightarrow> string \<Rightarrow> string \<Rightarrow> 's
    \<Rightarrow> (ingest_err, device_schema) outcome \<times> 's" where
  "Validator_Validate kb apiKey channelID s =
    (case kb_validate kb apiKey channelID s of
       Ok schema \<Rightarrow> (Ok schema, s)
     | Panic \<Rightarrow> (Panic, s)
     | Fail _ \<Rightarrow> (case kb_store kb apiKey channelID s of
           Fail e \<Rightarrow> (Fail e, s)
         | Panic \<Rightarrow> (Panic, s)
         | Ok schema \<Rightarrow> (Ok schema, snd (kb_set kb apiKey channelID schema s))))"

section \<open>The device-registry client\<close>

text \<open>The HTTP exchange is an argument: None is a transport failure, otherwise a status and the
  decoded envelope (None when the body does not decode).\<close>

record registry_body =
  rb_device :: string
  rb_channel :: string
  rb_fields :: "field_entry list"
  rb_version :: "32 word"

type_synonym exchange = "(nat \<times> registry_body option) option"

definition ResolveChannelByAPIKey :: "(string \<Rightarrow> exchange) \<Rightarrow> string \<Rightarrow> (ingest_err, device_schema) outcome" where
  "ResolveChannelByAPIKey http apiKey =
    (case http apiKey of
       None \<Rightarrow> Fail ErrInfra
     | Some (status, body) \<Rightarrow>
         if status = 401 then Fail ErrDeviceNotFound
         else if status \<noteq> 200 then Fail ErrInfra
         else (case body of
             None \<Rightarrow> Fail ErrInfra
           | Some r \<Rightarrow>
               if rb_device r = '''' then Fail ErrInfra
               else if rb_channel r = '''' then Fail ErrInfra
               else Ok \<lparr> ds_device = rb_device r, ds_channel = rb_channel r,
                         ds_fields = rb_fields r, ds_version = rb_version r \<rparr>))"

definition GetByAPIKey :: "(string \<Rightarrow> string \<Rightarrow> exchange) \<Rightarrow> string \<Rightarrow> string \<Rightarrow> (ingest_err, device_schema) outcome" where
  "GetByAPIKey http apiKey channelID =
    (case http apiKey channelID of
       None \<Rightarrow> Fail ErrInfra
     | Some (status, body) \<Rightarrow>
         if status = 401 then Fail ErrDeviceNotFound
         else if status \<noteq> 200 then Fail ErrInfra
         else (case body of
             None \<Rightarrow> Fail ErrInfra
           | Some r \<Rightarrow>
               if rb_device r = '''' then Fail ErrInfra
               else Ok \<lparr> ds_device = rb_device r, ds_channel = channelID,
                         ds_fields = rb_fields r, ds_version = rb_version r \<rparr>))"

section \<open>Schema acknowledgements\<close>

definition schemaACKTTL :: duration where "schemaACKTTL = 30 * 24 * hour"
definition schemaActiveTTL :: duration where "schemaActiveTTL = 7 * 24 * hour"
definition schemaStuckTTL :: duration where "schemaStuckTTL = 48 * hour"

definition schemaACKKey :: "string \<Rightarrow> string \<Rightarrow> string" where
  "schemaACKKey ch dev = ''schema_ack:'' @ ch @ '':'' @ dev"

definition schemaActiveKey :: "string \<Rightarrow> string \<Rightarrow> string" where
  "schemaActiveKey ch dev = ''schema_active:'' @ ch @ '':'' @ dev"

definition schemaForceDeprecatedKey :: "string \<Rightarrow> string" where
  "schemaForceDeprecatedKey ch = ''schema_force_deprecated:'' @ ch"

definition schemaStuckKey :: "string \<Rightarrow> string \<Rightarrow> string" where
  "schemaStuckKey ch dev = ''schema_stuck:'' @ ch @ '':'' @ dev"

definition unix_string :: "instant \<Rightarrow> string" where
  "unix_string now = dec (nat (now div second))"

text \<open>\<open>io 0\<close> is the GET, \<open>io 1\<close> the SET or the pipeline that follows it.\<close>

definition RecordACK :: "instant \<Rightarrow> (nat \<Rightarrow> bool) \<Rightarrow> string \<Rightarrow> string \<Rightarrow> 32 word \<Rightarrow> redis
    \<Rightarrow> ingest_err option \<times> redis" where
  "RecordACK now io ch dev version db =
    (let ackKey = schemaACKKey ch dev; activeKey = schemaActiveKey ch dev in
     if \<not> io 0 then (Some ErrInfra, db) else
     let newer = (case redis_get now db ackKey of
           None \<Rightarrow> True
         | Some s \<Rightarrow> (case ParseUint 32 s of
             None \<Rightarrow> True
           | Some current \<Rightarrow> \<not> (word_of_nat current \<ge> version)))
     in if \<not> io 1 then (Some ErrInfra, db)
        else if newer then
          (None, redis_set now activeKey (unix_string now) schemaActiveTTL
             (redis_set now ackKey (dec (unat version)) schemaACKTTL db))
        else (None, redis_set now activeKey (unix_string now) schemaActiveTTL db))"

definition ACKedVersion :: "instant \<Rightarrow> (nat \<Rightarrow> bool) \<Rightarrow> redis \<Rightarrow> string \<Rightarrow> string
    \<Rightarrow> (ingest_err, 32 word) outcome" where
  "ACKedVersion now io db ch dev =
    (if \<not> io 0 then Fail ErrInfra else
     case redis_get now db (schemaACKKey ch dev) of
       None \<Rightarrow> Ok 0
     | Some s \<Rightarrow> (case ParseUint 32 s of None \<Rightarrow> Fail ErrInfra | Some n \<Rightarrow> Ok (word_of_nat n)))"

text \<open>SCAN yields the matching keys in pages; the loop ends with the page whose cursor is 0. \<open>pages\<close>
  is the list of pages of the run (a key may occur more than once), None a failed call.\<close>

fun scanCount :: "string list option list \<Rightarrow> nat \<Rightarrow> (ingest_err, nat) outcome" where
  "scanCount [] count = Ok count"
| "scanCount (None # pages) count = Fail ErrInfra"
| "scanCount (Some keys # pages) count = scanCount pages (count + length keys)"

definition ActiveDeviceCount :: "(string \<Rightarrow> string list option list) \<Rightarrow> string \<Rightarrow> (ingest_err, nat) outcome" where
  "ActiveDeviceCount scan ch = scanCount (scan (''schema_active:'' @ ch @ '':*'')) 0"

fun count_acked :: "instant \<Rightarrow> (string \<Rightarrow> bool) \<Rightarrow> redis \<Rightarrow> 32 word \<Rightarrow> string list \<Rightarrow> nat \<Rightarrow> (ingest_err, nat) outcome" where
  "count_acked now io db version [] count = Ok count"
| "count_acked now io db version (k # ks) count =
    (if \<not> io k then Fail ErrInfra else
     case redis_get now db k of
       None \<Rightarrow> count_acked now io db version ks count
     | Some val \<Rightarrow> (case ParseUint 32 val of
         None \<Rightarrow> count_acked now io db version ks count
       | Some v \<Rightarrow> count_acked now io db version ks
           (if word_of_nat v \<ge> version then count + 1 else count)))"

fun ack_pages :: "instant \<Rightarrow> (string \<Rightarrow> bool) \<Rightarrow> redis \<Rightarrow> 32 word \<Rightarrow> string list option list \<Rightarrow> nat
    \<Rightarrow> (ingest_err, nat) outcome" where
  "ack_pages now io db version [] count = Ok count"
| "ack_pages now io db version (None # pages) count = Fail ErrInfra"
| "ack_pages now io db version (Some keys # pages) count =
    bind_o (count_acked now io db version keys count) (ack_pages now io db version pages)"

definition ACKedDeviceCount :: "instant \<Rightarrow> (string \<Rightarrow> bool) \<Rightarrow> (string \<Rightarrow> string list option list) \<Rightarrow> redis
    \<Rightarrow> string \<Rightarrow> 32 word \<Rightarrow> (ingest_err, nat) outcome" where
  "ACKedDeviceCount now io scan db ch version =
    ack_pages now io db version (scan (''schema_ack:'' @ ch @ '':*'')) 0"

definition IsForceDeprecated :: "instant \<Rightarrow> (nat \<Rightarrow> bool) \<Rightarrow> redis \<Rightarrow> string \<Rightarrow> (ingest_err, bool) outcome" where
  "IsForceDeprecated now io db ch =
    (if \<not> io 0 then Fail ErrInfra
     else Ok (redis_get now db (schemaForceDeprecatedKey ch) \<noteq> None))"

definition SetStuck :: "instant \<Rightarrow> (nat \<Rightarrow> bool) \<Rightarrow> string \<Rightarrow> string \<Rightarrow> redis \<Rightarrow> ingest_err option \<times> redis" where
  "SetStuck now io ch dev db =
    (if \<not> io 0 then (Some ErrInfra, db)
     else (None, redis_setnx now (schemaStuckKey ch dev) ''1'' schemaStuckTTL db))"

section \<open>What device-registry writes to the same Redis\<close>

definition deviceVersionTTL :: duration where "deviceVersionTTL = 24 * hour"

text \<open>The pipeline of IncrDeviceVersion; a failed pipeline is taken to have changed nothing.\<close>

definition IncrDeviceVersion :: "instant \<Rightarrow> (nat \<Rightarrow> bool) \<Rightarrow> string \<Rightarrow> redis \<Rightarrow> bool \<times> redis" where
  "IncrDeviceVersion now io deviceID db =
    (if \<not> io 0 then (False, db) else
     case redis_incr now (''device_version:'' @ deviceID) db of
       None \<Rightarrow> (False, redis_expire now (''device_version:'' @ deviceID) deviceVersionTTL db)
     | Some (_, db') \<Rightarrow> (True, redis_expire now (''device_version:'' @ deviceID) deviceVersionTTL db'))"

definition forceDeprecatedTTL :: duration where "forceDeprecatedTTL = 48 * hour"

definition SetForceDeprecated :: "instant \<Rightarrow> (nat \<Rightarrow> bool) \<Rightarrow> string \<Rightarrow> redis \<Rightarrow> bool \<times> redis" where
  "SetForceDeprecated now io ch db =
    (if \<not> io 0 then (False, db)
     else (True, redis_set now (''schema_force_deprecated:'' @ ch) (unix_string now) forceDeprecatedTTL db))"

definition registry_IsForceDeprecated :: "instant \<Rightarrow> (nat \<Rightarrow> bool) \<Rightarrow> redis \<Rightarrow> string \<Rightarrow> bool option" where
  "registry_IsForceDeprecated now io db ch =
    (if \<not> io 0 then None else Some (redis_get now db (''schema_force_deprecated:'' @ ch) \<noteq> None))"

section \<open>Version counters\<close>

lemma cacheKey_neq_version: "cacheKey sha a c \<noteq> deviceVersionKey d"
  by (simp add: cacheKey_def deviceVersionKey_def)

lemma ParseUint_digits:
  "ParseUint bits v = Some n \<Longrightarrow> v \<noteq> [] \<and> list_all is_digit v \<and> digits_val v = int n \<and> n < 2 ^ bits"
proof -
  have "0 \<le> foldl (\<lambda>n c. 10 * n + digit_val c) a s" if "0 \<le> a" "list_all is_digit s" for a s
    using that by (induction s arbitrary: a) (auto simp: is_digit_def digit_val_def)
  then have "list_all is_digit v \<Longrightarrow> 0 \<le> digits_val v" by (simp add: digits_val_def)
  then show "ParseUint bits v = Some n \<Longrightarrow> v \<noteq> [] \<and> list_all is_digit v \<and> digits_val v = int n \<and> n < 2 ^ bits"
    by (auto simp: ParseUint_def Let_def split: if_splits)
qed

lemma digits_no_sign: "v \<noteq> [] \<Longrightarrow> list_all is_digit v \<Longrightarrow> \<exists>c r. v = c # r \<and> c \<noteq> CHR ''-'' \<and> c \<noteq> CHR ''+''"
  by (cases v) (auto simp: is_digit_def)

lemma ParseInt64_of_Uint: "ParseUint 63 v = Some n \<Longrightarrow> ParseInt64 v = Some (int n)"
  by (drule ParseUint_digits, elim conjE, drule (1) digits_no_sign) (auto simp: ParseInt64_def Let_def)

lemma ParseInt64_value_of_Uint: "ParseUint 63 v = Some n \<Longrightarrow> ParseInt64_value v = int n"
  by (drule ParseUint_digits, elim conjE, frule (1) digits_no_sign)
    (auto simp: ParseInt64_value_def Atoi_value_def clamp64_def Let_def)

lemma incr_get:
  assumes "redis_incr now k db = Some (n, db')"
  shows "redis_get now db' k = Some (dec n)" "0 < n" "n < 2 ^ 63"
    "redis_get now db k = None \<Longrightarrow> n = 1"
    "redis_get now db k = Some v \<Longrightarrow> ParseUint 63 v = Some (n - 1)"
    "k' \<noteq> k \<Longrightarrow> redis_get t db' k' = redis_get t db k'"
  using assms
  by (auto simp: redis_incr_def redis_get_def split: option.splits if_splits prod.splits)

lemma expire_get:
  assumes "redis_get now db k = Some v" "0 < ttl"
  shows "t < now + ttl \<Longrightarrow> redis_get t (redis_expire now k ttl db) k = Some v"
    "now + ttl \<le> t \<Longrightarrow> redis_get t (redis_expire now k ttl db) k = None"
  using assms by (auto simp: redis_expire_def redis_get_def)

lemma expire_other: "k' \<noteq> k \<Longrightarrow> redis_get t (redis_expire now k ttl db) k' = redis_get t db k'"
  by (simp add: redis_expire_def redis_get_def split: option.splits)

lemma IncrDeviceVersion_counter:
  assumes "IncrDeviceVersion now io d db = (True, db')"
  shows "\<exists>n. (redis_get now db (deviceVersionKey d) = None \<and> n = 1 \<or>
        (\<exists>v. redis_get now db (deviceVersionKey d) = Some v \<and> ParseUint 63 v = Some (n - 1) \<and> 0 < n)) \<and> n < 2 ^ 63 \<and>
      (\<forall>t<now + deviceVersionTTL. redis_get t db' (deviceVersionKey d) = Some (dec n))"
    "k \<noteq> deviceVersionKey d \<Longrightarrow> redis_get t db' k = redis_get t db k"
proof -
  let ?k = "deviceVersionKey d"
  have "?k = ''device_version:'' @ d" by (simp add: deviceVersionKey_def)
  with assms obtain n db1 where incr: "redis_incr now ?k db = Some (n, db1)"
    and db': "db' = redis_expire now ?k deviceVersionTTL db1"
    by (auto simp: IncrDeviceVersion_def split: if_splits option.splits prod.splits)
  have "redis_get t db' ?k = Some (dec n)" if "t < now + deviceVersionTTL" for t
    unfolding db' using incr_get(1) [OF incr] that
    by (intro expire_get(1)) (simp_all add: deviceVersionTTL_def hour_def second_def)
  moreover have "redis_get now db ?k = None \<and> n = 1 \<or>
      (\<exists>v. redis_get now db ?k = Some v \<and> ParseUint 63 v = Some (n - 1) \<and> 0 < n)"
    using incr_get(2,4,5) [OF incr] by (cases "redis_get now db ?k") auto
  ultimately show "\<exists>n. (redis_get now db ?k = None \<and> n = 1 \<or>
        (\<exists>v. redis_get now db ?k = Some v \<and> ParseUint 63 v = Some (n - 1) \<and> 0 < n)) \<and> n < 2 ^ 63 \<and>
      (\<forall>t<now + deviceVersionTTL. redis_get t db' ?k = Some (dec n))"
    using incr_get(3) [OF incr] by blast
  show "redis_get t db' k = redis_get t db k" if "k \<noteq> ?k" using that incr_get(6) [OF incr] by (simp add: db' expire_other)
qed

lemma cache_Set_effect:
  assumes "cache_Set sha encode t0 (\<lambda>_. True) db apiKey ch schema = (None, db1)"
    and codec: "\<And>e b. encode e = Some b \<Longrightarrow> decode b = Some e"
  shows "\<exists>b. decode b = Some \<lparr> ce_schema = schema, ce_version =
        (case redis_get t0 db (deviceVersionKey (ds_device schema)) of None \<Rightarrow> 0 | Some v \<Rightarrow> ParseInt64_value v) \<rparr> \<and>
      db1 = redis_set t0 (cacheKey sha apiKey ch) b apiKeyCacheTTL db"
  using assms(1) codec by (auto simp: cache_Set_def Let_def split: option.splits)

text \<open>C1. Rotating a device's key revokes what ingestion has cached for it: if an entry was cached at
  t0 and device-registry bumps the device's version at t1, then from t1 on, for ever, the cache never
  answers with that entry, provided the counter the entry recorded did not expire in between (it was
  absent at t0, or is still there at t1).\<close>

theorem rotation_revokes_cached_key:
  assumes codec: "\<And>e b. encode e = Some b \<Longrightarrow> decode b = Some e"
    and set: "cache_Set sha encode t0 (\<lambda>_. True) db apiKey ch schema = (None, db1)"
    and incr: "IncrDeviceVersion t1 io (ds_device schema) db1 = (True, db2)"
    and times: "t0 \<le> t1" "t1 \<le> t2"
    and live: "redis_get t0 db (deviceVersionKey (ds_device schema)) = None \<or>
      redis_get t1 db (deviceVersionKey (ds_device schema)) \<noteq> None"
  shows "cache_Validate sha decode t2 (\<lambda>_. True) db2 apiKey ch = Fail ErrCacheMiss"
proof -
  let ?C = "deviceVersionKey (ds_device schema)" and ?K = "cacheKey sha apiKey ch"
  obtain b where b: "decode b = Some \<lparr> ce_schema = schema, ce_version =
        (case redis_get t0 db ?C of None \<Rightarrow> 0 | Some v \<Rightarrow> ParseInt64_value v) \<rparr>"
    and db1: "db1 = redis_set t0 ?K b apiKeyCacheTTL db"
    using cache_Set_effect [OF set, of decode] codec by blast
  have C: "redis_get t db1 ?C = redis_get t db ?C" for t
    unfolding db1 by (rule rs.get_put_other) (rule cacheKey_neq_version [symmetric])
  have K: "redis_get t2 db2 ?K = (if t2 < t0 + apiKeyCacheTTL then Some b else None)"
    using IncrDeviceVersion_counter(2) [OF incr cacheKey_neq_version]
    by (simp add: db1 rs.get_put_live rs.get_put_dead apiKeyCacheTTL_def second_def)
  obtain n where n: "redis_get t1 db1 ?C = None \<and> n = 1 \<or>
        (\<exists>v. redis_get t1 db1 ?C = Some v \<and> ParseUint 63 v = Some (n - 1) \<and> 0 < n)" "n < 2 ^ 63"
      "\<forall>t<t1 + deviceVersionTTL. redis_get t db2 ?C = Some (dec n)"
    using IncrDeviceVersion_counter(1) [OF incr] by blast
  show ?thesis
  proof (cases "t2 < t0 + apiKeyCacheTTL")
    case False
    then show ?thesis by (simp add: cache_Validate_def K)
  next
    case True
    then have "t2 < t1 + deviceVersionTTL"
      using times by (simp add: apiKeyCacheTTL_def deviceVersionTTL_def second_def hour_def)
    then have cur: "redis_get t2 db2 ?C = Some (dec n)" "ParseInt64 (dec n) = Some (int n)"
      using n(2,3) by (auto simp: ParseInt64_dec)
    have "int n \<noteq> (case redis_get t0 db ?C of None \<Rightarrow> 0 | Some v \<Rightarrow> ParseInt64_value v)"
    proof (cases "redis_get t1 db ?C")
      case None
      then show ?thesis using live n(1) C by auto
    next
      case (Some v)
      then have "redis_get t0 db ?C = Some v" using times(1) rs.get_expires by blast
      then show ?thesis using Some n(1) C by (auto simp: ParseInt64_value_of_Uint)
    qed
    with b cur True K show ?thesis by (simp add: cache_Validate_def)
  qed
qed

text \<open>A codec for one entry, and a schema, for the witnesses.\<close>

definition demo_schema :: device_schema where
  "demo_schema = \<lparr> ds_device = ''dev1'', ds_channel = ''ch1'', ds_fields = [], ds_version = 2 \<rparr>"

definition demo_encode :: "int \<Rightarrow> cached_entry \<Rightarrow> string option" where
  "demo_encode n e = (if e = \<lparr> ce_schema = demo_schema, ce_version = n \<rparr> then Some ''x'' else None)"

definition demo_decode :: "int \<Rightarrow> string \<Rightarrow> cached_entry option" where
  "demo_decode n s = (if s = ''x'' then Some \<lparr> ce_schema = demo_schema, ce_version = n \<rparr> else None)"

lemma demo_codec: "demo_encode n e = Some b \<Longrightarrow> demo_decode n b = Some e"
  by (auto simp: demo_encode_def demo_decode_def split: if_splits)

theorem rotation_revokes_cached_key_witness:
  "\<exists>db1 db2. cache_Set (\<lambda>s. s) (demo_encode 0) 0 (\<lambda>_. True) Map.empty ''k'' ''ch1'' demo_schema = (None, db1) \<and>
     IncrDeviceVersion 10 (\<lambda>_. True) ''dev1'' db1 = (True, db2) \<and>
     cache_Validate (\<lambda>s. s) (demo_decode 0) 20 (\<lambda>_. True) db2 ''k'' ''ch1'' = Fail ErrCacheMiss"
proof -
  obtain db1 where 1: "cache_Set (\<lambda>s. s) (demo_encode 0) 0 (\<lambda>_. True) Map.empty ''k'' ''ch1'' demo_schema = (None, db1)"
    by (simp add: cache_Set_def redis_get_def demo_encode_def)
  then have "redis_get 10 db1 (''device_version:'' @ ''dev1'') = None"
    by (auto simp: cache_Set_def redis_get_def demo_encode_def redis_set_def cacheKey_def)
  then obtain db2 where 2: "IncrDeviceVersion 10 (\<lambda>_. True) (ds_device demo_schema) db1 = (True, db2)"
    by (simp add: IncrDeviceVersion_def redis_incr_def demo_schema_def)
  have "cache_Validate (\<lambda>s. s) (demo_decode 0) 20 (\<lambda>_. True) db2 ''k'' ''ch1'' = Fail ErrCacheMiss"
    by (rule rotation_revokes_cached_key [OF demo_codec 1 2]) (simp_all add: redis_get_def)
  with 1 2 show ?thesis by (auto simp: demo_schema_def)
qed

text \<open>The proviso is needed, although the comment on the counter's TTL says expiry does not affect
  correctness: when the counter stood at 1, was recorded with the entry, and expired before the
  rotation, the rotation counts from 0 to 1 again and the revoked key is accepted for as long as the
  cached entry lives (up to ten minutes).\<close>

theorem rotation_missed_after_counter_expiry:
  assumes codec: "\<And>e b. encode e = Some b \<Longrightarrow> decode b = Some e"
    and set: "cache_Set sha encode t0 (\<lambda>_. True) db apiKey ch schema = (None, db1)"
    and at1: "redis_get t0 db (deviceVersionKey (ds_device schema)) = Some (dec 1)"
    and gone: "redis_get t1 db (deviceVersionKey (ds_device schema)) = None"
    and incr: "IncrDeviceVersion t1 io (ds_device schema) db1 = (True, db2)"
    and times: "t0 \<le> t1" "t1 \<le> t2" "t2 < t0 + apiKeyCacheTTL"
  shows "cache_Validate sha decode t2 (\<lambda>_. True) db2 apiKey ch = Ok schema"
proof -
  let ?C = "deviceVersionKey (ds_device schema)" and ?K = "cacheKey sha apiKey ch"
  have "ParseInt64_value (dec 1) = 1"
    using ParseInt64_value_of_Uint [of "dec 1" 1] ParseUint_dec [of 1 63] by simp
  then obtain b where b: "decode b = Some \<lparr> ce_schema = schema, ce_version = 1 \<rparr>"
    and db1: "db1 = redis_set t0 ?K b apiKeyCacheTTL db"
    using cache_Set_effect [OF set, of decode] codec at1 by auto
  have "redis_get t1 db1 ?C = None"
    unfolding db1 using gone rs.get_put_other [of ?C ?K] cacheKey_neq_version [of sha apiKey ch "ds_device schema"]
    by (metis (no_types))
  then have cur: "redis_get t2 db2 ?C = Some (dec 1)"
    using IncrDeviceVersion_counter(1) [OF incr] times
    by (auto simp: apiKeyCacheTTL_def deviceVersionTTL_def second_def hour_def)
  have "redis_get t2 db2 ?K = Some b"
    using IncrDeviceVersion_counter(2) [OF incr cacheKey_neq_version] times(3)
    by (simp add: db1 rs.get_put_live apiKeyCacheTTL_def second_def)
  with b cur show ?thesis by (simp add: cache_Validate_def ParseInt64_dec)
qed

theorem rotation_missed_after_counter_expiry_witness:
  "\<exists>db1 db2. cache_Set (\<lambda>s. s) (demo_encode 1) 0 (\<lambda>_. True)
       [deviceVersionKey ''dev1'' \<mapsto> (dec 1, Some 5)] ''k'' ''ch1'' demo_schema = (None, db1) \<and>
     IncrDeviceVersion 10 (\<lambda>_. True) ''dev1'' db1 = (True, db2) \<and>
     cache_Validate (\<lambda>s. s) (demo_decode 1) 20 (\<lambda>_. True) db2 ''k'' ''ch1'' = Ok demo_schema"
proof -
  let ?db = "[deviceVersionKey ''dev1'' \<mapsto> (dec 1, Some 5)] :: redis"
  have v: "ParseInt64_value (dec 1) = 1"
    using ParseInt64_value_of_Uint [of "dec 1" 1] ParseUint_dec [of 1 63] by simp
  have dev: "ds_device demo_schema = ''dev1''" by (simp add: demo_schema_def)
  obtain db1 where 1: "cache_Set (\<lambda>s. s) (demo_encode 1) 0 (\<lambda>_. True) ?db ''k'' ''ch1'' demo_schema = (None, db1)"
    by (simp add: cache_Set_def redis_get_def demo_encode_def dev v [unfolded One_nat_def])
  then have "redis_get 10 db1 (''device_version:'' @ ''dev1'') = None"
    by (auto simp: cache_Set_def redis_get_def demo_encode_def redis_set_def cacheKey_def deviceVersionKey_def dev v [unfolded One_nat_def])
  then obtain db2 where 2: "IncrDeviceVersion 10 (\<lambda>_. True) (ds_device demo_schema) db1 = (True, db2)"
    by (simp add: IncrDeviceVersion_def redis_incr_def dev)
  have "cache_Validate (\<lambda>s. s) (demo_decode 1) 20 (\<lambda>_. True) db2 ''k'' ''ch1'' = Ok demo_schema"
    by (rule rotation_missed_after_counter_expiry [OF demo_codec 1 _ _ 2])
      (simp_all add: redis_get_def dev apiKeyCacheTTL_def second_def)
  with 1 2 show ?thesis by (auto simp: dev)
qed

section \<open>Acknowledged versions\<close>

lemma ack_keys [simp]:
  "schemaActiveKey ch dev \<noteq> schemaACKKey ch' dev'" "schemaACKKey ch dev \<noteq> schemaActiveKey ch' dev'"
  "schemaStuckKey ch dev \<noteq> schemaACKKey ch' dev'" "schemaForceDeprecatedKey ch \<noteq> schemaStuckKey ch' dev'"
  by (simp_all add: schemaActiveKey_def schemaACKKey_def schemaStuckKey_def schemaForceDeprecatedKey_def)

lemma schemaTTL_pos [simp]: "0 < schemaACKTTL" "0 < schemaActiveTTL" "0 < schemaStuckTTL"
  by (simp_all add: schemaACKTTL_def schemaActiveTTL_def schemaStuckTTL_def hour_def second_def)

definition acked_or_zero :: "instant \<Rightarrow> redis \<Rightarrow> string \<Rightarrow> string \<Rightarrow> 32 word" where
  "acked_or_zero now db ch dev = (case ACKedVersion now (\<lambda>_. True) db ch dev of Ok v \<Rightarrow> v | _ \<Rightarrow> 0)"

lemma ParseUint_dec_word: "ParseUint 32 (dec (unat (v :: 32 word))) = Some (unat v)"
  using ParseUint_dec [of "unat v" 32] unsigned_less [of v, where ?'a = nat] by simp

text \<open>A device's acknowledged schema version never goes down: when RecordACK succeeds the version
  read back is the larger of the one before (0 when there was none, or it was unreadable) and the new
  one, and the device counts as active; when it fails nothing was written.\<close>

theorem RecordACK_max:
  "(case RecordACK now io ch dev version db of
      (None, db') \<Rightarrow> ACKedVersion now (\<lambda>_. True) db' ch dev = Ok (max (acked_or_zero now db ch dev) version) \<and>
        redis_get now db' (schemaActiveKey ch dev) = Some (unix_string now)
    | (Some e, db') \<Rightarrow> db' = db)"
proof (cases "redis_get now db (schemaACKKey ch dev)")
  case None
  then show ?thesis
    by (simp add: RecordACK_def ACKedVersion_def acked_or_zero_def Let_def rs.get_put rs.get_put_other ParseUint_dec_word)
next
  case (Some s)
  show ?thesis
  proof (cases "ParseUint 32 s")
    case None
    with Some show ?thesis
      by (simp add: RecordACK_def ACKedVersion_def acked_or_zero_def Let_def rs.get_put rs.get_put_other ParseUint_dec_word)
  next
    case (Some n)
    with \<open>redis_get now db (schemaACKKey ch dev) = Some s\<close> show ?thesis
      by (cases "version \<le> word_of_nat n")
        (simp_all add: RecordACK_def ACKedVersion_def acked_or_zero_def Let_def rs.get_put rs.get_put_other
          ParseUint_dec_word max_absorb1 max_absorb2 not_le less_imp_le)
  qed
qed

section \<open>The validator over any cache and store\<close>

text \<open>The contract of the cache: what was set is what the next lookup answers, as long as the state is
  well formed (for Redis: the version counter is a number).\<close>

locale key_cache =
  fixes kb :: "'s key_backend" and wf :: "string \<Rightarrow> 's \<Rightarrow> bool"
  assumes set_validate: "kb_set kb k c schema s = (None, s') \<Longrightarrow> wf (ds_device schema) s \<Longrightarrow>
      kb_validate kb k c s' = Ok schema"
begin

lemma Validate_sound:
  "Validator_Validate kb k c s = (Ok schema, s') \<Longrightarrow>
   kb_validate kb k c s = Ok schema \<or> kb_store kb k c s = Ok schema"
  by (auto simp: Validator_Validate_def split: outcome.splits)

lemma Validate_then_hit:
  assumes "kb_store kb k c s = Ok schema" "kb_validate kb k c s = Fail e"
    and "kb_set kb k c schema s = (None, s')" "wf (ds_device schema) s"
  shows "Validator_Validate kb k c s = (Ok schema, s')" "Validator_Validate kb k c s' = (Ok schema, s')"
  using assms set_validate by (auto simp: Validator_Validate_def)

end

definition redis_key_backend :: "(string \<Rightarrow> string) \<Rightarrow> (cached_entry \<Rightarrow> string option) \<Rightarrow> (string \<Rightarrow> cached_entry option)
    \<Rightarrow> (string \<Rightarrow> string \<Rightarrow> exchange) \<Rightarrow> instant \<Rightarrow> redis key_backend" where
  "redis_key_backend sha encode decode http now =
    \<lparr> kb_validate = (\<lambda>k c db. cache_Validate sha decode now (\<lambda>_. True) db k c),
      kb_set = (\<lambda>k c schema db. cache_Set sha encode now (\<lambda>_. True) db k c schema),
      kb_store = (\<lambda>k c db. GetByAPIKey http k c) \<rparr>"

definition counter_wf :: "instant \<Rightarrow> string \<Rightarrow> redis \<Rightarrow> bool" where
  "counter_wf now d db = (case redis_get now db (deviceVersionKey d) of
      None \<Rightarrow> True | Some v \<Rightarrow> ParseUint 63 v \<noteq> None)"

lemma cache_Set_Validate:
  assumes codec: "\<And>e b. encode e = Some b \<Longrightarrow> decode b = Some e"
    and set: "cache_Set sha encode now (\<lambda>_. True) db k c schema = (None, db')"
    and wf: "counter_wf now (ds_device schema) db"
  shows "cache_Validate sha decode now (\<lambda>_. True) db' k c = Ok schema"
proof -
  obtain b where b: "decode b = Some \<lparr> ce_schema = schema, ce_version =
        (case redis_get now db (deviceVersionKey (ds_device schema)) of None \<Rightarrow> 0 | Some v \<Rightarrow> ParseInt64_value v) \<rparr>"
    and db': "db' = redis_set now (cacheKey sha k c) b apiKeyCacheTTL db"
    using cache_Set_effect [OF set, of decode] codec by blast
  have "0 < apiKeyCacheTTL" by (simp add: apiKeyCacheTTL_def second_def)
  with b wf show ?thesis
    by (auto simp: cache_Validate_def db' rs.get_put rs.get_put_other cacheKey_neq_version [symmetric]
        counter_wf_def ParseInt64_of_Uint ParseInt64_value_of_Uint split: option.splits)
qed

text \<open>The json codec of cache entries: decoding inverts encoding.\<close>

definition codec_ok :: "(cached_entry \<Rightarrow> string option) \<Rightarrow> (string \<Rightarrow> cached_entry option) \<Rightarrow> bool" where
  "codec_ok encode decode \<longleftrightarrow> (\<forall>e b. encode e = Some b \<longrightarrow> decode b = Some e)"

interpretation keys: key_cache "redis_key_backend sha encode decode http now"
    "\<lambda>d db. codec_ok encode decode \<and> counter_wf now d db"
  for sha encode decode http now
proof (unfold_locales, goal_cases)
  case (1 k c schema s s')
  then have "cache_Set sha encode now (\<lambda>_. True) s k c schema = (None, s')"
    by (simp add: redis_key_backend_def)
  with 1(2) cache_Set_Validate [of encode decode sha now s k c schema s'] show ?case
    by (simp add: redis_key_backend_def codec_ok_def)
qed

end
