(* ===== verification/Ingest_Handler.thy ===== *)
theory Ingest_Handler
  imports Ingest_Service Key_Cache
begin

text \<open>
  The HTTP handlers of the ingestion service (transport/http/handler.go, router.go). The decoded
  request body is an argument (None when the json decoder rejects it), as are the service, the
  schema-acknowledgement store and the dead-letter writer the handler was built with.
\<close>

section \<open>The handler and its collaborators\<close>

record 's ingest_service =
  svc_Ingest :: "ingest_input \<Rightarrow> 's \<Rightarrow> (ingest_err, unit) outcome \<times> 's"
  svc_IngestBatch :: "ingest_input list \<Rightarrow> 's \<Rightarrow> (ingest_err, unit) outcome \<times> 's"
  svc_IngestReplay :: "ingest_input list \<Rightarrow> int \<Rightarrow> 's dlq_writer option \<Rightarrow> 's \<Rightarrow> (ingest_err, unit) outcome \<times> 's"

record 's ack_store =
  as_RecordACK :: "string \<Rightarrow> string \<Rightarrow> 32 word \<Rightarrow> 's \<Rightarrow> ingest_err option \<times> 's"
  as_IsForceDeprecated :: "string \<Rightarrow> 's \<Rightarrow> (ingest_err, bool) outcome"
  as_SetStuck :: "string \<Rightarrow> string \<Rightarrow> 's \<Rightarrow> ingest_err option \<times> 's"

record 's handler =
  h_svc :: "'s ingest_service"
  h_ack :: "'s ack_store option"
  h_dlq :: "'s dlq_writer option"

definition NewHandler :: "'s ingest_service \<Rightarrow> 's ack_store option \<Rightarrow> 's handler" where
  "NewHandler svc ack = \<lparr> h_svc = svc, h_ack = ack, h_dlq = None \<rparr>"

definition WithReplayDLQ :: "'s handler \<Rightarrow> 's dlq_writer option \<Rightarrow> 's handler" where
  "WithReplayDLQ h dlq = h\<lparr> h_dlq := dlq \<rparr>"

text \<open>The data of the responses: readings accepted, readings queued for retry, and the channel.\<close>

record ingest_response =
  ir_accepted :: nat
  ir_queued :: nat
  ir_channel :: string

text \<open>A panic is turned into a bare 500 by gin's recovery.\<close>

definition recovered :: "ingest_response envelope" where
  "recovered = \<lparr> rs_status = 500, rs_success = False, rs_data = None, rs_error = None \<rparr>"

section \<open>Errors to responses\<close>

fun isDomainValidationError :: "ingest_err \<Rightarrow> bool" where
  "isDomainValidationError ErrInvalidChannelID = True"
| "isDomainValidationError ErrEmptyFields = True"
| "isDomainValidationError ErrTimestampTooOld = True"
| "isDomainValidationError ErrTimestampFuture = True"
| "isDomainValidationError ErrTimestampOutOfReplayWindow = True"
| "isDomainValidationError _ = False"

definition api_error_resp :: "nat \<Rightarrow> string \<Rightarrow> 'd envelope" where
  "api_error_resp code typ = resp_Error (ApiErr (api_New code typ ''''))"

text \<open>The texts of the messages are left out; status and code are what the code says.\<close>

definition errorToHTTPResponse :: "ingest_err \<Rightarrow> 'd envelope" where
  "errorToHTTPResponse err =
    (case err of
       SchemaMismatchError v ch \<Rightarrow> api_error_resp 409 ''schema_version_mismatch''
     | _ \<Rightarrow>
       if err = ErrSchemaMismatch then api_error_resp 409 ''schema_version_mismatch''
       else if err = ErrDeviceIDMismatch then api_error_resp 403 ''device_id_mismatch''
       else if isDomainValidationError err then api_error_resp 400 ''bad_request''
       else if err = ErrPayloadTooLarge then api_error_resp 413 ''payload_too_large''
       else if err \<in> {ErrUnknownFieldIndex, ErrMissingSchemaVersion, ErrCRCMismatch,
                      ErrInvalidFrameLength, ErrTSDeltaInvalid, ErrBodyReadError}
       then api_error_resp 400 ''bad_request''
       else api_error_resp 503 ''service_unavailable'')"

definition created :: "nat \<Rightarrow> string \<Rightarrow> ingest_response envelope" where
  "created n ch = resp_Created \<lparr> ir_accepted = n, ir_queued = 0, ir_channel = ch \<rparr>"

definition service_result :: "(ingest_err, unit) outcome \<Rightarrow> ingest_response envelope \<Rightarrow> ingest_response envelope" where
  "service_result r success = (case r of Ok _ \<Rightarrow> success | Fail e \<Rightarrow> errorToHTTPResponse e | Panic \<Rightarrow> recovered)"

section \<open>Single readings\<close>

text \<open>The json request; a nil map is None. \<open>validate:"required"\<close> rejects exactly the nil map.\<close>

record ingest_request =
  iq_fields :: "field_map option"
  iq_field_ts :: "string \<rightharpoonup> instant option"
  iq_tags :: tag_map
  iq_timestamp :: "instant option"

definition nil_map :: "field_map option \<Rightarrow> field_map" where
  "nil_map m = (case m of None \<Rightarrow> [] | Some x \<Rightarrow> x)"

definition request_input :: "string \<Rightarrow> string \<Rightarrow> ingest_request \<Rightarrow> ingest_input" where
  "request_input channelID deviceID req =
    \<lparr> in_channel = channelID, in_device = deviceID, in_fields = nil_map (iq_fields req),
      in_field_ts = iq_field_ts req, in_tags = iq_tags req, in_timestamp = iq_timestamp req \<rparr>"

definition ingestJSON :: "'s handler \<Rightarrow> ingest_request option \<Rightarrow> string \<Rightarrow> string \<Rightarrow> 's
    \<Rightarrow> ingest_response envelope \<times> 's" where
  "ingestJSON h req channelID deviceID s =
    (case req of
       None \<Rightarrow> (api_error_resp 400 ''bad_request'', s)
     | Some r \<Rightarrow>
         if iq_fields r = None then (resp_ValidationError, s) else
         let (res, s') = svc_Ingest (h_svc h) (request_input channelID deviceID r) s
         in (service_result res (created 1 channelID), s'))"

text \<open>\<open>body\<close> is what ReadAll of the limited reader returned: None for a read error. \<open>size\<close> gives its
  length in bytes.\<close>

definition set_owner :: "string \<Rightarrow> string \<Rightarrow> ingest_input \<Rightarrow> ingest_input" where
  "set_owner channelID deviceID inp = inp\<lparr> in_channel := channelID, in_device := deviceID \<rparr>"

definition ingestCompact :: "instant \<Rightarrow> 's handler \<Rightarrow> string \<Rightarrow> device_schema
    \<Rightarrow> (8 word list \<Rightarrow> (ingest_err, compact_batch) outcome) \<Rightarrow> nat \<Rightarrow> 8 word list option \<Rightarrow> 's
    \<Rightarrow> ingest_response envelope \<times> 's" where
  "ingestCompact now h channelID schema parse maxBody limited s =
    (case limited of
       None \<Rightarrow> (api_error_resp 400 ''bad_request'', s)
     | Some body \<Rightarrow>
       if length body > maxBody then (api_error_resp 413 ''payload_too_large'', s) else
       (case deserializeCompact now body schema parse channelID of
          Panic \<Rightarrow> (recovered, s)
        | Fail err \<Rightarrow>
           (case (err, h_ack h) of
              (SchemaMismatchError v ch, Some ack) \<Rightarrow>
                (case as_IsForceDeprecated ack channelID s of
                   Ok True \<Rightarrow> (api_error_resp 410 ''schema_force_deprecated'',
                               snd (as_SetStuck ack channelID (ds_device schema) s))
                 | Panic \<Rightarrow> (recovered, s)
                 | _ \<Rightarrow> (errorToHTTPResponse err, s))
            | _ \<Rightarrow> (errorToHTTPResponse err, s))
        | Ok inputs \<Rightarrow>
           (case svc_IngestBatch (h_svc h) (map (set_owner channelID (ds_device schema)) inputs) s of
              (Fail e, s') \<Rightarrow> (errorToHTTPResponse e, s')
            | (Panic, s') \<Rightarrow> (recovered, s')
            | (Ok _, s') \<Rightarrow>
                (created (length inputs) channelID,
                 (case h_ack h of
                    None \<Rightarrow> s'
                  | Some ack \<Rightarrow> snd (as_RecordACK ack channelID (ds_device schema) (ds_version schema) s'))))))"

section \<open>Dispatch on the content type\<close>

definition ctJSON :: string where "ctJSON = ''application/json''"
definition ctMsgPack :: string where "ctMsgPack = ''application/msgpack''"
definition ctProtobuf :: string where "ctProtobuf = ''application/x-protobuf''"
definition ctBinary :: string where "ctBinary = ''application/x-thingspeak-binary''"
definition ctOJSON :: string where "ctOJSON = ''application/x-greenlab-ojson''"
definition maxBodyJSON :: nat where "maxBodyJSON = 1048576"
definition maxBodyMsgP :: nat where "maxBodyMsgP = 1048576"
definition maxBodyBin :: nat where "maxBodyBin = 32"
definition maxBulkSize :: nat where "maxBulkSize = 1000"

text \<open>The decoders of the three representations are arguments; \<open>limited n\<close> is the body read with the
  limit n, \<open>schema\<close> the device schema of the authentication context.\<close>

definition handler_Ingest :: "instant \<Rightarrow> (8 word list \<Rightarrow> compact_payload option) \<Rightarrow> (8 word list \<Rightarrow> compact_payload option)
    \<Rightarrow> 's handler \<Rightarrow> device_schema option \<Rightarrow> string \<Rightarrow> string \<Rightarrow> ingest_request option \<Rightarrow> (nat \<Rightarrow> 8 word list option)
    \<Rightarrow> 's \<Rightarrow> ingest_response envelope \<times> 's" where
  "handler_Ingest now json msgp h ctx channelID ct req limited s =
    (case ctx of
       None \<Rightarrow> (resp_Error (ApiErr ErrInternalServerError), s)
     | Some schema \<Rightarrow>
         if ct = ctJSON \<or> ct = '''' then ingestJSON h req channelID (ds_device schema) s
         else if ct = ctOJSON then
           ingestCompact now h channelID schema (ojson_Parse json) maxBodyJSON (limited (maxBodyJSON + 1)) s
         else if ct = ctMsgPack then
           ingestCompact now h channelID schema (msgpack_Parse msgp) maxBodyMsgP (limited (maxBodyMsgP + 1)) s
         else if ct = ctBinary then
           ingestCompact now h channelID schema (binary_Parse (ds_device schema)) maxBodyBin (limited (maxBodyBin + 1)) s
         else if ct = ctProtobuf then (api_error_resp 501 ''not_implemented'', s)
         else (api_error_resp 415 ''unsupported_media_type'', s))"

section \<open>Bulk, replay\<close>

text \<open>The readings of a bulk request: None for a nil slice. The elements are not validated.\<close>

definition BulkIngest :: "'s handler \<Rightarrow> device_schema option \<Rightarrow> string \<Rightarrow> ingest_request list option option \<Rightarrow> 's
    \<Rightarrow> ingest_response envelope \<times> 's" where
  "BulkIngest h ctx channelID req s =
    (case req of
       None \<Rightarrow> (api_error_resp 400 ''bad_request'', s)
     | Some readings \<Rightarrow>
         if (case readings of None \<Rightarrow> 0 | Some rs \<Rightarrow> length rs) > maxBulkSize then (api_error_resp 400 ''bad_request'', s)
         else (case readings of
            None \<Rightarrow> (resp_ValidationError, s)
          | Some rs \<Rightarrow> (case ctx of
              None \<Rightarrow> (resp_Error (ApiErr ErrInternalServerError), s)
            | Some schema \<Rightarrow>
               let (res, s') = svc_IngestBatch (h_svc h) (map (request_input channelID (ds_device schema)) rs) s
               in (service_result res (created (length rs) channelID), s'))))"

definition defaultReplayWindowDays :: int where "defaultReplayWindowDays = 30"

record replay_reading =
  rp_fields :: "field_map option"
  rp_timestamp :: instant

text \<open>\<open>required,min=1,max=1000,dive\<close> with \<open>required\<close> on the fields of each element.\<close>

definition replay_request_valid :: "replay_reading list option \<Rightarrow> bool" where
  "replay_request_valid rs = (case rs of
      None \<Rightarrow> False
    | Some l \<Rightarrow> 1 \<le> length l \<and> length l \<le> 1000 \<and> list_all (\<lambda>r. rp_fields r \<noteq> None) l)"

definition replay_input :: "string \<Rightarrow> string \<Rightarrow> replay_reading \<Rightarrow> ingest_input" where
  "replay_input channelID deviceID r =
    \<lparr> in_channel = channelID, in_device = deviceID, in_fields = nil_map (rp_fields r),
      in_field_ts = Map.empty, in_tags = [], in_timestamp = Some (rp_timestamp r) \<rparr>"

definition handler_Replay :: "'s handler \<Rightarrow> device_schema option \<Rightarrow> string \<Rightarrow> replay_reading list option option \<Rightarrow> 's
    \<Rightarrow> ingest_response envelope \<times> 's" where
  "handler_Replay h ctx channelID req s =
    (case ctx of
       None \<Rightarrow> (resp_Error (ApiErr ErrInternalServerError), s)
     | Some schema \<Rightarrow> (case req of
         None \<Rightarrow> (api_error_resp 400 ''bad_request'', s)
       | Some readings \<Rightarrow>
          if \<not> replay_request_valid readings then (resp_ValidationError, s) else
          (let rs = (case readings of None \<Rightarrow> [] | Some l \<Rightarrow> l) in
           case svc_IngestReplay (h_svc h) (map (replay_input channelID (ds_device schema)) rs)
                  defaultReplayWindowDays (h_dlq h) s of
             (Ok _, s') \<Rightarrow> (created (length rs) channelID, s')
           | (Panic, s') \<Rightarrow> (recovered, s')
           | (Fail err, s') \<Rightarrow>
               if h_dlq h \<noteq> None then
                 (\<lparr> rs_status = 202, rs_success = True,
                    rs_data = Some \<lparr> ir_accepted = 0, ir_queued = length rs, ir_channel = channelID \<rparr>,
                    rs_error = None \<rparr>, s')
               else (errorToHTTPResponse err, s'))))"

section \<open>The ThingSpeak endpoint\<close>

definition getParam :: "request \<Rightarrow> string \<Rightarrow> string" where
  "getParam c key = (if q_get c key \<noteq> '''' then q_get c key else rq_form c key)"

text \<open>\<open>scan\<close> is fmt.Sscanf with the verb g: None when it returns an error.\<close>

fun thing_fields :: "(string \<Rightarrow> f64 option) \<Rightarrow> request \<Rightarrow> (nat \<rightharpoonup> string) \<Rightarrow> nat list \<Rightarrow> field_map \<Rightarrow> field_map" where
  "thing_fields scan c posToName [] flds = flds"
| "thing_fields scan c posToName (i # is) flds =
    thing_fields scan c posToName is
     (let raw = getParam c (''field'' @ dec i) in
      if raw = '''' then flds else
      case scan raw of
        Some (Fin x) \<Rightarrow> (case posToName i of None \<Rightarrow> flds | Some name \<Rightarrow> AList.update name (Fin x) flds)
      | _ \<Rightarrow> flds)"

definition pos_to_name :: "field_entry list \<Rightarrow> (nat \<rightharpoonup> string)" where
  "pos_to_name fs = fold (\<lambda>f m. m(unat (fe_index f) \<mapsto> fe_name f)) fs Map.empty"

text \<open>The limiter of the endpoint is the same pipeline as the middleware's, 100 requests a minute on
  \<open>ratelimit:ts:<key>\<close>; None when no Redis client is configured.\<close>

definition thing_limited :: "instant \<Rightarrow> (bool \<times> zset) option \<Rightarrow> bool" where
  "thing_limited now rl = (case rl of None \<Rightarrow> False
     | Some (exec_ok, z) \<Rightarrow> exec_ok \<and>
         length (zs_items (ZRemRangeByScore 0 (now - 60 * second) (zset_alive now z))) \<ge> 100)"

definition ThingSpeak :: "instant \<Rightarrow> (string \<Rightarrow> f64 option) \<Rightarrow> 's handler
    \<Rightarrow> (string \<Rightarrow> (ingest_err, device_schema) outcome) \<Rightarrow> (string \<Rightarrow> (bool \<times> zset) option) \<Rightarrow> request \<Rightarrow> 's \<Rightarrow> string \<times> 's" where
  "ThingSpeak now scan h look limiter c s =
    (let k = getParam c ''api_key'';
         apiKey = (if k = '''' then rq_header c ''X-API-Key'' else k)
     in if apiKey = '''' then (''0'', s) else
     case look apiKey of
       Ok schema \<Rightarrow>
         if thing_limited now (limiter (''ratelimit:ts:'' @ apiKey)) then (''0'', s) else
         (let flds = thing_fields scan c (pos_to_name (ds_fields schema)) [1..<9] [] in
          if length flds = 0 then (''0'', s) else
          (case svc_Ingest (h_svc h)
             \<lparr> in_channel = ds_channel schema, in_device = ds_device schema, in_fields = flds,
               in_field_ts = Map.empty, in_tags = [], in_timestamp = None \<rparr> s of
             (Ok _, s') \<Rightarrow> (unix_string now, s')
           | (_, s') \<Rightarrow> (''0'', s')))
     | _ \<Rightarrow> (''0'', s))"

section \<open>API key authentication\<close>

text \<open>The middleware of the v1 routes: an aborted response, or the schema stored in the context.\<close>

definition apiKeyAuth :: "(string \<Rightarrow> string \<Rightarrow> 's \<Rightarrow> (ingest_err, device_schema) outcome \<times> 's) \<Rightarrow> request \<Rightarrow> 's
    \<Rightarrow> ('d envelope, device_schema) outcome \<times> 's" where
  "apiKeyAuth look c s =
    (let hd = rq_header c ''X-API-Key'';
         key = (if hd = '''' then q_get c ''api_key'' else hd)
     in if key = '''' then (Fail (resp_Abort (ApiErr (Unauthorized ''missing API key''))), s)
        else (case look key (rq_param c ''channel_id'') s of
            (Ok schema, s') \<Rightarrow> (Ok schema, s')
          | (Panic, s') \<Rightarrow> (Panic, s')
          | (Fail e, s') \<Rightarrow>
              if e = ErrDeviceNotFound
              then (Fail (resp_Abort (ApiErr (Unauthorized ''invalid API key or channel''))), s')
              else (Fail (resp_Abort (ApiErr (api_New 503 ''service_unavailable''
                      ''authentication service temporarily unavailable''))), s')))"

definition contextDeviceSchema :: "(string \<rightharpoonup> 'v) \<Rightarrow> ('v \<Rightarrow> device_schema option) \<Rightarrow> device_schema option" where
  "contextDeviceSchema ctx as_schema = (case ctx ''device_schema'' of None \<Rightarrow> None | Some v \<Rightarrow> as_schema v)"

definition contextString :: "request \<Rightarrow> string \<Rightarrow> string option" where
  "contextString c key = (case rq_ctx c key of Some (CStr s) \<Rightarrow> if s \<noteq> '''' then Some s else None | _ \<Rightarrow> None)"

section \<open>Properties of the handlers\<close>

lemma api_error_resp_simps [http_simps]:
  "rs_status (api_error_resp code typ) = code" "rs_success (api_error_resp code typ) = False"
  "rs_error (api_error_resp code typ) = Some (typ, '''')"
  by (simp_all add: api_error_resp_def resp_Error_def api_New_def)

text \<open>A service that records the inputs it is given and answers as told.\<close>

definition spy_service :: "(ingest_err, unit) outcome \<Rightarrow> (ingest_input list) ingest_service" where
  "spy_service r = \<lparr> svc_Ingest = (\<lambda>inp s. (r, s @ [inp])),
     svc_IngestBatch = (\<lambda>inps s. (r, s @ inps)),
     svc_IngestReplay = (\<lambda>inps d dlq s. (r, s @ inps)) \<rparr>"

definition spy_handler :: "(ingest_err, unit) outcome \<Rightarrow> bool \<Rightarrow> (ingest_input list) handler" where
  "spy_handler r dlq = WithReplayDLQ (NewHandler (spy_service r) None)
     (if dlq then Some \<lparr> Push = (\<lambda>e s. (None, s)), IncrFailureMetric = (\<lambda>s. (None, s)) \<rparr> else None)"

definition owned :: "string \<Rightarrow> string \<Rightarrow> ingest_input \<Rightarrow> bool" where
  "owned ch dev inp \<longleftrightarrow> in_channel inp = ch \<and> in_device inp = dev"

lemma owned_simps [simp]:
  "owned ch dev (request_input ch dev r)" "owned ch dev (replay_input ch dev rp)" "owned ch dev (set_owner ch dev inp)"
  by (simp_all add: owned_def request_input_def replay_input_def set_owner_def)

text \<open>A device can only write to the channel it authenticated for and only as itself: whatever the
  body says and whatever the service answers, every input that the single, compact, bulk and replay
  handlers hand to the service carries the channel of the path and the device of the authentication
  context; without an authentication context nothing reaches the service.\<close>

theorem handlers_pin_owner:
  "(\<forall>inp\<in>set (snd (handler_Ingest now json msgp (spy_handler r dlq) ctx ch ct req limited [])).
      \<exists>schema. ctx = Some schema \<and> owned ch (ds_device schema) inp) \<and>
   (\<forall>inp\<in>set (snd (BulkIngest (spy_handler r dlq) ctx ch bulk [])).
      \<exists>schema. ctx = Some schema \<and> owned ch (ds_device schema) inp) \<and>
   (\<forall>inp\<in>set (snd (handler_Replay (spy_handler r dlq) ctx ch rep [])).
      \<exists>schema. ctx = Some schema \<and> owned ch (ds_device schema) inp)"
proof (intro conjI)
  note spy = spy_handler_def spy_service_def NewHandler_def WithReplayDLQ_def
  have json: "\<forall>inp\<in>set (snd (ingestJSON (spy_handler r dlq) req ch dev [])). owned ch dev inp" for dev
    by (auto simp: ingestJSON_def spy split: option.splits)
  have compact: "\<forall>inp\<in>set (snd (ingestCompact now (spy_handler r dlq) ch schema parse maxBody lim [])). owned ch (ds_device schema) inp"
    for parse maxBody lim schema
    by (cases r) (auto simp: ingestCompact_def spy
        split: option.splits outcome.splits prod.splits if_splits ingest_err.splits)
  show "\<forall>inp\<in>set (snd (handler_Ingest now json msgp (spy_handler r dlq) ctx ch ct req limited [])).
     \<exists>schema. ctx = Some schema \<and> owned ch (ds_device schema) inp"
    using json compact by (auto simp: handler_Ingest_def split: option.splits if_splits)
  show "\<forall>inp\<in>set (snd (BulkIngest (spy_handler r dlq) ctx ch bulk [])).
     \<exists>schema. ctx = Some schema \<and> owned ch (ds_device schema) inp"
    by (auto simp: BulkIngest_def spy split: option.splits)
  show "\<forall>inp\<in>set (snd (handler_Replay (spy_handler r dlq) ctx ch rep [])).
     \<exists>schema. ctx = Some schema \<and> owned ch (ds_device schema) inp"
    by (cases r) (auto simp: handler_Replay_def Let_def spy split: option.splits if_splits)
qed

theorem handlers_pin_owner_witness:
  "map in_device (snd (handler_Replay (spy_handler (Ok ()) True) (Some demo_schema) ''ch1''
      (Some (Some [\<lparr> rp_fields = Some [(''a'', Fin 1)], rp_timestamp = 5 \<rparr>])) [])) = [''dev1'']"
proof -
  let ?req = "Some (Some [\<lparr> rp_fields = Some [(''a'', Fin 1)], rp_timestamp = 5 \<rparr>])"
  let ?run = "snd (handler_Replay (spy_handler (Ok ()) True) (Some demo_schema) ''ch1'' ?req [])"
  have "length ?run = 1"
    by (simp add: handler_Replay_def spy_handler_def spy_service_def NewHandler_def WithReplayDLQ_def
        replay_request_valid_def)
  then obtain inp where run: "?run = [inp]" by (auto simp: length_Suc_conv)
  have "\<forall>inp\<in>set ?run. \<exists>schema. Some demo_schema = Some schema \<and> owned ''ch1'' (ds_device schema) inp"
    using handlers_pin_owner [of _ _ _ "Ok ()" True "Some demo_schema" "''ch1''" _ _ _ _ ?req, THEN conjunct2, THEN conjunct2] .
  with run show ?thesis by (simp add: owned_def demo_schema_def)
qed

section \<open>Force deprecation\<close>

definition redis_ack :: "instant \<Rightarrow> redis ack_store" where
  "redis_ack now = \<lparr> as_RecordACK = (\<lambda>ch dev v db. RecordACK now (\<lambda>_. True) ch dev v db),
     as_IsForceDeprecated = (\<lambda>ch db. IsForceDeprecated now (\<lambda>_. True) db ch),
     as_SetStuck = (\<lambda>ch dev db. SetStuck now (\<lambda>_. True) ch dev db) \<rparr>"

text \<open>Force deprecation across the two services: once device-registry has marked a channel, a compact
  payload with a stale schema version is answered 410 and its device is marked stuck for exactly 48
  hours; from then on the same payload gets the ordinary 409 and nothing is written.\<close>

theorem force_deprecation_window:
  assumes mark: "SetForceDeprecated t0 io ch db = (True, db1)" and t: "t0 \<le> t"
    and ack: "h_ack h = Some (redis_ack t)"
    and body: "length body \<le> maxBody" "parse body = Ok batch"
    and stale: "ds_version schema \<noteq> 0" "cb_version batch \<noteq> 0" "cb_version batch \<noteq> ds_version schema"
  shows "(case ingestCompact t h ch schema parse maxBody (Some body) db1 of (resp, db2) \<Rightarrow>
    if t < t0 + forceDeprecatedTTL
    then rs_status resp = 410 \<and> redis_get t db2 (schemaStuckKey ch (ds_device schema)) \<noteq> None
    else rs_status resp = 409 \<and> db2 = db1)"
proof -
  have err: "deserializeCompact t body schema parse ch = Fail (SchemaMismatchError (ds_version schema) ch)"
    using body(2) stale by (simp add: deserializeCompact_def)
  have ttl: "0 < forceDeprecatedTTL" by (simp add: forceDeprecatedTTL_def hour_def second_def)
  have "db1 = redis_set t0 (schemaForceDeprecatedKey ch) (unix_string t0) forceDeprecatedTTL db"
    using mark by (auto simp: SetForceDeprecated_def schemaForceDeprecatedKey_def split: if_splits)
  then have dep: "redis_get t db1 (schemaForceDeprecatedKey ch) \<noteq> None \<longleftrightarrow> t < t0 + forceDeprecatedTTL"
    by (cases "t < t0 + forceDeprecatedTTL") (simp_all add: rs.get_put_live rs.get_put_dead ttl)
  have stuck: "redis_get t (redis_setnx t k ''1'' schemaStuckTTL d) k \<noteq> None" for k d
    by (cases "redis_get t d k") (simp_all add: redis_setnx_def rs.get_put)
  show ?thesis
  proof (cases "t < t0 + forceDeprecatedTTL")
    case True
    with dep have "IsForceDeprecated t (\<lambda>_. True) db1 ch = Ok True" by (simp add: IsForceDeprecated_def)
    with True err body(1) ack stuck show ?thesis
      by (simp add: ingestCompact_def redis_ack_def SetStuck_def http_simps)
  next
    case False
    with dep have "IsForceDeprecated t (\<lambda>_. True) db1 ch = Ok False" by (simp add: IsForceDeprecated_def)
    with False err body(1) ack show ?thesis
      by (simp add: ingestCompact_def redis_ack_def errorToHTTPResponse_def http_simps)
  qed
qed

definition demo_handler :: "instant \<Rightarrow> redis handler" where
  "demo_handler t = NewHandler \<lparr> svc_Ingest = (\<lambda>inp s. (Ok (), s)), svc_IngestBatch = (\<lambda>inps s. (Ok (), s)),
     svc_IngestReplay = (\<lambda>inps d dlq s. (Ok (), s)) \<rparr> (Some (redis_ack t))"

definition demo_batch :: compact_batch where
  "demo_batch = \<lparr> cb_values = Map.empty, cb_timestamp = None, cb_td = [], cb_version = 1, cb_device = [] \<rparr>"

theorem force_deprecation_window_witness:
  "rs_status (fst (ingestCompact 100 (demo_handler 100) ''ch1'' demo_schema (\<lambda>_. Ok demo_batch) 32 (Some [])
     (snd (SetForceDeprecated 0 (\<lambda>_. True) ''ch1'' Map.empty)))) = 410"
proof -
  obtain db1 where db1: "SetForceDeprecated 0 (\<lambda>_. True) ''ch1'' Map.empty = (True, db1)"
    by (simp add: SetForceDeprecated_def)
  have "100 < 0 + forceDeprecatedTTL" by (simp add: forceDeprecatedTTL_def hour_def second_def)
  with force_deprecation_window [OF db1, of 100 "demo_handler 100" "[]" 32 "\<lambda>_. Ok demo_batch" demo_batch demo_schema] db1
  show ?thesis by (auto simp: demo_handler_def NewHandler_def demo_batch_def demo_schema_def split: prod.splits)
qed

text \<open>A replay that the service rejects is reported as queued: when a dead-letter writer is wired
  and a reading fails validation (for instance it is older than the window), the handler answers 202
  with all readings counted as queued for retry, although no reading was published or queued; the
  handler's comment says the readings were saved.\<close>

theorem replay_rejected_reported_queued:
  assumes "h_dlq h \<noteq> None"
    and "svc_IngestReplay (h_svc h) = IngestReplay now pub"
    and "replay_request_valid (Some l)"
    and "replay_readings now defaultReplayWindowDays (map (replay_input ch (ds_device schema)) l) = Fail e"
  shows "handler_Replay h (Some schema) ch (Some (Some l)) s =
    (\<lparr> rs_status = 202, rs_success = True,
       rs_data = Some \<lparr> ir_accepted = 0, ir_queued = length l, ir_channel = ch \<rparr>, rs_error = None \<rparr>, s)"
proof -
  have "l \<noteq> []" using assms(3) by (auto simp: replay_request_valid_def)
  then have "IngestReplay now pub (map (replay_input ch (ds_device schema)) l) defaultReplayWindowDays (h_dlq h) s
      = (Fail e, s)" using assms(4) by (simp add: IngestReplay_def)
  with assms(1-3) show ?thesis by (simp add: handler_Replay_def)
qed

definition demo_service :: "instant \<Rightarrow> world ingest_service" where
  "demo_service now = (let pub = ReadingProducer (\<lambda>_. ''u'') now None topic_write in
     \<lparr> svc_Ingest = Ingest now 0 pub, svc_IngestBatch = IngestBatch now 0 pub,
       svc_IngestReplay = IngestReplay now pub \<rparr>)"

theorem replay_rejected_reported_queued_witness:
  "\<exists>resp. handler_Replay (WithReplayDLQ (NewHandler (demo_service (10 ^ 18)) None) (Some (ReplayDLQ list_rpush counter_incr)))
     (Some demo_schema) ''550e8400-e29b-41d4-a716-446655440000''
     (Some (Some [\<lparr> rp_fields = Some [(''a'', Fin 1)], rp_timestamp = 0 \<rparr>])) (demo_world [])
     = (resp, demo_world []) \<and> rs_status resp = 202"
proof -
  let ?h = "WithReplayDLQ (NewHandler (demo_service (10 ^ 18)) None) (Some (ReplayDLQ list_rpush counter_incr))"
  let ?ch = "''550e8400-e29b-41d4-a716-446655440000''"
  have "ValidateChannelID ?ch = Ok ()" by code_simp
  moreover have "ValidateReplayTimestamp (10 ^ 18) 0 defaultReplayWindowDays = Fail ErrTimestampOutOfReplayWindow"
    by code_simp
  ultimately have bad: "replay_readings (10 ^ 18) defaultReplayWindowDays
      (map (replay_input ?ch (ds_device demo_schema)) [\<lparr> rp_fields = Some [(''a'', Fin 1)], rp_timestamp = 0 \<rparr>])
      = Fail ErrTimestampOutOfReplayWindow"
    by (simp add: replay_input_def nil_map_def)
  have "handler_Replay ?h (Some demo_schema) ?ch (Some (Some [\<lparr> rp_fields = Some [(''a'', Fin 1)], rp_timestamp = 0 \<rparr>])) (demo_world [])
     = (\<lparr> rs_status = 202, rs_success = True, rs_data = Some \<lparr> ir_accepted = 0, ir_queued = 1, ir_channel = ?ch \<rparr>, rs_error = None \<rparr>, demo_world [])"
    using replay_rejected_reported_queued [OF _ _ _ bad, of ?h "ReadingProducer (\<lambda>_. ''u'') (10 ^ 18) None topic_write" "demo_world []"]
    by (simp add: WithReplayDLQ_def NewHandler_def demo_service_def Let_def replay_request_valid_def)
  then show ?thesis by simp
qed

text \<open>Exactly the infrastructure failures and the decoder's errors are answered 503: of all the errors
  the service can return, those mapped to 503 are a cache miss, an unknown device, the unused overflow
  error, a body the json or msgpack decoder rejects, a reading the json encoder rejects and Kafka or
  Redis failing. A malformed compact payload or a NaN in one is thus reported as an outage (and
  retried by clients) rather than as a bad request.\<close>

theorem unavailable_errors:
  "rs_status (errorToHTTPResponse e) = 503 \<longleftrightarrow>
     e \<in> {ErrCacheMiss, ErrDeviceNotFound, ErrTSDeltaOverflow, ErrDecode, ErrMarshal, ErrInfra}"
  by (cases e) (simp_all add: errorToHTTPResponse_def http_simps)

end
