(* ===== verification/Registry_Domain.thy ===== *)
theory Registry_Domain
  imports Redis_Store
begin

text \<open>
  The domain of device-registry (services/device-registry/internal/domain): devices, channels and
  fields with the checks of their constructors and setters. A UUID is its canonical text; the id a
  constructor draws, the random bytes of a key and the clock are arguments.
\<close>

type_synonym uuid = string

datatype registry_err =
    DevNotFound | DevAlreadyDeleted | DevInvalidName | DevInvalidStatus | DevCacheMiss
  | ChNotFound | ChInvalidName | ChInvalidVisibility | ChInvalidRetention
  | FldNotFound | FldInvalidName | FldInvalidPosition | FldInvalidType
  | ParseIDErr | LatLngErr | MarshalErr | RandErr | DbErr | CacheErr

section \<open>Trimming\<close>

text \<open>\<open>strings.TrimSpace\<close> on ASCII text: tab, newline, vertical tab, form feed, carriage return, space.\<close>

definition is_space :: "char \<Rightarrow> bool" where
  "is_space c = (let n = (of_char c :: nat) in (9 \<le> n \<and> n \<le> 13) \<or> n = 32)"

definition TrimSpace :: "string \<Rightarrow> string" where
  "TrimSpace s = rev (dropWhile is_space (rev (dropWhile is_space s)))"

section \<open>Devices\<close>

record device =
  dv_id :: uuid
  dv_workspace :: uuid
  dv_name :: string
  dv_description :: string
  dv_api_key :: string
  dv_status :: string
  dv_last_seen :: "instant option"
  dv_metadata :: "string option"
  dv_created :: instant
  dv_updated :: instant
  dv_deleted :: "instant option"

definition StatusActive :: string where "StatusActive = ''active''"
definition StatusInactive :: string where "StatusInactive = ''inactive''"
definition StatusBlocked :: string where "StatusBlocked = ''blocked''"

definition device_SetName :: "instant \<Rightarrow> string \<Rightarrow> device \<Rightarrow> (registry_err, device) outcome" where
  "device_SetName now name d =
    (if TrimSpace name = '''' then Fail DevInvalidName
     else Ok (d\<lparr> dv_name := TrimSpace name, dv_updated := now \<rparr>))"

text \<open>Eight random bytes as hex digits; None when the random source fails.\<close>

definition hex_digit :: "nat \<Rightarrow> char" where
  "hex_digit n = (if n < 10 then char_of (48 + n) else char_of (87 + n))"

definition hex_encode :: "8 word list \<Rightarrow> string" where
  "hex_encode bs = concat (map (\<lambda>b. [hex_digit (unat b div 16), hex_digit (unat b mod 16)]) bs)"

definition generateAPIKey :: "8 word list option \<Rightarrow> (registry_err, string) outcome" where
  "generateAPIKey rand = (case rand of None \<Rightarrow> Fail RandErr | Some b \<Rightarrow> Ok (''g_'' @ hex_encode b))"

definition NewDevice :: "instant \<Rightarrow> uuid \<Rightarrow> 8 word list option \<Rightarrow> uuid \<Rightarrow> string \<Rightarrow> string
    \<Rightarrow> (registry_err, device) outcome" where
  "NewDevice now fresh rand workspaceID name description =
    (if TrimSpace name = '''' then Fail DevInvalidName else
     bind_o (generateAPIKey rand) (\<lambda>key.
       Ok \<lparr> dv_id = fresh, dv_workspace = workspaceID, dv_name = name, dv_description = description,
            dv_api_key = key, dv_status = StatusActive, dv_last_seen = None, dv_metadata = None,
            dv_created = now, dv_updated = now, dv_deleted = None \<rparr>))"

definition device_RotateAPIKey :: "instant \<Rightarrow> 8 word list option \<Rightarrow> device \<Rightarrow> (registry_err, device) outcome" where
  "device_RotateAPIKey now rand d =
    bind_o (generateAPIKey rand) (\<lambda>key. Ok (d\<lparr> dv_api_key := key, dv_updated := now \<rparr>))"

definition device_IsActive :: "device \<Rightarrow> bool" where
  "device_IsActive d = (dv_status d = StatusActive)"

definition device_SetStatus :: "instant \<Rightarrow> string \<Rightarrow> device \<Rightarrow> (registry_err, device) outcome" where
  "device_SetStatus now status d =
    (if status \<in> {StatusActive, StatusInactive, StatusBlocked}
     then Ok (d\<lparr> dv_status := status, dv_updated := now \<rparr>) else Fail DevInvalidStatus)"

definition device_SoftDelete :: "instant \<Rightarrow> device \<Rightarrow> (registry_err, device) outcome" where
  "device_SoftDelete now d =
    (if dv_deleted d \<noteq> None then Fail DevAlreadyDeleted
     else Ok (d\<lparr> dv_deleted := Some now, dv_updated := now \<rparr>))"

definition device_IsDeleted :: "device \<Rightarrow> bool" where
  "device_IsDeleted d = (dv_deleted d \<noteq> None)"

section \<open>Channels\<close>

record channel =
  ch_id :: uuid
  ch_short :: nat
  ch_workspace :: uuid
  ch_device :: "uuid option"
  ch_name :: string
  ch_description :: string
  ch_visibility :: string
  ch_tags :: string
  ch_retention :: int
  ch_created :: instant
  ch_updated :: instant
  ch_deleted :: "instant option"

definition VisibilityPublic :: string where "VisibilityPublic = ''public''"
definition VisibilityPrivate :: string where "VisibilityPrivate = ''private''"
definition DefaultRetentionDays :: int where "DefaultRetentionDays = 90"
definition MinRetentionDays :: int where "MinRetentionDays = 1"
definition MaxRetentionDays :: int where "MaxRetentionDays = 365"

definition channel_SoftDelete :: "instant \<Rightarrow> channel \<Rightarrow> (registry_err, channel) outcome" where
  "channel_SoftDelete now c =
    (if ch_deleted c \<noteq> None then Fail ChNotFound
     else Ok (c\<lparr> ch_deleted := Some now, ch_updated := now \<rparr>))"

definition channel_SetDevice :: "instant \<Rightarrow> uuid \<Rightarrow> channel \<Rightarrow> channel" where
  "channel_SetDevice now deviceID c = c\<lparr> ch_device := Some deviceID, ch_updated := now \<rparr>"

definition channel_SetName :: "instant \<Rightarrow> string \<Rightarrow> channel \<Rightarrow> (registry_err, channel) outcome" where
  "channel_SetName now name c =
    (if TrimSpace name = '''' then Fail ChInvalidName
     else Ok (c\<lparr> ch_name := TrimSpace name, ch_updated := now \<rparr>))"

definition channel_SetVisibility :: "instant \<Rightarrow> string \<Rightarrow> channel \<Rightarrow> (registry_err, channel) outcome" where
  "channel_SetVisibility now v c =
    (if v \<noteq> VisibilityPublic \<and> v \<noteq> VisibilityPrivate then Fail ChInvalidVisibility
     else Ok (c\<lparr> ch_visibility := v, ch_updated := now \<rparr>))"

definition channel_SetRetentionDays :: "instant \<Rightarrow> int \<Rightarrow> channel \<Rightarrow> (registry_err, channel) outcome" where
  "channel_SetRetentionDays now days c =
    (if days < MinRetentionDays \<or> days > MaxRetentionDays then Fail ChInvalidRetention
     else Ok (c\<lparr> ch_retention := days, ch_updated := now \<rparr>))"

definition NewChannel :: "instant \<Rightarrow> uuid \<Rightarrow> uuid \<Rightarrow> string \<Rightarrow> string \<Rightarrow> string \<Rightarrow> (registry_err, channel) outcome" where
  "NewChannel now fresh workspaceID name description visibility0 =
    (if TrimSpace name = '''' then Fail ChInvalidName else
     let visibility = (if visibility0 = '''' then VisibilityPrivate else visibility0) in
     if visibility \<noteq> VisibilityPublic \<and> visibility \<noteq> VisibilityPrivate then Fail ChInvalidVisibility
     else Ok \<lparr> ch_id = fresh, ch_short = 0, ch_workspace = workspaceID, ch_device = None,
       ch_name = name, ch_description = description, ch_visibility = visibility, ch_tags = ''[]'',
       ch_retention = DefaultRetentionDays, ch_created = now, ch_updated = now, ch_deleted = None \<rparr>)"

section \<open>Fields\<close>

record field =
  fd_id :: uuid
  fd_channel :: uuid
  fd_name :: string
  fd_label :: string
  fd_unit :: string
  fd_type :: string
  fd_position :: int
  fd_description :: string
  fd_created :: instant
  fd_updated :: instant

definition FieldTypeFloat :: string where "FieldTypeFloat = ''float''"
definition FieldTypeInteger :: string where "FieldTypeInteger = ''integer''"
definition FieldTypeString :: string where "FieldTypeString = ''string''"
definition FieldTypeBoolean :: string where "FieldTypeBoolean = ''boolean''"

definition field_SetName :: "instant \<Rightarrow> string \<Rightarrow> field \<Rightarrow> (registry_err, field) outcome" where
  "field_SetName now name f =
    (if TrimSpace name = '''' then Fail FldInvalidName
     else Ok (f\<lparr> fd_name := TrimSpace name, fd_updated := now \<rparr>))"

definition field_SetLabel :: "instant \<Rightarrow> string \<Rightarrow> field \<Rightarrow> field" where
  "field_SetLabel now label f = f\<lparr> fd_label := label, fd_updated := now \<rparr>"

definition field_SetUnit :: "instant \<Rightarrow> string \<Rightarrow> field \<Rightarrow> field" where
  "field_SetUnit now unit_text f = f\<lparr> fd_unit := unit_text, fd_updated := now \<rparr>"

definition field_SetDescription :: "instant \<Rightarrow> string \<Rightarrow> field \<Rightarrow> field" where
  "field_SetDescription now description f = f\<lparr> fd_description := description, fd_updated := now \<rparr>"

definition NewField :: "instant \<Rightarrow> uuid \<Rightarrow> uuid \<Rightarrow> string \<Rightarrow> string \<Rightarrow> string \<Rightarrow> string \<Rightarrow> int
    \<Rightarrow> (registry_err, field) outcome" where
  "NewField now fresh channelID name label unit_text fieldType0 position =
    (if TrimSpace name = '''' then Fail FldInvalidName
     else if position < 1 \<or> position > 8 then Fail FldInvalidPosition
     else let fieldType = (if fieldType0 = '''' then FieldTypeFloat else fieldType0) in
     if fieldType \<in> {FieldTypeFloat, FieldTypeInteger, FieldTypeString, FieldTypeBoolean}
     then Ok \<lparr> fd_id = fresh, fd_channel = channelID, fd_name = name, fd_label = label,
            fd_unit = unit_text, fd_type = fieldType, fd_position = position, fd_description = '''',
            fd_created = now, fd_updated = now \<rparr>
     else Fail FldInvalidType)"

section \<open>Well-formed entities\<close>

definition device_wf :: "device \<Rightarrow> bool" where
  "device_wf d \<longleftrightarrow> TrimSpace (dv_name d) \<noteq> '''' \<and> dv_status d \<in> {StatusActive, StatusInactive, StatusBlocked}"

definition channel_wf :: "channel \<Rightarrow> bool" where
  "channel_wf c \<longleftrightarrow> TrimSpace (ch_name c) \<noteq> '''' \<and> ch_visibility c \<in> {VisibilityPublic, VisibilityPrivate}"

definition field_wf :: "field \<Rightarrow> bool" where
  "field_wf f \<longleftrightarrow> TrimSpace (fd_name f) \<noteq> '''' \<and> 1 \<le> fd_position f \<and> fd_position f \<le> 8 \<and>
     fd_type f \<in> {FieldTypeFloat, FieldTypeInteger, FieldTypeString, FieldTypeBoolean}"

lemma dropWhile_idem: "dropWhile P (dropWhile P xs) = dropWhile P xs"
  by (induction xs) auto

lemma TrimSpace_idem: "TrimSpace (TrimSpace s) = TrimSpace s"
proof -
  define r where "r = rev (dropWhile is_space s)"
  have "dropWhile is_space (rev (dropWhile is_space r)) = rev (dropWhile is_space r)"
  proof (cases "dropWhile is_space s")
    case (Cons c cs)
    then have c: "\<not> is_space c" using hd_dropWhile [of is_space s] by simp
    have "r = rev cs @ [c]" by (simp add: r_def Cons)
    then have ne: "dropWhile is_space r \<noteq> []" "last (dropWhile is_space r) = c"
      using c by (auto simp: dropWhile_append)
    then have "hd (rev (dropWhile is_space r)) = c" by (simp add: hd_rev)
    with c ne(1) show ?thesis by (cases "rev (dropWhile is_space r)") auto
  next
    case Nil
    then show ?thesis by (simp only: r_def) simp
  qed
  then show ?thesis by (simp add: TrimSpace_def r_def dropWhile_idem)
qed

lemma NewDevice_wf: "NewDevice now fresh rand ws name description = Ok d \<Longrightarrow> device_wf d"
  by (auto simp: NewDevice_def device_wf_def go_simps split: if_splits)

lemma device_setters_wf:
  "device_wf d \<Longrightarrow> device_SetName now name d = Ok d' \<Longrightarrow> device_wf d'"
  "device_wf d \<Longrightarrow> device_SetStatus now st d = Ok d' \<Longrightarrow> device_wf d'"
  "device_wf d \<Longrightarrow> device_RotateAPIKey now rand d = Ok d' \<Longrightarrow> device_wf d'"
  by (auto simp: device_SetName_def device_SetStatus_def device_RotateAPIKey_def device_wf_def
      TrimSpace_idem go_simps split: if_splits)

lemma NewChannel_wf: "NewChannel now fresh ws name description v = Ok c \<Longrightarrow> channel_wf c"
  by (auto simp: NewChannel_def channel_wf_def Let_def split: if_splits)

lemma NewField_wf: "NewField now fresh c name label u t p = Ok f \<Longrightarrow> field_wf f"
  by (auto simp: NewField_def field_wf_def Let_def split: if_splits)

lemma length_hex_encode: "length (hex_encode bs) = 2 * length bs"
  by (induction bs) (auto simp: hex_encode_def)

end
