(* ===== verification/Registry_Store.thy ===== *)
theory Registry_Store
  imports Registry_Domain Key_Cache
begin

text \<open>
  The persistence of device-registry: the SQL of the repositories as functions on the three tables,
  with the constraints of the migrations (primary keys, unique API keys, unique field positions,
  foreign keys), the transaction runner, and the Redis cache of devices
  (infrastructure/postgres/*.go, infrastructure/redis/cache.go, migrations/*.up.sql). A repository
  call takes whether the database answers (\<open>up\<close>) and the database clock.
\<close>

record registry_db =
  rg_devices :: "device list"
  rg_channels :: "channel list"
  rg_fields :: "field list"
  rg_next_short :: nat

definition empty_db :: registry_db where
  "empty_db = \<lparr> rg_devices = [], rg_channels = [], rg_fields = [], rg_next_short = 1 \<rparr>"

type_synonym 'a db_call = "registry_db \<Rightarrow> (registry_err, 'a) outcome \<times> registry_db"

section \<open>Devices\<close>

text \<open>Columns that the INSERT leaves out take their defaults.\<close>

definition DeviceRepo_Create :: "bool \<Rightarrow> instant \<Rightarrow> device \<Rightarrow> unit db_call" where
  "DeviceRepo_Create up now d db =
    (if \<not> up \<or> list_ex (\<lambda>x. dv_id x = dv_id d \<or> dv_api_key x = dv_api_key d) (rg_devices db)
     then (Fail DbErr, db)
     else (Ok (), db\<lparr> rg_devices := rg_devices db @
       [d\<lparr> dv_last_seen := None, dv_created := now, dv_updated := now, dv_deleted := None \<rparr>] \<rparr>))"

definition DeviceRepo_GetByID :: "bool \<Rightarrow> uuid \<Rightarrow> registry_db \<Rightarrow> (registry_err, device) outcome" where
  "DeviceRepo_GetByID up ident db =
    (if \<not> up then Fail DbErr else
     case filter (\<lambda>d. dv_id d = ident \<and> dv_deleted d = None) (rg_devices db) of
       [] \<Rightarrow> Fail DevNotFound | d # _ \<Rightarrow> Ok d)"

definition DeviceRepo_GetByAPIKey :: "bool \<Rightarrow> string \<Rightarrow> registry_db \<Rightarrow> (registry_err, device) outcome" where
  "DeviceRepo_GetByAPIKey up apiKey db =
    (if \<not> up then Fail DbErr else
     case filter (\<lambda>d. dv_api_key d = apiKey \<and> dv_status d = StatusActive \<and> dv_deleted d = None) (rg_devices db) of
       [] \<Rightarrow> Fail DevNotFound | d # _ \<Rightarrow> Ok d)"

text \<open>ORDER BY created_at DESC LIMIT OFFSET, with the total of the window function, which is read from
  the first row of the page and so is 0 for an empty page. Postgres rejects a negative limit or
  offset.\<close>

definition page_of :: "('a \<Rightarrow> instant) \<Rightarrow> 'a list \<Rightarrow> int \<Rightarrow> int \<Rightarrow> 'a list \<times> nat" where
  "page_of created rows lmt off =
    (let page = take (nat lmt) (drop (nat off) (sort_key (\<lambda>r. - created r) rows)) in
     (page, if page = [] then 0 else length rows))"

definition DeviceRepo_ListByWorkspace :: "bool \<Rightarrow> uuid \<Rightarrow> int \<Rightarrow> int \<Rightarrow> registry_db
    \<Rightarrow> (registry_err, device list \<times> nat) outcome" where
  "DeviceRepo_ListByWorkspace up ws lmt off db =
    (if \<not> up \<or> lmt < 0 \<or> off < 0 then Fail DbErr
     else Ok (page_of dv_created (filter (\<lambda>d. dv_workspace d = ws \<and> dv_deleted d = None) (rg_devices db)) lmt off))"

definition DeviceRepo_Update :: "bool \<Rightarrow> instant \<Rightarrow> device \<Rightarrow> unit db_call" where
  "DeviceRepo_Update up now d db =
    (if \<not> up \<or> (list_ex (\<lambda>x. dv_id x = dv_id d) (rg_devices db) \<and>
        list_ex (\<lambda>x. dv_id x \<noteq> dv_id d \<and> dv_api_key x = dv_api_key d) (rg_devices db))
     then (Fail DbErr, db)
     else (Ok (), db\<lparr> rg_devices := map (\<lambda>x. if dv_id x = dv_id d
         then x\<lparr> dv_name := dv_name d, dv_description := dv_description d, dv_api_key := dv_api_key d,
                 dv_status := dv_status d, dv_updated := now \<rparr> else x) (rg_devices db) \<rparr>))"

text \<open>The delete transaction: mark the device, then its channels. \<open>up\<close> is asked once per statement.\<close>

definition DeviceRepo_Delete :: "(nat \<Rightarrow> bool) \<Rightarrow> instant \<Rightarrow> uuid \<Rightarrow> unit db_call" where
  "DeviceRepo_Delete up now ident db =
    (if \<not> up 0 \<or> \<not> up 1 then (Fail DbErr, db)
     else if \<not> list_ex (\<lambda>d. dv_id d = ident \<and> dv_deleted d = None) (rg_devices db) then (Fail DevNotFound, db)
     else if \<not> up 2 \<or> \<not> up 3 then (Fail DbErr, db)
     else (Ok (), db\<lparr>
       rg_devices := map (\<lambda>d. if dv_id d = ident \<and> dv_deleted d = None
          then d\<lparr> dv_deleted := Some now, dv_updated := now \<rparr> else d) (rg_devices db),
       rg_channels := map (\<lambda>c. if ch_device c = Some ident \<and> ch_deleted c = None
          then c\<lparr> ch_deleted := Some now, ch_updated := now \<rparr> else c) (rg_channels db) \<rparr>))"

section \<open>Channels\<close>

text \<open>retention_days is not among the inserted columns (its default is 90), nor among the selected ones
  (the struct field stays 0), nor among the updated ones.\<close>

definition ChannelRepo_Create :: "bool \<Rightarrow> instant \<Rightarrow> channel \<Rightarrow> channel db_call" where
  "ChannelRepo_Create up now c db =
    (if \<not> up \<or> list_ex (\<lambda>x. ch_id x = ch_id c) (rg_channels db)
        \<or> (case ch_device c of None \<Rightarrow> False | Some dev \<Rightarrow> \<not> list_ex (\<lambda>d. dv_id d = dev) (rg_devices db))
     then (Fail DbErr, db)
     else (Ok (c\<lparr> ch_short := rg_next_short db \<rparr>), db\<lparr> rg_next_short := Suc (rg_next_short db),
       rg_channels := rg_channels db @
         [c\<lparr> ch_short := rg_next_short db, ch_retention := 90, ch_created := now, ch_updated := now, ch_deleted := None \<rparr>] \<rparr>))"

definition channel_row :: "channel \<Rightarrow> channel" where
  "channel_row c = c\<lparr> ch_retention := 0 \<rparr>"

definition ChannelRepo_GetByID :: "bool \<Rightarrow> uuid \<Rightarrow> registry_db \<Rightarrow> (registry_err, channel) outcome" where
  "ChannelRepo_GetByID up ident db =
    (if \<not> up then Fail DbErr else
     case filter (\<lambda>c. ch_id c = ident \<and> ch_deleted c = None) (rg_channels db) of
       [] \<Rightarrow> Fail ChNotFound | c # _ \<Rightarrow> Ok (channel_row c))"

definition ChannelRepo_ListByWorkspace :: "bool \<Rightarrow> uuid \<Rightarrow> int \<Rightarrow> int \<Rightarrow> registry_db
    \<Rightarrow> (registry_err, channel list \<times> nat) outcome" where
  "ChannelRepo_ListByWorkspace up ws lmt off db =
    (if \<not> up \<or> lmt < 0 \<or> off < 0 then Fail DbErr
     else Ok (page_of ch_created (map channel_row
       (filter (\<lambda>c. ch_workspace c = ws \<and> ch_deleted c = None) (rg_channels db))) lmt off))"

definition ChannelRepo_ListByDevice :: "bool \<Rightarrow> uuid \<Rightarrow> int \<Rightarrow> int \<Rightarrow> registry_db
    \<Rightarrow> (registry_err, channel list \<times> nat) outcome" where
  "ChannelRepo_ListByDevice up dev lmt off db =
    (if \<not> up \<or> lmt < 0 \<or> off < 0 then Fail DbErr
     else Ok (page_of ch_created (map channel_row
       (filter (\<lambda>c. ch_device c = Some dev \<and> ch_deleted c = None) (rg_channels db))) lmt off))"

definition ChannelRepo_Update :: "bool \<Rightarrow> instant \<Rightarrow> channel \<Rightarrow> unit db_call" where
  "ChannelRepo_Update up now c db =
    (if \<not> up then (Fail DbErr, db)
     else (Ok (), db\<lparr> rg_channels := map (\<lambda>x. if ch_id x = ch_id c
         then x\<lparr> ch_name := ch_name c, ch_description := ch_description c, ch_visibility := ch_visibility c,
                 ch_tags := ch_tags c, ch_updated := now \<rparr> else x) (rg_channels db) \<rparr>))"

definition ChannelRepo_Delete :: "bool \<Rightarrow> instant \<Rightarrow> uuid \<Rightarrow> unit db_call" where
  "ChannelRepo_Delete up now ident db =
    (if \<not> up then (Fail DbErr, db)
     else if \<not> list_ex (\<lambda>c. ch_id c = ident \<and> ch_deleted c = None) (rg_channels db) then (Fail ChNotFound, db)
     else (Ok (), db\<lparr> rg_channels := map (\<lambda>c. if ch_id c = ident \<and> ch_deleted c = None
         then c\<lparr> ch_deleted := Some now, ch_updated := now \<rparr> else c) (rg_channels db) \<rparr>))"

section \<open>Fields\<close>

definition FieldRepo_Create :: "bool \<Rightarrow> instant \<Rightarrow> field \<Rightarrow> unit db_call" where
  "FieldRepo_Create up now f db =
    (if \<not> up \<or> list_ex (\<lambda>x. fd_id x = fd_id f \<or> (fd_channel x = fd_channel f \<and> fd_position x = fd_position f)) (rg_fields db)
        \<or> \<not> list_ex (\<lambda>c. ch_id c = fd_channel f) (rg_channels db)
     then (Fail DbErr, db)
     else (Ok (), db\<lparr> rg_fields := rg_fields db @ [f\<lparr> fd_created := now, fd_updated := now \<rparr>] \<rparr>))"

definition FieldRepo_GetByID :: "bool \<Rightarrow> uuid \<Rightarrow> registry_db \<Rightarrow> (registry_err, field) outcome" where
  "FieldRepo_GetByID up ident db =
    (if \<not> up then Fail DbErr else
     case filter (\<lambda>f. fd_id f = ident) (rg_fields db) of [] \<Rightarrow> Fail FldNotFound | f # _ \<Rightarrow> Ok f)"

definition FieldRepo_ListByChannel :: "bool \<Rightarrow> uuid \<Rightarrow> registry_db \<Rightarrow> (registry_err, field list) outcome" where
  "FieldRepo_ListByChannel up c db =
    (if \<not> up then Fail DbErr else Ok (sort_key fd_position (filter (\<lambda>f. fd_channel f = c) (rg_fields db))))"

definition FieldRepo_Update :: "bool \<Rightarrow> instant \<Rightarrow> field \<Rightarrow> unit db_call" where
  "FieldRepo_Update up now f db =
    (if \<not> up then (Fail DbErr, db)
     else (Ok (), db\<lparr> rg_fields := map (\<lambda>x. if fd_id x = fd_id f
         then x\<lparr> fd_name := fd_name f, fd_label := fd_label f, fd_unit := fd_unit f,
                 fd_description := fd_description f, fd_updated := now \<rparr> else x) (rg_fields db) \<rparr>))"

definition FieldRepo_Delete :: "bool \<Rightarrow> uuid \<Rightarrow> unit db_call" where
  "FieldRepo_Delete up ident db =
    (if \<not> up then (Fail DbErr, db)
     else (Ok (), db\<lparr> rg_fields := filter (\<lambda>f. fd_id f \<noteq> ident) (rg_fields db) \<rparr>))"

section \<open>Transactions\<close>

text \<open>The statements of the transactional repositories are those of the plain ones, except that a
  channel update writes only its device.\<close>

definition txDeviceRepo_Create :: "bool \<Rightarrow> instant \<Rightarrow> device \<Rightarrow> unit db_call" where
  "txDeviceRepo_Create up now d = DeviceRepo_Create up now d"

definition txChannelRepo_Create :: "bool \<Rightarrow> instant \<Rightarrow> channel \<Rightarrow> channel db_call" where
  "txChannelRepo_Create up now c = ChannelRepo_Create up now c"

definition txChannelRepo_Update :: "bool \<Rightarrow> instant \<Rightarrow> channel \<Rightarrow> unit db_call" where
  "txChannelRepo_Update up now c db =
    (if \<not> up \<or> (list_ex (\<lambda>x. ch_id x = ch_id c) (rg_channels db) \<and>
        (case ch_device c of None \<Rightarrow> False | Some dev \<Rightarrow> \<not> list_ex (\<lambda>d. dv_id d = dev) (rg_devices db)))
     then (Fail DbErr, db)
     else (Ok (), db\<lparr> rg_channels := map (\<lambda>x. if ch_id x = ch_id c
         then x\<lparr> ch_device := ch_device c, ch_updated := now \<rparr> else x) (rg_channels db) \<rparr>))"

definition txFieldRepo_Create :: "bool \<Rightarrow> instant \<Rightarrow> field \<Rightarrow> unit db_call" where
  "txFieldRepo_Create up now f = FieldRepo_Create up now f"

text \<open>Begin, run, commit or roll back.\<close>

definition RunInTx :: "bool \<Rightarrow> bool \<Rightarrow> 'a db_call \<Rightarrow> 'a db_call" where
  "RunInTx begin_ok commit_ok fn db =
    (if \<not> begin_ok then (Fail DbErr, db) else
     case fn db of
       (Ok x, db') \<Rightarrow> if commit_ok then (Ok x, db') else (Fail DbErr, db)
     | (Fail e, db') \<Rightarrow> (Fail e, db)
     | (Panic, db') \<Rightarrow> (Panic, db))"

text \<open>Sequencing of statements within one transaction.\<close>

definition then_db :: "'a db_call \<Rightarrow> ('a \<Rightarrow> 'b db_call) \<Rightarrow> 'b db_call" where
  "then_db m k db = (case m db of
      (Ok x, db') \<Rightarrow> k x db' | (Fail e, db') \<Rightarrow> (Fail e, db') | (Panic, db') \<Rightarrow> (Panic, db'))"

section \<open>Queries for the ingestion service\<close>

record validate_result =
  vr_device :: string
  vr_fields :: "field_entry list"
  vr_version :: "32 word"

definition field_entry_of :: "field \<Rightarrow> field_entry" where
  "field_entry_of f = \<lparr> fe_index = word_of_int (fd_position f), fe_name = fd_name f, fe_type = fd_type f \<rparr>"

definition active_devices :: "string \<Rightarrow> registry_db \<Rightarrow> device list" where
  "active_devices apiKey db = filter (\<lambda>d. dv_api_key d = apiKey \<and> dv_status d = StatusActive \<and> dv_deleted d = None)
     (rg_devices db)"

text \<open>The join of devices, channels and fields; channels are not filtered by deleted_at.\<close>

definition validate_rows :: "string \<Rightarrow> uuid \<Rightarrow> registry_db \<Rightarrow> (device \<times> field) list" where
  "validate_rows apiKey c db = sort_key (\<lambda>(d, f). fd_position f)
     [(d, f). d \<leftarrow> active_devices apiKey db, x \<leftarrow> rg_channels db, ch_device x = Some (dv_id d) \<and> ch_id x = c,
       f \<leftarrow> rg_fields db, fd_channel f = ch_id x]"

definition pair_rows :: "string \<Rightarrow> uuid \<Rightarrow> registry_db \<Rightarrow> device list" where
  "pair_rows apiKey c db =
     [d. d \<leftarrow> active_devices apiKey db, x \<leftarrow> rg_channels db, ch_device x = Some (dv_id d) \<and> ch_id x = c]"

text \<open>\<open>cast\<close> is Postgres' conversion of the text to uuid: None is a query error.\<close>

definition InternalRepo_ValidateAPIKey :: "(string \<Rightarrow> uuid option) \<Rightarrow> (nat \<Rightarrow> bool) \<Rightarrow> string \<Rightarrow> string \<Rightarrow> registry_db
    \<Rightarrow> (registry_err, validate_result) outcome" where
  "InternalRepo_ValidateAPIKey cast up apiKey channelID db =
    (case cast channelID of
       None \<Rightarrow> Fail DbErr
     | Some c \<Rightarrow>
        if \<not> up 0 then Fail DbErr else
        (let rows = validate_rows apiKey c db in
         if rows = [] then
           (if \<not> up 1 then Fail DbErr else
            case pair_rows apiKey c db of
              [] \<Rightarrow> Fail DevNotFound
            | d # _ \<Rightarrow> Ok \<lparr> vr_device = dv_id d, vr_fields = [], vr_version = 1 \<rparr>)
         else Ok \<lparr> vr_device = dv_id (fst (hd rows)), vr_fields = map (\<lambda>(d, f). field_entry_of f) rows, vr_version = 1 \<rparr>))"

text \<open>LEFT JOIN on the fields: a channel without fields gives one row with nulls, sorted last.\<close>

definition channel_fields :: "registry_db \<Rightarrow> channel \<Rightarrow> field option list" where
  "channel_fields db x = (let fs = filter (\<lambda>f. fd_channel f = ch_id x) (rg_fields db) in
     if fs = [] then [None] else map Some fs)"

definition position_key :: "field option \<Rightarrow> int" where
  "position_key f = (case f of None \<Rightarrow> 2 ^ 31 | Some x \<Rightarrow> fd_position x)"

definition resolve_rows :: "string \<Rightarrow> registry_db \<Rightarrow> (device \<times> channel \<times> field option) list" where
  "resolve_rows apiKey db = take 100 (sort_key (\<lambda>(d, x, f). ch_created x) (sort_key (\<lambda>(d, x, f). position_key f)
     [(d, x, f). d \<leftarrow> active_devices apiKey db, x \<leftarrow> rg_channels db, ch_device x = Some (dv_id d),
       f \<leftarrow> channel_fields db x]))"

text \<open>The channel id of the result is the decimal short id.\<close>

record resolve_result =
  rr_channel :: string
  rr_result :: validate_result

definition InternalRepo_ResolveChannelByAPIKey :: "bool \<Rightarrow> string \<Rightarrow> registry_db \<Rightarrow> (registry_err, resolve_result) outcome" where
  "InternalRepo_ResolveChannelByAPIKey up apiKey db =
    (if \<not> up then Fail DbErr else
     case resolve_rows apiKey db of
       [] \<Rightarrow> Fail DevNotFound
     | (d, x, f) # r \<Rightarrow>
        (let own = takeWhile (\<lambda>(d', x', f'). ch_id x' = ch_id x) ((d, x, f) # r) in
         Ok \<lparr> rr_channel = dec (ch_short x),
              rr_result = \<lparr> vr_device = dv_id d,
                vr_fields = List.map_filter (\<lambda>(d', x', f'). map_option field_entry_of f') own, vr_version = 0 \<rparr> \<rparr>))"

section \<open>The device cache\<close>

definition deviceCacheTTL :: duration where "deviceCacheTTL = 300 * second"

text \<open>A cache entry has every field but DeletedAt.\<close>

definition toEntry :: "device \<Rightarrow> device" where
  "toEntry d = d\<lparr> dv_deleted := None \<rparr>"

definition idKey :: "uuid \<Rightarrow> string" where "idKey i = ''device:id:'' @ i"
definition apiKey_key :: "string \<Rightarrow> string" where "apiKey_key k = ''device:apikey:'' @ k"

definition cache_SetDevice :: "(device \<Rightarrow> string option) \<Rightarrow> instant \<Rightarrow> bool \<Rightarrow> device \<Rightarrow> redis \<Rightarrow> registry_err option \<times> redis" where
  "cache_SetDevice encode now up d db =
    (case encode (toEntry d) of
       None \<Rightarrow> (Some MarshalErr, db)
     | Some b \<Rightarrow> if \<not> up then (Some CacheErr, db)
         else (None, redis_set now (apiKey_key (dv_api_key d)) b deviceCacheTTL
                (redis_set now (idKey (dv_id d)) b deviceCacheTTL db)))"

definition cache_GetDeviceByAPIKey :: "(string \<Rightarrow> device option) \<Rightarrow> instant \<Rightarrow> bool \<Rightarrow> string \<Rightarrow> redis
    \<Rightarrow> (registry_err, device) outcome" where
  "cache_GetDeviceByAPIKey decode now up k db =
    (if \<not> up then Fail CacheErr else
     case redis_get now db (apiKey_key k) of
       None \<Rightarrow> Fail DevCacheMiss
     | Some b \<Rightarrow> (case decode b of None \<Rightarrow> Fail CacheErr | Some d \<Rightarrow> Ok d))"

definition cache_DeleteDevice :: "bool \<Rightarrow> uuid \<Rightarrow> string \<Rightarrow> redis \<Rightarrow> registry_err option \<times> redis" where
  "cache_DeleteDevice up ident k db =
    (if \<not> up then (Some CacheErr, db) else (None, redis_del (apiKey_key k) (redis_del (idKey ident) db)))"

end
