(* ===== verification/Registry_Service.thy ===== *)
theory Registry_Service
  imports Registry_Store
begin

text \<open>
  The use cases of device-registry (application/*.go) over its database, its Redis cache and the
  InfluxDB buckets whose retention it manages (infrastructure/influxdb/retention.go). One record
  gives what the environment supplies to a call: the clock, the ids and random bytes drawn, uuid.Parse,
  the json codec of cached devices, and which database, Redis and InfluxDB requests succeed.
\<close>

record reg_env =
  en_now :: instant
  en_fresh :: "nat \<Rightarrow> uuid"
  en_rand :: "8 word list option"
  en_parse :: "string \<Rightarrow> uuid option"
  en_cast :: "string \<Rightarrow> uuid option"
  en_enc :: "device \<Rightarrow> string option"
  en_dec :: "string \<Rightarrow> device option"
  en_db :: "nat \<Rightarrow> bool"
  en_begin :: bool
  en_commit :: bool
  en_redis :: "nat \<Rightarrow> bool"
  en_influx :: "nat \<Rightarrow> bool"

record bucket =
  bk_id :: string
  bk_name :: string
  bk_seconds :: int

record registry =
  sy_db :: registry_db
  sy_redis :: redis
  sy_buckets :: "bucket list"

type_synonym 'a reg_call = "registry \<Rightarrow> (registry_err, 'a) outcome \<times> registry"

definition parse_id :: "reg_env \<Rightarrow> string \<Rightarrow> (registry_err, uuid) outcome" where
  "parse_id env s = (case en_parse env s of None \<Rightarrow> Fail ParseIDErr | Some u \<Rightarrow> Ok u)"

text \<open>Best-effort cache writes: an error is logged and dropped.\<close>

definition cache_device :: "reg_env \<Rightarrow> nat \<Rightarrow> device \<Rightarrow> registry \<Rightarrow> registry" where
  "cache_device env i d s =
    s\<lparr> sy_redis := snd (cache_SetDevice (en_enc env) (en_now env) (en_redis env i) d (sy_redis s)) \<rparr>"

definition bump_version :: "reg_env \<Rightarrow> nat \<Rightarrow> uuid \<Rightarrow> registry \<Rightarrow> registry" where
  "bump_version env i ident s =
    s\<lparr> sy_redis := snd (IncrDeviceVersion (en_now env) (\<lambda>_. en_redis env i) ident (sy_redis s)) \<rparr>"

section \<open>Devices\<close>

record create_device_input =
  cd_workspace :: string
  cd_name :: string
  cd_description :: string
  cd_lat :: "f64 option"
  cd_lng :: "f64 option"
  cd_address :: string
  cd_channel :: string
  cd_visibility :: string

text \<open>\<open>meta\<close> is the json text of the location; marshalling fails for a latitude or longitude that is
  not a finite number.\<close>

definition finite_opt :: "f64 option \<Rightarrow> bool" where
  "finite_opt x = (case x of Some (Fin _) \<Rightarrow> True | None \<Rightarrow> True | _ \<Rightarrow> False)"

definition location_metadata :: "(f64 option \<Rightarrow> f64 option \<Rightarrow> string \<Rightarrow> string) \<Rightarrow> create_device_input
    \<Rightarrow> (registry_err, string option) outcome" where
  "location_metadata meta inp =
    (if (cd_lat inp \<noteq> None) \<noteq> (cd_lng inp \<noteq> None) then Fail LatLngErr
     else if cd_lat inp \<noteq> None \<or> cd_lng inp \<noteq> None \<or> cd_address inp \<noteq> '''' then
       (if finite_opt (cd_lat inp) \<and> finite_opt (cd_lng inp)
        then Ok (Some (meta (cd_lat inp) (cd_lng inp) (cd_address inp))) else Fail MarshalErr)
     else Ok None)"

definition CreateDevice :: "reg_env \<Rightarrow> (f64 option \<Rightarrow> f64 option \<Rightarrow> string \<Rightarrow> string) \<Rightarrow> create_device_input
    \<Rightarrow> (device \<times> channel) reg_call" where
  "CreateDevice env meta inp s =
    (case bind_o (parse_id env (cd_workspace inp)) (\<lambda>wsID.
          bind_o (NewDevice (en_now env) (en_fresh env 0) (en_rand env) wsID (cd_name inp) (cd_description inp)) (\<lambda>d0.
          bind_o (location_metadata meta inp) (\<lambda>md.
          let d = (case md of None \<Rightarrow> d0 | Some m \<Rightarrow> d0\<lparr> dv_metadata := Some m \<rparr>);
              chName = (if cd_channel inp = '''' then ''Channel 1'' else cd_channel inp);
              vis = (if cd_visibility inp = VisibilityPublic then VisibilityPublic else VisibilityPrivate)
          in bind_o (NewChannel (en_now env) (en_fresh env 1) wsID chName '''' vis) (\<lambda>ch0.
             Ok (d, channel_SetDevice (en_now env) (dv_id d) ch0))))) of
       Fail e \<Rightarrow> (Fail e, s)
     | Panic \<Rightarrow> (Panic, s)
     | Ok (d, ch) \<Rightarrow>
        (case RunInTx (en_begin env) (en_commit env)
            (then_db (txDeviceRepo_Create (en_db env 0) (en_now env) d) (\<lambda>_.
               txChannelRepo_Create (en_db env 1) (en_now env) ch)) (sy_db s) of
           (Fail e, db') \<Rightarrow> (Fail e, s\<lparr> sy_db := db' \<rparr>)
         | (Panic, db') \<Rightarrow> (Panic, s\<lparr> sy_db := db' \<rparr>)
         | (Ok ch', db') \<Rightarrow> (Ok (d, ch'), cache_device env 0 d (s\<lparr> sy_db := db' \<rparr>))))"

definition GetDevice :: "reg_env \<Rightarrow> string \<Rightarrow> registry \<Rightarrow> (registry_err, device) outcome" where
  "GetDevice env ident s = bind_o (parse_id env ident) (\<lambda>uid. DeviceRepo_GetByID (en_db env 0) uid (sy_db s))"

definition ListDevices :: "reg_env \<Rightarrow> string \<Rightarrow> int \<Rightarrow> int \<Rightarrow> registry \<Rightarrow> (registry_err, device list \<times> nat) outcome" where
  "ListDevices env ws lmt off s =
    bind_o (parse_id env ws) (\<lambda>wsID. DeviceRepo_ListByWorkspace (en_db env 0) wsID lmt off (sy_db s))"

record update_device_input =
  ud_name :: string
  ud_description :: string
  ud_status :: string

definition apply_device_update :: "instant \<Rightarrow> update_device_input \<Rightarrow> device \<Rightarrow> (registry_err, device) outcome" where
  "apply_device_update now inp d =
    bind_o (if ud_name inp \<noteq> '''' then device_SetName now (ud_name inp) d else Ok d) (\<lambda>d1.
    let d2 = (if ud_description inp \<noteq> '''' then d1\<lparr> dv_description := ud_description inp \<rparr> else d1) in
    if ud_status inp \<noteq> '''' then device_SetStatus now (ud_status inp) d2 else Ok d2)"

definition UpdateDevice :: "reg_env \<Rightarrow> string \<Rightarrow> update_device_input \<Rightarrow> device reg_call" where
  "UpdateDevice env ident inp s =
    (case bind_o (parse_id env ident) (\<lambda>uid.
          bind_o (DeviceRepo_GetByID (en_db env 0) uid (sy_db s)) (apply_device_update (en_now env) inp)) of
       Fail e \<Rightarrow> (Fail e, s)
     | Panic \<Rightarrow> (Panic, s)
     | Ok d \<Rightarrow> (case DeviceRepo_Update (en_db env 1) (en_now env) d (sy_db s) of
          (Ok _, db') \<Rightarrow> (Ok d, cache_device env 0 d (s\<lparr> sy_db := db' \<rparr>))
        | (Fail e, db') \<Rightarrow> (Fail e, s\<lparr> sy_db := db' \<rparr>)
        | (Panic, db') \<Rightarrow> (Panic, s\<lparr> sy_db := db' \<rparr>)))"

definition RotateAPIKey :: "reg_env \<Rightarrow> string \<Rightarrow> device reg_call" where
  "RotateAPIKey env ident s =
    (case bind_o (parse_id env ident) (\<lambda>uid.
          bind_o (DeviceRepo_GetByID (en_db env 0) uid (sy_db s)) (device_RotateAPIKey (en_now env) (en_rand env))) of
       Fail e \<Rightarrow> (Fail e, s)
     | Panic \<Rightarrow> (Panic, s)
     | Ok d \<Rightarrow> (case DeviceRepo_Update (en_db env 1) (en_now env) d (sy_db s) of
          (Ok _, db') \<Rightarrow> (Ok d, bump_version env 1 (dv_id d) (cache_device env 0 d (s\<lparr> sy_db := db' \<rparr>)))
        | (Fail e, db') \<Rightarrow> (Fail e, s\<lparr> sy_db := db' \<rparr>)
        | (Panic, db') \<Rightarrow> (Panic, s\<lparr> sy_db := db' \<rparr>)))"

definition uncache_device :: "reg_env \<Rightarrow> nat \<Rightarrow> device \<Rightarrow> registry \<Rightarrow> registry" where
  "uncache_device env i d s =
    s\<lparr> sy_redis := snd (cache_DeleteDevice (en_redis env i) (dv_id d) (dv_api_key d) (sy_redis s)) \<rparr>"

definition DeleteDevice :: "reg_env \<Rightarrow> string \<Rightarrow> unit reg_call" where
  "DeleteDevice env ident s =
    (case bind_o (parse_id env ident) (\<lambda>uid.
          bind_o (DeviceRepo_GetByID (en_db env 0) uid (sy_db s)) (\<lambda>d.
          bind_o (device_SoftDelete (en_now env) d) (\<lambda>d'. Ok (uid, d')))) of
       Fail e \<Rightarrow> (Fail e, s)
     | Panic \<Rightarrow> (Panic, s)
     | Ok (uid, d) \<Rightarrow> (case DeviceRepo_Delete (\<lambda>i. en_db env (i + 1)) (en_now env) uid (sy_db s) of
          (Ok _, db') \<Rightarrow> (Ok (), bump_version env 1 (dv_id d) (uncache_device env 0 d (s\<lparr> sy_db := db' \<rparr>)))
        | (Fail e, db') \<Rightarrow> (Fail e, s\<lparr> sy_db := db' \<rparr>)
        | (Panic, db') \<Rightarrow> (Panic, s\<lparr> sy_db := db' \<rparr>)))"

definition device_ValidateAPIKey :: "reg_env \<Rightarrow> string \<Rightarrow> device reg_call" where
  "device_ValidateAPIKey env apiKey s =
    (case cache_GetDeviceByAPIKey (en_dec env) (en_now env) (en_redis env 0) apiKey (sy_redis s) of
       Ok d \<Rightarrow> (Ok d, s)
     | _ \<Rightarrow> (case DeviceRepo_GetByAPIKey (en_db env 0) apiKey (sy_db s) of
          Ok d \<Rightarrow> (Ok d, cache_device env 1 d s)
        | Fail e \<Rightarrow> (Fail e, s)
        | Panic \<Rightarrow> (Panic, s)))"

section \<open>Provisioning\<close>

record provision_field_input =
  pf_name :: string
  pf_label :: string
  pf_unit :: string
  pf_type :: string
  pf_position :: int

record provision_input =
  pi_workspace :: string
  pi_name :: string
  pi_description :: string
  pi_ch_name :: string
  pi_ch_description :: string
  pi_ch_visibility :: string
  pi_existing :: string
  pi_fields :: "provision_field_input list"

record provision_result =
  pr_device :: device
  pr_channel :: channel
  pr_fields :: "field list"

text \<open>Field number i draws id \<open>en_fresh (k + i)\<close>.\<close>

fun buildFields :: "reg_env \<Rightarrow> nat \<Rightarrow> uuid \<Rightarrow> provision_field_input list \<Rightarrow> (registry_err, field list) outcome" where
  "buildFields env k channelID [] = Ok []"
| "buildFields env k channelID (fi # fis) =
    bind_o (NewField (en_now env) (en_fresh env k) channelID (pf_name fi) (pf_label fi) (pf_unit fi)
              (pf_type fi) (pf_position fi)) (\<lambda>f.
    bind_o (buildFields env (Suc k) channelID fis) (\<lambda>fs. Ok (f # fs)))"

fun create_fields :: "reg_env \<Rightarrow> nat \<Rightarrow> field list \<Rightarrow> unit db_call" where
  "create_fields env k [] db = (Ok (), db)"
| "create_fields env k (f # fs) db =
    then_db (txFieldRepo_Create (en_db env k) (en_now env) f) (\<lambda>_. create_fields env (Suc k) fs) db"

definition provisionWithNewChannel :: "reg_env \<Rightarrow> provision_input \<Rightarrow> uuid \<Rightarrow> device \<Rightarrow> provision_result reg_call" where
  "provisionWithNewChannel env inp wsID d s =
    (case bind_o (NewChannel (en_now env) (en_fresh env 1) wsID (pi_ch_name inp) (pi_ch_description inp)
              (pi_ch_visibility inp)) (\<lambda>ch0.
          let ch = channel_SetDevice (en_now env) (dv_id d) ch0 in
          bind_o (buildFields env 2 (ch_id ch) (pi_fields inp)) (\<lambda>fs. Ok (ch, fs))) of
       Fail e \<Rightarrow> (Fail e, s)
     | Panic \<Rightarrow> (Panic, s)
     | Ok (ch, fs) \<Rightarrow>
        (case RunInTx (en_begin env) (en_commit env)
            (then_db (txDeviceRepo_Create (en_db env 1) (en_now env) d) (\<lambda>_.
             then_db (txChannelRepo_Create (en_db env 2) (en_now env) ch) (\<lambda>ch'.
             then_db (create_fields env 3 fs) (\<lambda>_ db. (Ok ch', db))))) (sy_db s) of
           (Fail e, db') \<Rightarrow> (Fail e, s\<lparr> sy_db := db' \<rparr>)
         | (Panic, db') \<Rightarrow> (Panic, s\<lparr> sy_db := db' \<rparr>)
         | (Ok ch', db') \<Rightarrow>
             (Ok \<lparr> pr_device = d, pr_channel = ch', pr_fields = fs \<rparr>, cache_device env 0 d (s\<lparr> sy_db := db' \<rparr>))))"

definition provisionWithExistingChannel :: "reg_env \<Rightarrow> provision_input \<Rightarrow> uuid \<Rightarrow> device \<Rightarrow> provision_result reg_call" where
  "provisionWithExistingChannel env inp wsID d s =
    (case bind_o (parse_id env (pi_existing inp)) (\<lambda>chID.
          bind_o (ChannelRepo_GetByID (en_db env 0) chID (sy_db s)) (\<lambda>ch.
          if ch_workspace ch \<noteq> wsID then Fail ChNotFound else
          bind_o (buildFields env 2 (ch_id ch) (pi_fields inp)) (\<lambda>fs.
          Ok (channel_SetDevice (en_now env) (dv_id d) ch, fs)))) of
       Fail e \<Rightarrow> (Fail e, s)
     | Panic \<Rightarrow> (Panic, s)
     | Ok (ch, fs) \<Rightarrow>
        (case RunInTx (en_begin env) (en_commit env)
            (then_db (txDeviceRepo_Create (en_db env 1) (en_now env) d) (\<lambda>_.
             then_db (txChannelRepo_Update (en_db env 2) (en_now env) ch) (\<lambda>_.
             create_fields env 3 fs))) (sy_db s) of
           (Fail e, db') \<Rightarrow> (Fail e, s\<lparr> sy_db := db' \<rparr>)
         | (Panic, db') \<Rightarrow> (Panic, s\<lparr> sy_db := db' \<rparr>)
         | (Ok _, db') \<Rightarrow>
             (Ok \<lparr> pr_device = d, pr_channel = ch, pr_fields = fs \<rparr>, cache_device env 0 d (s\<lparr> sy_db := db' \<rparr>))))"

definition Provision :: "reg_env \<Rightarrow> provision_input \<Rightarrow> provision_result reg_call" where
  "Provision env inp s =
    (case bind_o (parse_id env (pi_workspace inp)) (\<lambda>wsID.
          bind_o (NewDevice (en_now env) (en_fresh env 0) (en_rand env) wsID (pi_name inp) (pi_description inp)) (\<lambda>d.
          Ok (wsID, d))) of
       Fail e \<Rightarrow> (Fail e, s)
     | Panic \<Rightarrow> (Panic, s)
     | Ok (wsID, d) \<Rightarrow>
        if pi_existing inp \<noteq> '''' then provisionWithExistingChannel env inp wsID d s
        else provisionWithNewChannel env inp wsID d s)"

section \<open>Bucket retention\<close>

definition bucket_name :: "uuid \<Rightarrow> string" where "bucket_name c = ''channel-'' @ c"

definition findBucket :: "bool \<Rightarrow> string \<Rightarrow> bucket list \<Rightarrow> (registry_err, string) outcome" where
  "findBucket up name bs =
    (if \<not> up then Fail CacheErr else
     case filter (\<lambda>b. bk_name b = name) bs of [] \<Rightarrow> Ok '''' | b # _ \<Rightarrow> Ok (bk_id b))"

definition createBucket :: "bool \<Rightarrow> string \<Rightarrow> string \<Rightarrow> int \<Rightarrow> bucket list \<Rightarrow> registry_err option \<times> bucket list" where
  "createBucket up newID name durationNs bs =
    (if \<not> up then (Some CacheErr, bs)
     else (None, bs @ [\<lparr> bk_id = newID, bk_name = name, bk_seconds = durationNs div second \<rparr>]))"

definition updateBucket :: "bool \<Rightarrow> string \<Rightarrow> int \<Rightarrow> bucket list \<Rightarrow> registry_err option \<times> bucket list" where
  "updateBucket up bucketID durationNs bs =
    (if \<not> up then (Some CacheErr, bs)
     else (None, map (\<lambda>b. if bk_id b = bucketID then b\<lparr> bk_seconds := durationNs div second \<rparr> else b) bs))"

definition SetRetention :: "reg_env \<Rightarrow> uuid \<Rightarrow> int \<Rightarrow> bucket list \<Rightarrow> registry_err option \<times> bucket list" where
  "SetRetention env channelID days bs =
    (let name = bucket_name channelID; durationNs = wrap64 (wrap64 (days * 24) * hour) in
     case findBucket (en_influx env 0) name bs of
       Fail e \<Rightarrow> (Some e, bs)
     | Panic \<Rightarrow> (Some CacheErr, bs)
     | Ok bucketID \<Rightarrow>
         if bucketID \<noteq> '''' then updateBucket (en_influx env 1) bucketID durationNs bs
         else createBucket (en_influx env 1) (en_fresh env 9) name durationNs bs)"

definition set_retention :: "reg_env \<Rightarrow> uuid \<Rightarrow> int \<Rightarrow> registry \<Rightarrow> registry" where
  "set_retention env c days s = s\<lparr> sy_buckets := snd (SetRetention env c days (sy_buckets s)) \<rparr>"

section \<open>Channels\<close>

record create_channel_input =
  cc_workspace :: string
  cc_device :: "string option"
  cc_name :: string
  cc_description :: string
  cc_visibility :: string
  cc_tags :: "string list"
  cc_retention :: int

text \<open>\<open>tags_json\<close> is json.Marshal of a string list, which does not fail.\<close>

definition CreateChannel :: "reg_env \<Rightarrow> (string list \<Rightarrow> string) \<Rightarrow> create_channel_input \<Rightarrow> channel reg_call" where
  "CreateChannel env tags_json inp s =
    (case bind_o (parse_id env (cc_workspace inp)) (\<lambda>wsID.
          bind_o (NewChannel (en_now env) (en_fresh env 0) wsID (cc_name inp) (cc_description inp) (cc_visibility inp)) (\<lambda>ch0.
          bind_o (case cc_device inp of None \<Rightarrow> Ok ch0
                  | Some d \<Rightarrow> bind_o (parse_id env d) (\<lambda>devID. Ok (ch0\<lparr> ch_device := Some devID \<rparr>))) (\<lambda>ch1.
          let ch2 = (if length (cc_tags inp) > 0 then ch1\<lparr> ch_tags := tags_json (cc_tags inp) \<rparr> else ch1) in
          if cc_retention inp \<noteq> 0 then channel_SetRetentionDays (en_now env) (cc_retention inp) ch2 else Ok ch2))) of
       Fail e \<Rightarrow> (Fail e, s)
     | Panic \<Rightarrow> (Panic, s)
     | Ok ch \<Rightarrow> (case ChannelRepo_Create (en_db env 0) (en_now env) ch (sy_db s) of
          (Fail e, db') \<Rightarrow> (Fail e, s\<lparr> sy_db := db' \<rparr>)
        | (Panic, db') \<Rightarrow> (Panic, s\<lparr> sy_db := db' \<rparr>)
        | (Ok ch', db') \<Rightarrow> (Ok ch', set_retention env (ch_id ch') (ch_retention ch') (s\<lparr> sy_db := db' \<rparr>))))"

definition GetChannel :: "reg_env \<Rightarrow> string \<Rightarrow> registry \<Rightarrow> (registry_err, channel) outcome" where
  "GetChannel env ident s = bind_o (parse_id env ident) (\<lambda>uid. ChannelRepo_GetByID (en_db env 0) uid (sy_db s))"

definition ListChannels :: "reg_env \<Rightarrow> string \<Rightarrow> int \<Rightarrow> int \<Rightarrow> registry \<Rightarrow> (registry_err, channel list \<times> nat) outcome" where
  "ListChannels env ws lmt off s =
    bind_o (parse_id env ws) (\<lambda>wsID. ChannelRepo_ListByWorkspace (en_db env 0) wsID lmt off (sy_db s))"

definition ListChannelsByDevice :: "reg_env \<Rightarrow> string \<Rightarrow> int \<Rightarrow> int \<Rightarrow> registry \<Rightarrow> (registry_err, channel list \<times> nat) outcome" where
  "ListChannelsByDevice env dev lmt off s =
    bind_o (parse_id env dev) (\<lambda>devID. ChannelRepo_ListByDevice (en_db env 0) devID lmt off (sy_db s))"

record update_channel_input =
  uc_name :: string
  uc_description :: string
  uc_visibility :: string
  uc_tags :: "string list option"
  uc_retention :: int

definition apply_channel_update :: "instant \<Rightarrow> (string list \<Rightarrow> string) \<Rightarrow> update_channel_input \<Rightarrow> channel
    \<Rightarrow> (registry_err, channel) outcome" where
  "apply_channel_update now tags_json inp c =
    bind_o (if uc_name inp \<noteq> '''' then channel_SetName now (uc_name inp) c else Ok c) (\<lambda>c1.
    let c2 = (if uc_description inp \<noteq> '''' then c1\<lparr> ch_description := uc_description inp \<rparr> else c1) in
    bind_o (if uc_visibility inp \<noteq> '''' then channel_SetVisibility now (uc_visibility inp) c2 else Ok c2) (\<lambda>c3.
    let c4 = (case uc_tags inp of None \<Rightarrow> c3 | Some ts \<Rightarrow> c3\<lparr> ch_tags := tags_json ts \<rparr>) in
    if uc_retention inp \<noteq> 0 then channel_SetRetentionDays now (uc_retention inp) c4 else Ok c4))"

definition UpdateChannel :: "reg_env \<Rightarrow> (string list \<Rightarrow> string) \<Rightarrow> string \<Rightarrow> update_channel_input \<Rightarrow> channel reg_call" where
  "UpdateChannel env tags_json ident inp s =
    (case bind_o (parse_id env ident) (\<lambda>uid.
          bind_o (ChannelRepo_GetByID (en_db env 0) uid (sy_db s)) (apply_channel_update (en_now env) tags_json inp)) of
       Fail e \<Rightarrow> (Fail e, s)
     | Panic \<Rightarrow> (Panic, s)
     | Ok ch \<Rightarrow> (case ChannelRepo_Update (en_db env 1) (en_now env) ch (sy_db s) of
          (Fail e, db') \<Rightarrow> (Fail e, s\<lparr> sy_db := db' \<rparr>)
        | (Panic, db') \<Rightarrow> (Panic, s\<lparr> sy_db := db' \<rparr>)
        | (Ok _, db') \<Rightarrow> (Ok ch, set_retention env (ch_id ch) (ch_retention ch) (s\<lparr> sy_db := db' \<rparr>))))"

definition DeleteChannel :: "reg_env \<Rightarrow> string \<Rightarrow> unit reg_call" where
  "DeleteChannel env ident s =
    (case parse_id env ident of
       Ok uid \<Rightarrow> (case ChannelRepo_Delete (en_db env 0) (en_now env) uid (sy_db s) of (r, db') \<Rightarrow> (r, s\<lparr> sy_db := db' \<rparr>))
     | Fail e \<Rightarrow> (Fail e, s)
     | Panic \<Rightarrow> (Panic, s))"

section \<open>Fields\<close>

record create_field_input =
  cf_channel :: string
  cf_name :: string
  cf_label :: string
  cf_unit :: string
  cf_type :: string
  cf_position :: int
  cf_description :: string

definition CreateField :: "reg_env \<Rightarrow> create_field_input \<Rightarrow> field reg_call" where
  "CreateField env inp s =
    (case bind_o (parse_id env (cf_channel inp)) (\<lambda>channelID.
          NewField (en_now env) (en_fresh env 0) channelID (cf_name inp) (cf_label inp) (cf_unit inp)
            (cf_type inp) (cf_position inp)) of
       Fail e \<Rightarrow> (Fail e, s)
     | Panic \<Rightarrow> (Panic, s)
     | Ok f0 \<Rightarrow> (let f = f0\<lparr> fd_description := cf_description inp \<rparr> in
         case FieldRepo_Create (en_db env 0) (en_now env) f (sy_db s) of
          (Fail e, db') \<Rightarrow> (Fail e, s\<lparr> sy_db := db' \<rparr>)
        | (Panic, db') \<Rightarrow> (Panic, s\<lparr> sy_db := db' \<rparr>)
        | (Ok _, db') \<Rightarrow> (Ok f, s\<lparr> sy_db := db' \<rparr>)))"

definition GetField :: "reg_env \<Rightarrow> string \<Rightarrow> registry \<Rightarrow> (registry_err, field) outcome" where
  "GetField env ident s = bind_o (parse_id env ident) (\<lambda>uid. FieldRepo_GetByID (en_db env 0) uid (sy_db s))"

definition ListFields :: "reg_env \<Rightarrow> string \<Rightarrow> registry \<Rightarrow> (registry_err, field list) outcome" where
  "ListFields env c s = bind_o (parse_id env c) (\<lambda>cid. FieldRepo_ListByChannel (en_db env 0) cid (sy_db s))"

record update_field_input =
  uf_name :: string
  uf_label :: string
  uf_unit :: string
  uf_description :: string

definition apply_field_update :: "instant \<Rightarrow> update_field_input \<Rightarrow> field \<Rightarrow> (registry_err, field) outcome" where
  "apply_field_update now inp f =
    bind_o (if uf_name inp \<noteq> '''' then field_SetName now (uf_name inp) f else Ok f) (\<lambda>f1.
    let f2 = (if uf_label inp \<noteq> '''' then field_SetLabel now (uf_label inp) f1 else f1);
        f3 = (if uf_unit inp \<noteq> '''' then field_SetUnit now (uf_unit inp) f2 else f2)
    in Ok (if uf_description inp \<noteq> '''' then field_SetDescription now (uf_description inp) f3 else f3))"

definition UpdateField :: "reg_env \<Rightarrow> string \<Rightarrow> update_field_input \<Rightarrow> field reg_call" where
  "UpdateField env ident inp s =
    (case bind_o (parse_id env ident) (\<lambda>uid.
          bind_o (FieldRepo_GetByID (en_db env 0) uid (sy_db s)) (apply_field_update (en_now env) inp)) of
       Fail e \<Rightarrow> (Fail e, s)
     | Panic \<Rightarrow> (Panic, s)
     | Ok f \<Rightarrow> (case FieldRepo_Update (en_db env 1) (en_now env) f (sy_db s) of
          (Ok _, db') \<Rightarrow> (Ok f, s\<lparr> sy_db := db' \<rparr>)
        | (Fail e, db') \<Rightarrow> (Fail e, s\<lparr> sy_db := db' \<rparr>)
        | (Panic, db') \<Rightarrow> (Panic, s\<lparr> sy_db := db' \<rparr>)))"

definition DeleteField :: "reg_env \<Rightarrow> string \<Rightarrow> unit reg_call" where
  "DeleteField env ident s =
    (case parse_id env ident of
       Ok uid \<Rightarrow> (case FieldRepo_Delete (en_db env 0) uid (sy_db s) of (r, db') \<Rightarrow> (r, s\<lparr> sy_db := db' \<rparr>))
     | Fail e \<Rightarrow> (Fail e, s)
     | Panic \<Rightarrow> (Panic, s))"

section \<open>Internal queries\<close>

definition internal_ValidateAPIKey :: "reg_env \<Rightarrow> string \<Rightarrow> string \<Rightarrow> registry \<Rightarrow> (registry_err, validate_result) outcome" where
  "internal_ValidateAPIKey env apiKey channelID s =
    InternalRepo_ValidateAPIKey (en_cast env) (en_db env) apiKey channelID (sy_db s)"

definition internal_ResolveChannelByAPIKey :: "reg_env \<Rightarrow> string \<Rightarrow> registry \<Rightarrow> (registry_err, resolve_result) outcome" where
  "internal_ResolveChannelByAPIKey env apiKey s = InternalRepo_ResolveChannelByAPIKey (en_db env 0) apiKey (sy_db s)"

end
