(* ===== verification/Registry_Invariant.thy ===== *)
theory Registry_Invariant
  imports Registry_Service
begin

text \<open>
  The invariant of device-registry's tables: ids and API keys are unique, a channel has at most one
  field at each of the positions 1 to 8, every stored entity is well formed and every reference
  points to a row. Every repository statement, every transaction and every use case keeps it, so it
  holds in each reachable state.
\<close>

section \<open>The invariant of the tables\<close>

definition db_inv :: "registry_db \<Rightarrow> bool" where
  "db_inv db \<longleftrightarrow>
     distinct (map dv_id (rg_devices db)) \<and> distinct (map dv_api_key (rg_devices db)) \<and>
     distinct (map ch_id (rg_channels db)) \<and> distinct (map fd_id (rg_fields db)) \<and>
     distinct (map (\<lambda>f. (fd_channel f, fd_position f)) (rg_fields db)) \<and>
     (\<forall>d\<in>set (rg_devices db). device_wf d) \<and> (\<forall>c\<in>set (rg_channels db). channel_wf c) \<and>
     (\<forall>f\<in>set (rg_fields db). field_wf f \<and> fd_channel f \<in> ch_id ` set (rg_channels db)) \<and>
     (\<forall>c\<in>set (rg_channels db). \<forall>d. ch_device c = Some d \<longrightarrow> d \<in> dv_id ` set (rg_devices db))"

lemma map_if_update:
  "(\<And>x. k (u x) = k x) \<Longrightarrow> map k (map (\<lambda>x. if P x then u x else x) xs) = map k xs"
  by (induction xs) auto

lemma distinct_update_key:
  assumes "distinct (map i xs)" "distinct (map k xs)" "\<And>x. x \<in> set xs \<Longrightarrow> i x \<noteq> j \<Longrightarrow> k x \<noteq> v"
    and "\<And>x. k (u x) = v"
  shows "distinct (map k (map (\<lambda>x. if i x = j then u x else x) xs))"
  using assms
proof (induction xs)
  case (Cons a xs)
  show ?case
  proof (cases "i a = j")
    case True
    have ne: "i x \<noteq> j" if "x \<in> set xs" for x using that Cons.prems(1) True by (metis distinct.simps(2) image_eqI list.set_map list.simps(9))
    then have "map (\<lambda>x. if i x = j then u x else x) xs = xs" by (intro map_idI) auto
    moreover have "v \<notin> k ` set xs" using ne Cons.prems(3) by (metis imageE list.set_intros(2))
    ultimately show ?thesis using Cons.prems True by simp
  next
    case False
    then have "k a \<noteq> v" using Cons.prems(3) by simp
    then have "k a \<notin> set (map k (map (\<lambda>x. if i x = j then u x else x) xs))"
      using Cons.prems(2,4) by (auto split: if_splits)
    moreover have "distinct (map k (map (\<lambda>x. if i x = j then u x else x) xs))"
      using Cons.prems by (intro Cons.IH) auto
    ultimately show ?thesis using False by (simp del: map_map set_map)
  qed
qed simp

lemma distinct_map_snoc:
  "distinct (map k xs) \<Longrightarrow> (\<And>x. x \<in> set xs \<Longrightarrow> k x \<noteq> k y) \<Longrightarrow> distinct (map k (xs @ [y]))"
  by (force simp: image_iff)

lemma DeviceRepo_Create_inv:
  assumes "DeviceRepo_Create up now d db = (r, db')" "db_inv db" "device_wf d"
  shows "db_inv db'"
proof (cases "r = Ok ()")
  case True
  let ?d = "d\<lparr> dv_last_seen := None, dv_created := now, dv_updated := now, dv_deleted := None \<rparr>"
  have db': "db' = db\<lparr> rg_devices := rg_devices db @ [?d] \<rparr>"
    and new: "\<And>x. x \<in> set (rg_devices db) \<Longrightarrow> dv_id x \<noteq> dv_id d \<and> dv_api_key x \<noteq> dv_api_key d"
    using assms(1) True by (auto simp: DeviceRepo_Create_def list_ex_iff split: if_splits)
  have "distinct (map dv_id (rg_devices db @ [?d]))" "distinct (map dv_api_key (rg_devices db @ [?d]))"
    using assms(2) new by (auto intro!: distinct_map_snoc simp: db_inv_def simp del: map_append)
  moreover have "device_wf ?d" using assms(3) by (simp add: device_wf_def)
  ultimately show ?thesis using assms(2) unfolding db' db_inv_def by (simp del: map_append)
qed (use assms in \<open>auto simp: DeviceRepo_Create_def split: if_splits\<close>)

lemma DeviceRepo_Update_inv:
  assumes "DeviceRepo_Update up now d db = (r, db')" "db_inv db" "device_wf d"
  shows "db_inv db'"
proof (cases "r = Ok ()")
  case True
  let ?u = "\<lambda>x. x\<lparr> dv_name := dv_name d, dv_description := dv_description d, dv_api_key := dv_api_key d,
                 dv_status := dv_status d, dv_updated := now \<rparr>"
  let ?ds = "map (\<lambda>x. if dv_id x = dv_id d then ?u x else x) (rg_devices db)"
  have db': "db' = db\<lparr> rg_devices := ?ds \<rparr>" using assms(1) True by (auto simp: DeviceRepo_Update_def split: if_splits)
  have ids: "map dv_id ?ds = map dv_id (rg_devices db)" by (rule map_if_update) simp
  have keys: "distinct (map dv_api_key ?ds)"
  proof (cases "list_ex (\<lambda>x. dv_id x = dv_id d) (rg_devices db)")
    case True
    then have "\<And>x. x \<in> set (rg_devices db) \<Longrightarrow> dv_id x \<noteq> dv_id d \<Longrightarrow> dv_api_key x \<noteq> dv_api_key d"
      using assms(1) \<open>r = Ok ()\<close> by (auto simp: DeviceRepo_Update_def list_ex_iff split: if_splits)
    then show ?thesis using assms(2) by (intro distinct_update_key) (auto simp: db_inv_def)
  next
    case False
    then have "?ds = rg_devices db" by (intro map_idI) (auto simp: list_ex_iff)
    with assms(2) show ?thesis by (simp add: db_inv_def)
  qed
  have "set (map dv_id ?ds) = set (map dv_id (rg_devices db))" by (simp only: ids)
  then have idset: "dv_id ` set ?ds = dv_id ` set (rg_devices db)" by (simp only: set_map)
  have "\<forall>x\<in>set ?ds. device_wf x" using assms(2,3) by (auto simp: db_inv_def device_wf_def)
  with ids keys idset assms(2) show ?thesis unfolding db' db_inv_def by (simp del: map_map set_map)
qed (use assms in \<open>auto simp: DeviceRepo_Update_def split: if_splits\<close>)

lemma soft_deleted_images:
  "dv_id ` set (map (\<lambda>d. if P d then d\<lparr> dv_deleted := t, dv_updated := n \<rparr> else d) ds) = dv_id ` set ds"
  "ch_id ` set (map (\<lambda>c. if Q c then c\<lparr> ch_deleted := t, ch_updated := n \<rparr> else c) cs) = ch_id ` set cs"
proof -
  have "map dv_id (map (\<lambda>d. if P d then d\<lparr> dv_deleted := t, dv_updated := n \<rparr> else d) ds) = map dv_id ds"
    "map ch_id (map (\<lambda>c. if Q c then c\<lparr> ch_deleted := t, ch_updated := n \<rparr> else c) cs) = map ch_id cs"
    by (rule map_if_update, simp)+
  then show "dv_id ` set (map (\<lambda>d. if P d then d\<lparr> dv_deleted := t, dv_updated := n \<rparr> else d) ds) = dv_id ` set ds"
    "ch_id ` set (map (\<lambda>c. if Q c then c\<lparr> ch_deleted := t, ch_updated := n \<rparr> else c) cs) = ch_id ` set cs"
    by (metis set_map)+
qed

lemma mark_devices_inv:
  "db_inv db \<Longrightarrow> db_inv (db\<lparr> rg_devices := map (\<lambda>d. if P d then d\<lparr> dv_deleted := t, dv_updated := n \<rparr> else d) (rg_devices db) \<rparr>)"
  unfolding db_inv_def
  by (simp add: soft_deleted_images map_if_update del: map_map set_map) (auto simp: device_wf_def)

lemma mark_channels_inv:
  "db_inv db \<Longrightarrow> db_inv (db\<lparr> rg_channels := map (\<lambda>c. if P c then c\<lparr> ch_deleted := t, ch_updated := n \<rparr> else c) (rg_channels db) \<rparr>)"
  unfolding db_inv_def
  by (simp add: soft_deleted_images map_if_update del: map_map set_map) (auto simp: channel_wf_def)

lemma DeviceRepo_Delete_inv:
  assumes "DeviceRepo_Delete up now i db = (r, db')" "db_inv db"
  shows "db_inv db'"
proof (cases "r = Ok ()")
  case True
  let ?db1 = "db\<lparr> rg_devices := map (\<lambda>d. if dv_id d = i \<and> dv_deleted d = None
          then d\<lparr> dv_deleted := Some now, dv_updated := now \<rparr> else d) (rg_devices db) \<rparr>"
  have "db' = ?db1\<lparr> rg_channels := map (\<lambda>c. if ch_device c = Some i \<and> ch_deleted c = None
          then c\<lparr> ch_deleted := Some now, ch_updated := now \<rparr> else c) (rg_channels ?db1) \<rparr>"
    using assms(1) True by (auto simp: DeviceRepo_Delete_def split: if_splits)
  then show ?thesis using mark_channels_inv [OF mark_devices_inv [OF assms(2)]] by simp
qed (use assms in \<open>auto simp: DeviceRepo_Delete_def split: if_splits\<close>)

lemma ChannelRepo_Delete_inv:
  "ChannelRepo_Delete up now i db = (r, db') \<Longrightarrow> db_inv db \<Longrightarrow> db_inv db'"
  by (auto simp: ChannelRepo_Delete_def mark_channels_inv split: if_splits)

lemma ChannelRepo_Create_inv:
  assumes "ChannelRepo_Create up now c db = (r, db')" "db_inv db" "channel_wf c"
  shows "db_inv db'"
proof (cases "is_ok r")
  case True
  let ?c = "c\<lparr> ch_short := rg_next_short db, ch_retention := 90, ch_created := now, ch_updated := now, ch_deleted := None \<rparr>"
  have db': "db' = db\<lparr> rg_next_short := Suc (rg_next_short db), rg_channels := rg_channels db @ [?c] \<rparr>"
    and new: "\<And>x. x \<in> set (rg_channels db) \<Longrightarrow> ch_id x \<noteq> ch_id c"
    and dev: "\<And>v. ch_device c = Some v \<Longrightarrow> v \<in> dv_id ` set (rg_devices db)"
    using assms(1) True by (auto simp: ChannelRepo_Create_def list_ex_iff is_ok_iff split: if_splits option.splits)
  have "distinct (map ch_id (rg_channels db @ [?c]))"
    using assms(2) new by (auto intro!: distinct_map_snoc simp: db_inv_def simp del: map_append)
  moreover have "channel_wf ?c" using assms(3) by (simp add: channel_wf_def)
  ultimately show ?thesis using assms(2) dev unfolding db' db_inv_def
    by (auto simp del: map_append)
qed (use assms in \<open>auto simp: ChannelRepo_Create_def is_ok_iff split: if_splits\<close>)

lemma FieldRepo_Create_inv:
  assumes "FieldRepo_Create up now f db = (r, db')" "db_inv db" "field_wf f"
  shows "db_inv db'"
proof (cases "is_ok r")
  case True
  let ?f = "f\<lparr> fd_created := now, fd_updated := now \<rparr>"
  have db': "db' = db\<lparr> rg_fields := rg_fields db @ [?f] \<rparr>"
    and new: "\<And>x. x \<in> set (rg_fields db) \<Longrightarrow> fd_id x \<noteq> fd_id f \<and> (fd_channel x, fd_position x) \<noteq> (fd_channel f, fd_position f)"
    and ch: "fd_channel f \<in> ch_id ` set (rg_channels db)"
    using assms(1) True by (auto simp: FieldRepo_Create_def list_ex_iff is_ok_iff image_iff eq_commute split: if_splits)
  have "distinct (map fd_id (rg_fields db @ [?f]))" "distinct (map (\<lambda>f. (fd_channel f, fd_position f)) (rg_fields db @ [?f]))"
    using assms(2) new by (auto intro!: distinct_map_snoc simp: db_inv_def simp del: map_append)
  moreover have "field_wf ?f" using assms(3) by (simp add: field_wf_def)
  ultimately show ?thesis using assms(2) ch unfolding db' db_inv_def
    by (simp del: map_append)
qed (use assms in \<open>auto simp: FieldRepo_Create_def is_ok_iff split: if_splits\<close>)

lemma FieldRepo_Delete_inv:
  "FieldRepo_Delete up i db = (r, db') \<Longrightarrow> db_inv db \<Longrightarrow> db_inv db'"
  by (auto simp: FieldRepo_Delete_def db_inv_def distinct_map_filter split: if_splits)

lemma ChannelRepo_Update_inv:
  assumes "ChannelRepo_Update up now c db = (r, db')" "db_inv db" "channel_wf c"
  shows "db_inv db'"
proof (cases "is_ok r")
  case True
  let ?u = "\<lambda>x. x\<lparr> ch_name := ch_name c, ch_description := ch_description c, ch_visibility := ch_visibility c,
                 ch_tags := ch_tags c, ch_updated := now \<rparr>"
  let ?cs = "map (\<lambda>x. if ch_id x = ch_id c then ?u x else x) (rg_channels db)"
  have db': "db' = db\<lparr> rg_channels := ?cs \<rparr>" using assms(1) True
    by (auto simp: ChannelRepo_Update_def is_ok_iff split: if_splits)
  have ids: "map ch_id ?cs = map ch_id (rg_channels db)" by (rule map_if_update) simp
  then have "ch_id ` set ?cs = ch_id ` set (rg_channels db)" by (metis set_map)
  with ids assms(2,3) show ?thesis unfolding db' db_inv_def
    by (simp del: map_map set_map) (auto simp: channel_wf_def)
qed (use assms in \<open>auto simp: ChannelRepo_Update_def is_ok_iff split: if_splits\<close>)

lemma txChannelRepo_Update_inv:
  assumes "txChannelRepo_Update up now c db = (r, db')" "db_inv db"
  shows "db_inv db'"
proof (cases "is_ok r")
  case True
  let ?u = "\<lambda>x. x\<lparr> ch_device := ch_device c, ch_updated := now \<rparr>"
  let ?cs = "map (\<lambda>x. if ch_id x = ch_id c then ?u x else x) (rg_channels db)"
  have db': "db' = db\<lparr> rg_channels := ?cs \<rparr>" using assms(1) True
    by (auto simp: txChannelRepo_Update_def is_ok_iff split: if_splits)
  have dev: "v \<in> dv_id ` set (rg_devices db)"
    if "x \<in> set (rg_channels db)" "ch_id x = ch_id c" "ch_device c = Some v" for x v
    using assms(1) True that by (auto simp: txChannelRepo_Update_def is_ok_iff list_ex_iff split: if_splits)
  have ids: "map ch_id ?cs = map ch_id (rg_channels db)" by (rule map_if_update) simp
  then have "ch_id ` set ?cs = ch_id ` set (rg_channels db)" by (metis set_map)
  with ids assms(2) dev show ?thesis unfolding db' db_inv_def
    by (simp del: map_map set_map) (auto simp: channel_wf_def)
qed (use assms in \<open>auto simp: txChannelRepo_Update_def is_ok_iff split: if_splits\<close>)

lemma FieldRepo_Update_inv:
  assumes "FieldRepo_Update up now f db = (r, db')" "db_inv db" "TrimSpace (fd_name f) \<noteq> ''''"
  shows "db_inv db'"
proof (cases "is_ok r")
  case True
  let ?u = "\<lambda>x. x\<lparr> fd_name := fd_name f, fd_label := fd_label f, fd_unit := fd_unit f,
                 fd_description := fd_description f, fd_updated := now \<rparr>"
  let ?fs = "map (\<lambda>x. if fd_id x = fd_id f then ?u x else x) (rg_fields db)"
  have db': "db' = db\<lparr> rg_fields := ?fs \<rparr>" using assms(1) True
    by (auto simp: FieldRepo_Update_def is_ok_iff split: if_splits)
  have ids: "map fd_id ?fs = map fd_id (rg_fields db)"
    and pos: "map (\<lambda>f. (fd_channel f, fd_position f)) ?fs = map (\<lambda>f. (fd_channel f, fd_position f)) (rg_fields db)"
    by (rule map_if_update, simp)+
  have wf: "field_wf x \<and> fd_channel x \<in> ch_id ` set (rg_channels db)" if "x \<in> set ?fs" for x
    using that assms(2,3) by (auto simp: db_inv_def field_wf_def)
  show ?thesis using ids pos wf assms(2) unfolding db' db_inv_def
    by (simp del: map_map set_map)
qed (use assms in \<open>auto simp: FieldRepo_Update_def is_ok_iff split: if_splits\<close>)

section \<open>Transactions\<close>

text \<open>The contract of a transaction runner: a success is the success of the body and its effect, and
  anything else leaves the database as it was.\<close>

locale tx_runner =
  fixes run :: "('s \<Rightarrow> ('e, 'a) outcome \<times> 's) \<Rightarrow> 's \<Rightarrow> ('e, 'a) outcome \<times> 's"
  assumes run_commit: "run fn db = (Ok x, db') \<Longrightarrow> fn db = (Ok x, db')"
    and run_rollback: "run fn db = (r, db') \<Longrightarrow> \<not> is_ok r \<Longrightarrow> db' = db"
begin

lemma run_keeps:
  assumes "run fn db = (r, db')" "P db" "\<And>x d. fn db = (Ok x, d) \<Longrightarrow> P d"
  shows "P db'"
proof (cases r)
  case (Ok x)
  with assms run_commit show ?thesis by blast
next
  case (Fail e)
  with run_rollback [OF assms(1)] assms(2) show ?thesis by simp
next
  case Panic
  with run_rollback [OF assms(1)] assms(2) show ?thesis by simp
qed

lemma run_all_or_nothing: "run fn db = (r, db') \<Longrightarrow> db' = db \<or> (\<exists>x. r = Ok x \<and> fn db = (Ok x, db'))"
  using run_commit run_rollback by (cases r) auto

end

interpretation sql_tx: tx_runner "RunInTx begin_ok commit_ok" for begin_ok commit_ok
  by unfold_locales (auto simp: RunInTx_def split: if_splits prod.splits outcome.splits)

lemma then_db_Ok:
  "then_db m k db = (Ok y, db') \<longleftrightarrow> (\<exists>x d. m db = (Ok x, d) \<and> k x d = (Ok y, db'))"
  by (auto simp: then_db_def split: prod.splits outcome.splits)

lemma create_fields_inv:
  "create_fields env k fs db = (Ok u, db') \<Longrightarrow> db_inv db \<Longrightarrow> list_all field_wf fs \<Longrightarrow> db_inv db'"
proof (induction fs arbitrary: k db)
  case (Cons f fs)
  then obtain x d where d: "FieldRepo_Create (en_db env k) (en_now env) f db = (Ok x, d)"
    "create_fields env (Suc k) fs d = (Ok u, db')" by (auto simp: then_db_Ok txFieldRepo_Create_def)
  with Cons.prems have "db_inv d" by (auto intro: FieldRepo_Create_inv)
  with Cons.IH [OF d(2)] Cons.prems show ?case by simp
qed simp

lemma buildFields_wf: "buildFields env k c fis = Ok fs \<Longrightarrow> list_all field_wf fs"
  by (induction fis arbitrary: k fs) (auto simp: go_simps dest: NewField_wf)

section \<open>The use cases keep the invariant\<close>

lemma cache_ops_db [simp]:
  "sy_db (cache_device env i d s) = sy_db s" "sy_db (bump_version env i u s) = sy_db s"
  "sy_db (uncache_device env i d s) = sy_db s" "sy_db (set_retention env c days s) = sy_db s"
  by (simp_all add: cache_device_def bump_version_def uncache_device_def set_retention_def)

lemma DeviceRepo_GetByID_Ok:
  "DeviceRepo_GetByID up i db = Ok d \<Longrightarrow> d \<in> set (rg_devices db) \<and> dv_id d = i \<and> dv_deleted d = None \<and> up"
  by (auto simp: DeviceRepo_GetByID_def filter_eq_Cons_iff split: if_splits list.splits)

lemma ChannelRepo_GetByID_Ok:
  "ChannelRepo_GetByID up i db = Ok c \<Longrightarrow>
     \<exists>x\<in>set (rg_channels db). c = channel_row x \<and> ch_id x = i \<and> ch_deleted x = None"
  by (auto simp: ChannelRepo_GetByID_def filter_eq_Cons_iff split: if_splits list.splits)

lemma FieldRepo_GetByID_Ok:
  "FieldRepo_GetByID up i db = Ok f \<Longrightarrow> f \<in> set (rg_fields db) \<and> fd_id f = i"
  by (auto simp: FieldRepo_GetByID_def filter_eq_Cons_iff split: if_splits list.splits)

lemma channel_setters_wf:
  "channel_wf c \<Longrightarrow> channel_SetName now name c = Ok c' \<Longrightarrow> channel_wf c'"
  "channel_wf c \<Longrightarrow> channel_SetVisibility now v c = Ok c' \<Longrightarrow> channel_wf c'"
  "channel_wf c \<Longrightarrow> channel_SetRetentionDays now r c = Ok c' \<Longrightarrow> channel_wf c'"
  by (auto simp: channel_SetName_def channel_SetVisibility_def channel_SetRetentionDays_def channel_wf_def
      TrimSpace_idem split: if_splits)

lemma apply_device_update_wf: "apply_device_update now inp d = Ok d' \<Longrightarrow> device_wf d \<Longrightarrow> device_wf d'"
  by (auto simp: apply_device_update_def go_simps Let_def device_SetName_def device_SetStatus_def device_wf_def
      TrimSpace_idem split: if_splits)

lemma apply_channel_update_wf:
  assumes "apply_channel_update now tj inp c = Ok c'" "channel_wf c"
  shows "channel_wf c'"
proof -
  obtain c1 c3 where 1: "(if uc_name inp \<noteq> '''' then channel_SetName now (uc_name inp) c else Ok c) = Ok c1"
    and 3: "(if uc_visibility inp \<noteq> '''' then channel_SetVisibility now (uc_visibility inp)
        (if uc_description inp \<noteq> '''' then c1\<lparr> ch_description := uc_description inp \<rparr> else c1)
        else Ok (if uc_description inp \<noteq> '''' then c1\<lparr> ch_description := uc_description inp \<rparr> else c1)) = Ok c3"
    and 4: "(let c4 = (case uc_tags inp of None \<Rightarrow> c3 | Some ts \<Rightarrow> c3\<lparr> ch_tags := tj ts \<rparr>) in
        if uc_retention inp \<noteq> 0 then channel_SetRetentionDays now (uc_retention inp) c4 else Ok c4) = Ok c'"
    using assms(1) by (auto simp: apply_channel_update_def Let_def go_simps)
  have "channel_wf c1" using 1 assms(2) by (auto split: if_splits intro: channel_setters_wf)
  then have "channel_wf (if uc_description inp \<noteq> '''' then c1\<lparr> ch_description := uc_description inp \<rparr> else c1)"
    by (simp add: channel_wf_def)
  with 3 have "channel_wf c3" by (auto split: if_splits intro: channel_setters_wf)
  then have "channel_wf (case uc_tags inp of None \<Rightarrow> c3 | Some ts \<Rightarrow> c3\<lparr> ch_tags := tj ts \<rparr>)"
    by (auto simp: channel_wf_def split: option.splits)
  with 4 show ?thesis by (auto simp: Let_def split: if_splits intro: channel_setters_wf)
qed

lemma apply_field_update_name:
  "apply_field_update now inp f = Ok f' \<Longrightarrow> TrimSpace (fd_name f) \<noteq> '''' \<Longrightarrow> TrimSpace (fd_name f') \<noteq> ''''"
  by (auto simp: apply_field_update_def go_simps Let_def field_SetName_def field_SetLabel_def field_SetUnit_def
      field_SetDescription_def TrimSpace_idem split: if_splits)

text \<open>A use case prepares its entities, then writes: the two shapes of the case analyses.\<close>

lemma prepare_cases:
  "(case p of Ok x \<Rightarrow> k x | Fail e \<Rightarrow> (Fail e, s) | Panic \<Rightarrow> (Panic, s)) = (r, s') \<Longrightarrow>
     s' = s \<or> (\<exists>x. p = Ok x \<and> k x = (r, s'))"
  by (auto split: outcome.splits)

lemma write_cases:
  assumes "(case m of (y, d) \<Rightarrow> (case y of Ok x \<Rightarrow> (f x d, g x d) | Fail e \<Rightarrow> (Fail e, h d) | Panic \<Rightarrow> (Panic, h d))) = (r, s')"
    and "\<And>x d. sy_db (g x d) = d" "\<And>d. sy_db (h d) = d"
  shows "m = (fst m, sy_db s')"
  using assms by (auto split: outcome.splits prod.splits)

lemma CreateDevice_inv:
  assumes "CreateDevice env meta inp s = (r, s')" "db_inv (sy_db s)"
  shows "db_inv (sy_db s')"
  using prepare_cases [OF assms(1) [unfolded CreateDevice_def]]
proof (elim disjE exE conjE, goal_cases)
  case (2 x)
  obtain d ch where x: "x = (d, ch)" by (cases x)
  obtain d0 md nm v w ch0 where d0: "NewDevice (en_now env) (en_fresh env 0) (en_rand env) w (cd_name inp) (cd_description inp) = Ok d0"
    and d: "d = (case md of None \<Rightarrow> d0 | Some m \<Rightarrow> d0\<lparr> dv_metadata := Some m \<rparr>)"
    and ch0: "NewChannel (en_now env) (en_fresh env 1) w nm '''' v = Ok ch0"
    and ch: "ch = channel_SetDevice (en_now env) (dv_id d) ch0"
    using 2(1) unfolding x Let_def bind_o_eq_Ok by auto
  have "device_wf d" using NewDevice_wf [OF d0] d by (auto simp: device_wf_def split: option.splits)
  moreover have "channel_wf ch" using NewChannel_wf [OF ch0] by (simp add: ch channel_SetDevice_def channel_wf_def)
  ultimately have body: "db_inv d2" if "then_db (txDeviceRepo_Create (en_db env 0) (en_now env) d) (\<lambda>_.
      txChannelRepo_Create (en_db env 1) (en_now env) ch) (sy_db s) = (Ok y, d2)" for y d2
    using that assms(2)
    by (auto simp: then_db_Ok txDeviceRepo_Create_def txChannelRepo_Create_def intro: ChannelRepo_Create_inv DeviceRepo_Create_inv)
  show ?case
    by (rule sql_tx.run_keeps [OF write_cases [OF 2(2) [unfolded x prod.case]], of db_inv]) (simp_all add: assms(2) body)
qed (use assms in simp)

lemma UpdateDevice_inv:
  assumes "UpdateDevice env i inp s = (r, s')" "db_inv (sy_db s)"
  shows "db_inv (sy_db s')"
  using prepare_cases [OF assms(1) [unfolded UpdateDevice_def]]
proof (elim disjE exE conjE, goal_cases)
  case (2 d)
  have wf: "device_wf d" using 2(1) assms(2)
    by (auto simp: bind_o_eq_Ok db_inv_def dest!: DeviceRepo_GetByID_Ok intro: apply_device_update_wf)
  show ?case by (rule DeviceRepo_Update_inv [OF write_cases [OF 2(2)] assms(2)]) (simp_all add: wf)
qed (use assms in simp)

lemma RotateAPIKey_inv:
  assumes "RotateAPIKey env i s = (r, s')" "db_inv (sy_db s)"
  shows "db_inv (sy_db s')"
  using prepare_cases [OF assms(1) [unfolded RotateAPIKey_def]]
proof (elim disjE exE conjE, goal_cases)
  case (2 d)
  have wf: "device_wf d" using 2(1) assms(2)
    by (auto simp: bind_o_eq_Ok db_inv_def dest!: DeviceRepo_GetByID_Ok intro: device_setters_wf(3))
  show ?case by (rule DeviceRepo_Update_inv [OF write_cases [OF 2(2)] assms(2)]) (simp_all add: wf)
qed (use assms in simp)

lemma DeleteDevice_inv:
  assumes "DeleteDevice env i s = (r, s')" "db_inv (sy_db s)"
  shows "db_inv (sy_db s')"
  using prepare_cases [OF assms(1) [unfolded DeleteDevice_def]]
proof (elim disjE exE conjE, goal_cases)
  case (2 x)
  obtain uid d where x: "x = (uid, d)" by (cases x)
  show ?case by (rule DeviceRepo_Delete_inv [OF write_cases [OF 2(2) [unfolded x prod.case]] assms(2)]) simp_all
qed (use assms in simp)

lemma device_ValidateAPIKey_db:
  "device_ValidateAPIKey env k s = (r, s') \<Longrightarrow> sy_db s' = sy_db s"
  by (auto simp: device_ValidateAPIKey_def split: outcome.splits)

lemma channel_SetDevice_wf: "channel_wf c \<Longrightarrow> channel_wf (channel_SetDevice now d c)"
  by (simp add: channel_SetDevice_def channel_wf_def)

lemma provisionWithNewChannel_inv:
  assumes "provisionWithNewChannel env inp ws d s = (r, s')" "db_inv (sy_db s)" "device_wf d"
  shows "db_inv (sy_db s')"
  using prepare_cases [OF assms(1) [unfolded provisionWithNewChannel_def]]
proof (elim disjE exE conjE, goal_cases)
  case (2 x)
  obtain ch fs where x: "x = (ch, fs)" by (cases x)
  have fs: "list_all field_wf fs" and ch: "channel_wf ch"
    using 2(1) unfolding x Let_def by (auto simp: bind_o_eq_Ok intro: buildFields_wf channel_SetDevice_wf NewChannel_wf)
  have body: "db_inv d2" if "then_db (txDeviceRepo_Create (en_db env 1) (en_now env) d) (\<lambda>_.
             then_db (txChannelRepo_Create (en_db env 2) (en_now env) ch) (\<lambda>ch'.
             then_db (create_fields env 3 fs) (\<lambda>_ db. (Ok ch', db)))) (sy_db s) = (Ok y, d2)" for y d2
    using that assms(2,3) fs ch by (auto simp: then_db_Ok txDeviceRepo_Create_def txChannelRepo_Create_def)
      (metis create_fields_inv ChannelRepo_Create_inv DeviceRepo_Create_inv)
  show ?case
    by (rule sql_tx.run_keeps [OF write_cases [OF 2(2) [unfolded x prod.case]], of db_inv]) (simp_all add: assms(2) body)
qed (use assms in simp)

lemma provisionWithExistingChannel_inv:
  assumes "provisionWithExistingChannel env inp ws d s = (r, s')" "db_inv (sy_db s)" "device_wf d"
  shows "db_inv (sy_db s')"
  using prepare_cases [OF assms(1) [unfolded provisionWithExistingChannel_def]]
proof (elim disjE exE conjE, goal_cases)
  case (2 x)
  obtain ch fs where x: "x = (ch, fs)" by (cases x)
  have fs: "list_all field_wf fs"
    using 2(1) unfolding x by (auto simp: bind_o_eq_Ok intro: buildFields_wf split: if_splits)
  have body: "db_inv d2" if "then_db (txDeviceRepo_Create (en_db env 1) (en_now env) d) (\<lambda>_.
             then_db (txChannelRepo_Update (en_db env 2) (en_now env) ch) (\<lambda>_. create_fields env 3 fs)) (sy_db s) = (Ok y, d2)" for y d2
    using that assms(2,3) fs by (auto simp: then_db_Ok txDeviceRepo_Create_def)
      (metis create_fields_inv txChannelRepo_Update_inv DeviceRepo_Create_inv)
  show ?case
    by (rule sql_tx.run_keeps [OF write_cases [OF 2(2) [unfolded x prod.case]], of db_inv]) (simp_all add: assms(2) body)
qed (use assms in simp)

lemma Provision_inv:
  assumes "Provision env inp s = (r, s')" "db_inv (sy_db s)"
  shows "db_inv (sy_db s')"
  using prepare_cases [OF assms(1) [unfolded Provision_def]]
proof (elim disjE exE conjE, goal_cases)
  case (2 x)
  obtain ws d where x: "x = (ws, d)" by (cases x)
  have "device_wf d" using 2(1) unfolding x by (auto simp: bind_o_eq_Ok intro: NewDevice_wf)
  then show ?case using 2(2) [unfolded x prod.case] assms(2)
    by (cases "pi_existing inp = ''''") (auto intro: provisionWithNewChannel_inv provisionWithExistingChannel_inv)
qed (use assms in simp)

lemma CreateChannel_inv:
  assumes "CreateChannel env tj inp s = (r, s')" "db_inv (sy_db s)"
  shows "db_inv (sy_db s')"
  using prepare_cases [OF assms(1) [unfolded CreateChannel_def]]
proof (elim disjE exE conjE, goal_cases)
  case (2 c)
  obtain ch0 ch1 nm v w where ch0: "NewChannel (en_now env) (en_fresh env 0) w nm (cc_description inp) v = Ok ch0"
    and ch1: "(case cc_device inp of None \<Rightarrow> Ok ch0
                  | Some d \<Rightarrow> bind_o (parse_id env d) (\<lambda>devID. Ok (ch0\<lparr> ch_device := Some devID \<rparr>))) = Ok ch1"
    and c: "(let ch2 = (if length (cc_tags inp) > 0 then ch1\<lparr> ch_tags := tj (cc_tags inp) \<rparr> else ch1) in
          if cc_retention inp \<noteq> 0 then channel_SetRetentionDays (en_now env) (cc_retention inp) ch2 else Ok ch2) = Ok c"
    using 2(1) unfolding bind_o_eq_Ok by blast
  have "channel_wf ch1" using ch1 NewChannel_wf [OF ch0]
    by (auto simp: bind_o_eq_Ok channel_wf_def split: option.splits)
  then have "channel_wf (if length (cc_tags inp) > 0 then ch1\<lparr> ch_tags := tj (cc_tags inp) \<rparr> else ch1)"
    by (simp add: channel_wf_def)
  with c have wf: "channel_wf c" by (auto simp: Let_def split: if_splits intro: channel_setters_wf)
  show ?case by (rule ChannelRepo_Create_inv [OF write_cases [OF 2(2)] assms(2)]) (simp_all add: wf)
qed (use assms in simp)

lemma UpdateChannel_inv:
  assumes "UpdateChannel env tj i inp s = (r, s')" "db_inv (sy_db s)"
  shows "db_inv (sy_db s')"
  using prepare_cases [OF assms(1) [unfolded UpdateChannel_def]]
proof (elim disjE exE conjE, goal_cases)
  case (2 c)
  have "channel_wf (channel_row x)" if "x \<in> set (rg_channels (sy_db s))" for x
    using that assms(2) by (auto simp: db_inv_def channel_row_def channel_wf_def)
  then have wf: "channel_wf c" using 2(1)
    by (auto simp: bind_o_eq_Ok dest!: ChannelRepo_GetByID_Ok intro: apply_channel_update_wf)
  show ?case by (rule ChannelRepo_Update_inv [OF write_cases [OF 2(2)] assms(2)]) (simp_all add: wf)
qed (use assms in simp)

lemma DeleteChannel_inv:
  "DeleteChannel env i s = (r, s') \<Longrightarrow> db_inv (sy_db s) \<Longrightarrow> db_inv (sy_db s')"
  by (auto simp: DeleteChannel_def split: outcome.splits prod.splits intro: ChannelRepo_Delete_inv)

lemma CreateField_inv:
  assumes "CreateField env inp s = (r, s')" "db_inv (sy_db s)"
  shows "db_inv (sy_db s')"
  using prepare_cases [OF assms(1) [unfolded CreateField_def]]
proof (elim disjE exE conjE, goal_cases)
  case (2 f)
  have wf: "field_wf (f\<lparr> fd_description := cf_description inp \<rparr>)" using 2(1)
    by (auto simp: bind_o_eq_Ok field_wf_def dest!: NewField_wf)
  show ?case by (rule FieldRepo_Create_inv [OF write_cases [OF 2(2) [unfolded Let_def]] assms(2)]) (simp_all add: wf)
qed (use assms in simp)

lemma UpdateField_inv:
  assumes "UpdateField env i inp s = (r, s')" "db_inv (sy_db s)"
  shows "db_inv (sy_db s')"
  using prepare_cases [OF assms(1) [unfolded UpdateField_def]]
proof (elim disjE exE conjE, goal_cases)
  case (2 f)
  have nm: "TrimSpace (fd_name f) \<noteq> ''''" using 2(1) assms(2)
    by (auto simp: bind_o_eq_Ok db_inv_def field_wf_def dest!: FieldRepo_GetByID_Ok apply_field_update_name)
  show ?case by (rule FieldRepo_Update_inv [OF write_cases [OF 2(2)] assms(2)]) (simp_all add: nm)
qed (use assms in simp)

lemma DeleteField_inv:
  "DeleteField env i s = (r, s') \<Longrightarrow> db_inv (sy_db s) \<Longrightarrow> db_inv (sy_db s')"
  by (auto simp: DeleteField_def split: outcome.splits prod.splits intro: FieldRepo_Delete_inv)

section \<open>Reachable states\<close>

inductive reg_step :: "registry \<Rightarrow> registry \<Rightarrow> bool" where
  "CreateDevice env meta ci s = (r1, s') \<Longrightarrow> reg_step s s'"
| "UpdateDevice env i ui s = (r2, s') \<Longrightarrow> reg_step s s'"
| "RotateAPIKey env i s = (r2, s') \<Longrightarrow> reg_step s s'"
| "DeleteDevice env i s = (r3, s') \<Longrightarrow> reg_step s s'"
| "device_ValidateAPIKey env k s = (r2, s') \<Longrightarrow> reg_step s s'"
| "Provision env pin s = (r4, s') \<Longrightarrow> reg_step s s'"
| "CreateChannel env tj cci s = (r5, s') \<Longrightarrow> reg_step s s'"
| "UpdateChannel env tj i uci s = (r5, s') \<Longrightarrow> reg_step s s'"
| "DeleteChannel env i s = (r3, s') \<Longrightarrow> reg_step s s'"
| "CreateField env cfi s = (r6, s') \<Longrightarrow> reg_step s s'"
| "UpdateField env i ufi s = (r6, s') \<Longrightarrow> reg_step s s'"
| "DeleteField env i s = (r3, s') \<Longrightarrow> reg_step s s'"

inductive reg_reachable :: "registry \<Rightarrow> bool" where
  start: "reg_reachable \<lparr> sy_db = empty_db, sy_redis = db0, sy_buckets = [] \<rparr>"
| step: "reg_reachable s \<Longrightarrow> reg_step s s' \<Longrightarrow> reg_reachable s'"

lemma reg_step_inv: "reg_step s s' \<Longrightarrow> db_inv (sy_db s) \<Longrightarrow> db_inv (sy_db s')"
  by (induction rule: reg_step.induct)
    (auto dest: CreateDevice_inv UpdateDevice_inv RotateAPIKey_inv DeleteDevice_inv device_ValidateAPIKey_db
      Provision_inv CreateChannel_inv UpdateChannel_inv DeleteChannel_inv CreateField_inv UpdateField_inv DeleteField_inv)

lemma empty_db_inv: "db_inv empty_db"
  by (simp add: empty_db_def db_inv_def)

lemma reg_reachable_inv: "reg_reachable s \<Longrightarrow> db_inv (sy_db s)"
  by (induction rule: reg_reachable.induct) (auto intro: empty_db_inv reg_step_inv)

end
