(* ===== verification/Registry_Properties.thy ===== *)
theory Registry_Properties
  imports Registry_Invariant
begin

text \<open>
  What device-registry promises to its callers: sound tables, the answer to a key check, provisioning
  as one transaction, and what rotation and deletion do to a key.
\<close>

section \<open>The answer to a key check\<close>

lemma filter_unique:
  assumes "distinct (map f xs)"
  shows "filter (\<lambda>x. f x = k \<and> P x) xs = (case find (\<lambda>x. f x = k \<and> P x) xs of None \<Rightarrow> [] | Some x \<Rightarrow> [x])"
  using assms
proof (induction xs)
  case (Cons a xs)
  then show ?case
  proof (cases "f a = k \<and> P a")
    case True
    then have "filter (\<lambda>x. f x = k \<and> P x) xs = []" using Cons.prems by (auto simp: filter_empty_conv) (metis image_eqI)
    with True show ?thesis by simp
  qed auto
qed simp

lemma concat_guard: "concat (map (\<lambda>x. if P x then g x else []) xs) = concat (map g (filter P xs))"
  by (induction xs) auto

lemma map_insort_key: "insort_key g (h a) (map h xs) = map h (insort_key (\<lambda>x. g (h x)) a xs)"
  by (induction xs) auto

lemma sort_key_map: "sort_key g (map h xs) = map h (sort_key (\<lambda>x. g (h x)) xs)"
  by (induction xs) (auto simp: map_insort_key)

text \<open>The contract: the device with that key that is active and not deleted, if the channel is bound
  to it, with the fields of the channel by position.\<close>

definition find_key :: "string \<Rightarrow> registry_db \<Rightarrow> device option" where
  "find_key k db = find (\<lambda>d. dv_api_key d = k \<and> dv_status d = StatusActive \<and> dv_deleted d = None) (rg_devices db)"

definition bound_channel :: "device \<Rightarrow> uuid \<Rightarrow> registry_db \<Rightarrow> bool" where
  "bound_channel d c db \<longleftrightarrow> list_ex (\<lambda>x. ch_id x = c \<and> ch_device x = Some (dv_id d)) (rg_channels db)"

definition channel_schema :: "uuid \<Rightarrow> registry_db \<Rightarrow> field_entry list" where
  "channel_schema c db = map field_entry_of (sort_key fd_position (filter (\<lambda>f. fd_channel f = c) (rg_fields db)))"

definition validate_spec :: "string \<Rightarrow> uuid \<Rightarrow> registry_db \<Rightarrow> (registry_err, validate_result) outcome" where
  "validate_spec k c db = (case find_key k db of
      None \<Rightarrow> Fail DevNotFound
    | Some d \<Rightarrow> if bound_channel d c db
        then Ok \<lparr> vr_device = dv_id d, vr_fields = channel_schema c db, vr_version = 1 \<rparr> else Fail DevNotFound)"

lemma active_devices_find:
  "db_inv db \<Longrightarrow> active_devices k db = (case find_key k db of None \<Rightarrow> [] | Some d \<Rightarrow> [d])"
  using filter_unique [of dv_api_key "rg_devices db" k "\<lambda>d. dv_status d = StatusActive \<and> dv_deleted d = None"]
  by (simp add: db_inv_def active_devices_def find_key_def)

lemma bound_filter:
  assumes "db_inv db"
  shows "\<exists>x. filter (\<lambda>x. ch_device x = Some (dv_id d) \<and> ch_id x = c) (rg_channels db) =
     (if bound_channel d c db then [x] else []) \<and> ch_id x = c"
proof -
  have *: "filter (\<lambda>x. ch_device x = Some (dv_id d) \<and> ch_id x = c) (rg_channels db) =
     (case find (\<lambda>x. ch_id x = c \<and> ch_device x = Some (dv_id d)) (rg_channels db) of None \<Rightarrow> [] | Some x \<Rightarrow> [x])"
    using assms filter_unique [of ch_id "rg_channels db" c "\<lambda>x. ch_device x = Some (dv_id d)"]
    by (simp add: db_inv_def conj_commute)
  show ?thesis
  proof (cases "find (\<lambda>x. ch_id x = c \<and> ch_device x = Some (dv_id d)) (rg_channels db)")
    case None
    then have "\<not> bound_channel d c db" by (auto simp: find_None_iff bound_channel_def list_ex_iff)
    moreover have "\<exists>x. ch_id x = c" by (rule exI [of _ "ch_id_update (\<lambda>_. c) undefined"]) simp
    ultimately show ?thesis using * None by simp
  next
    case (Some x)
    then have "bound_channel d c db" "ch_id x = c" by (auto simp: find_Some_iff bound_channel_def list_ex_iff)
    then show ?thesis using * Some by auto
  qed
qed

lemma validate_rows_eq:
  assumes "db_inv db"
  shows "validate_rows k c db = (case find_key k db of None \<Rightarrow> []
     | Some d \<Rightarrow> if bound_channel d c db
        then map (Pair d) (sort_key fd_position (filter (\<lambda>f. fd_channel f = c) (rg_fields db))) else [])"
proof (cases "find_key k db")
  case (Some d)
  obtain x where x: "filter (\<lambda>x. ch_device x = Some (dv_id d) \<and> ch_id x = c) (rg_channels db) =
     (if bound_channel d c db then [x] else [])" "ch_id x = c" using bound_filter [OF assms] by blast
  show ?thesis using active_devices_find [OF assms, of k] Some x
    by (simp add: validate_rows_def concat_guard sort_key_map)
qed (simp add: validate_rows_def active_devices_find [OF assms])

lemma pair_rows_eq:
  assumes "db_inv db"
  shows "pair_rows k c db = (case find_key k db of None \<Rightarrow> [] | Some d \<Rightarrow> if bound_channel d c db then [d] else [])"
proof (cases "find_key k db")
  case (Some d)
  obtain x where x: "filter (\<lambda>x. ch_device x = Some (dv_id d) \<and> ch_id x = c) (rg_channels db) =
     (if bound_channel d c db then [x] else [])" "ch_id x = c" using bound_filter [OF assms] by blast
  show ?thesis using active_devices_find [OF assms, of k] Some x by (simp add: pair_rows_def concat_guard)
qed (simp add: pair_rows_def active_devices_find [OF assms])

lemma InternalRepo_ValidateAPIKey_spec:
  assumes "db_inv db" "cast ct = Some c" "up 0" "up 1"
  shows "InternalRepo_ValidateAPIKey cast up k ct db = validate_spec k c db"
  using assms by (auto simp: InternalRepo_ValidateAPIKey_def validate_rows_eq pair_rows_eq validate_spec_def
      channel_schema_def hd_map Let_def comp_def split: option.splits)

lemma find_key_Some:
  assumes "db_inv db"
  shows "find_key k db = Some d \<longleftrightarrow>
     d \<in> set (rg_devices db) \<and> dv_api_key d = k \<and> dv_status d = StatusActive \<and> dv_deleted d = None"
proof
  assume "find_key k db = Some d"
  then show "d \<in> set (rg_devices db) \<and> dv_api_key d = k \<and> dv_status d = StatusActive \<and> dv_deleted d = None"
    by (auto simp: find_key_def find_Some_iff)
next
  assume d: "d \<in> set (rg_devices db) \<and> dv_api_key d = k \<and> dv_status d = StatusActive \<and> dv_deleted d = None"
  then have "find_key k db \<noteq> None" by (auto simp: find_key_def find_None_iff)
  then obtain e where e: "find_key k db = Some e" by blast
  then have "e \<in> set (rg_devices db)" "dv_api_key e = k" by (auto simp: find_key_def find_Some_iff)
  then have "e = d" using d assms by (auto simp: db_inv_def distinct_map inj_on_def)
  with e show "find_key k db = Some d" by simp
qed

lemma find_key_None: "find_key k db = None \<longleftrightarrow>
  (\<forall>d\<in>set (rg_devices db). \<not> (dv_api_key d = k \<and> dv_status d = StatusActive \<and> dv_deleted d = None))"
  by (auto simp: find_key_def find_None_iff)

lemma RotateAPIKey_Ok:
  assumes "RotateAPIKey env i s = (Ok d', s')"
  obtains d uid where "en_parse env i = Some uid" "d \<in> set (rg_devices (sy_db s))" "dv_id d = uid" "dv_deleted d = None"
    "device_RotateAPIKey (en_now env) (en_rand env) d = Ok d'"
    "DeviceRepo_Update (en_db env 1) (en_now env) d' (sy_db s) = (Ok (), sy_db s')"
  using assms
  by (auto simp: RotateAPIKey_def bind_o_eq_Ok parse_id_def split: outcome.splits prod.splits option.splits
      dest!: DeviceRepo_GetByID_Ok)

lemma Rotate_devices:
  assumes "DeviceRepo_Update up now d' db = (Ok (), db')" "db_inv db" "d \<in> set (rg_devices db)"
    and "device_RotateAPIKey now rand d = Ok d'"
  shows "db' = db\<lparr> rg_devices := map (\<lambda>x. if x = d then d\<lparr> dv_api_key := dv_api_key d', dv_updated := now \<rparr> else x) (rg_devices db) \<rparr>"
    and "\<forall>x\<in>set (rg_devices db). x \<noteq> d \<longrightarrow> dv_api_key x \<noteq> dv_api_key d'"
proof -
  have same: "dv_id d' = dv_id d" "dv_name d' = dv_name d" "dv_description d' = dv_description d" "dv_status d' = dv_status d"
    using assms(4) by (auto simp: device_RotateAPIKey_def go_simps)
  have id: "dv_id x = dv_id d \<longleftrightarrow> x = d" if "x \<in> set (rg_devices db)" for x
    using that assms(2,3) by (auto simp: db_inv_def distinct_map inj_on_def)
  show "db' = db\<lparr> rg_devices := map (\<lambda>x. if x = d then d\<lparr> dv_api_key := dv_api_key d', dv_updated := now \<rparr> else x) (rg_devices db) \<rparr>"
    using assms(1) id same by (auto simp: DeviceRepo_Update_def split: if_splits intro!: arg_cong2 [where f = "\<lambda>x y. y\<lparr> rg_devices := x \<rparr>"])
  show "\<forall>x\<in>set (rg_devices db). x \<noteq> d \<longrightarrow> dv_api_key x \<noteq> dv_api_key d'"
    using assms(1,3) id same by (auto simp: DeviceRepo_Update_def list_ex_iff split: if_splits)
qed

lemma validate_spec_cong:
  assumes "map_option dv_id (find_key k db) = map_option dv_id (find_key k' db')"
    and "map (\<lambda>x. (ch_id x, ch_device x)) (rg_channels db') = map (\<lambda>x. (ch_id x, ch_device x)) (rg_channels db)"
    and "rg_fields db' = rg_fields db"
  shows "validate_spec k c db = validate_spec k' c db'"
proof -
  have "list_ex (\<lambda>(i, v). i = c \<and> v = Some u) (map (\<lambda>x. (ch_id x, ch_device x)) (rg_channels db')) =
    list_ex (\<lambda>(i, v). i = c \<and> v = Some u) (map (\<lambda>x. (ch_id x, ch_device x)) (rg_channels db))" for u
    by (simp only: assms(2))
  then have "bound_channel d c db = bound_channel d' c db'" if "dv_id d = dv_id d'" for d d'
    using that by (simp add: bound_channel_def list_ex_iff)
  with assms(1,3) show ?thesis
    by (cases "find_key k db"; cases "find_key k' db'") (auto simp: validate_spec_def channel_schema_def)
qed

lemma Rotate_find_key:
  assumes inv: "db_inv db" "db_inv db'" and d: "d \<in> set (rg_devices db)" "dv_deleted d = None"
    and db': "db' = db\<lparr> rg_devices := map (\<lambda>x. if x = d then d\<lparr> dv_api_key := new, dv_updated := now \<rparr> else x) (rg_devices db) \<rparr>"
    and new: "\<forall>x\<in>set (rg_devices db). x \<noteq> d \<longrightarrow> dv_api_key x \<noteq> new" "new \<noteq> dv_api_key d"
  shows "find_key (dv_api_key d) db' = None"
    and "map_option dv_id (find_key new db') = map_option dv_id (find_key (dv_api_key d) db)"
    and "k \<noteq> new \<Longrightarrow> k \<noteq> dv_api_key d \<Longrightarrow> find_key k db' = find_key k db"
proof -
  have uniq: "dv_api_key x = dv_api_key d \<longleftrightarrow> x = d" if "x \<in> set (rg_devices db)" for x
    using that d inv(1) by (auto simp: db_inv_def distinct_map inj_on_def)
  show "find_key (dv_api_key d) db' = None"
    using uniq new by (auto simp: find_key_None db')
  show "map_option dv_id (find_key new db') = map_option dv_id (find_key (dv_api_key d) db)"
  proof (cases "dv_status d = StatusActive")
    case True
    then have "find_key (dv_api_key d) db = Some d" using d by (simp add: find_key_Some [OF inv(1)])
    moreover have "find_key new db' = Some (d\<lparr> dv_api_key := new, dv_updated := now \<rparr>)"
      unfolding find_key_Some [OF inv(2)] using True d by (auto simp: db')
    ultimately show ?thesis by simp
  next
    case False
    then have "find_key (dv_api_key d) db = None" using uniq by (auto simp: find_key_None)
    moreover have "find_key new db' = None" using False new(1)
      by (auto simp: find_key_None db') (metis device.select_convs(6) device.surjective device.update_convs(5,10))
    ultimately show ?thesis by simp
  qed
  assume k: "k \<noteq> new" "k \<noteq> dv_api_key d"
  have "find_key k db' = Some x \<longleftrightarrow> find_key k db = Some x" for x
    unfolding find_key_Some [OF inv(1)] find_key_Some [OF inv(2)] using k by (auto simp: db')
  then show "find_key k db' = find_key k db" by (metis not_Some_eq)
qed

lemma internal_spec:
  assumes "db_inv (sy_db s)" "en_cast env ct = Some c" "en_db env 0" "en_db env 1"
  shows "internal_ValidateAPIKey env k ct s = validate_spec k c (sy_db s)"
  using assms by (simp add: internal_ValidateAPIKey_def InternalRepo_ValidateAPIKey_spec)

lemma field_entry_index:
  "field_wf f \<Longrightarrow> fe_index (field_entry_of f) = word_of_int (fd_position f) \<and> uint (fe_index (field_entry_of f)) = fd_position f"
  by (simp add: field_entry_of_def field_wf_def uint_word_of_int take_bit_eq_mod)

lemma channel_schema_sorted:
  assumes "db_inv db"
  shows "sorted_wrt (<) (map (\<lambda>e. uint (fe_index e)) (channel_schema c db))"
    and "set (map (\<lambda>e. uint (fe_index e)) (channel_schema c db)) \<subseteq> {1..8}"
proof -
  let ?fs = "sort_key fd_position (filter (\<lambda>f. fd_channel f = c) (rg_fields db))"
  have wf: "field_wf f" if "f \<in> set ?fs" for f using that assms by (auto simp: db_inv_def)
  have eq: "map (\<lambda>e. uint (fe_index e)) (channel_schema c db) = map fd_position ?fs"
    unfolding channel_schema_def map_map
    by (rule map_cong [OF refl]) (simp only: comp_apply field_entry_index [THEN conjunct2, OF wf])
  have "inj_on (\<lambda>f. (fd_channel f, fd_position f)) (set (rg_fields db))" "distinct (rg_fields db)"
    using assms by (auto simp: db_inv_def distinct_map)
  then have "distinct (map fd_position ?fs)"
    by (auto simp: distinct_map inj_on_def)
  then show "sorted_wrt (<) (map (\<lambda>e. uint (fe_index e)) (channel_schema c db))"
    unfolding eq by (simp add: strict_sorted_iff)
  show "set (map (\<lambda>e. uint (fe_index e)) (channel_schema c db)) \<subseteq> {1..8}"
    unfolding eq using wf by (auto simp: field_wf_def)
qed

section \<open>A concrete registry\<close>

definition demo_env :: "nat \<Rightarrow> 8 word list \<Rightarrow> reg_env" where
  "demo_env n bytes = \<lparr> en_now = 1000, en_fresh = (\<lambda>i. ''u'' @ dec (n + i)), en_rand = Some bytes,
     en_parse = (\<lambda>s. if s = '''' then None else Some s), en_cast = Some, en_enc = (\<lambda>d. Some (dv_id d)),
     en_dec = (\<lambda>_. None), en_db = (\<lambda>_. True), en_begin = True, en_commit = True,
     en_redis = (\<lambda>_. True), en_influx = (\<lambda>_. True) \<rparr>"

definition demo_provision :: provision_input where
  "demo_provision = \<lparr> pi_workspace = ''w'', pi_name = ''pump'', pi_description = '''', pi_ch_name = ''c'',
     pi_ch_description = '''', pi_ch_visibility = '''', pi_existing = '''',
     pi_fields = [\<lparr> pf_name = ''t'', pf_label = '''', pf_unit = '''', pf_type = '''', pf_position = 2 \<rparr>,
                  \<lparr> pf_name = ''h'', pf_label = '''', pf_unit = '''', pf_type = '''', pf_position = 1 \<rparr>] \<rparr>"

definition demo_start :: registry where
  "demo_start = \<lparr> sy_db = empty_db, sy_redis = (\<lambda>_. None), sy_buckets = [] \<rparr>"

definition demo_registry :: registry where
  "demo_registry = snd (Provision (demo_env 0 [1]) demo_provision demo_start)"

definition demo_device :: device where
  "demo_device = \<lparr> dv_id = ''u0'', dv_workspace = ''w'', dv_name = ''pump'', dv_description = '''',
     dv_api_key = ''g_01'', dv_status = ''active'', dv_last_seen = None, dv_metadata = None,
     dv_created = 1000, dv_updated = 1000, dv_deleted = None \<rparr>"

lemma demo_reachable: "reg_reachable demo_registry"
  unfolding demo_registry_def demo_start_def
  by (rule reg_reachable.step [OF reg_reachable.start], rule reg_step.intros(6), rule prod.collapse [symmetric])

lemma demo_devices: "rg_devices (sy_db demo_registry) = [demo_device]"
  by code_simp

section \<open>Properties\<close>

text \<open>C4. In every state that device-registry can reach from an empty database, device ids, API keys,
  channel ids and field ids are unique, no two fields of a channel share a position, positions are
  1 to 8, names are not blank, statuses, visibilities and types are among the allowed ones, and every
  field and bound channel refers to an existing row.\<close>

theorem registry_tables_sound:
  assumes "reg_reachable s"
  shows "distinct (map dv_id (rg_devices (sy_db s))) \<and> distinct (map dv_api_key (rg_devices (sy_db s))) \<and>
     distinct (map ch_id (rg_channels (sy_db s))) \<and> distinct (map fd_id (rg_fields (sy_db s))) \<and>
     distinct (map (\<lambda>f. (fd_channel f, fd_position f)) (rg_fields (sy_db s))) \<and>
     (\<forall>d\<in>set (rg_devices (sy_db s)). device_wf d) \<and> (\<forall>c\<in>set (rg_channels (sy_db s)). channel_wf c) \<and>
     (\<forall>f\<in>set (rg_fields (sy_db s)). field_wf f \<and> fd_channel f \<in> ch_id ` set (rg_channels (sy_db s))) \<and>
     (\<forall>c\<in>set (rg_channels (sy_db s)). \<forall>d. ch_device c = Some d \<longrightarrow> d \<in> dv_id ` set (rg_devices (sy_db s)))"
  using reg_reachable_inv [OF assms] unfolding db_inv_def .

theorem registry_tables_sound_witness:
  "distinct (map (\<lambda>f. (fd_channel f, fd_position f)) (rg_fields (sy_db demo_registry))) \<and>
   length (rg_fields (sy_db demo_registry)) = 2"
proof -
  have "length (rg_fields (sy_db demo_registry)) = 2" by code_simp
  with registry_tables_sound [OF demo_reachable] show ?thesis by blast
qed

text \<open>C30. The two SQL queries behind the key check of the ingestion service answer exactly the contract:
  the active, undeleted device with the key, provided the channel is bound to it, with all fields of
  the channel in the order of their positions and version 1; DevNotFound otherwise.\<close>

theorem ValidateAPIKey_contract:
  assumes "reg_reachable s" "en_cast env ct = Some c" "en_db env 0" "en_db env 1"
  shows "internal_ValidateAPIKey env k ct s = (case find_key k (sy_db s) of
      None \<Rightarrow> Fail DevNotFound
    | Some d \<Rightarrow> if bound_channel d c (sy_db s)
        then Ok \<lparr> vr_device = dv_id d, vr_fields = channel_schema c (sy_db s), vr_version = 1 \<rparr> else Fail DevNotFound)"
  using internal_spec [OF reg_reachable_inv [OF assms(1)] assms(2-)] by (simp add: validate_spec_def)

theorem ValidateAPIKey_contract_witness:
  "internal_ValidateAPIKey (demo_env 9 []) ''g_01'' ''u1'' demo_registry =
     Ok \<lparr> vr_device = ''u0'', vr_fields = [\<lparr> fe_index = 1, fe_name = ''h'', fe_type = ''float'' \<rparr>,
        \<lparr> fe_index = 2, fe_name = ''t'', fe_type = ''float'' \<rparr>], vr_version = 1 \<rparr>"
proof -
  have "find_key ''g_01'' (sy_db demo_registry) = Some demo_device" "bound_channel demo_device ''u1'' (sy_db demo_registry)"
    "channel_schema ''u1'' (sy_db demo_registry) = [\<lparr> fe_index = 1, fe_name = ''h'', fe_type = ''float'' \<rparr>,
        \<lparr> fe_index = 2, fe_name = ''t'', fe_type = ''float'' \<rparr>]" by code_simp+
  then show ?thesis
    by (subst ValidateAPIKey_contract [OF demo_reachable, of _ _ "''u1''"]) (simp_all add: demo_env_def demo_device_def)
qed

text \<open>The schema that a successful key check returns lists the fields by strictly increasing index,
  every index between 1 and 8: the field map that ingestion builds from it has no clash and the
  conversion of the stored position to a byte loses nothing.\<close>

theorem schema_indexes_sound:
  assumes "reg_reachable s" "internal_ValidateAPIKey env k ct s = Ok r"
  shows "sorted_wrt (<) (map (\<lambda>e. uint (fe_index e)) (vr_fields r)) \<and>
     set (map (\<lambda>e. uint (fe_index e)) (vr_fields r)) \<subseteq> {1..8}"
proof -
  obtain c where c: "vr_fields r = [] \<or> vr_fields r = channel_schema c (sy_db s)"
    using assms(2) validate_rows_eq [OF reg_reachable_inv [OF assms(1)]]
    by (auto simp: internal_ValidateAPIKey_def InternalRepo_ValidateAPIKey_def Let_def channel_schema_def comp_def
        split: option.splits if_splits list.splits)
  then show ?thesis
  proof
    assume eq: "vr_fields r = channel_schema c (sy_db s)"
    show ?thesis unfolding eq using channel_schema_sorted [OF reg_reachable_inv [OF assms(1)]] by (rule conjI)
  qed simp
qed

theorem schema_indexes_sound_witness:
  "\<exists>r. internal_ValidateAPIKey (demo_env 9 []) ''g_01'' ''u1'' demo_registry = Ok r \<and> length (vr_fields r) = 2 \<and>
     sorted_wrt (<) (map (\<lambda>e. uint (fe_index e)) (vr_fields r))"
proof -
  have "internal_ValidateAPIKey (demo_env 9 []) ''g_01'' ''u1'' demo_registry =
     Ok \<lparr> vr_device = ''u0'', vr_fields = [\<lparr> fe_index = 1, fe_name = ''h'', fe_type = ''float'' \<rparr>,
        \<lparr> fe_index = 2, fe_name = ''t'', fe_type = ''float'' \<rparr>], vr_version = 1 \<rparr>" by code_simp
  with schema_indexes_sound [OF demo_reachable this] show ?thesis by auto
qed

lemma resolve_no_device: "active_devices k db = [] \<Longrightarrow> up \<Longrightarrow> InternalRepo_ResolveChannelByAPIKey up k db = Fail DevNotFound"
  by (simp add: InternalRepo_ResolveChannelByAPIKey_def resolve_rows_def)

lemma no_key_no_answer:
  assumes "db_inv (sy_db s)" "find_key k (sy_db s) = None" "en_cast env ct = Some c" "en_db env 0" "en_db env 1"
  shows "internal_ValidateAPIKey env k ct s = Fail DevNotFound" "internal_ResolveChannelByAPIKey env k s = Fail DevNotFound"
  using assms by (simp_all add: internal_spec validate_spec_def internal_ResolveChannelByAPIKey_def
      resolve_no_device active_devices_find)

text \<open>C20. A successful RotateAPIKey moves the device to its new key at once: the next key check and the
  next channel lookup with the old key find nothing, a check with the new key gives what the old key
  gave before, and the answers for every other key are unchanged.\<close>

theorem RotateAPIKey_moves_key:
  assumes "reg_reachable s" "RotateAPIKey env i s = (Ok d', s')"
    and "d \<in> set (rg_devices (sy_db s))" "en_parse env i = Some (dv_id d)" "dv_api_key d' \<noteq> dv_api_key d"
    and "en_cast env' ct = Some c" "en_db env' 0" "en_db env' 1"
  shows "internal_ValidateAPIKey env' (dv_api_key d) ct s' = Fail DevNotFound \<and>
     internal_ResolveChannelByAPIKey env' (dv_api_key d) s' = Fail DevNotFound \<and>
     internal_ValidateAPIKey env' (dv_api_key d') ct s' = internal_ValidateAPIKey env' (dv_api_key d) ct s \<and>
     (k \<noteq> dv_api_key d \<and> k \<noteq> dv_api_key d' \<longrightarrow> internal_ValidateAPIKey env' k ct s' = internal_ValidateAPIKey env' k ct s)"
proof -
  obtain e where e: "e \<in> set (rg_devices (sy_db s))" "dv_id e = dv_id d" "dv_deleted e = None"
    and rot: "device_RotateAPIKey (en_now env) (en_rand env) e = Ok d'"
    and upd: "DeviceRepo_Update (en_db env 1) (en_now env) d' (sy_db s) = (Ok (), sy_db s')"
    using RotateAPIKey_Ok [OF assms(2)] assms(4) by (metis option.inject)
  note inv = reg_reachable_inv [OF assms(1)]
  have inv': "db_inv (sy_db s')" by (rule RotateAPIKey_inv [OF assms(2) inv])
  have "e = d" using e assms(3) inv by (auto simp: db_inv_def distinct_map inj_on_def)
  with e rot have d: "dv_deleted d = None" "device_RotateAPIKey (en_now env) (en_rand env) d = Ok d'" by simp_all
  note db' = Rotate_devices [OF upd inv assms(3) d(2)]
  note keys = Rotate_find_key [OF inv inv' assms(3) d(1) db' assms(5)]
  note check = internal_spec [OF inv assms(6-8)] internal_spec [OF inv' assms(6-8)]
  have same: "rg_channels (sy_db s') = rg_channels (sy_db s)" "rg_fields (sy_db s') = rg_fields (sy_db s)"
    using db'(1) by simp_all
  have "validate_spec (dv_api_key d') c (sy_db s') = validate_spec (dv_api_key d) c (sy_db s)"
    by (rule validate_spec_cong) (simp_all add: keys same)
  moreover have "validate_spec k c (sy_db s') = validate_spec k c (sy_db s)" if "k \<noteq> dv_api_key d" "k \<noteq> dv_api_key d'"
    by (rule validate_spec_cong) (simp_all add: keys(3) [OF that(2,1)] same)
  ultimately show ?thesis using no_key_no_answer [OF inv' keys(1) assms(6-8)] by (simp add: check)
qed

theorem RotateAPIKey_moves_key_witness:
  "\<exists>s'. fst (RotateAPIKey (demo_env 5 [2]) ''u0'' demo_registry) = Ok (demo_device\<lparr> dv_api_key := ''g_02'' \<rparr>) \<and>
     s' = snd (RotateAPIKey (demo_env 5 [2]) ''u0'' demo_registry) \<and>
     internal_ValidateAPIKey (demo_env 9 []) ''g_01'' ''u1'' s' = Fail DevNotFound \<and>
     internal_ValidateAPIKey (demo_env 9 []) ''g_02'' ''u1'' s' = internal_ValidateAPIKey (demo_env 9 []) ''g_01'' ''u1'' demo_registry"
proof -
  have fst: "fst (RotateAPIKey (demo_env 5 [2]) ''u0'' demo_registry) = Ok (demo_device\<lparr> dv_api_key := ''g_02'' \<rparr>)"
    by code_simp
  then have rot: "RotateAPIKey (demo_env 5 [2]) ''u0'' demo_registry =
      (Ok (demo_device\<lparr> dv_api_key := ''g_02'' \<rparr>), snd (RotateAPIKey (demo_env 5 [2]) ''u0'' demo_registry))"
    by (metis prod.collapse)
  have "internal_ValidateAPIKey (demo_env 9 []) ''g_01'' ''u1'' (snd (RotateAPIKey (demo_env 5 [2]) ''u0'' demo_registry)) = Fail DevNotFound \<and>
     internal_ValidateAPIKey (demo_env 9 []) ''g_02'' ''u1'' (snd (RotateAPIKey (demo_env 5 [2]) ''u0'' demo_registry)) =
     internal_ValidateAPIKey (demo_env 9 []) ''g_01'' ''u1'' demo_registry"
    using RotateAPIKey_moves_key [OF demo_reachable rot, of demo_device "demo_env 9 []" "''u1''" "''u1''"]
    by (simp add: demo_devices) (simp add: demo_env_def demo_device_def)
  with fst show ?thesis by blast
qed

lemma DeleteDevice_Ok:
  assumes "DeleteDevice env i s = (Ok u, s')" "en_parse env i = Some uid"
  shows "rg_devices (sy_db s') = map (\<lambda>d. if dv_id d = uid \<and> dv_deleted d = None
          then d\<lparr> dv_deleted := Some (en_now env), dv_updated := en_now env \<rparr> else d) (rg_devices (sy_db s))"
    and "rg_channels (sy_db s') = map (\<lambda>c. if ch_device c = Some uid \<and> ch_deleted c = None
          then c\<lparr> ch_deleted := Some (en_now env), ch_updated := en_now env \<rparr> else c) (rg_channels (sy_db s))"
  using assms by (auto simp: DeleteDevice_def parse_id_def bind_o_eq_Ok DeviceRepo_Delete_def
      split: outcome.splits prod.splits if_splits)

text \<open>A successful DeleteDevice takes the device and all its channels out of service: no key check and
  no channel lookup finds its key, GetDevice does not find it, and every channel bound to it is
  marked deleted.\<close>

theorem DeleteDevice_revokes:
  assumes "reg_reachable s" "DeleteDevice env i s = (Ok u, s')"
    and "d \<in> set (rg_devices (sy_db s))" "en_parse env i = Some (dv_id d)"
    and "en_cast env' ct = Some c" "en_db env' 0" "en_db env' 1" "en_parse env' j = Some (dv_id d)"
  shows "internal_ValidateAPIKey env' (dv_api_key d) ct s' = Fail DevNotFound \<and>
     internal_ResolveChannelByAPIKey env' (dv_api_key d) s' = Fail DevNotFound \<and>
     GetDevice env' j s' = Fail DevNotFound \<and>
     (\<forall>x\<in>set (rg_channels (sy_db s')). ch_device x = Some (dv_id d) \<longrightarrow> ch_deleted x \<noteq> None)"
proof -
  note inv = reg_reachable_inv [OF assms(1)] and del = DeleteDevice_Ok [OF assms(2,4)]
  have inv': "db_inv (sy_db s')" by (rule DeleteDevice_inv [OF assms(2) inv])
  have gone: "dv_deleted x \<noteq> None" if "x \<in> set (rg_devices (sy_db s'))" "dv_id x = dv_id d" for x
    using that by (auto simp: del split: if_splits)
  have "dv_id x = dv_id d" if "x \<in> set (rg_devices (sy_db s'))" "dv_api_key x = dv_api_key d" for x
  proof -
    have "\<exists>z\<in>set (rg_devices (sy_db s)). x = (if dv_id z = dv_id d \<and> dv_deleted z = None
          then z\<lparr> dv_deleted := Some (en_now env), dv_updated := en_now env \<rparr> else z)"
      using that(1) unfolding del(1) set_map by blast
    then obtain y where "y \<in> set (rg_devices (sy_db s))" and xy: "x = (if dv_id y = dv_id d \<and> dv_deleted y = None
          then y\<lparr> dv_deleted := Some (en_now env), dv_updated := en_now env \<rparr> else y)" by blast
    moreover have "dv_id y = dv_id x" "dv_api_key y = dv_api_key x" by (simp_all add: xy)
    ultimately have y: "y \<in> set (rg_devices (sy_db s))" "dv_id y = dv_id x" "dv_api_key y = dv_api_key x" by blast+
    have "inj_on dv_api_key (set (rg_devices (sy_db s)))" using inv by (simp add: db_inv_def distinct_map)
    then have "y = d" by (rule inj_onD) (use y assms(3) that(2) in simp_all)
    with y show ?thesis by simp
  qed
  then have "find_key (dv_api_key d) (sy_db s') = None" using gone by (auto simp: find_key_None)
  note none = no_key_no_answer [OF inv' this assms(5-7)]
  have "filter (\<lambda>x. dv_id x = dv_id d \<and> dv_deleted x = None) (rg_devices (sy_db s')) = []"
    using gone by (auto simp: filter_empty_conv)
  then have "GetDevice env' j s' = Fail DevNotFound"
    using assms(6,8) by (simp add: GetDevice_def parse_id_def DeviceRepo_GetByID_def)
  moreover have "ch_deleted x \<noteq> None" if "x \<in> set (rg_channels (sy_db s'))" "ch_device x = Some (dv_id d)" for x
    using that by (auto simp: del split: if_splits)
  ultimately show ?thesis using none by blast
qed

theorem DeleteDevice_revokes_witness:
  "fst (DeleteDevice (demo_env 5 [2]) ''u0'' demo_registry) = Ok () \<and>
   internal_ValidateAPIKey (demo_env 9 []) ''g_01'' ''u1'' (snd (DeleteDevice (demo_env 5 [2]) ''u0'' demo_registry)) = Fail DevNotFound \<and>
   GetDevice (demo_env 9 []) ''u0'' (snd (DeleteDevice (demo_env 5 [2]) ''u0'' demo_registry)) = Fail DevNotFound"
proof -
  have fst: "fst (DeleteDevice (demo_env 5 [2]) ''u0'' demo_registry) = Ok ()" by code_simp
  then have "DeleteDevice (demo_env 5 [2]) ''u0'' demo_registry =
      (Ok (), snd (DeleteDevice (demo_env 5 [2]) ''u0'' demo_registry))"
    by (metis prod.collapse)
  from DeleteDevice_revokes [OF demo_reachable this, of demo_device "demo_env 9 []" "''u1''" "''u1''" "''u0''"] fst
  show ?thesis by (simp add: demo_devices) (simp add: demo_env_def demo_device_def)
qed

lemma rows_rebound:
  assumes "rg_devices db' = rg_devices db" "rg_fields db' = rg_fields db" "rg_channels db' = map m (rg_channels db)"
    and "\<And>x. ch_id (m x) = ch_id x" "\<And>x. ch_device (m x) = ch_device x"
  shows "validate_rows k c db' = validate_rows k c db" "pair_rows k c db' = pair_rows k c db"
  using assms by (simp_all add: validate_rows_def pair_rows_def active_devices_def comp_def cong: if_cong)

text \<open>DeleteChannel marks the channel, but a key check does not look at the mark: for every state, key
  and channel the answer after DeleteChannel is the answer before it, so ingestion keeps accepting
  readings for a deleted channel as long as its device is active.\<close>

theorem DeleteChannel_keeps_key:
  "internal_ValidateAPIKey env' k ct (snd (DeleteChannel env i s)) = internal_ValidateAPIKey env' k ct s"
proof -
  obtain r s' where del: "DeleteChannel env i s = (r, s')" by fastforce
  have "sy_db s' = sy_db s \<or> (\<exists>w. sy_db s' = (sy_db s)\<lparr> rg_channels := map (\<lambda>c. if ch_id c = w \<and> ch_deleted c = None
         then c\<lparr> ch_deleted := Some (en_now env), ch_updated := en_now env \<rparr> else c) (rg_channels (sy_db s)) \<rparr>)"
    using del by (auto simp: DeleteChannel_def ChannelRepo_Delete_def split: outcome.splits if_splits)
  then have "validate_rows k c (sy_db s') = validate_rows k c (sy_db s) \<and> pair_rows k c (sy_db s') = pair_rows k c (sy_db s)" for c
  proof (elim disjE exE)
    fix w assume db': "sy_db s' = (sy_db s)\<lparr> rg_channels := map (\<lambda>c. if ch_id c = w \<and> ch_deleted c = None
         then c\<lparr> ch_deleted := Some (en_now env), ch_updated := en_now env \<rparr> else c) (rg_channels (sy_db s)) \<rparr>"
    let ?m = "\<lambda>c. if ch_id c = w \<and> ch_deleted c = None
         then c\<lparr> ch_deleted := Some (en_now env), ch_updated := en_now env \<rparr> else c"
    have "rg_channels (sy_db s') = map ?m (rg_channels (sy_db s))" by (simp add: db')
    from rows_rebound [OF _ _ this] show ?thesis by (simp add: db')
  qed simp
  then show ?thesis
    by (cases "en_cast env' ct") (simp_all add: del internal_ValidateAPIKey_def InternalRepo_ValidateAPIKey_def Let_def)
qed

lemma create_fields_Ok:
  "create_fields env k fs db = (Ok u, db') \<Longrightarrow>
     rg_devices db' = rg_devices db \<and> rg_channels db' = rg_channels db \<and>
     rg_fields db' = rg_fields db @ map (\<lambda>f. f\<lparr> fd_created := en_now env, fd_updated := en_now env \<rparr>) fs"
proof (induction fs arbitrary: k db)
  case (Cons f fs)
  then obtain x d where "FieldRepo_Create (en_db env k) (en_now env) f db = (Ok x, d)"
    "create_fields env (Suc k) fs d = (Ok u, db')" by (auto simp: then_db_Ok txFieldRepo_Create_def)
  with Cons.IH [OF this(2)] show ?case by (auto simp: FieldRepo_Create_def split: if_splits)
qed simp

lemma buildFields_channel: "buildFields env k c fis = Ok fs \<Longrightarrow> \<forall>f\<in>set fs. fd_channel f = c"
  by (induction fis arbitrary: k fs) (auto simp: go_simps NewField_def Let_def split: if_splits)

definition provisioned :: "provision_result \<Rightarrow> registry \<Rightarrow> bool" where
  "provisioned p s \<longleftrightarrow> find_key (dv_api_key (pr_device p)) (sy_db s) \<noteq> None \<and>
     map_option dv_id (find_key (dv_api_key (pr_device p)) (sy_db s)) = Some (dv_id (pr_device p)) \<and>
     bound_channel (pr_device p) (ch_id (pr_channel p)) (sy_db s) \<and>
     set (map field_entry_of (pr_fields p)) \<subseteq> set (channel_schema (ch_id (pr_channel p)) (sy_db s))"

lemma new_device_key:
  assumes "db_inv db'" "dv_status d = StatusActive"
    and "d\<lparr> dv_last_seen := None, dv_created := now, dv_updated := now, dv_deleted := None \<rparr> \<in> set (rg_devices db')"
  shows "map_option dv_id (find_key (dv_api_key d) db') = Some (dv_id d)"
proof -
  have "find_key (dv_api_key d) db' = Some (d\<lparr> dv_last_seen := None, dv_created := now, dv_updated := now, dv_deleted := None \<rparr>)"
    unfolding find_key_Some [OF assms(1)] using assms(2,3) by simp
  then show ?thesis by simp
qed

lemma created_fields_schema:
  assumes "rg_fields db' = fs0 @ map (\<lambda>f. f\<lparr> fd_created := now, fd_updated := now \<rparr>) fs" "\<forall>f\<in>set fs. fd_channel f = c"
  shows "set (map field_entry_of fs) \<subseteq> set (channel_schema c db')"
proof
  fix e assume "e \<in> set (map field_entry_of fs)"
  then obtain f where f: "f \<in> set fs" "e = field_entry_of f" by auto
  then have "f\<lparr> fd_created := now, fd_updated := now \<rparr> \<in> {f \<in> set (rg_fields db'). fd_channel f = c}"
    using assms by auto
  moreover have "e = field_entry_of (f\<lparr> fd_created := now, fd_updated := now \<rparr>)" by (simp add: f field_entry_of_def)
  ultimately show "e \<in> set (channel_schema c db')" by (auto simp: channel_schema_def)
qed

lemma NewDevice_fresh: "NewDevice now fresh rand w name description = Ok d \<Longrightarrow> dv_status d = StatusActive"
  by (auto simp: NewDevice_def go_simps split: if_splits)

lemma prepare_Ok:
  "(case p of Ok x \<Rightarrow> k x | Fail e \<Rightarrow> (Fail e, s) | Panic \<Rightarrow> (Panic, s)) = (Ok y, s') \<Longrightarrow> \<exists>x. p = Ok x \<and> k x = (Ok y, s')"
  by (auto split: outcome.splits)

lemma write_Ok:
  "(case m of (z, d) \<Rightarrow> (case z of Ok x \<Rightarrow> (Ok (f x d), g x d) | Fail e \<Rightarrow> (Fail e, h d) | Panic \<Rightarrow> (Panic, h d))) = (Ok y, s') \<Longrightarrow>
     \<exists>x d. m = (Ok x, d) \<and> y = f x d \<and> s' = g x d"
  by (auto split: outcome.splits prod.splits)

lemma DeviceRepo_Create_Ok:
  "DeviceRepo_Create up now d db = (Ok u, db') \<Longrightarrow> db' = db\<lparr> rg_devices := rg_devices db @
       [d\<lparr> dv_last_seen := None, dv_created := now, dv_updated := now, dv_deleted := None \<rparr>] \<rparr>"
  by (auto simp: DeviceRepo_Create_def split: if_splits)

lemma provisionWithNewChannel_Ok:
  assumes "provisionWithNewChannel env inp ws d s = (Ok p, s')" "db_inv (sy_db s')" "dv_status d = StatusActive"
  shows "provisioned p s'"
proof -
  from prepare_Ok [OF assms(1) [unfolded provisionWithNewChannel_def]] obtain ch fs where
    prep: "bind_o (NewChannel (en_now env) (en_fresh env 1) ws (pi_ch_name inp) (pi_ch_description inp)
              (pi_ch_visibility inp)) (\<lambda>ch0.
          let ch = channel_SetDevice (en_now env) (dv_id d) ch0 in
          bind_o (buildFields env 2 (ch_id ch) (pi_fields inp)) (\<lambda>fs. Ok (ch, fs))) = Ok (ch, fs)"
    and body: "(case RunInTx (en_begin env) (en_commit env)
            (then_db (txDeviceRepo_Create (en_db env 1) (en_now env) d) (\<lambda>_.
             then_db (txChannelRepo_Create (en_db env 2) (en_now env) ch) (\<lambda>ch'.
             then_db (create_fields env 3 fs) (\<lambda>_ db. (Ok ch', db))))) (sy_db s) of
           (Fail e, db') \<Rightarrow> (Fail e, s\<lparr> sy_db := db' \<rparr>)
         | (Panic, db') \<Rightarrow> (Panic, s\<lparr> sy_db := db' \<rparr>)
         | (Ok ch', db') \<Rightarrow>
             (Ok \<lparr> pr_device = d, pr_channel = ch', pr_fields = fs \<rparr>, cache_device env 0 d (s\<lparr> sy_db := db' \<rparr>))) = (Ok p, s')"
    by auto
  from write_Ok [OF body] obtain ch' where run: "RunInTx (en_begin env) (en_commit env)
            (then_db (txDeviceRepo_Create (en_db env 1) (en_now env) d) (\<lambda>_.
             then_db (txChannelRepo_Create (en_db env 2) (en_now env) ch) (\<lambda>ch'.
             then_db (create_fields env 3 fs) (\<lambda>_ db. (Ok ch', db))))) (sy_db s) = (Ok ch', sy_db s')"
    and p: "p = \<lparr> pr_device = d, pr_channel = ch', pr_fields = fs \<rparr>" by auto
  from sql_tx.run_commit [OF run] obtain d1 d2 u v where
    1: "DeviceRepo_Create (en_db env 1) (en_now env) d (sy_db s) = (Ok u, d1)"
    and 2: "ChannelRepo_Create (en_db env 2) (en_now env) ch d1 = (Ok ch', d2)"
    and 3: "create_fields env 3 fs d2 = (Ok v, sy_db s')"
    by (auto simp: then_db_Ok txDeviceRepo_Create_def txChannelRepo_Create_def)
  have ch: "ch_device ch = Some (dv_id d)" "\<forall>f\<in>set fs. fd_channel f = ch_id ch"
    using prep by (auto simp: bind_o_eq_Ok Let_def channel_SetDevice_def dest: buildFields_channel)
  note new = DeviceRepo_Create_Ok [OF 1] create_fields_Ok [OF 3]
  have c2: "ch_id ch' = ch_id ch" "rg_devices d2 = rg_devices d1"
    "\<exists>x. rg_channels d2 = rg_channels d1 @ [x] \<and> ch_id x = ch_id ch \<and> ch_device x = ch_device ch"
    using 2 by (auto simp: ChannelRepo_Create_def split: if_splits)
  have "map_option dv_id (find_key (dv_api_key d) (sy_db s')) = Some (dv_id d)"
    by (rule new_device_key [OF assms(2,3), where now = "en_now env"]) (simp add: new c2)
  moreover have "bound_channel d (ch_id ch') (sy_db s')" using new c2 ch by (auto simp: bound_channel_def)
  moreover have "set (map field_entry_of fs) \<subseteq> set (channel_schema (ch_id ch') (sy_db s'))"
    using new(2) ch c2 by (intro created_fields_schema) auto
  ultimately show ?thesis unfolding provisioned_def p by auto
qed

lemma provisionWithExistingChannel_Ok:
  assumes "provisionWithExistingChannel env inp ws d s = (Ok p, s')" "db_inv (sy_db s')" "dv_status d = StatusActive"
  shows "provisioned p s'"
proof -
  from prepare_Ok [OF assms(1) [unfolded provisionWithExistingChannel_def]] obtain ch fs where
    prep: "bind_o (parse_id env (pi_existing inp)) (\<lambda>chID.
          bind_o (ChannelRepo_GetByID (en_db env 0) chID (sy_db s)) (\<lambda>ch.
          if ch_workspace ch \<noteq> ws then Fail ChNotFound else
          bind_o (buildFields env 2 (ch_id ch) (pi_fields inp)) (\<lambda>fs.
          Ok (channel_SetDevice (en_now env) (dv_id d) ch, fs)))) = Ok (ch, fs)"
    and body: "(case RunInTx (en_begin env) (en_commit env)
            (then_db (txDeviceRepo_Create (en_db env 1) (en_now env) d) (\<lambda>_.
             then_db (txChannelRepo_Update (en_db env 2) (en_now env) ch) (\<lambda>_.
             create_fields env 3 fs))) (sy_db s) of
           (Fail e, db') \<Rightarrow> (Fail e, s\<lparr> sy_db := db' \<rparr>)
         | (Panic, db') \<Rightarrow> (Panic, s\<lparr> sy_db := db' \<rparr>)
         | (Ok _, db') \<Rightarrow>
             (Ok \<lparr> pr_device = d, pr_channel = ch, pr_fields = fs \<rparr>, cache_device env 0 d (s\<lparr> sy_db := db' \<rparr>))) = (Ok p, s')"
    by auto
  from write_Ok [OF body] obtain w where run: "RunInTx (en_begin env) (en_commit env)
            (then_db (txDeviceRepo_Create (en_db env 1) (en_now env) d) (\<lambda>_.
             then_db (txChannelRepo_Update (en_db env 2) (en_now env) ch) (\<lambda>_.
             create_fields env 3 fs))) (sy_db s) = (Ok w, sy_db s')"
    and p: "p = \<lparr> pr_device = d, pr_channel = ch, pr_fields = fs \<rparr>" by auto
  from sql_tx.run_commit [OF run] obtain d1 d2 u v where
    1: "DeviceRepo_Create (en_db env 1) (en_now env) d (sy_db s) = (Ok u, d1)"
    and 2: "txChannelRepo_Update (en_db env 2) (en_now env) ch d1 = (Ok v, d2)"
    and 3: "create_fields env 3 fs d2 = (Ok w, sy_db s')"
    by (auto simp: then_db_Ok txDeviceRepo_Create_def)
  have ch: "ch_device ch = Some (dv_id d)" "\<forall>f\<in>set fs. fd_channel f = ch_id ch"
    "ch_id ch \<in> ch_id ` set (rg_channels (sy_db s))"
    using prep by (auto simp: bind_o_eq_Ok channel_SetDevice_def channel_row_def dest!: buildFields_channel ChannelRepo_GetByID_Ok
        split: if_splits)
  note new = DeviceRepo_Create_Ok [OF 1] create_fields_Ok [OF 3]
  have c2: "rg_devices d2 = rg_devices d1"
    "rg_channels d2 = map (\<lambda>x. if ch_id x = ch_id ch then x\<lparr> ch_device := ch_device ch, ch_updated := en_now env \<rparr> else x) (rg_channels d1)"
    using 2 by (auto simp: txChannelRepo_Update_def split: if_splits)
  have "map_option dv_id (find_key (dv_api_key d) (sy_db s')) = Some (dv_id d)"
    by (rule new_device_key [OF assms(2,3), where now = "en_now env"]) (simp add: new c2)
  moreover have "bound_channel d (ch_id ch) (sy_db s')"
  proof -
    obtain x where x: "x \<in> set (rg_channels (sy_db s))" "ch_id x = ch_id ch" using ch(3) by force
    then have "x\<lparr> ch_device := ch_device ch, ch_updated := en_now env \<rparr> \<in> set (rg_channels (sy_db s'))"
      using new c2(2) by (force intro: rev_image_eqI)
    moreover have "ch_id (x\<lparr> ch_device := ch_device ch, ch_updated := en_now env \<rparr>) = ch_id ch \<and>
      ch_device (x\<lparr> ch_device := ch_device ch, ch_updated := en_now env \<rparr>) = Some (dv_id d)" using x ch by simp
    ultimately show ?thesis unfolding bound_channel_def list_ex_iff by blast
  qed
  moreover have "set (map field_entry_of fs) \<subseteq> set (channel_schema (ch_id ch) (sy_db s'))"
    using new(2) ch c2 by (intro created_fields_schema) auto
  ultimately show ?thesis unfolding provisioned_def p by auto
qed



text \<open>Provisioning and device creation are all or nothing: when Provision or CreateDevice does not
  succeed, at whatever statement of the transaction, the tables, the device cache and the buckets are
  exactly as before.\<close>

theorem failed_creation_leaves_no_trace:
  "(\<not> is_ok (fst (Provision env inp s)) \<longrightarrow> snd (Provision env inp s) = s) \<and>
   (\<not> is_ok (fst (CreateDevice env meta ci s)) \<longrightarrow> snd (CreateDevice env meta ci s) = s)"
proof -
  have roll: "RunInTx b c fn db = (Fail e, d) \<Longrightarrow> d = db" "RunInTx b c fn db = (Panic, d) \<Longrightarrow> d = db"
    for b c d db and fn :: "'z db_call" and e
    by (auto dest: sql_tx.run_rollback)
  have new: "\<not> is_ok (fst (provisionWithNewChannel env inp ws d s)) \<longrightarrow> snd (provisionWithNewChannel env inp ws d s) = s" for ws d
    by (auto simp: provisionWithNewChannel_def split: outcome.splits prod.splits dest!: roll)
  have old: "\<not> is_ok (fst (provisionWithExistingChannel env inp ws d s)) \<longrightarrow> snd (provisionWithExistingChannel env inp ws d s) = s" for ws d
    by (auto simp: provisionWithExistingChannel_def split: outcome.splits prod.splits dest!: roll)
  have "\<not> is_ok (fst (Provision env inp s)) \<longrightarrow> snd (Provision env inp s) = s"
    using new old by (auto simp: Provision_def split: outcome.splits prod.splits if_splits)
  moreover have "\<not> is_ok r \<longrightarrow> s' = s" if "CreateDevice env meta ci s = (r, s')" for r s'
    using prepare_cases [OF that [unfolded CreateDevice_def]]
  proof (elim disjE exE conjE, goal_cases)
    case (2 x)
    obtain d ch where x: "x = (d, ch)" by (cases x)
    from 2(2) show ?case unfolding x prod.case by (auto split: outcome.splits prod.splits dest!: roll)
  qed simp
  ultimately show ?thesis by (metis prod.collapse)
qed

theorem failed_creation_leaves_no_trace_witness:
  "fst (Provision ((demo_env 0 [1])\<lparr> en_db := (\<lambda>i. i \<noteq> 4) \<rparr>) demo_provision demo_start) = Fail DbErr \<and>
   snd (Provision ((demo_env 0 [1])\<lparr> en_db := (\<lambda>i. i \<noteq> 4) \<rparr>) demo_provision demo_start) = demo_start"
proof -
  have "fst (Provision ((demo_env 0 [1])\<lparr> en_db := (\<lambda>i. i \<noteq> 4) \<rparr>) demo_provision demo_start) = Fail DbErr" by code_simp
  with failed_creation_leaves_no_trace [of "(demo_env 0 [1])\<lparr> en_db := (\<lambda>i. i \<noteq> 4) \<rparr>" demo_provision demo_start]
  show ?thesis by simp
qed

text \<open>Reading a channel never yields its retention: GetChannel always returns 0, and so an UpdateChannel
  that leaves the retention out sets the InfluxDB bucket of the channel to a retention of 0 seconds,
  whatever retention was chosen when the channel was created.\<close>

theorem UpdateChannel_resets_retention:
  assumes "UpdateChannel env tags_json i inp s = (Ok c, s')" "uc_retention inp = 0"
    and "en_influx env 0" "en_influx env 1" "bk_id b \<noteq> ''''"
    and "filter (\<lambda>x. bk_name x = bucket_name (ch_id c)) (sy_buckets s) = b # bs"
  shows "(\<exists>c0. GetChannel env i s = Ok c0 \<and> ch_retention c0 = 0) \<and> b\<lparr> bk_seconds := 0 \<rparr> \<in> set (sy_buckets s')"
proof -
  from prepare_Ok [OF assms(1) [unfolded UpdateChannel_def]] obtain ch where
    prep: "bind_o (parse_id env i) (\<lambda>uid.
          bind_o (ChannelRepo_GetByID (en_db env 0) uid (sy_db s)) (apply_channel_update (en_now env) tags_json inp)) = Ok ch"
    and body: "(case ChannelRepo_Update (en_db env 1) (en_now env) ch (sy_db s) of
          (Fail e, db') \<Rightarrow> (Fail e, s\<lparr> sy_db := db' \<rparr>)
        | (Panic, db') \<Rightarrow> (Panic, s\<lparr> sy_db := db' \<rparr>)
        | (Ok _, db') \<Rightarrow> (Ok ch, set_retention env (ch_id ch) (ch_retention ch) (s\<lparr> sy_db := db' \<rparr>))) = (Ok c, s')"
    by blast
  from prep obtain uid c0 where get: "parse_id env i = Ok uid" "ChannelRepo_GetByID (en_db env 0) uid (sy_db s) = Ok c0"
    and upd: "apply_channel_update (en_now env) tags_json inp c0 = Ok ch" by (auto simp: bind_o_eq_Ok)
  then have c0: "GetChannel env i s = Ok c0" "ch_retention c0 = 0"
    by (auto simp: GetChannel_def channel_row_def dest!: ChannelRepo_GetByID_Ok)
  have "ch_retention ch = 0" using upd assms(2) c0(2)
    by (auto simp: apply_channel_update_def bind_o_eq_Ok Let_def channel_SetName_def channel_SetVisibility_def
        split: if_splits option.splits)
  with write_Ok [OF body] have s': "c = ch" "sy_buckets s' = snd (SetRetention env (ch_id ch) 0 (sy_buckets s))"
    by (auto simp: set_retention_def)
  have "b \<in> set (sy_buckets s)" using assms(6) by (auto simp: filter_eq_Cons_iff)
  then have "b\<lparr> bk_seconds := 0 \<rparr> \<in> set (sy_buckets s')" using assms(3-6) unfolding s'
    by (auto simp: SetRetention_def findBucket_def updateBucket_def wrap64_def second_def image_iff Let_def)
  with c0 show ?thesis by blast
qed

definition demo_bucket :: bucket where
  "demo_bucket = \<lparr> bk_id = ''b'', bk_name = ''channel-u1'', bk_seconds = 7776000 \<rparr>"

theorem UpdateChannel_resets_retention_witness:
  "\<exists>s'. s' = snd (UpdateChannel (demo_env 9 []) concat ''u1'' \<lparr> uc_name = ''kitchen'', uc_description = '''',
       uc_visibility = '''', uc_tags = None, uc_retention = 0 \<rparr> (demo_registry\<lparr> sy_buckets := [demo_bucket] \<rparr>)) \<and>
     bk_seconds demo_bucket = 7776000 \<and> demo_bucket\<lparr> bk_seconds := 0 \<rparr> \<in> set (sy_buckets s')"
proof -
  let ?r = "UpdateChannel (demo_env 9 []) concat ''u1'' \<lparr> uc_name = ''kitchen'', uc_description = '''',
       uc_visibility = '''', uc_tags = None, uc_retention = 0 \<rparr> (demo_registry\<lparr> sy_buckets := [demo_bucket] \<rparr>)"
  have "(case fst ?r of Ok c \<Rightarrow> ch_id c = ''u1'' | _ \<Rightarrow> False)" by code_simp
  then obtain c where "fst ?r = Ok c" "ch_id c = ''u1''" by (auto split: outcome.splits)
  then have "?r = (Ok c, snd ?r)" "ch_id c = ''u1''" by (simp_all add: prod_eq_iff)
  from UpdateChannel_resets_retention [OF this(1), of demo_bucket "[]"] this(2) show ?thesis
    by (simp add: demo_env_def demo_bucket_def bucket_name_def)
qed

end
