(* ===== verification/Registry_Handler.thy ===== *)
theory Registry_Handler
  imports Registry_Properties Web
begin

text \<open>
  The HTTP handlers of device-registry (transport/http). A decoded request body is an argument, None
  when the json decoder rejects it; so are the decoders of the stored tags and metadata. The texts of
  the messages are left out. A handler returns its response and the new state of the registry.
\<close>

section \<open>Responses\<close>

record device_response =
  dr_id :: string
  dr_workspace :: string
  dr_name :: string
  dr_description :: string
  dr_api_key :: string
  dr_status :: string
  dr_metadata :: "string option"
  dr_lat :: "f64 option"
  dr_lng :: "f64 option"
  dr_address :: string
  dr_last_seen :: "instant option"
  dr_created :: instant
  dr_updated :: instant

record channel_response =
  cr_id :: string
  cr_short :: nat
  cr_workspace :: string
  cr_device :: "string option"
  cr_name :: string
  cr_description :: string
  cr_visibility :: string
  cr_tags :: "string list"
  cr_retention :: int
  cr_created :: instant
  cr_updated :: instant

record field_response =
  fr_id :: string
  fr_channel :: string
  fr_name :: string
  fr_label :: string
  fr_unit :: string
  fr_type :: string
  fr_position :: int
  fr_description :: string
  fr_created :: instant
  fr_updated :: instant

type_synonym location = "f64 option \<times> f64 option \<times> string"

definition toDeviceResponse :: "(string \<Rightarrow> location option) \<Rightarrow> device \<Rightarrow> bool \<Rightarrow> device_response" where
  "toDeviceResponse loc d showKey =
    (let place = (case dv_metadata d of None \<Rightarrow> None | Some m \<Rightarrow> if length m > 0 then loc m else None) in
     \<lparr> dr_id = dv_id d, dr_workspace = dv_workspace d, dr_name = dv_name d, dr_description = dv_description d,
       dr_api_key = (if showKey then dv_api_key d else ''''), dr_status = dv_status d, dr_metadata = dv_metadata d,
       dr_lat = (case place of None \<Rightarrow> None | Some (lat, lng, a) \<Rightarrow> lat),
       dr_lng = (case place of None \<Rightarrow> None | Some (lat, lng, a) \<Rightarrow> lng),
       dr_address = (case place of None \<Rightarrow> '''' | Some (lat, lng, a) \<Rightarrow> a),
       dr_last_seen = dv_last_seen d, dr_created = dv_created d, dr_updated = dv_updated d \<rparr>)"

definition toChannelResponse :: "(string \<Rightarrow> string list) \<Rightarrow> channel \<Rightarrow> channel_response" where
  "toChannelResponse untag c =
    \<lparr> cr_id = ch_id c, cr_short = ch_short c, cr_workspace = ch_workspace c, cr_device = ch_device c,
      cr_name = ch_name c, cr_description = ch_description c, cr_visibility = ch_visibility c,
      cr_tags = (if length (ch_tags c) > 0 then untag (ch_tags c) else []), cr_retention = ch_retention c,
      cr_created = ch_created c, cr_updated = ch_updated c \<rparr>"

definition toFieldResponse :: "field \<Rightarrow> field_response" where
  "toFieldResponse f =
    \<lparr> fr_id = fd_id f, fr_channel = fd_channel f, fr_name = fd_name f, fr_label = fd_label f, fr_unit = fd_unit f,
      fr_type = fd_type f, fr_position = fd_position f, fr_description = fd_description f,
      fr_created = fd_created f, fr_updated = fd_updated f \<rparr>"

datatype registry_data =
    DeviceData device_response
  | DeviceChannelData device_response channel_response
  | DeviceListData "device_response offset_result"
  | ChannelData channel_response
  | ChannelListData "channel_response offset_result"
  | FieldData field_response
  | FieldListData "field_response list"
  | ProvisionData device_response channel_response "field_response list"
  | SchemaData "field_entry list" "32 word"
  | ValidateData string "field_entry list" "32 word"
  | ResolveData string string "field_entry list" "32 word"
  | DeprecateData string instant
  | StorageData "(string \<times> string \<times> int) list" nat

type_synonym reg_response = "registry_data envelope"

section \<open>Errors to responses\<close>

definition mapDeviceError :: "registry_err \<Rightarrow> api_error" where
  "mapDeviceError e =
    (if e = DevNotFound then NotFound ''device''
     else if e = DevAlreadyDeleted then NotFound ''device''
     else if e = DevInvalidName \<or> e = DevInvalidStatus then BadRequest ''''
     else Internal (OtherErr ''''))"

definition mapChannelError :: "registry_err \<Rightarrow> api_error" where
  "mapChannelError e =
    (if e = ChNotFound then NotFound ''channel''
     else if e = ChInvalidName \<or> e = ChInvalidVisibility \<or> e = ChInvalidRetention then BadRequest ''''
     else Internal (OtherErr ''''))"

definition mapFieldError :: "registry_err \<Rightarrow> api_error" where
  "mapFieldError e =
    (if e = FldNotFound then NotFound ''field''
     else if e = FldInvalidName \<or> e = FldInvalidPosition \<or> e = FldInvalidType then BadRequest ''''
     else Internal (OtherErr ''''))"

definition mapProvisionError :: "registry_err \<Rightarrow> api_error" where
  "mapProvisionError e =
    (if e = DevInvalidName \<or> e = DevInvalidStatus then BadRequest ''''
     else if e = ChInvalidName \<or> e = ChInvalidVisibility then BadRequest ''''
     else if e = ChNotFound then NotFound ''channel''
     else if e = FldInvalidName \<or> e = FldInvalidPosition \<or> e = FldInvalidType then BadRequest ''''
     else Internal (OtherErr ''''))"

text \<open>A panic is turned into a bare 500 by gin's recovery.\<close>

definition reply :: "(registry_err \<Rightarrow> api_error) \<Rightarrow> ('a \<Rightarrow> reg_response) \<Rightarrow> (registry_err, 'a) outcome \<Rightarrow> reg_response" where
  "reply emap success r = (case r of
      Ok x \<Rightarrow> success x
    | Fail e \<Rightarrow> resp_Error (ApiErr (emap e))
    | Panic \<Rightarrow> \<lparr> rs_status = 500, rs_success = False, rs_data = None, rs_error = None \<rparr>)"

definition bad_request :: reg_response where
  "bad_request = resp_Error (ApiErr (BadRequest ''''))"

section \<open>Devices\<close>

text \<open>The validation tags: \<open>required\<close> on workspace and name, a range on the coordinates that are given,
  and one of two visibilities when it is not empty.\<close>

definition in_range :: "real \<Rightarrow> f64 option \<Rightarrow> bool" where
  "in_range b x = (case x of None \<Rightarrow> True | Some v \<Rightarrow> f64_le (Fin (- b)) v \<and> f64_le v (Fin b))"

definition create_device_valid :: "create_device_input \<Rightarrow> bool" where
  "create_device_valid r \<longleftrightarrow> cd_workspace r \<noteq> '''' \<and> cd_name r \<noteq> '''' \<and> in_range 90 (cd_lat r) \<and> in_range 180 (cd_lng r) \<and>
     (cd_visibility r = '''' \<or> cd_visibility r = ''public'' \<or> cd_visibility r = ''private'')"

record codecs =
  cx_meta :: "f64 option \<Rightarrow> f64 option \<Rightarrow> string \<Rightarrow> string"
  cx_loc :: "string \<Rightarrow> location option"
  cx_tags :: "string list \<Rightarrow> string"
  cx_untag :: "string \<Rightarrow> string list"

definition h_CreateDevice :: "reg_env \<Rightarrow> codecs \<Rightarrow> create_device_input option \<Rightarrow> registry \<Rightarrow> reg_response \<times> registry" where
  "h_CreateDevice env cx req s =
    (case req of
       None \<Rightarrow> (bad_request, s)
     | Some r \<Rightarrow>
         if \<not> create_device_valid r then (resp_ValidationError, s) else
         (case CreateDevice env (cx_meta cx) r s of (res, s') \<Rightarrow>
           (reply mapDeviceError (\<lambda>(d, ch). resp_Created
              (DeviceChannelData (toDeviceResponse (cx_loc cx) d True) (toChannelResponse (cx_untag cx) ch))) res, s')))"

definition h_GetDevice :: "reg_env \<Rightarrow> codecs \<Rightarrow> request \<Rightarrow> registry \<Rightarrow> reg_response" where
  "h_GetDevice env cx c s =
    reply mapDeviceError (\<lambda>d. resp_OK (DeviceData (toDeviceResponse (cx_loc cx) d False))) (GetDevice env (rq_param c ''id'') s)"

definition device_page :: "reg_env \<Rightarrow> codecs \<Rightarrow> request \<Rightarrow> string \<Rightarrow> registry \<Rightarrow> reg_response" where
  "device_page env cx c wsID s =
    (if wsID = '''' then bad_request else
     let page = ParseOffset c in
     reply mapDeviceError (\<lambda>(ds, n). resp_OK (DeviceListData
        (NewOffsetResult (map (\<lambda>d. toDeviceResponse (cx_loc cx) d False) ds) n page)))
       (ListDevices env wsID (op_limit page) (Offset page) s))"

definition h_ListDevices :: "reg_env \<Rightarrow> codecs \<Rightarrow> request \<Rightarrow> registry \<Rightarrow> reg_response" where
  "h_ListDevices env cx c s = device_page env cx c (q_get c ''workspace_id'') s"

definition h_ListByWorkspace :: "reg_env \<Rightarrow> codecs \<Rightarrow> request \<Rightarrow> registry \<Rightarrow> reg_response" where
  "h_ListByWorkspace env cx c s = device_page env cx c (rq_param c ''id'') s"

definition h_UpdateDevice :: "reg_env \<Rightarrow> codecs \<Rightarrow> request \<Rightarrow> update_device_input option \<Rightarrow> registry \<Rightarrow> reg_response \<times> registry" where
  "h_UpdateDevice env cx c req s =
    (case req of
       None \<Rightarrow> (bad_request, s)
     | Some r \<Rightarrow> (case UpdateDevice env (rq_param c ''id'') r s of (res, s') \<Rightarrow>
         (reply mapDeviceError (\<lambda>d. resp_OK (DeviceData (toDeviceResponse (cx_loc cx) d False))) res, s')))"

definition h_RotateAPIKey :: "reg_env \<Rightarrow> codecs \<Rightarrow> request \<Rightarrow> registry \<Rightarrow> reg_response \<times> registry" where
  "h_RotateAPIKey env cx c s =
    (case RotateAPIKey env (rq_param c ''id'') s of (res, s') \<Rightarrow>
      (reply mapDeviceError (\<lambda>d. resp_OK (DeviceData (toDeviceResponse (cx_loc cx) d True))) res, s'))"

definition h_DeleteDevice :: "reg_env \<Rightarrow> request \<Rightarrow> registry \<Rightarrow> reg_response \<times> registry" where
  "h_DeleteDevice env c s =
    (case DeleteDevice env (rq_param c ''id'') s of (res, s') \<Rightarrow> (reply mapDeviceError (\<lambda>_. resp_NoContent) res, s'))"

section \<open>Provisioning\<close>

record provision_request =
  pq_workspace :: string
  pq_name :: string
  pq_description :: string
  pq_channel :: "(string \<times> string \<times> string) option"
  pq_channel_id :: "string option"
  pq_fields :: "provision_field_input list"

text \<open>The validator descends into the device and into a channel that is given, not into the fields.\<close>

definition provision_valid :: "provision_request \<Rightarrow> bool" where
  "provision_valid r \<longleftrightarrow> pq_workspace r \<noteq> '''' \<and> pq_name r \<noteq> '''' \<and>
     (case pq_channel r of None \<Rightarrow> True | Some (n, d, v) \<Rightarrow> n \<noteq> '''')"

definition provision_input_of :: "provision_request \<Rightarrow> provision_input" where
  "provision_input_of r =
    (case pq_channel_id r of
       Some i \<Rightarrow> \<lparr> pi_workspace = pq_workspace r, pi_name = pq_name r, pi_description = pq_description r,
         pi_ch_name = '''', pi_ch_description = '''', pi_ch_visibility = '''', pi_existing = i, pi_fields = pq_fields r \<rparr>
     | None \<Rightarrow> (case the (pq_channel r) of (n, d, v) \<Rightarrow>
         \<lparr> pi_workspace = pq_workspace r, pi_name = pq_name r, pi_description = pq_description r,
           pi_ch_name = n, pi_ch_description = d, pi_ch_visibility = v, pi_existing = '''', pi_fields = pq_fields r \<rparr>))"

definition h_Provision :: "reg_env \<Rightarrow> codecs \<Rightarrow> provision_request option \<Rightarrow> registry \<Rightarrow> reg_response \<times> registry" where
  "h_Provision env cx req s =
    (case req of
       None \<Rightarrow> (bad_request, s)
     | Some r \<Rightarrow>
         if \<not> provision_valid r then (resp_ValidationError, s)
         else if (pq_channel r = None) = (pq_channel_id r = None) then (bad_request, s)
         else (case Provision env (provision_input_of r) s of (res, s') \<Rightarrow>
           (reply mapProvisionError (\<lambda>p. resp_Created (ProvisionData
              (toDeviceResponse (cx_loc cx) (pr_device p) True) (toChannelResponse (cx_untag cx) (pr_channel p))
              (map toFieldResponse (pr_fields p)))) res, s')))"

section \<open>Channels\<close>

definition create_channel_valid :: "create_channel_input \<Rightarrow> bool" where
  "create_channel_valid r \<longleftrightarrow> cc_workspace r \<noteq> '''' \<and> cc_name r \<noteq> ''''"

definition h_CreateChannel :: "reg_env \<Rightarrow> codecs \<Rightarrow> create_channel_input option \<Rightarrow> registry \<Rightarrow> reg_response \<times> registry" where
  "h_CreateChannel env cx req s =
    (case req of
       None \<Rightarrow> (bad_request, s)
     | Some r \<Rightarrow>
         if \<not> create_channel_valid r then (resp_ValidationError, s) else
         (case CreateChannel env (cx_tags cx) r s of (res, s') \<Rightarrow>
           (reply mapChannelError (\<lambda>ch. resp_Created (ChannelData (toChannelResponse (cx_untag cx) ch))) res, s')))"

definition h_GetChannel :: "reg_env \<Rightarrow> codecs \<Rightarrow> request \<Rightarrow> registry \<Rightarrow> reg_response" where
  "h_GetChannel env cx c s =
    reply mapChannelError (\<lambda>ch. resp_OK (ChannelData (toChannelResponse (cx_untag cx) ch))) (GetChannel env (rq_param c ''id'') s)"

definition channel_page :: "codecs \<Rightarrow> offset_page \<Rightarrow> (registry_err, channel list \<times> nat) outcome \<Rightarrow> reg_response" where
  "channel_page cx page = reply mapChannelError (\<lambda>(cs, n). resp_OK (ChannelListData
     (NewOffsetResult (map (toChannelResponse (cx_untag cx)) cs) n page)))"

definition h_ListChannels :: "reg_env \<Rightarrow> codecs \<Rightarrow> request \<Rightarrow> registry \<Rightarrow> reg_response" where
  "h_ListChannels env cx c s =
    (let page = ParseOffset c; lmt = op_limit page; off = Offset page; dev = q_get c ''device_id''; wsID = q_get c ''workspace_id'' in
     if dev \<noteq> '''' then channel_page cx page (ListChannelsByDevice env dev lmt off s)
     else if wsID = '''' then bad_request
     else channel_page cx page (ListChannels env wsID lmt off s))"

definition h_UpdateChannel :: "reg_env \<Rightarrow> codecs \<Rightarrow> request \<Rightarrow> update_channel_input option \<Rightarrow> registry \<Rightarrow> reg_response \<times> registry" where
  "h_UpdateChannel env cx c req s =
    (case req of
       None \<Rightarrow> (bad_request, s)
     | Some r \<Rightarrow> (case UpdateChannel env (cx_tags cx) (rq_param c ''id'') r s of (res, s') \<Rightarrow>
         (reply mapChannelError (\<lambda>ch. resp_OK (ChannelData (toChannelResponse (cx_untag cx) ch))) res, s')))"

definition h_DeleteChannel :: "reg_env \<Rightarrow> request \<Rightarrow> registry \<Rightarrow> reg_response \<times> registry" where
  "h_DeleteChannel env c s =
    (case DeleteChannel env (rq_param c ''id'') s of (res, s') \<Rightarrow> (reply mapChannelError (\<lambda>_. resp_NoContent) res, s'))"

section \<open>Fields\<close>

text \<open>The position of the request is a pointer, so that \<open>required\<close> only asks for its presence.\<close>

record create_field_request =
  fq_input :: create_field_input
  fq_position :: "int option"

definition create_field_valid :: "create_field_request \<Rightarrow> bool" where
  "create_field_valid r \<longleftrightarrow> cf_channel (fq_input r) \<noteq> '''' \<and> cf_name (fq_input r) \<noteq> '''' \<and> fq_position r \<noteq> None"

definition h_CreateField :: "reg_env \<Rightarrow> create_field_request option \<Rightarrow> registry \<Rightarrow> reg_response \<times> registry" where
  "h_CreateField env req s =
    (case req of
       None \<Rightarrow> (bad_request, s)
     | Some r \<Rightarrow>
         if \<not> create_field_valid r then (resp_ValidationError, s) else
         (case CreateField env ((fq_input r)\<lparr> cf_position := the (fq_position r) \<rparr>) s of (res, s') \<Rightarrow>
           (reply mapFieldError (\<lambda>f. resp_Created (FieldData (toFieldResponse f))) res, s')))"

definition h_GetField :: "reg_env \<Rightarrow> request \<Rightarrow> registry \<Rightarrow> reg_response" where
  "h_GetField env c s =
    reply mapFieldError (\<lambda>f. resp_OK (FieldData (toFieldResponse f))) (GetField env (rq_param c ''id'') s)"

definition h_ListFields :: "reg_env \<Rightarrow> request \<Rightarrow> registry \<Rightarrow> reg_response" where
  "h_ListFields env c s =
    (let chID = q_get c ''channel_id'' in
     if chID = '''' then bad_request
     else reply mapFieldError (\<lambda>fs. resp_OK (FieldListData (map toFieldResponse fs))) (ListFields env chID s))"

definition h_UpdateField :: "reg_env \<Rightarrow> request \<Rightarrow> update_field_input option \<Rightarrow> registry \<Rightarrow> reg_response \<times> registry" where
  "h_UpdateField env c req s =
    (case req of
       None \<Rightarrow> (bad_request, s)
     | Some r \<Rightarrow> (case UpdateField env (rq_param c ''id'') r s of (res, s') \<Rightarrow>
         (reply mapFieldError (\<lambda>f. resp_OK (FieldData (toFieldResponse f))) res, s')))"

definition h_DeleteField :: "reg_env \<Rightarrow> request \<Rightarrow> registry \<Rightarrow> reg_response \<times> registry" where
  "h_DeleteField env c s =
    (case DeleteField env (rq_param c ''id'') s of (res, s') \<Rightarrow> (reply mapFieldError (\<lambda>_. resp_NoContent) res, s'))"

section \<open>Queries of other services and of devices\<close>

definition key_error :: "registry_err \<Rightarrow> api_error" where
  "key_error e = (if e = DevNotFound then Unauthorized '''' else ErrInternalServerError)"

definition h_GetChannelSchema :: "reg_env \<Rightarrow> request \<Rightarrow> registry \<Rightarrow> reg_response" where
  "h_GetChannelSchema env c s =
    (let k0 = rq_header c ''X-API-Key''; k = (if k0 = '''' then q_get c ''api_key'' else k0) in
     if k = '''' then resp_Error (ApiErr (Unauthorized ''''))
     else reply key_error (\<lambda>r. resp_OK (SchemaData (vr_fields r) (vr_version r)))
       (internal_ValidateAPIKey env k (rq_param c ''id'') s))"

definition h_ResolveChannel :: "reg_env \<Rightarrow> request \<Rightarrow> registry \<Rightarrow> reg_response" where
  "h_ResolveChannel env c s =
    (let k = q_get c ''api_key'' in
     if k = '''' then bad_request
     else reply key_error (\<lambda>r. resp_OK (ResolveData (vr_device (rr_result r)) (rr_channel r)
          (vr_fields (rr_result r)) (vr_version (rr_result r)))) (internal_ResolveChannelByAPIKey env k s))"

text \<open>\<open>binding:"required"\<close> on both fields of the body.\<close>

definition h_ValidateAPIKey :: "reg_env \<Rightarrow> (string \<times> string) option \<Rightarrow> registry \<Rightarrow> reg_response" where
  "h_ValidateAPIKey env req s =
    (case req of
       None \<Rightarrow> bad_request
     | Some (k, c) \<Rightarrow>
         if k = '''' \<or> c = '''' then bad_request
         else reply key_error (\<lambda>r. resp_OK (ValidateData (vr_device r) (vr_fields r) (vr_version r)))
           (internal_ValidateAPIKey env k c s))"

section \<open>Administration\<close>

definition schemaForceDeprecatedTTL :: duration where "schemaForceDeprecatedTTL = 48 * hour"

definition h_ForceDeprecateSchema :: "reg_env \<Rightarrow> request \<Rightarrow> registry \<Rightarrow> reg_response \<times> registry" where
  "h_ForceDeprecateSchema env c s =
    (let channelID = rq_param c ''id'' in
     case GetChannel env channelID s of
       Ok _ \<Rightarrow>
         (case SetForceDeprecated (en_now env) (en_redis env) channelID (sy_redis s) of
            (False, db') \<Rightarrow> (resp_Error (ApiErr (api_New 500 ''internal_error'' '''')), s\<lparr> sy_redis := db' \<rparr>)
          | (True, db') \<Rightarrow> (resp_OK (DeprecateData channelID (en_now env + schemaForceDeprecatedTTL)), s\<lparr> sy_redis := db' \<rparr>))
     | r \<Rightarrow> (reply mapChannelError (\<lambda>_. resp_NoContent) r, s))"

text \<open>The buckets of channels, the first 500 of all buckets; sizes are always 0.\<close>

definition GetStorageUsage :: "bool \<Rightarrow> bucket list \<Rightarrow> (registry_err, (string \<times> string \<times> int) list) outcome" where
  "GetStorageUsage up bs =
    (if \<not> up then Fail CacheErr
     else Ok (map (\<lambda>b. (bk_id b, bk_name b, 0))
        (filter (\<lambda>b. length (bk_name b) > 8 \<and> take 8 (bk_name b) = ''channel-'') (take 500 bs))))"

definition h_GetStorageUsage :: "reg_env \<Rightarrow> registry \<Rightarrow> reg_response" where
  "h_GetStorageUsage env s =
    reply (\<lambda>_. Internal (OtherErr '''')) (\<lambda>us. resp_OK (StorageData us (length us))) (GetStorageUsage (en_influx env 0) (sy_buckets s))"

section \<open>The router\<close>

datatype endpoint =
    GET_health
  | POST_provision "provision_request option"
  | POST_devices "create_device_input option" | GET_devices | GET_device | PUT_device "update_device_input option"
  | DELETE_device | POST_rotate_key | GET_workspace_devices
  | POST_channels "create_channel_input option" | GET_channels | GET_channel | PUT_channel "update_channel_input option"
  | DELETE_channel | POST_force_deprecate
  | POST_fields "create_field_request option" | GET_fields | GET_field | PUT_field "update_field_input option" | DELETE_field
  | GET_storage_usage
  | POST_validate_key "(string \<times> string) option" | GET_resolve_channel | GET_schema

text \<open>The endpoints of the group \<open>/api/v1\<close>, which run behind JWTAuth.\<close>

definition api_v1 :: "reg_env \<Rightarrow> codecs \<Rightarrow> endpoint \<Rightarrow> request \<Rightarrow> registry \<Rightarrow> (reg_response \<times> registry) option" where
  "api_v1 env cx e c s = (case e of
      POST_provision r \<Rightarrow> Some (h_Provision env cx r s)
    | POST_devices r \<Rightarrow> Some (h_CreateDevice env cx r s)
    | GET_devices \<Rightarrow> Some (h_ListDevices env cx c s, s)
    | GET_device \<Rightarrow> Some (h_GetDevice env cx c s, s)
    | PUT_device r \<Rightarrow> Some (h_UpdateDevice env cx c r s)
    | DELETE_device \<Rightarrow> Some (h_DeleteDevice env c s)
    | POST_rotate_key \<Rightarrow> Some (h_RotateAPIKey env cx c s)
    | GET_workspace_devices \<Rightarrow> Some (h_ListByWorkspace env cx c s, s)
    | POST_channels r \<Rightarrow> Some (h_CreateChannel env cx r s)
    | GET_channels \<Rightarrow> Some (h_ListChannels env cx c s, s)
    | GET_channel \<Rightarrow> Some (h_GetChannel env cx c s, s)
    | PUT_channel r \<Rightarrow> Some (h_UpdateChannel env cx c r s)
    | DELETE_channel \<Rightarrow> Some (h_DeleteChannel env c s)
    | POST_force_deprecate \<Rightarrow> Some (h_ForceDeprecateSchema env c s)
    | POST_fields r \<Rightarrow> Some (h_CreateField env r s)
    | GET_fields \<Rightarrow> Some (h_ListFields env c s, s)
    | GET_field \<Rightarrow> Some (h_GetField env c s, s)
    | PUT_field r \<Rightarrow> Some (h_UpdateField env c r s)
    | DELETE_field \<Rightarrow> Some (h_DeleteField env c s)
    | GET_storage_usage \<Rightarrow> Some (h_GetStorageUsage env s, s)
    | _ \<Rightarrow> None)"

text \<open>The other endpoints are open; health answers a bare success.\<close>

definition open_routes :: "reg_env \<Rightarrow> endpoint \<Rightarrow> request \<Rightarrow> registry \<Rightarrow> reg_response" where
  "open_routes env e c s = (case e of
      POST_validate_key r \<Rightarrow> h_ValidateAPIKey env r s
    | GET_resolve_channel \<Rightarrow> h_ResolveChannel env c s
    | GET_schema \<Rightarrow> h_GetChannelSchema env c s
    | _ \<Rightarrow> \<lparr> rs_status = 200, rs_success = True, rs_data = None, rs_error = None \<rparr>)"

definition registry_router :: "(string \<Rightarrow> claims option) \<Rightarrow> reg_env \<Rightarrow> codecs \<Rightarrow> endpoint \<Rightarrow> request \<Rightarrow> registry
    \<Rightarrow> reg_response \<times> registry" where
  "registry_router verify env cx e c s =
    (case api_v1 env cx e c s of
       None \<Rightarrow> (open_routes env e c s, s)
     | Some _ \<Rightarrow> (case JWTAuth verify c of
          Ok c' \<Rightarrow> the (api_v1 env cx e c' s)
        | Fail resp \<Rightarrow> (resp, s)
        | Panic \<Rightarrow> (\<lparr> rs_status = 500, rs_success = False, rs_data = None, rs_error = None \<rparr>, s)))"

section \<open>Properties of the router\<close>

lemma handlers_ignore_claims: "api_v1 env cx e (with_claims c cl) s = api_v1 env cx e c s"
  by (cases e) (simp_all add: api_v1_def h_ListDevices_def h_GetDevice_def h_UpdateDevice_def h_DeleteDevice_def
      h_RotateAPIKey_def h_ListByWorkspace_def device_page_def h_ListChannels_def h_GetChannel_def h_UpdateChannel_def
      h_DeleteChannel_def h_ForceDeprecateSchema_def h_ListFields_def h_GetField_def h_UpdateField_def h_DeleteField_def split: option.split)

text \<open>The management API is closed to callers without a valid token (401, nothing changes), and open
  without restriction to callers with any valid token: what an endpoint does and answers does not
  depend on the claims, so a user of one tenant, with no role at all, reads, rotates and deletes the
  devices of every other tenant and reaches the admin endpoint.\<close>

theorem registry_router_auth:
  assumes "api_v1 env cx e c s = Some r"
  shows "(has_valid_token verify c \<longrightarrow> registry_router verify env cx e c s = r) \<and>
    (\<not> has_valid_token verify c \<longrightarrow>
       rs_status (fst (registry_router verify env cx e c s)) = 401 \<and> snd (registry_router verify env cx e c s) = s)"
  using assms extract_not_Panic [of c]
  by (auto simp: registry_router_def has_valid_token_def JWTAuth_def handlers_ignore_claims resp_Abort_def
      Unauthorized_def api_New_def split: outcome.splits option.splits)

definition demo_codecs :: codecs where
  "demo_codecs = \<lparr> cx_meta = (\<lambda>_ _ _. ''{}''), cx_loc = (\<lambda>_. None), cx_tags = concat, cx_untag = (\<lambda>_. []) \<rparr>"

theorem registry_router_auth_witness:
  "fst (registry_router stranger (demo_env 5 [2]) demo_codecs POST_rotate_key (demo_call ''Bearer t'' ''u0'') demo_registry) =
     resp_OK (DeviceData (toDeviceResponse (\<lambda>_. None) (demo_device\<lparr> dv_api_key := ''g_02'' \<rparr>) True)) \<and>
   rs_status (fst (registry_router stranger (demo_env 5 [2]) demo_codecs POST_rotate_key (demo_call '''' ''u0'') demo_registry)) = 401"
proof -
  let ?c = "\<lambda>tok. demo_call tok ''u0''"
  have tok: "has_valid_token stranger (?c ''Bearer t'')" "\<not> has_valid_token stranger (?c '''')" by code_simp+
  have v1: "api_v1 (demo_env 5 [2]) demo_codecs POST_rotate_key (?c tok) demo_registry =
      Some (h_RotateAPIKey (demo_env 5 [2]) demo_codecs (?c tok) demo_registry)" for tok by (simp add: api_v1_def)
  have "fst (h_RotateAPIKey (demo_env 5 [2]) demo_codecs (?c ''Bearer t'') demo_registry) =
     resp_OK (DeviceData (toDeviceResponse (\<lambda>_. None) (demo_device\<lparr> dv_api_key := ''g_02'' \<rparr>) True))" by code_simp
  with registry_router_auth [OF v1, of stranger] tok show ?thesis by metis
qed

fun keys_shown :: "registry_data \<Rightarrow> string list" where
  "keys_shown (DeviceData d) = [dr_api_key d]"
| "keys_shown (DeviceChannelData d c) = [dr_api_key d]"
| "keys_shown (DeviceListData r) = map dr_api_key (or_data r)"
| "keys_shown (ProvisionData d c fs) = [dr_api_key d]"
| "keys_shown _ = []"

definition key_free :: "reg_response \<Rightarrow> bool" where
  "key_free r \<longleftrightarrow> (case rs_data r of None \<Rightarrow> True | Some d \<Rightarrow> set (keys_shown d) \<subseteq> {''''})"

lemma key_free_errors [simp]:
  "key_free (resp_Error e)" "key_free resp_ValidationError" "key_free bad_request" "key_free resp_NoContent" "key_free (resp_Abort e)"
  by (auto simp: key_free_def resp_Error_def resp_ValidationError_def bad_request_def resp_NoContent_def resp_Abort_def
      split: go_error.splits)

lemma key_free_data [simp]:
  "key_free (resp_OK d) \<longleftrightarrow> set (keys_shown d) \<subseteq> {''''}" "key_free (resp_Created d) \<longleftrightarrow> set (keys_shown d) \<subseteq> {''''}"
  by (simp_all add: key_free_def resp_OK_def resp_Created_def)

lemma key_free_reply: "(\<And>x. r = Ok x \<Longrightarrow> key_free (success x)) \<Longrightarrow> key_free (reply emap success r)"
  by (cases r) (simp_all add: reply_def, simp add: key_free_def)

lemma key_hidden [simp]: "dr_api_key (toDeviceResponse loc d False) = ''''"
  by (simp add: toDeviceResponse_def Let_def)

lemma key_hidden_list [simp]:
  "set (keys_shown (DeviceListData (NewOffsetResult (map (\<lambda>d. toDeviceResponse loc d False) ds) n page))) \<subseteq> {''''}"
  by (auto simp: NewOffsetResult_def)

text \<open>An API key of a device leaves device-registry only in the answers to the creation of the device, to
  provisioning and to a rotation: whatever the request and the state, the response of every other
  endpoint, lists included, carries an empty key.\<close>

theorem keys_shown_once:
  assumes "rs_data (fst (registry_router verify env cx e c s)) = Some d" "k \<in> set (keys_shown d)" "k \<noteq> ''''"
  shows "(\<exists>r. e = POST_devices r) \<or> (\<exists>r. e = POST_provision r) \<or> e = POST_rotate_key"
proof (rule ccontr)
  assume other: "\<not> ?thesis"
  have v1: "key_free (fst r)" if "api_v1 env cx e c' s = Some r" for c' r
    using that other
    by (cases e) (auto simp: api_v1_def h_ListDevices_def h_GetDevice_def h_UpdateDevice_def h_DeleteDevice_def
      h_ListByWorkspace_def device_page_def h_CreateChannel_def h_ListChannels_def channel_page_def h_GetChannel_def
      h_UpdateChannel_def h_DeleteChannel_def h_ForceDeprecateSchema_def h_CreateField_def h_ListFields_def h_GetField_def
      h_UpdateField_def h_DeleteField_def h_GetStorageUsage_def Let_def intro!: key_free_reply
      simp del: keys_shown.simps(3) split: prod.splits option.splits outcome.splits if_splits bool.splits)
  have op: "key_free (open_routes env e c s)"
    by (cases e) (auto simp: open_routes_def h_ValidateAPIKey_def h_ResolveChannel_def h_GetChannelSchema_def Let_def key_free_def [of "\<lparr> rs_status = 200, rs_success = True, rs_data = None, rs_error = None \<rparr>"]
      intro!: key_free_reply split: option.splits)
  have "key_free (fst (registry_router verify env cx e c s))"
    using v1 op by (auto simp: registry_router_def JWTAuth_def key_free_def [of "\<lparr> rs_status = 500, rs_success = False, rs_data = None, rs_error = None \<rparr>"]
      split: option.splits outcome.splits simp: handlers_ignore_claims)
  with assms show False by (auto simp: key_free_def)
qed

theorem keys_shown_once_witness:
  "\<exists>d e. e = POST_rotate_key \<and>
     rs_data (fst (registry_router stranger (demo_env 5 [2]) demo_codecs e (demo_call ''Bearer t'' ''u0'') demo_registry)) = Some d \<and>
     ''g_02'' \<in> set (keys_shown d) \<and> ((\<exists>r. e = POST_devices r) \<or> (\<exists>r. e = POST_provision r) \<or> e = POST_rotate_key)"
proof -
  have d: "rs_data (fst (registry_router stranger (demo_env 5 [2]) demo_codecs POST_rotate_key (demo_call ''Bearer t'' ''u0'') demo_registry))
    = Some (DeviceData (toDeviceResponse (\<lambda>_. None) (demo_device\<lparr> dv_api_key := ''g_02'' \<rparr>) True))" by code_simp
  have k: "''g_02'' \<in> set (keys_shown (DeviceData (toDeviceResponse (\<lambda>_. None) (demo_device\<lparr> dv_api_key := ''g_02'' \<rparr>) True)))"
    by code_simp
  from keys_shown_once [OF d k] d k show ?thesis by blast
qed

text \<open>An id that is not a UUID is the caller's mistake, but every endpoint that takes one from the path
  answers it with 500 and the code of an internal error; so does a device creation whose channel name
  is blank.\<close>

theorem malformed_ids_answered_500:
  assumes "en_parse env (rq_param c ''id'') = None"
  shows "rs_status (h_GetDevice env cx c s) = 500 \<and> rs_status (fst (h_UpdateDevice env cx c (Some u) s)) = 500 \<and>
     rs_status (fst (h_RotateAPIKey env cx c s)) = 500 \<and> rs_status (fst (h_DeleteDevice env c s)) = 500 \<and>
     rs_status (h_GetChannel env cx c s) = 500 \<and> rs_status (fst (h_DeleteChannel env c s)) = 500 \<and>
     rs_status (h_GetField env c s) = 500 \<and> rs_status (fst (h_DeleteField env c s)) = 500"
  using assms by (simp add: h_GetDevice_def h_UpdateDevice_def h_RotateAPIKey_def h_DeleteDevice_def h_GetChannel_def
      h_DeleteChannel_def h_GetField_def h_DeleteField_def GetDevice_def UpdateDevice_def RotateAPIKey_def DeleteDevice_def
      GetChannel_def DeleteChannel_def GetField_def DeleteField_def parse_id_def reply_def resp_Error_def
      mapDeviceError_def mapChannelError_def mapFieldError_def Internal_def api_Wrap_def api_New_def)

theorem malformed_ids_answered_500_witness:
  "rs_status (h_GetDevice (demo_env 0 []) demo_codecs (demo_call ''Bearer t'' '''') demo_registry) = 500"
  using malformed_ids_answered_500 [of "demo_env 0 []" "demo_call ''Bearer t'' ''''" demo_codecs demo_registry]
  by (simp add: demo_env_def demo_call_def)

end
