(* ===== verification/Registry_Ingestion.thy ===== *)
theory Registry_Ingestion
  imports Ingest_Handler Registry_Handler
begin

text \<open>
  The two services together: the ingestion service asks device-registry over HTTP for the schema of a
  key (the client of Key\<open>_\<close>Cache against the handlers of Registry\<open>_\<close>Handler), and ingests on behalf of the
  answer.
\<close>

section \<open>The exchanges between the services\<close>

definition key_query :: "string \<Rightarrow> request" where
  "key_query k = \<lparr> rq_header = (\<lambda>_. ''''), rq_query = (\<lambda>q. if q = ''api_key'' then Some k else None),
     rq_form = (\<lambda>_. ''''), rq_param = (\<lambda>_. ''''), rq_ip = '''', rq_ctx = Map.empty \<rparr>"

definition registry_json :: "registry_data option \<Rightarrow> registry_body option" where
  "registry_json d = (case d of
      Some (ResolveData dev ch fs v) \<Rightarrow> Some \<lparr> rb_device = dev, rb_channel = ch, rb_fields = fs, rb_version = v \<rparr>
    | Some (ValidateData dev fs v) \<Rightarrow> Some \<lparr> rb_device = dev, rb_channel = '''', rb_fields = fs, rb_version = v \<rparr>
    | _ \<Rightarrow> None)"

definition resolve_exchange :: "reg_env \<Rightarrow> registry \<Rightarrow> string \<Rightarrow> exchange" where
  "resolve_exchange env s k =
    (let r = h_ResolveChannel env (key_query k) s in Some (rs_status r, registry_json (rs_data r)))"

definition validate_exchange :: "reg_env \<Rightarrow> registry \<Rightarrow> string \<Rightarrow> string \<Rightarrow> exchange" where
  "validate_exchange env s k c =
    (let r = h_ValidateAPIKey env (Some (k, c)) s in Some (rs_status r, registry_json (rs_data r)))"

lemma dec_not_uuid: "\<not> uuidRE (dec n)"
proof
  assume "uuidRE (dec n)"
  then have "length (dec n) > 8" "dec n ! 8 = CHR ''-''" by (simp_all add: uuidRE_def)
  moreover have "is_digit (dec n ! 8)" using dec_digits(1) [of n] \<open>length (dec n) > 8\<close> by (simp add: list_all_length)
  ultimately show False by (simp add: is_digit_def)
qed

lemma resolved_channel_short:
  assumes "ResolveChannelByAPIKey (resolve_exchange env s) k = Ok schema"
  shows "\<exists>n. ds_channel schema = dec n"
proof -
  obtain r where r: "internal_ResolveChannelByAPIKey env k s = Ok r" and ch: "ds_channel schema = rr_channel r"
    using assms by (auto simp: ResolveChannelByAPIKey_def resolve_exchange_def h_ResolveChannel_def key_query_def q_get_def
        reply_def registry_json_def resp_OK_def Let_def bad_request_def resp_Error_def
        split: outcome.splits if_splits option.splits registry_data.splits)
  from r show ?thesis unfolding ch
    by (auto simp: internal_ResolveChannelByAPIKey_def InternalRepo_ResolveChannelByAPIKey_def Let_def split: if_splits list.splits)
qed

text \<open>The ThingSpeak endpoint never accepts a reading: the channel that device-registry resolves for a key
  is named by its decimal short id, and the ingestion service only takes channel ids in UUID form. For
  every key, registry state and request the answer is "0" and nothing is published.\<close>

theorem ThingSpeak_always_refuses:
  assumes "svc_Ingest (h_svc h) = Ingest now0 maxAge pub"
  shows "ThingSpeak now scan h (ResolveChannelByAPIKey (resolve_exchange env r)) limiter c s = (''0'', s)"
proof -
  have "svc_Ingest (h_svc h) inp s = (Fail ErrInvalidChannelID, s)" if "in_channel inp = dec n" for inp n s
    using that dec_not_uuid [of n]
    by (simp add: assms Ingest_def ingest_readings_def ValidateChannelID_def)
  then show ?thesis using resolved_channel_short
    by (fastforce simp: ThingSpeak_def Let_def split: outcome.splits prod.splits)
qed

definition log_publisher :: "reading list event_publisher" where
  "log_publisher = \<lparr> PublishReadings = (\<lambda>rs s. (None, s @ rs)), PublishReplayReadings = (\<lambda>rs s. (None, s @ rs)) \<rparr>"

theorem ThingSpeak_always_refuses_witness:
  "\<exists>schema. ResolveChannelByAPIKey (resolve_exchange (demo_env 9 []) demo_registry) ''g_01'' = Ok schema \<and>
     length (ds_fields schema) = 2 \<and>
     ThingSpeak 0 (\<lambda>_. Some (Fin 1)) (NewHandler \<lparr> svc_Ingest = Ingest 0 0 log_publisher,
         svc_IngestBatch = (\<lambda>_ s. (Ok (), s)), svc_IngestReplay = (\<lambda>_ _ _ s. (Ok (), s)) \<rparr> None)
       (ResolveChannelByAPIKey (resolve_exchange (demo_env 9 []) demo_registry)) (\<lambda>_. None)
       ((key_query ''g_01'')\<lparr> rq_form := (\<lambda>f. if f = ''field1'' then ''1'' else '''') \<rparr>) [] = (''0'', [])"
proof -
  have "(case ResolveChannelByAPIKey (resolve_exchange (demo_env 9 []) demo_registry) ''g_01'' of
     Ok schema \<Rightarrow> length (ds_fields schema) = 2 | _ \<Rightarrow> False)" by code_simp
  then obtain schema where "ResolveChannelByAPIKey (resolve_exchange (demo_env 9 []) demo_registry) ''g_01'' = Ok schema"
    "length (ds_fields schema) = 2" by (auto split: outcome.splits)
  moreover note ThingSpeak_always_refuses [of "NewHandler \<lparr> svc_Ingest = Ingest 0 0 log_publisher,
         svc_IngestBatch = (\<lambda>_ s. (Ok (), s)), svc_IngestReplay = (\<lambda>_ _ _ s. (Ok (), s)) \<rparr> None" 0 0
     "log_publisher" 0 "\<lambda>_. Some (Fin 1)" "demo_env 9 []" demo_registry
     "\<lambda>_. None" "(key_query ''g_01'')\<lparr> rq_form := (\<lambda>f. if f = ''field1'' then ''1'' else '''') \<rparr>" "[]"]
  ultimately show ?thesis by (simp add: NewHandler_def)
qed

text \<open>C3. The key check that ingestion runs against device-registry, through both HTTP layers, is exact: for
  every reachable registry the client obtains the device, the channel and the fields of the contract,
  and DeviceNotFound for every key that is unknown, inactive, deleted or not bound to the channel.\<close>

theorem key_check_end_to_end:
  assumes "reg_reachable s" "en_cast env ct = Some c" "en_db env 0" "en_db env 1" "k \<noteq> ''''" "ct \<noteq> ''''"
    and "'''' \<notin> dv_id ` set (rg_devices (sy_db s))"
  shows "GetByAPIKey (validate_exchange env s) k ct = (case find_key k (sy_db s) of
      Some d \<Rightarrow> if bound_channel d c (sy_db s)
        then Ok \<lparr> ds_device = dv_id d, ds_channel = ct, ds_fields = channel_schema c (sy_db s), ds_version = 1 \<rparr>
        else Fail ErrDeviceNotFound
    | None \<Rightarrow> Fail ErrDeviceNotFound)"
proof -
  note defs = GetByAPIKey_def validate_exchange_def h_ValidateAPIKey_def reply_def validate_spec_def registry_json_def
      resp_OK_def resp_Error_def key_error_def Unauthorized_def api_New_def Let_def
  note inv = reg_reachable_inv [OF assms(1)]
  show ?thesis
  proof (cases "find_key k (sy_db s)")
    case None
    then show ?thesis using internal_spec [OF inv assms(2-4), of k] assms(5,6) by (simp add: defs)
  next
    case (Some d)
    then have "dv_id d \<noteq> ''''" using assms(7) find_key_Some [OF inv, of k d] by (metis image_eqI)
    then show ?thesis using internal_spec [OF inv assms(2-4), of k] assms(5,6) Some by (simp add: defs)
  qed
qed

theorem key_check_end_to_end_witness:
  "GetByAPIKey (validate_exchange (demo_env 9 []) demo_registry) ''g_01'' ''u1'' =
     Ok \<lparr> ds_device = ''u0'', ds_channel = ''u1'', ds_fields = [\<lparr> fe_index = 1, fe_name = ''h'', fe_type = ''float'' \<rparr>,
        \<lparr> fe_index = 2, fe_name = ''t'', fe_type = ''float'' \<rparr>], ds_version = 1 \<rparr>"
proof -
  have "find_key ''g_01'' (sy_db demo_registry) = Some demo_device" "bound_channel demo_device ''u1'' (sy_db demo_registry)"
    "channel_schema ''u1'' (sy_db demo_registry) = [\<lparr> fe_index = 1, fe_name = ''h'', fe_type = ''float'' \<rparr>,
        \<lparr> fe_index = 2, fe_name = ''t'', fe_type = ''float'' \<rparr>]" by code_simp+
  then show ?thesis using key_check_end_to_end [OF demo_reachable, of "demo_env 9 []" "''u1''" "''u1''" "''g_01''"]
    by (simp add: demo_devices) (simp add: demo_env_def demo_device_def)
qed

end
