(* ===== verification/Query.thy ===== *)
theory Query
  imports Redis_Store
begin

text \<open>
  The query side of query-realtime: domain/query, the Flux text and the reading of results
  (infrastructure/influxdb/reader.go), the result cache (infrastructure/redis/query\<open>_\<close>cache.go), the query
  service (application/query\<open>_\<close>service.go) and its handlers (transport/http/query\<open>_\<close>handler.go).
  uuid.Parse, the formats of times and numbers, the json codec and InfluxDB's query API are arguments.
\<close>

section \<open>Requests and their validation\<close>

datatype query_err = QryInvalidChannelID | QryInvalidTimeRange | QryNoDataFound | QryInvalidFieldName | QryInvalidAggregate
  | QryInvalidWindow | InfluxErr

record query_request =
  qr_channel :: string
  qr_field :: string
  qr_start :: instant
  qr_end :: instant
  qr_limit :: int
  qr_aggregate :: string
  qr_window :: string

record data_point =
  dp_timestamp :: instant
  dp_value :: f64
  dp_field :: string

record query_result =
  qs_channel :: string
  qs_field :: string
  qs_points :: "data_point list"
  qs_count :: nat
  qs_start :: instant
  qs_end :: instant

record latest_reading =
  lr_channel :: string
  lr_field :: string
  lr_value :: f64
  lr_timestamp :: instant

definition validAggregates :: "string list" where
  "validAggregates = [''mean'', ''sum'', ''count'', ''last'', ''first'', ''min'', ''max'']"

text \<open>The regular expressions: digits and one of four letters; letters, digits, dashes and underscores.\<close>

definition validWindow :: "string \<Rightarrow> bool" where
  "validWindow s \<longleftrightarrow> length s \<ge> 2 \<and> list_all is_digit (butlast s) \<and> last s \<in> set ''smhd''"

definition name_char :: "char \<Rightarrow> bool" where
  "name_char c \<longleftrightarrow> (let n = (of_char c :: nat) in
     (97 \<le> n \<and> n \<le> 122) \<or> (65 \<le> n \<and> n \<le> 90) \<or> (48 \<le> n \<and> n \<le> 57) \<or> n = 95 \<or> n = 45)"

definition validFieldName :: "string \<Rightarrow> bool" where
  "validFieldName s \<longleftrightarrow> s \<noteq> '''' \<and> list_all name_char s"

definition ValidateQueryRequest :: "(string \<Rightarrow> bool) \<Rightarrow> query_request \<Rightarrow> (query_err, unit) outcome" where
  "ValidateQueryRequest parse req =
    (if \<not> parse (qr_channel req) then Fail QryInvalidChannelID
     else if qr_field req \<noteq> '''' \<and> \<not> validFieldName (qr_field req) then Fail QryInvalidFieldName
     else if qr_aggregate req \<noteq> '''' \<and> qr_aggregate req \<notin> set validAggregates then Fail QryInvalidAggregate
     else if qr_window req \<noteq> '''' \<and> \<not> validWindow (qr_window req) then Fail QryInvalidWindow
     else Ok ())"

section \<open>The reader\<close>

text \<open>The value of a Flux record has a dynamic type, of which the code takes float64 only.\<close>

datatype flux_value = FluxFloat f64 | FluxInt int | FluxString string

record reader_env =
  re_bucket :: string
  re_format :: "instant \<Rightarrow> string"
  re_run :: "string \<Rightarrow> ((instant \<times> flux_value) list \<times> (nat \<Rightarrow> bool)) option"

definition nl :: string where "nl = [CHR 0x0A]"
definition dq :: string where "dq = [CHR 0x22]"

definition dec_int :: "int \<Rightarrow> string" where
  "dec_int n = (if n < 0 then CHR ''-'' # dec (nat (- n)) else dec (nat n))"

definition field_filter :: "string \<Rightarrow> string" where
  "field_filter f = ''|> filter(fn: (r) => r['' @ dq @ ''_field'' @ dq @ ''] == '' @ dq @ f @ dq @ '')''"

definition tag_filter :: "string \<Rightarrow> string \<Rightarrow> string" where
  "tag_filter k v = ''  |> filter(fn: (r) => r['' @ dq @ k @ dq @ ''] == '' @ dq @ v @ dq @ '')''"

definition buildFlux :: "reader_env \<Rightarrow> query_request \<Rightarrow> string" where
  "buildFlux env req =
    (let fieldFilter = (if qr_field req \<noteq> '''' then field_filter (qr_field req) else '''');
         aggregation = (if qr_aggregate req \<noteq> '''' \<and> qr_window req \<noteq> ''''
           then ''|> aggregateWindow(every: '' @ qr_window req @ '', fn: '' @ qr_aggregate req @ '', createEmpty: false)'' else '''');
         lmt = (if qr_limit req > 0 then ''|> limit(n: '' @ dec_int (qr_limit req) @ '')'' else '''')
     in nl @ ''from(bucket: '' @ dq @ re_bucket env @ dq @ '')'' @ nl @
        ''  |> range(start: '' @ re_format env (qr_start req) @ '', stop: '' @ re_format env (qr_end req) @ '')'' @ nl @
        tag_filter ''_measurement'' ''telemetry'' @ nl @ tag_filter ''channel_id'' (qr_channel req) @ nl @
        ''  '' @ fieldFilter @ nl @ ''  '' @ aggregation @ nl @ ''  '' @ lmt @ nl)"

definition value_of :: "flux_value \<Rightarrow> f64" where
  "value_of v = (case v of FluxFloat x \<Rightarrow> x | _ \<Rightarrow> Fin 0)"

text \<open>\<open>re_run\<close> is the query API: None when the query fails, else the records, and \<open>errs k\<close> tells whether the
  result reports an error after Next has returned \<open>k\<close> records.\<close>

definition Reader_Query :: "reader_env \<Rightarrow> query_request \<Rightarrow> (query_err, query_result) outcome" where
  "Reader_Query env req =
    (case re_run env (buildFlux env req) of
       None \<Rightarrow> Fail InfluxErr
     | Some (recs, errs) \<Rightarrow>
         (let points = map (\<lambda>(t, v). \<lparr> dp_timestamp = t, dp_value = value_of v, dp_field = qr_field req \<rparr>) recs in
          if errs (length recs) then Fail InfluxErr
          else Ok \<lparr> qs_channel = qr_channel req, qs_field = qr_field req, qs_points = points, qs_count = length points,
                    qs_start = qr_start req, qs_end = qr_end req \<rparr>))"

definition latest_flux :: "reader_env \<Rightarrow> string \<Rightarrow> string \<Rightarrow> string" where
  "latest_flux env channelID fieldName =
    nl @ ''from(bucket: '' @ dq @ re_bucket env @ dq @ '')'' @ nl @ ''  |> range(start: -30d)'' @ nl @
    tag_filter ''_measurement'' ''telemetry'' @ nl @ tag_filter ''channel_id'' channelID @ nl @
    tag_filter ''_field'' fieldName @ nl @ ''  |> last()'' @ nl"

text \<open>The first record counts.\<close>

definition Reader_QueryLatest :: "reader_env \<Rightarrow> string \<Rightarrow> string \<Rightarrow> (query_err, latest_reading) outcome" where
  "Reader_QueryLatest env channelID fieldName =
    (case re_run env (latest_flux env channelID fieldName) of
       None \<Rightarrow> Fail InfluxErr
     | Some (recs, errs) \<Rightarrow>
         (case recs of
            (t, v) # rest \<Rightarrow> if errs 1 then Fail InfluxErr
              else Ok \<lparr> lr_channel = channelID, lr_field = fieldName, lr_value = value_of v, lr_timestamp = t \<rparr>
          | [] \<Rightarrow> if errs 0 then Fail InfluxErr else Fail QryNoDataFound))"

section \<open>The query service\<close>

text \<open>One call: the clock, whether GET and SET of the cache succeed, uuid.Parse, the json codec and the reader.\<close>

record query_env =
  qe_now :: instant
  qe_get :: bool
  qe_set :: bool
  qe_parse :: "string \<Rightarrow> bool"
  qe_enc :: "query_result \<Rightarrow> string option"
  qe_dec :: "string \<Rightarrow> query_result option"
  qe_enc_latest :: "latest_reading \<Rightarrow> string option"
  qe_dec_latest :: "string \<Rightarrow> latest_reading option"
  qe_reader :: reader_env
  qe_ttl :: duration
  qe_latest_ttl :: duration

definition unix :: "instant \<Rightarrow> int" where "unix t = t div second"

definition normalize_request :: "instant \<Rightarrow> query_request \<Rightarrow> query_request" where
  "normalize_request now req =
    (let e = (if qr_end req = zero_time then now else qr_end req);
         st = (if qr_start req = zero_time then e - 24 * hour else qr_start req)
     in req\<lparr> qr_end := e, qr_start := st \<rparr>)"

definition clamp_query_limit :: "query_request \<Rightarrow> query_request" where
  "clamp_query_limit req = (if qr_limit req \<le> 0 \<or> qr_limit req > 10000 then req\<lparr> qr_limit := 1000 \<rparr> else req)"

definition query_key :: "query_request \<Rightarrow> string" where
  "query_key req = ''query:'' @ qr_channel req @ '':'' @ qr_field req @ '':'' @ dec_int (unix (qr_start req)) @ '':'' @
     dec_int (unix (qr_end req)) @ '':'' @ qr_aggregate req @ '':'' @ qr_window req"

definition latest_key :: "string \<Rightarrow> string \<Rightarrow> string" where
  "latest_key channelID fieldName = ''latest:'' @ channelID @ '':'' @ fieldName"

text \<open>The cache in front of a reader: a hit that decodes is answered, else the reader is asked and its answer
  is stored when it can be encoded; failures of the cache are ignored.\<close>

definition QueryCache_Get :: "bool \<Rightarrow> instant \<Rightarrow> redis \<Rightarrow> string \<Rightarrow> string option" where
  "QueryCache_Get up now db key = (if up then redis_get now db key else None)"

definition QueryCache_Set :: "bool \<Rightarrow> instant \<Rightarrow> string \<Rightarrow> string \<Rightarrow> duration \<Rightarrow> redis \<Rightarrow> redis" where
  "QueryCache_Set up now key v ttl db = (if up then redis_set now key v ttl db else db)"

definition cached :: "query_env \<Rightarrow> (string \<Rightarrow> 'a option) \<Rightarrow> ('a \<Rightarrow> string option) \<Rightarrow> duration \<Rightarrow> string
    \<Rightarrow> (query_err, 'a) outcome \<Rightarrow> redis \<Rightarrow> (query_err, 'a) outcome \<times> redis" where
  "cached env undo enc ttl key ask db =
    (case Option.bind (QueryCache_Get (qe_get env) (qe_now env) db key) undo of
       Some r \<Rightarrow> (Ok r, db)
     | None \<Rightarrow> (case ask of
         Ok r \<Rightarrow> (Ok r, (case enc r of None \<Rightarrow> db | Some b \<Rightarrow> QueryCache_Set (qe_set env) (qe_now env) key b ttl db))
       | e \<Rightarrow> (e, db)))"

definition Query :: "query_env \<Rightarrow> query_request \<Rightarrow> redis \<Rightarrow> (query_err, query_result) outcome \<times> redis" where
  "Query env req0 db =
    (let req = normalize_request (qe_now env) req0 in
     if \<not> qr_start req < qr_end req then (Fail QryInvalidTimeRange, db) else
     case ValidateQueryRequest (qe_parse env) req of
       Ok _ \<Rightarrow> (let r = clamp_query_limit req in
         cached env (qe_dec env) (qe_enc env) (qe_ttl env) (query_key r) (Reader_Query (qe_reader env) r) db)
     | Fail e \<Rightarrow> (Fail e, db)
     | Panic \<Rightarrow> (Panic, db))"

definition QueryLatest :: "query_env \<Rightarrow> string \<Rightarrow> string \<Rightarrow> redis \<Rightarrow> (query_err, latest_reading) outcome \<times> redis" where
  "QueryLatest env channelID fieldName db =
    (if fieldName = '''' then (Fail QryInvalidFieldName, db) else
     case ValidateQueryRequest (qe_parse env) \<lparr> qr_channel = channelID, qr_field = fieldName, qr_start = zero_time,
         qr_end = zero_time, qr_limit = 0, qr_aggregate = '''', qr_window = '''' \<rparr> of
       Ok _ \<Rightarrow> cached env (qe_dec_latest env) (qe_enc_latest env) (qe_latest_ttl env) (latest_key channelID fieldName)
         (Reader_QueryLatest (qe_reader env) channelID fieldName) db
     | Fail e \<Rightarrow> (Fail e, db)
     | Panic \<Rightarrow> (Panic, db))"

section \<open>The handlers\<close>

record query_params =
  qp_channel :: string
  qp_field :: string
  qp_start :: string
  qp_end :: string
  qp_limit :: int
  qp_aggregate :: string
  qp_window :: string

datatype query_data = ResultData query_result | CsvData "string list list" | LatestData latest_reading

definition isQueryValidationError :: "query_err \<Rightarrow> bool" where
  "isQueryValidationError e \<longleftrightarrow> e \<in> {QryInvalidChannelID, QryInvalidTimeRange, QryInvalidFieldName, QryInvalidAggregate, QryInvalidWindow}"

text \<open>The rows of the CSV: \<open>g\<close> is the format \<open>%g\<close>, \<open>fmt\<close> the RFC 3339 format to the second, \<open>order\<close> sorts
  the field names. A row is found by its formatted time.\<close>

fun csv_add :: "string \<Rightarrow> string \<Rightarrow> f64 \<Rightarrow> (string \<times> (string \<times> f64) list) list \<Rightarrow> (string \<times> (string \<times> f64) list) list" where
  "csv_add ts f v [] = [(ts, [(f, v)])]"
| "csv_add ts f v ((t, m) # rows) = (if t = ts then (t, AList.update f v m) # rows else (t, m) # csv_add ts f v rows)"

definition csv_rows :: "(instant \<Rightarrow> string) \<Rightarrow> data_point list \<Rightarrow> (string \<times> (string \<times> f64) list) list" where
  "csv_rows fmt ps = fold (\<lambda>p rows. csv_add (fmt (dp_timestamp p)) (dp_field p) (dp_value p) rows) ps []"

definition buildQueryCSV :: "(instant \<Rightarrow> string) \<Rightarrow> (f64 \<Rightarrow> string) \<Rightarrow> (string list \<Rightarrow> string list) \<Rightarrow> query_result \<Rightarrow> string list list" where
  "buildQueryCSV fmt g order r =
    (let fields = order (remdups (map dp_field (qs_points r))) in
     (''timestamp'' # fields) #
     map (\<lambda>(ts, m). ts # map (\<lambda>f. case map_of m f of Some v \<Rightarrow> g v | None \<Rightarrow> '''') fields) (csv_rows fmt (qs_points r)))"

record query_codecs =
  qc_time :: "string \<Rightarrow> instant option"
  qc_format :: "instant \<Rightarrow> string"
  qc_num :: "f64 \<Rightarrow> string"
  qc_order :: "string list \<Rightarrow> string list"

definition query_error :: "query_err \<Rightarrow> api_error" where
  "query_error e = (if isQueryValidationError e then BadRequest '''' else ErrInternalServerError)"

definition latest_error :: "query_err \<Rightarrow> api_error" where
  "latest_error e = (if e = QryNoDataFound then NotFound ''reading'' else ErrInternalServerError)"

text \<open>The parameters are None when the query string cannot be bound.\<close>

definition h_Query :: "query_env \<Rightarrow> query_codecs \<Rightarrow> request \<Rightarrow> query_params option \<Rightarrow> redis \<Rightarrow> query_data envelope \<times> redis" where
  "h_Query env cx c params db =
    (case params of
       None \<Rightarrow> (resp_Error (ApiErr (BadRequest '''')), db)
     | Some p \<Rightarrow>
         if qp_channel p = '''' then (resp_ValidationError, db) else
         let st = (if qp_start p = '''' then Some zero_time else qc_time cx (qp_start p));
             e = (if qp_end p = '''' then Some zero_time else qc_time cx (qp_end p))
         in case (st, e) of
           (Some t1, Some t2) \<Rightarrow>
             (case Query env \<lparr> qr_channel = qp_channel p, qr_field = qp_field p, qr_start = t1, qr_end = t2, qr_limit = qp_limit p,
                qr_aggregate = qp_aggregate p, qr_window = qp_window p \<rparr> db of
               (res, db') \<Rightarrow> (answer query_error (\<lambda>r. resp_OK
                  (if q_get c ''format'' = ''csv'' then CsvData (buildQueryCSV (qc_format cx) (qc_num cx) (qc_order cx) r)
                   else ResultData r)) res, db'))
         | _ \<Rightarrow> (resp_Error (ApiErr (BadRequest '''')), db))"

definition h_QueryLatest :: "query_env \<Rightarrow> request \<Rightarrow> redis \<Rightarrow> query_data envelope \<times> redis" where
  "h_QueryLatest env c db =
    (let channelID = q_get c ''channel_id'' in
     if channelID = '''' \<or> \<not> qe_parse env channelID then (resp_Error (ApiErr (BadRequest '''')), db) else
     case QueryLatest env channelID (q_get c ''field'') db of
       (res, db') \<Rightarrow> (answer latest_error (\<lambda>r. resp_OK (LatestData r)) res, db'))"

section \<open>Cache keys\<close>

lemma split_last_sep:
  assumes "xs @ c # a = ys @ c # b" "c \<notin> set a" "c \<notin> set b"
  shows "xs = ys \<and> a = b"
proof -
  from assms(1) obtain us where "xs = ys @ us \<and> us @ c # a = c # b \<or> xs @ us = ys \<and> c # a = us @ c # b"
    by (auto simp: append_eq_append_conv2)
  with assms(2,3) show ?thesis by (cases us) auto
qed

lemma dec_inject [simp]: "dec m = dec n \<longleftrightarrow> m = n"
  by (metis dec_value of_nat_eq_iff)

lemma dec_int_inject [simp]: "dec_int m = dec_int n \<longleftrightarrow> m = n"
proof -
  have ne: "dec k \<noteq> CHR ''-'' # s" "CHR ''-'' # s \<noteq> dec k" for k s using dec_no_sign [of k] by auto
  show ?thesis by (auto simp: dec_int_def ne)
qed

lemma digit_not_sep: "is_digit c \<Longrightarrow> c \<noteq> CHR '':''"
  by (auto simp: is_digit_def)

lemma dec_int_no_sep: "CHR '':'' \<notin> set (dec_int n)"
  using dec_all_digits [of "nat n"] dec_all_digits [of "nat (- n)"]
  by (auto simp: dec_int_def list_all_iff dest: digit_not_sep)

definition plain_request :: "query_request \<Rightarrow> bool" where
  "plain_request r \<longleftrightarrow> (qr_field r = '''' \<or> validFieldName (qr_field r)) \<and>
     (qr_aggregate r = '''' \<or> qr_aggregate r \<in> set validAggregates) \<and> (qr_window r = '''' \<or> validWindow (qr_window r))"

lemma window_chars:
  assumes "validWindow s" "c \<in> set s"
  shows "is_digit c \<or> c \<in> set ''smhd''"
proof -
  have "s = butlast s @ [last s]" using assms(1) by (cases s rule: rev_cases) (auto simp: validWindow_def)
  then have "c \<in> set (butlast s) \<or> c = last s" using assms(2) by (metis Un_iff set_append empty_iff empty_set set_ConsD)
  with assms(1) show ?thesis by (auto simp: validWindow_def list_all_iff)
qed

lemma plain_no_sep:
  assumes "plain_request r"
  shows "CHR '':'' \<notin> set (qr_field r)" "CHR '':'' \<notin> set (qr_aggregate r)" "CHR '':'' \<notin> set (qr_window r)"
proof -
  show "CHR '':'' \<notin> set (qr_field r)" using assms
    by (auto simp: plain_request_def validFieldName_def list_all_iff name_char_def)
  show "CHR '':'' \<notin> set (qr_aggregate r)" using assms by (auto simp: plain_request_def validAggregates_def)
  show "CHR '':'' \<notin> set (qr_window r)" using assms window_chars digit_not_sep by (fastforce simp: plain_request_def)
qed

text \<open>Requests that a cache entry cannot tell apart: equal but for the limit and the fractions of seconds.\<close>

definition same_question :: "query_request \<Rightarrow> query_request \<Rightarrow> bool" where
  "same_question a b \<longleftrightarrow> qr_channel a = qr_channel b \<and> qr_field a = qr_field b \<and> qr_aggregate a = qr_aggregate b \<and>
     qr_window a = qr_window b \<and> unix (qr_start a) = unix (qr_start b) \<and> unix (qr_end a) = unix (qr_end b)"

lemma query_key_inject:
  assumes "plain_request a" "plain_request b"
  shows "query_key a = query_key b \<longleftrightarrow> same_question a b"
proof
  assume eq: "query_key a = query_key b"
  note sep = split_last_sep [where c = "CHR '':''"]
  from eq have "(qr_channel a @ '':'' @ qr_field a @ '':'' @ dec_int (unix (qr_start a)) @ '':'' @ dec_int (unix (qr_end a)) @ '':'' @ qr_aggregate a)
      @ CHR '':'' # qr_window a =
      (qr_channel b @ '':'' @ qr_field b @ '':'' @ dec_int (unix (qr_start b)) @ '':'' @ dec_int (unix (qr_end b)) @ '':'' @ qr_aggregate b)
      @ CHR '':'' # qr_window b" by (simp add: query_key_def)
  from sep [OF this] plain_no_sep assms have w: "qr_window a = qr_window b" and
    "(qr_channel a @ '':'' @ qr_field a @ '':'' @ dec_int (unix (qr_start a)) @ '':'' @ dec_int (unix (qr_end a))) @ CHR '':'' # qr_aggregate a =
     (qr_channel b @ '':'' @ qr_field b @ '':'' @ dec_int (unix (qr_start b)) @ '':'' @ dec_int (unix (qr_end b))) @ CHR '':'' # qr_aggregate b"
    by simp_all
  from sep [OF this(2)] plain_no_sep assms have ag: "qr_aggregate a = qr_aggregate b" and
    "(qr_channel a @ '':'' @ qr_field a @ '':'' @ dec_int (unix (qr_start a))) @ CHR '':'' # dec_int (unix (qr_end a)) =
     (qr_channel b @ '':'' @ qr_field b @ '':'' @ dec_int (unix (qr_start b))) @ CHR '':'' # dec_int (unix (qr_end b))"
    by simp_all
  from sep [OF this(2)] dec_int_no_sep have e: "unix (qr_end a) = unix (qr_end b)" and
    "(qr_channel a @ '':'' @ qr_field a) @ CHR '':'' # dec_int (unix (qr_start a)) =
     (qr_channel b @ '':'' @ qr_field b) @ CHR '':'' # dec_int (unix (qr_start b))" by auto
  from sep [OF this(2)] dec_int_no_sep have st: "unix (qr_start a) = unix (qr_start b)" and
    "qr_channel a @ CHR '':'' # qr_field a = qr_channel b @ CHR '':'' # qr_field b" by auto
  from sep [OF this(2)] plain_no_sep assms w ag e st show "same_question a b" by (simp add: same_question_def)
qed (simp add: query_key_def same_question_def)

section \<open>What the cache answers\<close>

text \<open>A run of calls of the service over one Redis store: queries and latest-value lookups, each with its
  own environment.\<close>

datatype ask = AskQuery query_request | AskLatest string string

fun ask_step :: "query_env \<times> ask \<Rightarrow> redis \<Rightarrow> redis" where
  "ask_step (env, AskQuery req) db = snd (Query env req db)"
| "ask_step (env, AskLatest c f) db = snd (QueryLatest env c f db)"

definition effective :: "query_env \<Rightarrow> query_request \<Rightarrow> query_request" where
  "effective env req = clamp_query_limit (normalize_request (qe_now env) req)"

lemma Query_Ok:
  "Query env req db = (Ok r, db') \<longleftrightarrow>
    qr_start (effective env req) < qr_end (effective env req) \<and> qe_parse env (qr_channel (effective env req)) \<and> plain_request (effective env req) \<and>
    cached env (qe_dec env) (qe_enc env) (qe_ttl env) (query_key (effective env req))
      (Reader_Query (qe_reader env) (effective env req)) db = (Ok r, db')"
  by (auto simp: Query_def effective_def Let_def ValidateQueryRequest_def plain_request_def clamp_query_limit_def
      split: outcome.splits if_splits)

text \<open>Every live entry under a query key was read, not longer ago than its time to live, for a request of the
  run with that key.\<close>

definition backed :: "(query_env \<times> ask) list \<Rightarrow> instant \<Rightarrow> string \<Rightarrow> string \<Rightarrow> bool" where
  "backed past t key b \<longleftrightarrow> (\<exists>env req r. (env, AskQuery req) \<in> set past \<and> plain_request (effective env req) \<and> qe_enc env r = Some b \<and>
     Reader_Query (qe_reader env) (effective env req) = Ok r \<and> query_key (effective env req) = key \<and> t < qe_now env + qe_ttl env)"

definition cache_sound :: "(query_env \<times> ask) list \<Rightarrow> redis \<Rightarrow> bool" where
  "cache_sound past db \<longleftrightarrow> (\<forall>t s b. redis_get t db (''query:'' @ s) = Some b \<longrightarrow> backed past t (''query:'' @ s) b)"

lemma cache_soundD:
  "cache_sound past db \<Longrightarrow> redis_get t db (''query:'' @ s) = Some b \<Longrightarrow> backed past t (''query:'' @ s) b"
  unfolding cache_sound_def by (elim allE impE) assumption+

lemma cache_sound_put:
  assumes "cache_sound past db" "\<And>t s. ''query:'' @ s = k \<Longrightarrow> 0 < ttl \<Longrightarrow> t < now + ttl \<Longrightarrow> backed past t k b" "0 < ttl \<or> (\<forall>s. ''query:'' @ s \<noteq> k)"
  shows "cache_sound past (redis_set now k b ttl db)"
  unfolding cache_sound_def
proof (intro allI impI)
  fix t s b' assume g: "redis_get t (redis_set now k b ttl db) (''query:'' @ s) = Some b'"
  show "backed past t (''query:'' @ s) b'"
  proof (cases "''query:'' @ s = k")
    case True
    with assms(3) have "0 < ttl" by blast
    with g assms(2) [OF True] show ?thesis unfolding True by (simp add: rs.get_put_Some)
  next
    case False
    with g have "redis_get t db (''query:'' @ s) = Some b'" by (simp only: rs.get_put_other [OF False])
    then show ?thesis by (rule cache_soundD [OF assms(1)])
  qed
qed

lemma backed_mono: "backed past t key b \<Longrightarrow> set past \<subseteq> set past' \<Longrightarrow> backed past' t key b"
  unfolding backed_def by blast

lemma cached_store:
  assumes "cached env undo enc ttl key a db = (res, db')"
  shows "db' = db \<or> (\<exists>r b. a = Ok r \<and> enc r = Some b \<and> db' = redis_set (qe_now env) key b ttl db)"
  using assms by (auto simp: cached_def QueryCache_Set_def split: option.splits outcome.splits if_splits)

lemma Query_store:
  "snd (Query env req db) = db \<or> (\<exists>r b. Reader_Query (qe_reader env) (effective env req) = Ok r \<and> qe_enc env r = Some b \<and>
     plain_request (effective env req) \<and> snd (Query env req db) = redis_set (qe_now env) (query_key (effective env req)) b (qe_ttl env) db)"
proof -
  let ?req = "normalize_request (qe_now env) req"
  obtain res db' where c: "cached env (qe_dec env) (qe_enc env) (qe_ttl env) (query_key (effective env req))
      (Reader_Query (qe_reader env) (effective env req)) db = (res, db')" by fastforce
  have "snd (Query env req db) = db \<or> (snd (Query env req db) = db' \<and> plain_request (effective env req))"
  proof (cases "ValidateQueryRequest (qe_parse env) ?req")
    case (Ok u)
    then have "plain_request (effective env req)"
      by (auto simp: ValidateQueryRequest_def plain_request_def effective_def clamp_query_limit_def split: if_splits)
    with Ok c show ?thesis by (simp add: Query_def Let_def effective_def)
  qed (simp_all add: Query_def Let_def)
  with cached_store [OF c] show ?thesis by metis
qed

lemma QueryLatest_store:
  "snd (QueryLatest env c f db) = db \<or> (\<exists>b ttl. snd (QueryLatest env c f db) = redis_set (qe_now env) (latest_key c f) b ttl db)"
proof -
  obtain res db' where c: "cached env (qe_dec_latest env) (qe_enc_latest env) (qe_latest_ttl env) (latest_key c f)
      (Reader_QueryLatest (qe_reader env) c f) db = (res, db')" by fastforce
  from cached_store [OF this] have "db' = db \<or> (\<exists>b ttl. db' = redis_set (qe_now env) (latest_key c f) b ttl db)" by blast
  then show ?thesis unfolding QueryLatest_def c by (simp split: outcome.split)
qed

lemma ask_step_sound:
  assumes "cache_sound past db" "0 < qe_ttl (fst x)"
  shows "cache_sound (past @ [x]) (ask_step x db)"
proof -
  obtain env a where x: "x = (env, a)" by fastforce
  have keep: "cache_sound (past @ [x]) db" unfolding cache_sound_def
  proof (intro allI impI)
    fix t s b assume "redis_get t db (''query:'' @ s) = Some b"
    then show "backed (past @ [x]) t (''query:'' @ s) b" by (rule backed_mono [OF cache_soundD [OF assms(1)]]) auto
  qed
  show ?thesis
  proof (cases a)
    case (AskLatest c f)
    then have "ask_step x db = db \<or> (\<exists>b ttl. ask_step x db = redis_set (qe_now env) (latest_key c f) b ttl db)"
      using QueryLatest_store by (simp add: x)
    moreover have "''query:'' @ s \<noteq> latest_key c f" for s by (simp add: latest_key_def)
    ultimately show ?thesis using keep cache_sound_put by metis
  next
    case (AskQuery req)
    let ?r = "effective env req"
    have "ask_step x db = db \<or> (\<exists>r b. Reader_Query (qe_reader env) ?r = Ok r \<and> qe_enc env r = Some b \<and> plain_request ?r \<and>
        ask_step x db = redis_set (qe_now env) (query_key ?r) b (qe_ttl env) db)"
      using Query_store [of env req db] by (simp add: x AskQuery)
    then show ?thesis
    proof (elim disjE exE conjE)
      fix r b assume "Reader_Query (qe_reader env) ?r = Ok r" "qe_enc env r = Some b" "plain_request ?r"
        and st: "ask_step x db = redis_set (qe_now env) (query_key ?r) b (qe_ttl env) db"
      then have new: "backed (past @ [x]) t (query_key ?r) b" if "t < qe_now env + qe_ttl env" for t
        using that AskQuery unfolding backed_def x by fastforce
      show ?thesis unfolding st using assms(2) by (intro cache_sound_put keep new) (simp_all add: x)
    qed (use keep in simp)
  qed
qed

lemma run_sound:
  assumes "cache_sound past db" "\<forall>x\<in>set xs. 0 < qe_ttl (fst x)"
  shows "cache_sound (past @ xs) (fold ask_step xs db)"
  using assms
proof (induction xs arbitrary: past db)
  case (Cons x xs)
  then have "cache_sound (past @ [x]) (ask_step x db)" by (intro ask_step_sound) auto
  with Cons.IH [of "past @ [x]" "ask_step x db"] Cons.prems(2) show ?case by simp
qed simp

text \<open>C24. What a query is answered is what the store of readings said: in any run of queries and lookups over
  one cache that starts empty, an answer was returned by InfluxDB, in this call or for an earlier query
  of the run no longer ago than the time to live, for a request that agrees in channel, field, window,
  aggregate and range up to fractions of a second (the limit is not compared).\<close>

theorem query_answers_backed:
  assumes "\<forall>x\<in>set past. 0 < qe_ttl (fst x)"
    "\<forall>e\<in>fst ` set past. \<forall>r b. qe_enc e r = Some b \<longrightarrow> qe_dec env b = Some r"
    "Query env req (fold ask_step past Map.empty) = (Ok r, db')"
  shows "Reader_Query (qe_reader env) (effective env req) = Ok r \<or>
    (\<exists>e q. (e, AskQuery q) \<in> set past \<and> Reader_Query (qe_reader e) (effective e q) = Ok r \<and>
       same_question (effective e q) (effective env req) \<and> qe_now env < qe_now e + qe_ttl e)"
proof -
  let ?db = "fold ask_step past Map.empty"
  have sound: "cache_sound past ?db"
    using run_sound [of "[]" Map.empty past] assms(1) by (simp add: cache_sound_def redis_get_def)
  from assms(3) have plain: "plain_request (effective env req)" and
    c: "cached env (qe_dec env) (qe_enc env) (qe_ttl env) (query_key (effective env req))
      (Reader_Query (qe_reader env) (effective env req)) ?db = (Ok r, db')" by (auto simp: Query_Ok)
  show ?thesis
  proof (cases "Option.bind (QueryCache_Get (qe_get env) (qe_now env) ?db (query_key (effective env req))) (qe_dec env)")
    case None
    with c show ?thesis by (auto simp: cached_def split: outcome.splits)
  next
    case (Some r')
    with c have "r' = r" by (simp add: cached_def)
    with Some obtain b where b: "redis_get (qe_now env) ?db (query_key (effective env req)) = Some b" "qe_dec env b = Some r"
      by (auto simp: QueryCache_Get_def bind_eq_Some_conv split: if_splits)
    then have "backed past (qe_now env) (query_key (effective env req)) b"
      using cache_soundD [OF sound] by (simp only: query_key_def)
    then obtain e q r2 where e: "(e, AskQuery q) \<in> set past" "plain_request (effective e q)" "qe_enc e r2 = Some b"
      "Reader_Query (qe_reader e) (effective e q) = Ok r2" "query_key (effective e q) = query_key (effective env req)"
      "qe_now env < qe_now e + qe_ttl e" unfolding backed_def by blast
    then have "qe_dec env b = Some r2" using assms(2) by force
    with b(2) have "r2 = r" by simp
    with e plain show ?thesis by (auto simp: query_key_inject)
  qed
qed

text \<open>The cache ignores the limit: after a query was answered from InfluxDB and stored, the same query with any
  other limit is answered, until the entry expires, with the stored answer, which was cut at the first
  limit, and InfluxDB is not asked.\<close>

theorem limit_not_in_cache_key:
  assumes "Query env req db = (Ok r, db')" "redis_get (qe_now env) db (query_key (effective env req)) = None"
    "qe_set env" "0 < qe_ttl env" "qe_enc env r = Some b"
    "qr_start req \<noteq> zero_time" "qr_end req \<noteq> zero_time"
    "qe_get env2" "qe_parse env2 (qr_channel req)" "qe_dec env2 b = Some r" "qe_now env2 < qe_now env + qe_ttl env"
  shows "Query env2 (req\<lparr> qr_limit := n \<rparr>) db' = (Ok r, db')"
proof -
  have e: "effective env req = clamp_query_limit req" "effective env2 (req\<lparr> qr_limit := n \<rparr>) = clamp_query_limit (req\<lparr> qr_limit := n \<rparr>)"
    using assms(6,7) by (simp_all add: effective_def normalize_request_def)
  have key: "query_key (effective env2 (req\<lparr> qr_limit := n \<rparr>)) = query_key (effective env req)"
    by (simp add: e query_key_def clamp_query_limit_def)
  have miss: "Option.bind (QueryCache_Get (qe_get env) (qe_now env) db (query_key (effective env req))) (qe_dec env) = None"
    using assms(2) by (simp add: QueryCache_Get_def)
  have plain: "plain_request (effective env req)" "qr_start (effective env req) < qr_end (effective env req)"
    and c: "cached env (qe_dec env) (qe_enc env) (qe_ttl env) (query_key (effective env req))
      (Reader_Query (qe_reader env) (effective env req)) db = (Ok r, db')" using assms(1) by (auto simp: Query_Ok)
  have "db' = redis_set (qe_now env) (query_key (effective env req)) b (qe_ttl env) db"
    using c miss assms(3,5) by (auto simp: cached_def QueryCache_Set_def split: outcome.splits)
  then have hit: "redis_get (qe_now env2) db' (query_key (effective env req)) = Some b"
    using assms(4,11) by (simp add: redis_get_simps)
  have "plain_request (effective env2 (req\<lparr> qr_limit := n \<rparr>))" "qe_parse env2 (qr_channel (effective env2 (req\<lparr> qr_limit := n \<rparr>)))"
    "qr_start (effective env2 (req\<lparr> qr_limit := n \<rparr>)) < qr_end (effective env2 (req\<lparr> qr_limit := n \<rparr>))"
    using plain assms(9) by (simp_all add: e plain_request_def clamp_query_limit_def split: if_splits)
  moreover have "cached env2 (qe_dec env2) (qe_enc env2) (qe_ttl env2) (query_key (effective env req)) a db' = (Ok r, db')" for a
    using hit assms(8,10) by (simp add: cached_def QueryCache_Get_def)
  ultimately show ?thesis unfolding Query_Ok key by simp
qed

section \<open>Flux text\<close>

definition quotes :: "string \<Rightarrow> nat" where "quotes s = count_list s (CHR 0x22)"

lemma quotes_append [simp]: "quotes (a @ b) = quotes a + quotes b"
  by (simp add: quotes_def)

lemma quotes_basic [simp]: "quotes [] = 0" "quotes (c # s) = (if c = CHR 0x22 then 1 else 0) + quotes s" "quotes nl = 0" "quotes dq = 1"
  by (simp_all add: quotes_def nl_def dq_def)

lemma quotes_free: "(\<And>c. c \<in> set s \<Longrightarrow> c \<noteq> CHR 0x22) \<Longrightarrow> quotes s = 0"
  unfolding quotes_def by (metis count_list_0_iff)

lemma digits_quote_free: "list_all is_digit s \<Longrightarrow> quotes s = 0"
  by (rule quotes_free) (auto simp: list_all_iff is_digit_def)

lemma dec_int_quotes [simp]: "quotes (dec_int n) = 0"
  using digits_quote_free [OF dec_all_digits] by (simp add: dec_int_def)

lemma plain_quotes:
  assumes "plain_request r"
  shows "quotes (qr_field r) = 0" "quotes (qr_aggregate r) = 0" "quotes (qr_window r) = 0"
proof -
  show "quotes (qr_field r) = 0" using assms
    by (intro quotes_free) (auto simp: plain_request_def validFieldName_def list_all_iff name_char_def)
  show "quotes (qr_aggregate r) = 0" using assms by (auto simp: plain_request_def validAggregates_def)
  show "quotes (qr_window r) = 0" using assms window_chars by (intro quotes_free) (fastforce simp: plain_request_def is_digit_def)
qed


section \<open>All fields at once\<close>

text \<open>Without a field the reader labels every point with the empty name, so all fields share one CSV column: the
  last point with a given time wins.\<close>

definition last_at :: "(instant \<Rightarrow> string) \<Rightarrow> string \<Rightarrow> data_point list \<Rightarrow> f64" where
  "last_at fmt ts ps = dp_value (last (filter (\<lambda>p. fmt (dp_timestamp p) = ts) ps))"

lemma csv_add_single:
  "csv_add ts f v (map (\<lambda>t. (t, [(f, w t)])) tss) =
     (if ts \<in> set tss then map (\<lambda>t. (t, [(f, if t = ts then v else w t)])) tss
      else map (\<lambda>t. (t, [(f, w t)])) tss @ [(ts, [(f, v)])])" if "distinct tss"
  using that
proof (induction tss)
  case (Cons t tss)
  then have "map (\<lambda>t'. (t', [(f, if t' = t then v else w t')])) tss = map (\<lambda>t. (t, [(f, w t)])) tss" by (intro map_cong) auto
  with Cons show ?case by auto
qed simp

lemma csv_rows_single:
  assumes "list_all (\<lambda>p. dp_field p = f) ps"
  shows "\<exists>tss. distinct tss \<and> set tss = (\<lambda>p. fmt (dp_timestamp p)) ` set ps \<and>
    csv_rows fmt ps = map (\<lambda>t. (t, [(f, last_at fmt t ps)])) tss"
  using assms
proof (induction ps rule: rev_induct)
  case (snoc p ps)
  then obtain tss where tss: "distinct tss" "set tss = (\<lambda>p. fmt (dp_timestamp p)) ` set ps"
    "csv_rows fmt ps = map (\<lambda>t. (t, [(f, last_at fmt t ps)])) tss" by auto
  let ?ts = "fmt (dp_timestamp p)"
  have step: "csv_rows fmt (ps @ [p]) = csv_add ?ts f (dp_value p) (csv_rows fmt ps)" using snoc.prems by (simp add: csv_rows_def)
  have l: "last_at fmt t (ps @ [p]) = (if t = ?ts then dp_value p else last_at fmt t ps)" for t by (simp add: last_at_def)
  show ?case
  proof (cases "?ts \<in> set tss")
    case True
    with tss step show ?thesis by (intro exI [of _ tss]) (auto simp: csv_add_single l)
  next
    case False
    then have "map (\<lambda>t. (t, [(f, last_at fmt t (ps @ [p]))])) tss = map (\<lambda>t. (t, [(f, last_at fmt t ps)])) tss"
      by (intro map_cong) (auto simp: l)
    with False tss step show ?thesis by (intro exI [of _ "tss @ [?ts]"]) (auto simp: csv_add_single l)
  qed
qed (simp add: csv_rows_def)

text \<open>A CSV export without a field loses data: whatever fields the records of InfluxDB belong to, the export
  has one unnamed value column and one row per distinct time, with the value of the last record of that
  time; the others, of other fields, are gone.\<close>

theorem csv_without_field_collapses:
  assumes "Reader_Query env req = Ok r" "qr_field req = ''''" "qs_points r \<noteq> []" "\<And>x. order [x] = [x]"
  shows "\<exists>tss. distinct tss \<and> set tss = (\<lambda>p. fmt (dp_timestamp p)) ` set (qs_points r) \<and>
    buildQueryCSV fmt g order r = [''timestamp'', ''''] # map (\<lambda>t. [t, g (last_at fmt t (qs_points r))]) tss"
proof -
  have all: "list_all (\<lambda>p. dp_field p = '''') (qs_points r)"
    using assms(1,2) by (auto simp: Reader_Query_def Let_def list_all_iff split: option.splits prod.splits if_splits)
  have "remdups (map dp_field ps) = ['''']" if "list_all (\<lambda>p. dp_field p = '''') ps" "ps \<noteq> []" for ps
    using that
  proof (induction ps)
    case (Cons a ps)
    then show ?case by (cases ps) auto
  qed simp
  then have fields: "remdups (map dp_field (qs_points r)) = ['''']" using all assms(3) by blast
  from csv_rows_single [OF all, of fmt] obtain tss where tss: "distinct tss" "set tss = (\<lambda>p. fmt (dp_timestamp p)) ` set (qs_points r)"
    "csv_rows fmt (qs_points r) = map (\<lambda>t. (t, [('''', last_at fmt t (qs_points r))])) tss" by blast
  then show ?thesis by (intro exI [of _ tss]) (simp add: buildQueryCSV_def fields assms(4))
qed

section \<open>Concrete runs\<close>

definition demo_flux :: "(instant \<times> flux_value) list \<Rightarrow> reader_env" where
  "demo_flux recs = \<lparr> re_bucket = ''b'', re_format = (\<lambda>_. ''t''), re_run = (\<lambda>_. Some (recs, \<lambda>_. False)) \<rparr>"

definition demo_answer :: query_result where
  "demo_answer = \<lparr> qs_channel = ''c'', qs_field = '''', qs_points = [\<lparr> dp_timestamp = 5, dp_value = Fin 1, dp_field = '''' \<rparr>],
     qs_count = 1, qs_start = 0, qs_end = 10 * second \<rparr>"

definition demo_query_env :: "instant \<Rightarrow> (instant \<times> flux_value) list \<Rightarrow> query_env" where
  "demo_query_env now recs = \<lparr> qe_now = now, qe_get = True, qe_set = True, qe_parse = (\<lambda>s. s = ''c''),
     qe_enc = (\<lambda>r. if r = demo_answer then Some ''r'' else None), qe_dec = (\<lambda>b. if b = ''r'' then Some demo_answer else None),
     qe_enc_latest = (\<lambda>_. None), qe_dec_latest = (\<lambda>_. None), qe_reader = demo_flux recs, qe_ttl = 60, qe_latest_ttl = 5 \<rparr>"

definition demo_query :: query_request where
  "demo_query = \<lparr> qr_channel = ''c'', qr_field = '''', qr_start = 0, qr_end = 10 * second, qr_limit = 1, qr_aggregate = '''', qr_window = '''' \<rparr>"

lemma demo_effective: "effective (demo_query_env now recs) demo_query = demo_query"
  by (simp add: effective_def normalize_request_def clamp_query_limit_def demo_query_def zero_time_def second_def)

lemma demo_read: "Reader_Query (demo_flux [(5, FluxFloat (Fin 1))]) demo_query = Ok demo_answer"
  by (simp add: Reader_Query_def demo_flux_def demo_query_def demo_answer_def value_of_def)

lemma demo_first: "Query (demo_query_env 100 [(5, FluxFloat (Fin 1))]) demo_query Map.empty =
    (Ok demo_answer, redis_set 100 (query_key demo_query) ''r'' 60 Map.empty)"
  unfolding Query_Ok demo_effective
  by (simp add: cached_def demo_query_env_def QueryCache_Get_def redis_get_def QueryCache_Set_def demo_read plain_request_def
      demo_query_def [THEN arg_cong [of _ _ qr_field]])
    (simp add: demo_query_def second_def)

theorem limit_not_in_cache_key_witness:
  "\<exists>db'. Query (demo_query_env 100 [(5, FluxFloat (Fin 1))]) demo_query Map.empty = (Ok demo_answer, db') \<and>
     Query (demo_query_env 150 []) (demo_query\<lparr> qr_limit := 500 \<rparr>) db' = (Ok demo_answer, db')"
  using limit_not_in_cache_key [OF demo_first, of "''r''" "demo_query_env 150 []" 500] demo_first
  by (simp add: demo_query_env_def demo_query_def zero_time_def second_def redis_get_def)

theorem query_answers_backed_witness:
  "\<exists>db'. Query (demo_query_env 150 []) demo_query
      (fold ask_step [(demo_query_env 100 [(5, FluxFloat (Fin 1))], AskQuery demo_query)] Map.empty) = (Ok demo_answer, db') \<and>
    Reader_Query (demo_flux []) demo_query \<noteq> Ok demo_answer \<and>
    same_question (effective (demo_query_env 100 [(5, FluxFloat (Fin 1))]) demo_query) (effective (demo_query_env 150 []) demo_query)"
proof -
  let ?past = "[(demo_query_env 100 [(5, FluxFloat (Fin 1))], AskQuery demo_query)]"
  have run: "Query (demo_query_env 150 []) demo_query (fold ask_step ?past Map.empty)
      = (Ok demo_answer, fold ask_step ?past Map.empty)"
    using limit_not_in_cache_key [OF demo_first, of "''r''" "demo_query_env 150 []" 1] demo_first
    by (simp add: demo_query_env_def demo_query_def zero_time_def second_def redis_get_def)
  have no: "Reader_Query (demo_flux []) demo_query \<noteq> Ok demo_answer"
    by (simp add: Reader_Query_def demo_flux_def demo_answer_def)
  have law: "\<forall>e\<in>fst ` set ?past. \<forall>r b. qe_enc e r = Some b \<longrightarrow> qe_dec (demo_query_env 150 []) b = Some r"
    by (simp add: demo_query_env_def)
  have "qe_reader (demo_query_env 150 []) = demo_flux []" by (simp add: demo_query_env_def)
  then have no': "Reader_Query (qe_reader (demo_query_env 150 [])) (effective (demo_query_env 150 []) demo_query) \<noteq> Ok demo_answer"
    using no by (simp add: demo_effective)
  have ttl: "\<forall>x\<in>set ?past. 0 < qe_ttl (fst x)" by (simp add: demo_query_env_def)
  obtain e q where eq: "(e, AskQuery q) \<in> set ?past" "same_question (effective e q) (effective (demo_query_env 150 []) demo_query)"
    using query_answers_backed [OF ttl law run] no' by blast
  then have "e = demo_query_env 100 [(5, FluxFloat (Fin 1))]" "q = demo_query" by simp_all
  with eq(2) run no show ?thesis by blast
qed


theorem csv_without_field_collapses_witness:
  "\<exists>tss r. Reader_Query (demo_flux [(5, FluxFloat (Fin 1)), (5, FluxFloat (Fin 2))]) demo_query = Ok r \<and>
     buildQueryCSV (\<lambda>_. ''t'') (\<lambda>_. ''x'') id r = [''timestamp'', ''''] # map (\<lambda>t. [t, ''x'']) tss \<and> set tss = {''t''}"
proof -
  obtain r where r: "Reader_Query (demo_flux [(5, FluxFloat (Fin 1)), (5, FluxFloat (Fin 2))]) demo_query = Ok r" "length (qs_points r) = 2"
    by (simp add: Reader_Query_def demo_flux_def)
  then have "qs_points r \<noteq> []" by auto
  then obtain tss where tss: "set tss = (\<lambda>p. ''t'') ` set (qs_points r)"
    "buildQueryCSV (\<lambda>_. ''t'') (\<lambda>_. ''x'') id r = [''timestamp'', ''''] # map (\<lambda>t. [t, ''x'']) tss"
    using csv_without_field_collapses [OF r(1), of id "\<lambda>_. ''t''" "\<lambda>_. ''x''"] by (auto simp: demo_query_def)
  with \<open>qs_points r \<noteq> []\<close> have "set tss = {''t''}" by (simp add: image_constant_conv)
  with tss(2) r(1) show ?thesis by blast
qed

end
