(* ===== verification/Alert_Rules.thy ===== *)
theory Alert_Rules
  imports Registry_Domain
begin

text \<open>
  The rules of alert-notification (services/alert-notification/internal): the domain of rules
  (domain/alert/rule.go), their table (infrastructure/postgres/rule\<open>_\<close>repo.go), their management
  (application/alert\<open>_\<close>service.go) and the rule engine (application/rule\<open>_\<close>engine.go). uuid.Parse, the
  HMAC, the clock and the availability of the database are arguments.
\<close>

datatype alert_err =
    RuleNotFound | InvalidRuleID | InvalidChannelID | InvalidWorkspace | NoWebhookSecret
  | NotificationNotFound | InvalidNotificationID
  | AlertDbErr | DispatchErr string | AlertMarshalErr

section \<open>Rules\<close>

record rule =
  ru_id :: uuid
  ru_channel :: uuid
  ru_workspace :: uuid
  ru_name :: string
  ru_field :: string
  ru_condition :: string
  ru_threshold :: f64
  ru_severity :: string
  ru_message :: string
  ru_enabled :: bool
  ru_cooldown :: int
  ru_secret :: string
  ru_created :: instant
  ru_updated :: instant

definition ConditionGT :: string where "ConditionGT = ''gt''"
definition ConditionGTE :: string where "ConditionGTE = ''gte''"
definition ConditionLT :: string where "ConditionLT = ''lt''"
definition ConditionLTE :: string where "ConditionLTE = ''lte''"
definition ConditionEQ :: string where "ConditionEQ = ''eq''"
definition ConditionNEQ :: string where "ConditionNEQ = ''neq''"

definition NewRule :: "instant \<Rightarrow> uuid \<Rightarrow> uuid \<Rightarrow> uuid \<Rightarrow> string \<Rightarrow> string \<Rightarrow> string \<Rightarrow> f64 \<Rightarrow> string \<Rightarrow> rule" where
  "NewRule now fresh channelID workspaceID name fieldName cond threshold severity =
    \<lparr> ru_id = fresh, ru_channel = channelID, ru_workspace = workspaceID, ru_name = name, ru_field = fieldName,
      ru_condition = cond, ru_threshold = threshold, ru_severity = severity, ru_message = '''', ru_enabled = True,
      ru_cooldown = 300, ru_secret = '''', ru_created = now, ru_updated = now \<rparr>"

definition rule_Evaluate :: "rule \<Rightarrow> f64 \<Rightarrow> bool" where
  "rule_Evaluate r v =
    (if ru_condition r = ConditionGT then f64_lt (ru_threshold r) v
     else if ru_condition r = ConditionGTE then f64_le (ru_threshold r) v
     else if ru_condition r = ConditionLT then f64_lt v (ru_threshold r)
     else if ru_condition r = ConditionLTE then f64_le v (ru_threshold r)
     else if ru_condition r = ConditionEQ then f64_eq v (ru_threshold r)
     else if ru_condition r = ConditionNEQ then \<not> f64_eq v (ru_threshold r)
     else False)"

text \<open>\<open>hmac secret payload\<close> is the hex-encoded HMAC-SHA256; \<open>hmac.Equal\<close> is equality of the bytes.\<close>

definition ComputeHMAC :: "(string \<Rightarrow> string \<Rightarrow> string) \<Rightarrow> string \<Rightarrow> string \<Rightarrow> string" where
  "ComputeHMAC hmac secret payload = hmac secret payload"

definition ValidateHMAC :: "(string \<Rightarrow> string \<Rightarrow> string) \<Rightarrow> string \<Rightarrow> string \<Rightarrow> string \<Rightarrow> bool" where
  "ValidateHMAC hmac secret payload signature = (''sha256='' @ ComputeHMAC hmac secret payload = signature)"

record alert_event =
  ae_id :: uuid
  ae_rule :: uuid
  ae_channel :: uuid
  ae_workspace :: uuid
  ae_field :: string
  ae_actual :: f64
  ae_threshold :: f64
  ae_condition :: string
  ae_severity :: string
  ae_message :: string
  ae_triggered :: instant
  ae_secret :: string

section \<open>The table of rules\<close>

text \<open>The cooldown column is a 32-bit integer: other values are a database error.\<close>

definition int32 :: "int \<Rightarrow> bool" where
  "int32 n \<longleftrightarrow> - (2 ^ 31) \<le> n \<and> n < 2 ^ 31"

definition RuleRepo_Create :: "bool \<Rightarrow> instant \<Rightarrow> rule \<Rightarrow> rule list \<Rightarrow> (alert_err, unit) outcome \<times> rule list" where
  "RuleRepo_Create up now r db =
    (if \<not> up \<or> \<not> int32 (ru_cooldown r) \<or> list_ex (\<lambda>x. ru_id x = ru_id r) db then (Fail AlertDbErr, db)
     else (Ok (), db @ [r\<lparr> ru_created := now, ru_updated := now \<rparr>]))"

definition RuleRepo_GetByID :: "bool \<Rightarrow> uuid \<Rightarrow> rule list \<Rightarrow> (alert_err, rule) outcome" where
  "RuleRepo_GetByID up i db =
    (if \<not> up then Fail AlertDbErr else
     case filter (\<lambda>r. ru_id r = i) db of [] \<Rightarrow> Fail RuleNotFound | r # _ \<Rightarrow> Ok r)"

definition RuleRepo_ListByChannel :: "bool \<Rightarrow> uuid \<Rightarrow> rule list \<Rightarrow> (alert_err, rule list) outcome" where
  "RuleRepo_ListByChannel up c db =
    (if \<not> up then Fail AlertDbErr else Ok (sort_key ru_created (filter (\<lambda>r. ru_channel r = c) db)))"

text \<open>Two queries: the page, then the count.\<close>

definition RuleRepo_ListByWorkspace :: "(nat \<Rightarrow> bool) \<Rightarrow> uuid \<Rightarrow> int \<Rightarrow> int \<Rightarrow> rule list \<Rightarrow> (alert_err, rule list \<times> nat) outcome" where
  "RuleRepo_ListByWorkspace up ws lmt off db =
    (let rows = filter (\<lambda>r. ru_workspace r = ws) db in
     if \<not> up 0 \<or> lmt < 0 \<or> off < 0 \<or> \<not> up 1 then Fail AlertDbErr
     else Ok (take (nat lmt) (drop (nat off) (sort_key (\<lambda>r. - ru_created r) rows)), length rows))"

definition RuleRepo_Update :: "bool \<Rightarrow> instant \<Rightarrow> rule \<Rightarrow> rule list \<Rightarrow> (alert_err, unit) outcome \<times> rule list" where
  "RuleRepo_Update up now r db =
    (if \<not> up \<or> \<not> int32 (ru_cooldown r) then (Fail AlertDbErr, db)
     else (Ok (), map (\<lambda>x. if ru_id x = ru_id r
        then x\<lparr> ru_name := ru_name r, ru_threshold := ru_threshold r, ru_severity := ru_severity r,
                ru_message := ru_message r, ru_enabled := ru_enabled r, ru_cooldown := ru_cooldown r,
                ru_secret := ru_secret r, ru_updated := now \<rparr> else x) db))"

definition RuleRepo_Delete :: "bool \<Rightarrow> uuid \<Rightarrow> rule list \<Rightarrow> (alert_err, unit) outcome \<times> rule list" where
  "RuleRepo_Delete up i db = (if \<not> up then (Fail AlertDbErr, db) else (Ok (), filter (\<lambda>r. ru_id r \<noteq> i) db))"

definition RuleRepo_ListEnabled :: "bool \<Rightarrow> rule list \<Rightarrow> (alert_err, rule list) outcome" where
  "RuleRepo_ListEnabled up db = (if \<not> up then Fail AlertDbErr else Ok (filter ru_enabled db))"

section \<open>Management of rules\<close>

record alert_env =
  av_now :: instant
  av_fresh :: uuid
  av_parse :: "string \<Rightarrow> uuid option"
  av_db :: "nat \<Rightarrow> bool"

record create_rule_input =
  ri_channel :: string
  ri_workspace :: string
  ri_name :: string
  ri_field :: string
  ri_condition :: string
  ri_threshold :: f64
  ri_severity :: string
  ri_message :: string
  ri_cooldown :: int
  ri_secret :: string

definition CreateRule :: "alert_env \<Rightarrow> create_rule_input \<Rightarrow> rule list \<Rightarrow> (alert_err, rule) outcome \<times> rule list" where
  "CreateRule env inp db =
    (case av_parse env (ri_channel inp) of
       None \<Rightarrow> (Fail InvalidChannelID, db)
     | Some chID \<Rightarrow> (case av_parse env (ri_workspace inp) of
         None \<Rightarrow> (Fail InvalidWorkspace, db)
       | Some wsID \<Rightarrow>
          (let r0 = NewRule (av_now env) (av_fresh env) chID wsID (ri_name inp) (ri_field inp) (ri_condition inp)
                 (ri_threshold inp) (ri_severity inp);
               r1 = r0\<lparr> ru_message := ri_message inp \<rparr>;
               r2 = (if ri_cooldown inp > 0 then r1\<lparr> ru_cooldown := ri_cooldown inp \<rparr> else r1);
               r = r2\<lparr> ru_secret := ri_secret inp \<rparr>
           in case RuleRepo_Create (av_db env 0) (av_now env) r db of
                (Ok _, db') \<Rightarrow> (Ok r, db') | (Fail e, db') \<Rightarrow> (Fail e, db') | (Panic, db') \<Rightarrow> (Panic, db'))))"

definition GetRule :: "alert_env \<Rightarrow> string \<Rightarrow> rule list \<Rightarrow> (alert_err, rule) outcome" where
  "GetRule env i db = (case av_parse env i of None \<Rightarrow> Fail InvalidRuleID | Some uid \<Rightarrow> RuleRepo_GetByID (av_db env 0) uid db)"

definition ListRules :: "alert_env \<Rightarrow> string \<Rightarrow> int \<Rightarrow> int \<Rightarrow> rule list \<Rightarrow> (alert_err, rule list \<times> nat) outcome" where
  "ListRules env ws lmt off db =
    (case av_parse env ws of None \<Rightarrow> Fail InvalidWorkspace | Some wsID \<Rightarrow> RuleRepo_ListByWorkspace (av_db env) wsID lmt off db)"

record update_rule_input =
  ur_name :: string
  ur_threshold :: "f64 option"
  ur_severity :: string
  ur_message :: string
  ur_enabled :: "bool option"
  ur_cooldown :: "int option"
  ur_secret :: "string option"

definition apply_rule_update :: "instant \<Rightarrow> update_rule_input \<Rightarrow> rule \<Rightarrow> rule" where
  "apply_rule_update now inp r =
    r\<lparr> ru_name := (if ur_name inp \<noteq> '''' then ur_name inp else ru_name r),
       ru_threshold := (case ur_threshold inp of None \<Rightarrow> ru_threshold r | Some x \<Rightarrow> x),
       ru_severity := (if ur_severity inp \<noteq> '''' then ur_severity inp else ru_severity r),
       ru_message := (if ur_message inp \<noteq> '''' then ur_message inp else ru_message r),
       ru_enabled := (case ur_enabled inp of None \<Rightarrow> ru_enabled r | Some b \<Rightarrow> b),
       ru_cooldown := (case ur_cooldown inp of None \<Rightarrow> ru_cooldown r | Some n \<Rightarrow> n),
       ru_secret := (case ur_secret inp of None \<Rightarrow> ru_secret r | Some x \<Rightarrow> x),
       ru_updated := now \<rparr>"

definition UpdateRule :: "alert_env \<Rightarrow> string \<Rightarrow> update_rule_input \<Rightarrow> rule list \<Rightarrow> (alert_err, rule) outcome \<times> rule list" where
  "UpdateRule env i inp db =
    (case av_parse env i of
       None \<Rightarrow> (Fail InvalidRuleID, db)
     | Some uid \<Rightarrow> (case RuleRepo_GetByID (av_db env 0) uid db of
         Fail e \<Rightarrow> (Fail e, db)
       | Panic \<Rightarrow> (Panic, db)
       | Ok r0 \<Rightarrow> (let r = apply_rule_update (av_now env) inp r0 in
           case RuleRepo_Update (av_db env 1) (av_now env) r db of
             (Ok _, db') \<Rightarrow> (Ok r, db') | (Fail e, db') \<Rightarrow> (Fail e, db') | (Panic, db') \<Rightarrow> (Panic, db'))))"

definition DeleteRule :: "alert_env \<Rightarrow> string \<Rightarrow> rule list \<Rightarrow> (alert_err, unit) outcome \<times> rule list" where
  "DeleteRule env i db =
    (case av_parse env i of None \<Rightarrow> (Fail InvalidRuleID, db) | Some uid \<Rightarrow> RuleRepo_Delete (av_db env 0) uid db)"

definition VerifyWebhookSignature :: "alert_env \<Rightarrow> (string \<Rightarrow> string \<Rightarrow> string) \<Rightarrow> string \<Rightarrow> string \<Rightarrow> string \<Rightarrow> rule list
    \<Rightarrow> (alert_err, bool) outcome" where
  "VerifyWebhookSignature env hmac i payload signature db =
    (case av_parse env i of
       None \<Rightarrow> Fail InvalidRuleID
     | Some uid \<Rightarrow> bind_o (RuleRepo_GetByID (av_db env 0) uid db) (\<lambda>r.
         if ru_secret r = '''' then Fail NoWebhookSecret
         else Ok (ValidateHMAC hmac (ru_secret r) payload signature)))"

section \<open>The rule engine\<close>

record telemetry_event =
  te_channel :: string
  te_device :: string
  te_fields :: "string \<rightharpoonup> f64"
  te_timestamp :: instant

record engine =
  eg_rules :: "string \<Rightarrow> rule list"
  eg_last :: "string \<rightharpoonup> instant"
  eg_refreshed :: instant

definition NewRuleEngine :: engine where
  "NewRuleEngine = \<lparr> eg_rules = (\<lambda>_. []), eg_last = Map.empty, eg_refreshed = zero_time \<rparr>"

definition LoadRules :: "bool \<Rightarrow> instant \<Rightarrow> rule list \<Rightarrow> engine \<Rightarrow> alert_err option \<times> engine" where
  "LoadRules up now db e =
    (case RuleRepo_ListEnabled up db of
       Ok rules \<Rightarrow> (None, e\<lparr> eg_rules := (\<lambda>c. filter (\<lambda>r. ru_channel r = c) rules), eg_refreshed := now \<rparr>)
     | Fail err \<Rightarrow> (Some err, e)
     | Panic \<Rightarrow> (Some AlertDbErr, e))"

text \<open>The critical section of Evaluate, under the engine's lock: compare with the last firing of the rule
  and reserve the new one. \<open>now\<close> is the clock when it runs.\<close>

definition check_and_set :: "instant \<Rightarrow> rule \<Rightarrow> engine \<Rightarrow> bool \<times> engine" where
  "check_and_set now r e =
    (case eg_last e (ru_id r) of
       Some t \<Rightarrow> if now - t < wrap64 (ru_cooldown r * second) then (False, e)
                 else (True, e\<lparr> eg_last := (eg_last e)(ru_id r \<mapsto> now) \<rparr>)
     | None \<Rightarrow> (True, e\<lparr> eg_last := (eg_last e)(ru_id r \<mapsto> now) \<rparr>))"

text \<open>The conditions before the lock.\<close>

definition triggers :: "rule \<Rightarrow> telemetry_event \<Rightarrow> bool" where
  "triggers r evt = (ru_enabled r \<and> (case te_fields evt (ru_field r) of None \<Rightarrow> False | Some v \<Rightarrow> rule_Evaluate r v))"

definition alert_of :: "uuid \<Rightarrow> rule \<Rightarrow> telemetry_event \<Rightarrow> alert_event" where
  "alert_of fresh r evt =
    \<lparr> ae_id = fresh, ae_rule = ru_id r, ae_channel = ru_channel r, ae_workspace = ru_workspace r, ae_field = ru_field r,
      ae_actual = (case te_fields evt (ru_field r) of Some v \<Rightarrow> v | None \<Rightarrow> Fin 0), ae_threshold = ru_threshold r,
      ae_condition = ru_condition r, ae_severity = ru_severity r, ae_message = ru_message r,
      ae_triggered = te_timestamp evt, ae_secret = ru_secret r \<rparr>"

text \<open>The loop over the rules of the channel. \<open>clock i\<close> and \<open>fresh i\<close> are the clock and the id drawn for
  the i-th rule; the result lists the alerts handed to the publisher, whose errors are only logged.\<close>

fun evaluate_rules :: "(nat \<Rightarrow> instant) \<Rightarrow> (nat \<Rightarrow> uuid) \<Rightarrow> nat \<Rightarrow> telemetry_event \<Rightarrow> rule list \<Rightarrow> engine
    \<Rightarrow> alert_event list \<times> engine" where
  "evaluate_rules clock fresh i evt [] e = ([], e)"
| "evaluate_rules clock fresh i evt (r # rs) e =
    (if \<not> triggers r evt then evaluate_rules clock fresh (Suc i) evt rs e
     else (case check_and_set (clock i) r e of (fire, e') \<Rightarrow>
        (case evaluate_rules clock fresh (Suc i) evt rs e' of (alerts, e'') \<Rightarrow>
          ((if fire then alert_of (fresh i) r evt # alerts else alerts), e''))))"

definition engine_Evaluate :: "(nat \<Rightarrow> instant) \<Rightarrow> (nat \<Rightarrow> uuid) \<Rightarrow> telemetry_event \<Rightarrow> engine \<Rightarrow> alert_event list \<times> engine" where
  "engine_Evaluate clock fresh evt e = evaluate_rules clock fresh 0 evt (eg_rules e (te_channel evt)) e"

section \<open>Runs of the engine\<close>

text \<open>The engine is shared by goroutines, but the check and the reservation run under its lock: a run is
  any sequence of critical sections, by whatever goroutines, and of reloads of the rules. Its trace
  lists the firings with their times.\<close>

datatype engine_op = OpCheck instant rule | OpLoad bool instant "rule list"

fun op_time :: "engine_op \<Rightarrow> instant" where
  "op_time (OpCheck t r) = t"
| "op_time (OpLoad up t db) = t"

fun engine_run :: "engine_op list \<Rightarrow> engine \<Rightarrow> (instant \<times> rule) list \<times> engine" where
  "engine_run [] e = ([], e)"
| "engine_run (OpLoad up t db # ops) e = engine_run ops (snd (LoadRules up t db e))"
| "engine_run (OpCheck t r # ops) e =
    (case check_and_set t r e of (fire, e') \<Rightarrow>
      (case engine_run ops e' of (fs, e'') \<Rightarrow> ((if fire then (t, r) # fs else fs), e'')))"

abbreviation cooled :: "instant \<times> rule \<Rightarrow> instant \<times> rule \<Rightarrow> bool" where
  "cooled f g \<equiv> ru_id (snd f) = ru_id (snd g) \<longrightarrow> wrap64 (ru_cooldown (snd g) * second) \<le> fst g - fst f"

lemma LoadRules_last [simp]: "eg_last (snd (LoadRules up t db e)) = eg_last e"
  by (auto simp: LoadRules_def split: outcome.splits)

lemma engine_run_cooled:
  assumes "engine_run ops e = (fs, e')" "sorted (map op_time ops)"
    and "\<And>i t. eg_last e i = Some t \<Longrightarrow> \<forall>p\<in>set ops. t \<le> op_time p"
  shows "sorted_wrt cooled fs \<and> (\<forall>f\<in>set fs. (\<forall>t. eg_last e (ru_id (snd f)) = Some t \<longrightarrow> wrap64 (ru_cooldown (snd f) * second) \<le> fst f - t))"
  using assms
proof (induction ops e arbitrary: fs e' rule: engine_run.induct)
  case (1 e)
  then show ?case by simp
next
  case (2 up t db ops e)
  have "sorted_wrt cooled fs \<and> (\<forall>f\<in>set fs. (\<forall>t. eg_last (snd (LoadRules up t db e)) (ru_id (snd f)) = Some t \<longrightarrow> wrap64 (ru_cooldown (snd f) * second) \<le> fst f - t))"
    using "2.IH" [of fs e'] "2.prems" by auto
  then show ?case by auto
next
  case (3 t r ops e)
  obtain fire e1 where cs: "check_and_set t r e = (fire, e1)" by fastforce
  obtain fs1 e2 where run: "engine_run ops e1 = (fs1, e2)" by fastforce
  have fs: "fs = (if fire then (t, r) # fs1 else fs1)" using 3(2) cs run by simp
  have le: "t0 \<le> t" if "eg_last e i = Some t0" for i t0 using "3.prems"(3) that by auto
  have e1: "eg_last e1 = (if fire then (eg_last e)(ru_id r \<mapsto> t) else eg_last e)"
    and gap: "fire \<Longrightarrow> eg_last e (ru_id r) = Some t0 \<Longrightarrow> wrap64 (ru_cooldown r * second) \<le> t - t0" for t0
    using cs by (auto simp: check_and_set_def split: option.splits if_splits)
  have IH: "sorted_wrt cooled fs1 \<and> (\<forall>f\<in>set fs1. (\<forall>t. eg_last e1 (ru_id (snd f)) = Some t \<longrightarrow> wrap64 (ru_cooldown (snd f) * second) \<le> fst f - t))"
  proof (rule "3.IH" [OF cs [symmetric] run])
    show "sorted (map op_time ops)" using "3.prems"(2) by simp
    fix i t0 assume "eg_last e1 i = Some t0"
    then show "\<forall>p\<in>set ops. t0 \<le> op_time p" using "3.prems"(2,3) by (auto simp: e1 split: if_splits)
  qed
  show ?case
  proof (cases fire)
    case True
    have later: "wrap64 (ru_cooldown (snd f) * second) \<le> fst f - t" if "f \<in> set fs1" "ru_id (snd f) = ru_id r" for f
      using IH that True by (auto simp: e1)
    have older: "wrap64 (ru_cooldown (snd f) * second) \<le> fst f - t0"
      if "f \<in> set fs1" "eg_last e (ru_id (snd f)) = Some t0" for f t0
    proof (cases "ru_id (snd f) = ru_id r")
      case True
      with later [OF that(1)] le [OF that(2)] show ?thesis by linarith
    next
      case False
      with IH that show ?thesis by (auto simp: e1)
    qed
    have "sorted_wrt cooled fs" using IH later True fs by auto
    moreover have "\<forall>f\<in>set fs. \<forall>t0. eg_last e (ru_id (snd f)) = Some t0 \<longrightarrow> wrap64 (ru_cooldown (snd f) * second) \<le> fst f - t0"
      using older gap True fs by auto
    ultimately show ?thesis by blast
  next
    case False
    then show ?thesis using IH by (auto simp: e1 fs)
  qed
qed

text \<open>C23. Two firings of one alert rule are never closer together than the cooldown that the rule has at the
  later one: in every run of the engine, whatever the interleaving of evaluations by concurrent
  goroutines and of rule reloads, and whether or not the published alerts reach Kafka.\<close>

theorem alert_cooldown:
  assumes "engine_run ops NewRuleEngine = (fired, e)" "sorted (map op_time ops)"
    and "i < j" "j < length fired" "ru_id (snd (fired ! i)) = ru_id (snd (fired ! j))" "int32 (ru_cooldown (snd (fired ! j)))"
  shows "ru_cooldown (snd (fired ! j)) * second \<le> fst (fired ! j) - fst (fired ! i)"
proof -
  have "sorted_wrt cooled fired" using engine_run_cooled [OF assms(1,2)] by (simp add: NewRuleEngine_def)
  then have "wrap64 (ru_cooldown (snd (fired ! j)) * second) \<le> fst (fired ! j) - fst (fired ! i)"
    using assms(3-5) by (simp add: sorted_wrt_iff_nth_less)
  then show ?thesis using assms(6) by (simp add: int32_def second_def)
qed

definition demo_rule :: "string \<Rightarrow> rule" where
  "demo_rule i = (NewRule 0 i ''c'' ''w'' ''hot'' ''temp'' ''gt'' (Fin 30) ''warning'')\<lparr> ru_cooldown := 5 \<rparr>"

theorem alert_cooldown_witness:
  "\<exists>fired e. engine_run [OpCheck 0 (demo_rule ''r''), OpCheck (3 * second) (demo_rule ''r''), OpCheck (4 * second) (demo_rule ''q''),
      OpLoad True (5 * second) [], OpCheck (6 * second) (demo_rule ''r'')] NewRuleEngine = (fired, e) \<and> length fired = 3 \<and>
     5 * second \<le> fst (fired ! 2) - fst (fired ! 0)"
proof -
  let ?ops = "[OpCheck 0 (demo_rule ''r''), OpCheck (3 * second) (demo_rule ''r''), OpCheck (4 * second) (demo_rule ''q''),
      OpLoad True (5 * second) [], OpCheck (6 * second) (demo_rule ''r'')]"
  obtain fired e where run: "engine_run ?ops NewRuleEngine = (fired, e)" by fastforce
  have fired: "fired = [(0, demo_rule ''r''), (4 * second, demo_rule ''q''), (6 * second, demo_rule ''r'')]"
    using run by (simp add: check_and_set_def NewRuleEngine_def demo_rule_def NewRule_def LoadRules_def
        RuleRepo_ListEnabled_def second_def split: prod.splits)
  from alert_cooldown [OF run, of 0 2] show ?thesis unfolding fired
    using run by (simp add: fired demo_rule_def NewRule_def int32_def second_def)
qed

text \<open>The rules of an event that reach the critical section, with their positions.\<close>

definition triggered :: "nat \<Rightarrow> telemetry_event \<Rightarrow> rule list \<Rightarrow> (nat \<times> rule) list" where
  "triggered i evt rs = filter (\<lambda>(k, r). triggers r evt) (zip [i..<i + length rs] rs)"

lemma triggered_simps:
  "triggered i evt [] = []"
  "triggered i evt (r # rs) = (if triggers r evt then (i, r) # triggered (Suc i) evt rs else triggered (Suc i) evt rs)"
  by (simp_all add: triggered_def upt_conv_Cons del: upt_Suc)

lemma evaluate_rules_run:
  "evaluate_rules clock fresh i evt rs e = (alerts, e') \<Longrightarrow>
     \<exists>fired. engine_run (map (\<lambda>(k, r). OpCheck (clock k) r) (triggered i evt rs)) e = (fired, e') \<and>
       map (\<lambda>a. a\<lparr> ae_id := '''' \<rparr>) alerts = map (\<lambda>(t, r). alert_of '''' r evt) fired"
proof (induction rs arbitrary: i e alerts)
  case (Cons r rs)
  show ?case
  proof (cases "triggers r evt")
    case True
    obtain fire e1 where cs: "check_and_set (clock i) r e = (fire, e1)" by fastforce
    obtain al1 where ev: "evaluate_rules clock fresh (Suc i) evt rs e1 = (al1, e')"
      and al: "alerts = (if fire then alert_of (fresh i) r evt # al1 else al1)"
      using Cons.prems True cs by (auto split: prod.splits)
    from Cons.IH [OF ev] obtain fired where "engine_run (map (\<lambda>(k, r). OpCheck (clock k) r) (triggered (Suc i) evt rs)) e1 = (fired, e')"
      "map (\<lambda>a. a\<lparr> ae_id := '''' \<rparr>) al1 = map (\<lambda>(t, r). alert_of '''' r evt) fired" by blast
    then show ?thesis using True cs al by (auto simp: triggered_simps alert_of_def)
  qed (use Cons in \<open>auto simp: triggered_simps\<close>)
qed (simp add: triggered_simps)


definition hot_event :: telemetry_event where
  "hot_event = \<lparr> te_channel = ''c'', te_device = ''d'', te_fields = [''temp'' \<mapsto> Fin 40], te_timestamp = 7 \<rparr>"


end
