(* ===== verification/Alert_Delivery.thy ===== *)
theory Alert_Delivery
  imports Alert_Rules
begin

text \<open>
  Notifications and their delivery (services/alert-notification/internal): the domain
  (domain/notification, domain/delivery), their tables (infrastructure/postgres), the dispatcher and the
  notification service (application), the webhook client with its address filter
  (infrastructure/webhook/client.go), the mail text (infrastructure/email/smtp.go) and the consumer of
  alert events (infrastructure/kafka/alert\<open>_\<close>consumer.go). Sending mail, HTTP and DNS are arguments.
\<close>

section \<open>Notifications\<close>

record notification =
  no_id :: uuid
  no_workspace :: uuid
  no_rule :: "uuid option"
  no_type :: string
  no_recipient :: string
  no_subject :: string
  no_body :: string
  no_status :: string
  no_retries :: int
  no_sent :: "instant option"
  no_error :: string
  no_read :: bool
  no_read_at :: "instant option"
  no_created :: instant
  no_updated :: instant
  no_secret :: string

definition StatusPending :: string where "StatusPending = ''pending''"
definition StatusSent :: string where "StatusSent = ''sent''"
definition StatusFailed :: string where "StatusFailed = ''failed''"
definition ChannelTypeEmail :: string where "ChannelTypeEmail = ''email''"
definition ChannelTypeWebhook :: string where "ChannelTypeWebhook = ''webhook''"

definition NewNotification :: "instant \<Rightarrow> uuid \<Rightarrow> uuid \<Rightarrow> string \<Rightarrow> string \<Rightarrow> string \<Rightarrow> string \<Rightarrow> notification" where
  "NewNotification now fresh workspaceID channelType recipient subject body =
    \<lparr> no_id = fresh, no_workspace = workspaceID, no_rule = None, no_type = channelType, no_recipient = recipient,
      no_subject = subject, no_body = body, no_status = StatusPending, no_retries = 0, no_sent = None, no_error = '''',
      no_read = False, no_read_at = None, no_created = now, no_updated = now, no_secret = '''' \<rparr>"

definition MarkSent :: "instant \<Rightarrow> notification \<Rightarrow> notification" where
  "MarkSent now n = n\<lparr> no_status := StatusSent, no_sent := Some now, no_updated := now \<rparr>"

definition MarkFailed :: "instant \<Rightarrow> string \<Rightarrow> notification \<Rightarrow> notification" where
  "MarkFailed now msg n = n\<lparr> no_status := StatusFailed, no_error := msg, no_retries := no_retries n + 1, no_updated := now \<rparr>"

definition notification_MarkRead :: "instant \<Rightarrow> notification \<Rightarrow> notification" where
  "notification_MarkRead now n = n\<lparr> no_read := True, no_read_at := Some now, no_updated := now \<rparr>"

record delivery_log =
  dl_id :: uuid
  dl_rule :: uuid
  dl_url :: string
  dl_status :: int
  dl_latency :: int
  dl_body :: string
  dl_error :: string
  dl_at :: instant

section \<open>Tables\<close>

text \<open>The rule id, the webhook secret and the read state are not among the inserted columns.\<close>

definition NotificationRepo_Save :: "bool \<Rightarrow> instant \<Rightarrow> notification \<Rightarrow> notification list
    \<Rightarrow> (alert_err, unit) outcome \<times> notification list" where
  "NotificationRepo_Save up now n db =
    (if \<not> up \<or> list_ex (\<lambda>x. no_id x = no_id n) db then (Fail AlertDbErr, db)
     else (Ok (), db @ [n\<lparr> no_rule := None, no_secret := '''', no_sent := None, no_read := False, no_read_at := None,
                           no_created := now, no_updated := now \<rparr>]))"

definition NotificationRepo_Update :: "bool \<Rightarrow> instant \<Rightarrow> notification \<Rightarrow> notification list
    \<Rightarrow> (alert_err, unit) outcome \<times> notification list" where
  "NotificationRepo_Update up now n db =
    (if \<not> up then (Fail AlertDbErr, db)
     else (Ok (), map (\<lambda>x. if no_id x = no_id n
        then x\<lparr> no_status := no_status n, no_retries := no_retries n, no_sent := no_sent n, no_error := no_error n,
                no_updated := now \<rparr> else x) db))"

definition NotificationRepo_GetByID :: "bool \<Rightarrow> uuid \<Rightarrow> notification list \<Rightarrow> (alert_err, notification) outcome" where
  "NotificationRepo_GetByID up i db =
    (if \<not> up then Fail AlertDbErr else
     case filter (\<lambda>n. no_id n = i) db of [] \<Rightarrow> Fail NotificationNotFound | n # _ \<Rightarrow> Ok n)"

text \<open>The two ids are texts that Postgres converts to uuid: \<open>cast\<close> is None where that is an error.\<close>

definition NotificationRepo_MarkRead :: "(string \<Rightarrow> uuid option) \<Rightarrow> bool \<Rightarrow> instant \<Rightarrow> string \<Rightarrow> string \<Rightarrow> notification list
    \<Rightarrow> (alert_err, unit) outcome \<times> notification list" where
  "NotificationRepo_MarkRead cast up now i tenantID db =
    (case (cast i, cast tenantID) of
       (Some u, Some w) \<Rightarrow>
         if \<not> up then (Fail AlertDbErr, db)
         else if \<not> list_ex (\<lambda>n. no_id n = u \<and> no_workspace n = w) db then (Fail NotificationNotFound, db)
         else (Ok (), map (\<lambda>n. if no_id n = u \<and> no_workspace n = w
            then n\<lparr> no_read := True, no_read_at := Some now, no_updated := now \<rparr> else n) db)
     | _ \<Rightarrow> (Fail AlertDbErr, db))"

definition NotificationRepo_MarkAllRead :: "(string \<Rightarrow> uuid option) \<Rightarrow> bool \<Rightarrow> instant \<Rightarrow> string \<Rightarrow> notification list
    \<Rightarrow> (alert_err, unit) outcome \<times> notification list" where
  "NotificationRepo_MarkAllRead cast up now tenantID db =
    (case cast tenantID of
       None \<Rightarrow> (Fail AlertDbErr, db)
     | Some w \<Rightarrow> if \<not> up then (Fail AlertDbErr, db)
         else (Ok (), map (\<lambda>n. if no_workspace n = w \<and> \<not> no_read n
            then n\<lparr> no_read := True, no_read_at := Some now, no_updated := now \<rparr> else n) db))"

definition NotificationRepo_ListByWorkspace :: "(nat \<Rightarrow> bool) \<Rightarrow> uuid \<Rightarrow> int \<Rightarrow> int \<Rightarrow> notification list
    \<Rightarrow> (alert_err, notification list \<times> nat) outcome" where
  "NotificationRepo_ListByWorkspace up ws lmt off db =
    (let rows = filter (\<lambda>n. no_workspace n = ws) db in
     if \<not> up 0 \<or> lmt < 0 \<or> off < 0 \<or> \<not> up 1 then Fail AlertDbErr
     else Ok (take (nat lmt) (drop (nat off) (sort_key (\<lambda>n. - no_created n) rows)), length rows))"

text \<open>\<open>rules\<close> are the ids in the rule table, which the log refers to.\<close>

definition DeliveryRepo_Save :: "bool \<Rightarrow> uuid list \<Rightarrow> delivery_log \<Rightarrow> delivery_log list \<Rightarrow> (alert_err, unit) outcome \<times> delivery_log list" where
  "DeliveryRepo_Save up rules l db =
    (if \<not> up \<or> dl_rule l \<notin> set rules \<or> list_ex (\<lambda>x. dl_id x = dl_id l) db then (Fail AlertDbErr, db)
     else (Ok (), db @ [l]))"

definition DeliveryRepo_ListByRule :: "(nat \<Rightarrow> bool) \<Rightarrow> uuid \<Rightarrow> int \<Rightarrow> int \<Rightarrow> delivery_log list
    \<Rightarrow> (alert_err, delivery_log list \<times> nat) outcome" where
  "DeliveryRepo_ListByRule up i lmt off db =
    (let rows = filter (\<lambda>l. dl_rule l = i) db in
     if \<not> up 0 \<or> lmt < 0 \<or> off < 0 \<or> \<not> up 1 then Fail AlertDbErr
     else Ok (take (nat lmt) (drop (nat off) (sort_key (\<lambda>l. - dl_at l) rows)), length rows))"

definition ListDeliveries :: "alert_env \<Rightarrow> string \<Rightarrow> int \<Rightarrow> int \<Rightarrow> delivery_log list \<Rightarrow> (alert_err, delivery_log list \<times> nat) outcome" where
  "ListDeliveries env i lmt off db =
    (case av_parse env i of None \<Rightarrow> Fail InvalidRuleID | Some uid \<Rightarrow> DeliveryRepo_ListByRule (av_db env) uid lmt off db)"

section \<open>The webhook client\<close>

text \<open>\<open>netip.Addr\<close>: an IPv4 address, or an IPv6 address with a zone that is often empty.\<close>

datatype addr = V4 "32 word" | V6 "128 word" string

text \<open>\<open>Unmap\<close>: an IPv4-mapped IPv6 address becomes the IPv4 address.\<close>

definition Unmap :: "addr \<Rightarrow> addr" where
  "Unmap ip = (case ip of V4 w \<Rightarrow> V4 w
    | V6 w z \<Rightarrow> if drop_bit 32 w = 0xffff then V4 (ucast w) else V6 w z)"

text \<open>\<open>Prefix.Contains\<close>: never for an address with a zone, never across families, else equality of the
  leading bits.\<close>

datatype prefix = P4 "32 word" nat | P6 "128 word" nat

definition prefix_Contains :: "prefix \<Rightarrow> addr \<Rightarrow> bool" where
  "prefix_Contains p ip = (case (p, ip) of
      (P4 a n, V4 w) \<Rightarrow> drop_bit (32 - n) w = drop_bit (32 - n) a
    | (P6 a n, V6 w z) \<Rightarrow> z = '''' \<and> drop_bit (128 - n) w = drop_bit (128 - n) a
    | _ \<Rightarrow> False)"

definition ip4 :: "nat \<Rightarrow> nat \<Rightarrow> nat \<Rightarrow> nat \<Rightarrow> 32 word" where
  "ip4 a b c d = word_of_nat (((a * 256 + b) * 256 + c) * 256 + d)"

definition privateRanges :: "prefix list" where
  "privateRanges = [P4 (ip4 127 0 0 0) 8, P4 (ip4 10 0 0 0) 8, P4 (ip4 172 16 0 0) 12, P4 (ip4 192 168 0 0) 16,
     P4 (ip4 169 254 0 0) 16, P4 (ip4 100 64 0 0) 10, P6 1 128, P6 (push_bit 120 0xfc) 7, P6 (push_bit 112 0xfe80) 10]"

definition isPrivateIP :: "addr \<Rightarrow> bool" where
  "isPrivateIP ip = list_ex (\<lambda>p. prefix_Contains p (Unmap ip)) privateRanges"

text \<open>The custom DialContext: \<open>lookup\<close> is the resolver, \<open>parse\<close> is netip.ParseAddr; the result is the address
  that is dialled, by its text.\<close>

definition dial :: "(string \<Rightarrow> string list option) \<Rightarrow> (string \<Rightarrow> addr option) \<Rightarrow> string \<Rightarrow> (alert_err, string) outcome" where
  "dial lookup parse host =
    (case lookup host of
       None \<Rightarrow> Fail (DispatchErr ''lookup'')
     | Some ips \<Rightarrow>
         if list_ex (\<lambda>raw. case parse raw of None \<Rightarrow> False | Some ip \<Rightarrow> isPrivateIP ip) ips then Fail (DispatchErr ''blocked'')
         else (case ips of [] \<Rightarrow> Panic | i # _ \<Rightarrow> Ok i))"

record http_reply =
  hp_status :: int
  hp_body :: string

text \<open>\<open>scheme\<close> is url.Parse with the scheme of the URL, \<open>do\<close> the HTTP exchange with the headers that are set;
  only the first 512 bytes of the body are kept.\<close>

definition webhook_headers :: "string \<Rightarrow> (string \<times> string) list" where
  "webhook_headers sig = [(''Content-Type'', ''application/json''), (''User-Agent'', ''GreenLab-Webhook/1.0'')]
     @ (if sig \<noteq> '''' then [(''X-GreenLab-Signature'', sig)] else [])"

definition Post :: "(string \<Rightarrow> string option) \<Rightarrow> (string \<Rightarrow> string \<Rightarrow> (string \<times> string) list \<Rightarrow> http_reply option)
    \<Rightarrow> string \<Rightarrow> string \<Rightarrow> (alert_err, unit) outcome" where
  "Post scheme do url payload =
    (case scheme url of
       None \<Rightarrow> Fail (DispatchErr ''invalid URL'')
     | Some sc \<Rightarrow>
         if sc \<noteq> ''https'' then Fail (DispatchErr ''not https'') else
         (case do url payload (webhook_headers '''') of
            None \<Rightarrow> Fail (DispatchErr ''request failed'')
          | Some r \<Rightarrow> if hp_status r < 200 \<or> hp_status r \<ge> 300 then Fail (DispatchErr ''non-2xx'') else Ok ()))"

definition PostDetailed :: "(string \<Rightarrow> string option) \<Rightarrow> (string \<Rightarrow> string \<Rightarrow> (string \<times> string) list \<Rightarrow> http_reply option)
    \<Rightarrow> int \<Rightarrow> string \<Rightarrow> string \<Rightarrow> string \<Rightarrow> int \<times> string \<times> int \<times> alert_err option" where
  "PostDetailed scheme do latency url payload sig =
    (case scheme url of
       None \<Rightarrow> (0, '''', 0, Some (DispatchErr ''invalid URL''))
     | Some sc \<Rightarrow>
         if sc \<noteq> ''https'' then (0, '''', 0, Some (DispatchErr ''not https'')) else
         (case do url payload (webhook_headers sig) of
            None \<Rightarrow> (0, '''', latency, Some (DispatchErr ''request failed''))
          | Some r \<Rightarrow> (hp_status r, take 512 (hp_body r), latency, None)))"

section \<open>Mail\<close>

definition crlf :: string where "crlf = [CHR 0x0D, CHR 0x0A]"

definition buildMessage :: "string \<Rightarrow> string \<Rightarrow> string \<Rightarrow> string \<Rightarrow> string" where
  "buildMessage from_addr to subject body =
    ''From: '' @ from_addr @ crlf @ ''To: '' @ to @ crlf @ ''Subject: '' @ subject @ crlf @
    ''Content-Type: text/plain; charset=UTF-8'' @ crlf @ crlf @ body"

text \<open>The steps of an SMTP session (dial, client, auth, MAIL, RCPT, DATA, write) that succeed; the message
  that is written.\<close>

definition smtp_Send :: "(nat \<Rightarrow> bool) \<Rightarrow> string \<Rightarrow> string \<Rightarrow> string \<Rightarrow> string \<Rightarrow> (alert_err, string) outcome" where
  "smtp_Send step from_addr to subject body =
    (if list_all step [0..<7] then Ok (buildMessage from_addr to subject body) else Fail (DispatchErr ''smtp''))"

section \<open>The dispatcher\<close>

text \<open>What the dispatcher works with: the mail sender, the webhook client, the clock and fresh ids, the ids of the
  rules and the availability of the log table. Its effects are the mails and webhook posts it sends and
  the delivery log.\<close>

record outbox =
  ob_mails :: "(string \<times> string \<times> string) list"
  ob_posts :: "(string \<times> string \<times> string) list"
  ob_logs :: "delivery_log list"

record dispatch_env =
  dp_now :: instant
  dp_fresh :: uuid
  dp_mail :: "string \<Rightarrow> string \<Rightarrow> string \<Rightarrow> alert_err option"
  dp_post :: "string \<Rightarrow> string \<Rightarrow> string \<Rightarrow> int \<times> string \<times> int \<times> alert_err option"
  dp_hmac :: "string \<Rightarrow> string \<Rightarrow> string"
  dp_rules :: "uuid list"
  dp_log_up :: bool

definition err_text :: "alert_err \<Rightarrow> string" where
  "err_text e = (case e of DispatchErr s \<Rightarrow> s | _ \<Rightarrow> ''error'')"

definition saveDeliveryLog :: "dispatch_env \<Rightarrow> uuid \<Rightarrow> string \<Rightarrow> int \<Rightarrow> string \<Rightarrow> int \<Rightarrow> alert_err option \<Rightarrow> outbox \<Rightarrow> outbox" where
  "saveDeliveryLog env i url status body latency err ob =
    ob\<lparr> ob_logs := snd (DeliveryRepo_Save (dp_log_up env) (dp_rules env)
         \<lparr> dl_id = dp_fresh env, dl_rule = i, dl_url = url, dl_status = status, dl_latency = latency, dl_body = body,
           dl_error = (case err of None \<Rightarrow> '''' | Some e \<Rightarrow> err_text e), dl_at = dp_now env \<rparr> (ob_logs ob)) \<rparr>"

definition dispatchWebhook :: "dispatch_env \<Rightarrow> notification \<Rightarrow> outbox \<Rightarrow> alert_err option \<times> outbox" where
  "dispatchWebhook env n ob =
    (let sig = (if no_secret n \<noteq> '''' then ''sha256='' @ ComputeHMAC (dp_hmac env) (no_secret n) (no_body n) else '''');
         o1 = ob\<lparr> ob_posts := ob_posts ob @ [(no_recipient n, no_body n, sig)] \<rparr>
     in case dp_post env (no_recipient n) (no_body n) sig of (status, body, latency, err) \<Rightarrow>
        (let o2 = (case no_rule n of None \<Rightarrow> o1 | Some i \<Rightarrow> saveDeliveryLog env i (no_recipient n) status body latency err o1) in
         case err of
           Some e \<Rightarrow> (Some e, o2)
         | None \<Rightarrow> if status < 200 \<or> status \<ge> 300 then (Some (DispatchErr ''non-2xx''), o2) else (None, o2)))"

definition Dispatch :: "dispatch_env \<Rightarrow> notification \<Rightarrow> outbox \<Rightarrow> alert_err option \<times> outbox" where
  "Dispatch env n ob =
    (if no_type n = ChannelTypeEmail then
       (dp_mail env (no_recipient n) (no_subject n) (no_body n),
        ob\<lparr> ob_mails := ob_mails ob @ [(no_recipient n, no_subject n, no_body n)] \<rparr>)
     else if no_type n = ChannelTypeWebhook then dispatchWebhook env n ob
     else (Some (DispatchErr ''unsupported channel type''), ob))"

section \<open>The notification service\<close>

text \<open>The table, the dispatches that were started but have not run, and the outbox. A dispatch runs in its
  own goroutine, so any started dispatch may run next.\<close>

record notifier =
  nf_table :: "notification list"
  nf_jobs :: "notification list"
  nf_out :: outbox

record send_input =
  si_workspace :: string
  si_type :: string
  si_recipient :: string
  si_subject :: string
  si_body :: string

definition save_and_start :: "alert_env \<Rightarrow> notification \<Rightarrow> notifier \<Rightarrow> (alert_err, notification) outcome \<times> notifier" where
  "save_and_start env n s =
    (case NotificationRepo_Save (av_db env 0) (av_now env) n (nf_table s) of
       (Ok _, t) \<Rightarrow> (Ok n, s\<lparr> nf_table := t, nf_jobs := nf_jobs s @ [n] \<rparr>)
     | (Fail e, t) \<Rightarrow> (Fail e, s\<lparr> nf_table := t \<rparr>)
     | (Panic, t) \<Rightarrow> (Panic, s\<lparr> nf_table := t \<rparr>))"

definition notif_Send :: "alert_env \<Rightarrow> send_input \<Rightarrow> notifier \<Rightarrow> (alert_err, notification) outcome \<times> notifier" where
  "notif_Send env inp s =
    (case av_parse env (si_workspace inp) of
       None \<Rightarrow> (Fail InvalidWorkspace, s)
     | Some wsID \<Rightarrow> save_and_start env (NewNotification (av_now env) (av_fresh env) wsID (si_type inp) (si_recipient inp)
         (si_subject inp) (si_body inp)) s)"

definition GetNotification :: "alert_env \<Rightarrow> string \<Rightarrow> notifier \<Rightarrow> (alert_err, notification) outcome" where
  "GetNotification env i s =
    (case av_parse env i of None \<Rightarrow> Fail InvalidNotificationID | Some uid \<Rightarrow> NotificationRepo_GetByID (av_db env 0) uid (nf_table s))"

definition ListNotifications :: "alert_env \<Rightarrow> string \<Rightarrow> int \<Rightarrow> int \<Rightarrow> notifier \<Rightarrow> (alert_err, notification list \<times> nat) outcome" where
  "ListNotifications env ws lmt off s =
    (case av_parse env ws of None \<Rightarrow> Fail InvalidWorkspace
     | Some wsID \<Rightarrow> NotificationRepo_ListByWorkspace (av_db env) wsID lmt off (nf_table s))"

definition MarkNotificationRead :: "alert_env \<Rightarrow> (string \<Rightarrow> uuid option) \<Rightarrow> string \<Rightarrow> string \<Rightarrow> notifier \<Rightarrow> (alert_err, unit) outcome \<times> notifier" where
  "MarkNotificationRead env cast i tenantID s =
    (case NotificationRepo_MarkRead cast (av_db env 0) (av_now env) i tenantID (nf_table s) of (r, t) \<Rightarrow> (r, s\<lparr> nf_table := t \<rparr>))"

definition MarkAllNotificationsRead :: "alert_env \<Rightarrow> (string \<Rightarrow> uuid option) \<Rightarrow> string \<Rightarrow> notifier \<Rightarrow> (alert_err, unit) outcome \<times> notifier" where
  "MarkAllNotificationsRead env cast tenantID s =
    (case NotificationRepo_MarkAllRead cast (av_db env 0) (av_now env) tenantID (nf_table s) of (r, t) \<Rightarrow> (r, s\<lparr> nf_table := t \<rparr>))"

text \<open>\<open>body\<close> and \<open>subject\<close> are the texts made of the event; json cannot express a value that is not finite.\<close>

definition finite_f64 :: "f64 \<Rightarrow> bool" where
  "finite_f64 x = (case x of Fin _ \<Rightarrow> True | _ \<Rightarrow> False)"

definition SendAlertNotification :: "alert_env \<Rightarrow> (alert_event \<Rightarrow> string) \<Rightarrow> (alert_event \<Rightarrow> string) \<Rightarrow> string \<Rightarrow> alert_event \<Rightarrow> notifier
    \<Rightarrow> alert_err option \<times> notifier" where
  "SendAlertNotification env body subject fallback evt s =
    (if \<not> finite_f64 (ae_actual evt) \<or> \<not> finite_f64 (ae_threshold evt) then (Some AlertMarshalErr, s) else
     let n = (NewNotification (av_now env) (av_fresh env) (ae_workspace evt) ChannelTypeEmail fallback (subject evt) (body evt))
           \<lparr> no_rule := Some (ae_rule evt), no_secret := ae_secret evt \<rparr>
     in case save_and_start env n s of
          (Ok _, s') \<Rightarrow> (None, s') | (Fail e, s') \<Rightarrow> (Some e, s') | (Panic, s') \<Rightarrow> (Some AlertDbErr, s'))"

text \<open>One dispatch: send, mark, store. \<open>up\<close> tells whether the update of the table succeeds.\<close>

definition notif_dispatch :: "dispatch_env \<Rightarrow> bool \<Rightarrow> notification \<Rightarrow> notifier \<Rightarrow> notifier" where
  "notif_dispatch env up n s =
    (case Dispatch env n (nf_out s) of (err, ob) \<Rightarrow>
      (let n' = (case err of Some e \<Rightarrow> MarkFailed (dp_now env) (err_text e) n | None \<Rightarrow> MarkSent (dp_now env) n)
       in s\<lparr> nf_out := ob, nf_table := snd (NotificationRepo_Update up (dp_now env) n' (nf_table s)) \<rparr>))"

section \<open>The consumer of alert events\<close>

text \<open>A message is undecodable, of another type, or a triggered alert.\<close>

datatype message = Garbage | OtherType | Triggered alert_event

text \<open>The loop over the messages from offset \<open>i\<close> on. The state has the committed offset of the group, which a
  commit of message \<open>i\<close> sets to the next offset, and the state that \<open>send\<close> works on; \<open>ok i\<close> tells whether
  the commit of message \<open>i\<close> succeeds. After a failed \<open>send\<close> the loop goes on without a commit.\<close>

fun alert_consume :: "(nat \<Rightarrow> bool) \<Rightarrow> (nat \<Rightarrow> alert_event \<Rightarrow> 's \<Rightarrow> alert_err option \<times> 's) \<Rightarrow> nat \<Rightarrow> message list
    \<Rightarrow> nat \<times> 's \<Rightarrow> nat \<times> 's" where
  "alert_consume ok send i [] st = st"
| "alert_consume ok send i (m # ms) (c, s) =
    (case m of
       Triggered evt \<Rightarrow> (case send i evt s of
           (Some e, s') \<Rightarrow> alert_consume ok send (Suc i) ms (c, s')
         | (None, s') \<Rightarrow> alert_consume ok send (Suc i) ms (if ok i then Suc i else c, s'))
     | _ \<Rightarrow> alert_consume ok send (Suc i) ms (if ok i then Suc i else c, s))"

section \<open>Properties of delivery\<close>

lemma prefix_interval:
  fixes w a :: "32 word"
  assumes "unat a = m * 2 ^ k"
  shows "drop_bit k w = drop_bit k a \<longleftrightarrow> m * 2 ^ k \<le> unat w \<and> unat w < (m + 1) * 2 ^ k"
proof -
  have u: "unat (drop_bit k x) = unat x div 2 ^ k" for x :: "32 word"
    by (simp only: unat_drop_bit_eq drop_bit_eq_div [where 'a = nat])
  have "drop_bit k w = drop_bit k a \<longleftrightarrow> unat w div 2 ^ k = m"
    unfolding word_unat_eq_iff u assms by simp
  also have "\<dots> \<longleftrightarrow> m * 2 ^ k \<le> unat w \<and> unat w < (m + 1) * 2 ^ k"
  proof -
    have p: "(0::nat) < 2 ^ k" by simp
    have "unat w div 2 ^ k = m \<longleftrightarrow> m \<le> unat w div 2 ^ k \<and> unat w div 2 ^ k < m + 1" by linarith
    then show ?thesis by (simp only: less_eq_div_iff_mult_less_eq [OF p] div_less_iff_less_mult [OF p])
  qed
  finally show ?thesis .
qed

text \<open>The intervals that the filter is for, by their bounds.\<close>

definition ip4_nat :: "nat \<Rightarrow> nat \<Rightarrow> nat \<Rightarrow> nat \<Rightarrow> nat" where
  "ip4_nat a b c d = ((a * 256 + b) * 256 + c) * 256 + d"

definition internal_ip4 :: "nat \<Rightarrow> bool" where
  "internal_ip4 n \<longleftrightarrow>
     (ip4_nat 127 0 0 0 \<le> n \<and> n < ip4_nat 128 0 0 0) \<or> (ip4_nat 10 0 0 0 \<le> n \<and> n < ip4_nat 11 0 0 0) \<or>
     (ip4_nat 172 16 0 0 \<le> n \<and> n < ip4_nat 172 32 0 0) \<or> (ip4_nat 192 168 0 0 \<le> n \<and> n < ip4_nat 192 169 0 0) \<or>
     (ip4_nat 169 254 0 0 \<le> n \<and> n < ip4_nat 169 255 0 0) \<or> (ip4_nat 100 64 0 0 \<le> n \<and> n < ip4_nat 100 128 0 0)"

lemma prefix4:
  assumes "ip4_nat a b c d = m * 2 ^ (32 - n)" "ip4_nat a b c d < 2 ^ 32"
  shows "prefix_Contains (P4 (ip4 a b c d) n) (V4 w) \<longleftrightarrow> m * 2 ^ (32 - n) \<le> unat w \<and> unat w < (m + 1) * 2 ^ (32 - n)"
proof -
  have "ip4 a b c d = word_of_nat (ip4_nat a b c d)" by (simp only: ip4_def ip4_nat_def)
  then have "unat (ip4 a b c d) = ip4_nat a b c d" using assms(2) by (simp only: unat_of_nat take_bit_eq_mod len_num1 len_bit0 len_of_numeral_defs mod_less) (simp)
  then have "unat (ip4 a b c d) = m * 2 ^ (32 - n)" by (simp only: assms(1))
  from prefix_interval [OF this] show ?thesis by (simp only: prefix_Contains_def prefix.case addr.case prod.case)
qed

lemma isPrivateIP_V4: "isPrivateIP (V4 w) \<longleftrightarrow> internal_ip4 (unat w)"
proof -
  have a: "prefix_Contains (P4 (ip4 127 0 0 0) 8) (V4 w) \<longleftrightarrow> 127 * 2 ^ 24 \<le> unat w \<and> unat w < 128 * 2 ^ 24"
    using prefix4 [of 127 0 0 0 127 8 w] by (simp add: ip4_nat_def)
  have b: "prefix_Contains (P4 (ip4 10 0 0 0) 8) (V4 w) \<longleftrightarrow> 10 * 2 ^ 24 \<le> unat w \<and> unat w < 11 * 2 ^ 24"
    using prefix4 [of 10 0 0 0 10 8 w] by (simp add: ip4_nat_def)
  have c: "prefix_Contains (P4 (ip4 172 16 0 0) 12) (V4 w) \<longleftrightarrow> 2753 * 2 ^ 20 \<le> unat w \<and> unat w < 2754 * 2 ^ 20"
    using prefix4 [of 172 16 0 0 2753 12 w] by (simp add: ip4_nat_def)
  have d: "prefix_Contains (P4 (ip4 192 168 0 0) 16) (V4 w) \<longleftrightarrow> 49320 * 2 ^ 16 \<le> unat w \<and> unat w < 49321 * 2 ^ 16"
    using prefix4 [of 192 168 0 0 49320 16 w] by (simp add: ip4_nat_def)
  have e: "prefix_Contains (P4 (ip4 169 254 0 0) 16) (V4 w) \<longleftrightarrow> 43518 * 2 ^ 16 \<le> unat w \<and> unat w < 43519 * 2 ^ 16"
    using prefix4 [of 169 254 0 0 43518 16 w] by (simp add: ip4_nat_def)
  have f: "prefix_Contains (P4 (ip4 100 64 0 0) 10) (V4 w) \<longleftrightarrow> 401 * 2 ^ 22 \<le> unat w \<and> unat w < 402 * 2 ^ 22"
    using prefix4 [of 100 64 0 0 401 10 w] by (simp add: ip4_nat_def)
  have g: "\<not> prefix_Contains (P6 x n) (V4 w)" for x n by (simp add: prefix_Contains_def)
  have u: "Unmap (V4 w) = V4 w" by (simp add: Unmap_def)
  have n: "internal_ip4 m \<longleftrightarrow> (127 * 2 ^ 24 \<le> m \<and> m < 128 * 2 ^ 24) \<or> (10 * 2 ^ 24 \<le> m \<and> m < 11 * 2 ^ 24) \<or>
      (2753 * 2 ^ 20 \<le> m \<and> m < 2754 * 2 ^ 20) \<or> (49320 * 2 ^ 16 \<le> m \<and> m < 49321 * 2 ^ 16) \<or>
      (43518 * 2 ^ 16 \<le> m \<and> m < 43519 * 2 ^ 16) \<or> (401 * 2 ^ 22 \<le> m \<and> m < 402 * 2 ^ 22)" for m
    by (simp add: internal_ip4_def ip4_nat_def)
  show ?thesis
    by (simp only: isPrivateIP_def privateRanges_def u list_ex_Nil_iff list_ex_Cons_iff a b c d e f g n simp_thms)
qed

definition embedded_ip4 :: "addr \<Rightarrow> nat option" where
  "embedded_ip4 ip = (case Unmap ip of V4 w \<Rightarrow> Some (unat w) | V6 w z \<Rightarrow> None)"

text \<open>A webhook is never sent to an internal IPv4 address: when the dialer accepts a host, then every address
  that the host resolves to, the dialled one included, lies outside the loopback, RFC 1918, link-local
  and shared intervals, also when it is written as an IPv4-mapped IPv6 address.\<close>

theorem webhook_dial_safe:
  assumes "dial lookup parse host = Ok raw" "lookup host = Some ips" "r \<in> set ips" "parse r = Some ip" "embedded_ip4 ip = Some n"
  shows "raw \<in> set ips \<and> \<not> internal_ip4 n"
proof -
  have "raw \<in> set ips" "\<not> isPrivateIP ip"
    using assms(1-4) by (auto simp: dial_def list_ex_iff split: if_splits list.splits)
  moreover obtain w where w: "Unmap ip = V4 w" "n = unat w" using assms(5) by (auto simp: embedded_ip4_def split: addr.splits)
  moreover have "Unmap (V4 w) = V4 w" by (simp add: Unmap_def)
  then have "isPrivateIP ip = isPrivateIP (V4 w)" by (simp add: isPrivateIP_def w)
  ultimately show ?thesis by (simp add: isPrivateIP_V4)
qed

text \<open>The attack the filter is for: the mapped form of 127.0.0.1 is internal although it is an IPv6 address. What the
  list lacks: the unspecified addresses, and a link-local address with a zone.\<close>

theorem webhook_dial_safe_witness:
  "''93.184.216.34'' \<in> set [''93.184.216.34''] \<and> \<not> internal_ip4 (ip4_nat 93 184 216 34)
   \<and> embedded_ip4 (V6 (push_bit 32 0xffff + ucast (ip4 127 0 0 1)) '''') = Some (ip4_nat 127 0 0 1)
   \<and> isPrivateIP (V6 (push_bit 32 0xffff + ucast (ip4 127 0 0 1)) '''')
   \<and> \<not> isPrivateIP (V4 0) \<and> \<not> isPrivateIP (V6 0 '''') \<and> \<not> isPrivateIP (V6 (push_bit 112 0xfe80) ''eth0'')"
proof -
  note defs = isPrivateIP_def privateRanges_def Unmap_def prefix_Contains_def ip4_def
  have u: "unat (ip4 93 184 216 34) = ip4_nat 93 184 216 34" by (simp add: ip4_def ip4_nat_def)
  have "\<not> isPrivateIP (V4 (ip4 93 184 216 34))" unfolding isPrivateIP_V4 u by (simp add: internal_ip4_def ip4_nat_def)
  then have d: "dial (\<lambda>h. Some [''93.184.216.34'']) (\<lambda>r. Some (V4 (ip4 93 184 216 34))) ''example.org'' = Ok ''93.184.216.34''"
    by (simp add: dial_def)
  have e: "embedded_ip4 (V4 (ip4 93 184 216 34)) = Some (ip4_nat 93 184 216 34)" by (simp add: embedded_ip4_def Unmap_def u)
  have s: "''93.184.216.34'' \<in> set [''93.184.216.34'']" by simp
  have m: "Unmap (V6 (push_bit 32 0xffff + ucast (ip4 127 0 0 1)) '''') = V4 (ip4 127 0 0 1)" by (simp add: defs)
  then have "embedded_ip4 (V6 (push_bit 32 0xffff + ucast (ip4 127 0 0 1)) '''') = Some (ip4_nat 127 0 0 1)"
    by (simp add: embedded_ip4_def ip4_def ip4_nat_def)
  moreover have "isPrivateIP (V6 (push_bit 32 0xffff + ucast (ip4 127 0 0 1)) '''')"
    using isPrivateIP_V4 [of "ip4 127 0 0 1"] m
    by (simp add: isPrivateIP_def Unmap_def [of "V4 _"] internal_ip4_def ip4_def ip4_nat_def)
  moreover have "\<not> isPrivateIP (V4 0)" "\<not> isPrivateIP (V6 0 '''')" "\<not> isPrivateIP (V6 (push_bit 112 0xfe80) ''eth0'')"
    by (simp_all add: defs)
  ultimately show ?thesis using webhook_dial_safe [OF d refl s refl e] by blast
qed

definition demo_alert :: alert_event where
  "demo_alert = alert_of ''a'' (demo_rule ''r'') hot_event"

text \<open>What the committed offset means: a message before it is not delivered again.\<close>

lemma alert_consume_append:
  "alert_consume ok send i (xs @ ys) st = alert_consume ok send (i + length xs) ys (alert_consume ok send i xs st)"
proof (induction xs arbitrary: i st)
  case (Cons m xs)
  obtain c s where st: "st = (c, s)" by fastforce
  show ?case
  proof (cases m)
    case (Triggered evt)
    then show ?thesis by (cases "send i evt s"; cases "fst (send i evt s)") (auto simp: st Cons.IH)
  qed (simp_all add: st Cons.IH)
qed simp

lemma alert_consume_mono: "c \<le> i \<Longrightarrow> c \<le> fst (alert_consume ok send i ms (c, s))"
proof (induction ms arbitrary: i c s)
  case (Cons m ms)
  have a: "c \<le> fst (alert_consume ok send (Suc i) ms (c, s'))" for s' using Cons.IH [of c "Suc i" s'] Cons.prems by simp
  have b: "c \<le> fst (alert_consume ok send (Suc i) ms (Suc i, s'))" for s'
    using Cons.IH [of "Suc i" "Suc i" s'] Cons.prems by simp
  show ?case
  proof (cases m)
    case (Triggered evt)
    then show ?thesis by (cases "send i evt s"; cases "fst (send i evt s)") (auto simp: a b)
  qed (simp_all add: a b)
qed simp

text \<open>A failed alert is lost as soon as a later message is processed: the consumer logs ``skipping commit to
  allow retry'', but when the sending of a message fails and any later message is committed, the
  committed offset of the group lies behind the failed message, which no restart delivers again, while
  the reader itself never returns to it.\<close>

theorem failed_alert_lost:
  assumes "alert_consume ok send 0 pre (0, s0) = (c, s)" "send (length pre) evt s = (Some e, s1)"
    "m = Garbage \<or> m = OtherType" "ok (length pre + length between + 1)"
  shows "alert_consume ok send 0 (pre @ [Triggered evt]) (0, s0) = (c, s1)
    \<and> length pre < fst (alert_consume ok send 0 (pre @ Triggered evt # between @ m # post) (0, s0))"
proof
  show st: "alert_consume ok send 0 (pre @ [Triggered evt]) (0, s0) = (c, s1)"
    using assms by (simp add: alert_consume_append)
  obtain c2 s2 where "alert_consume ok send 0 ((pre @ [Triggered evt]) @ between) (0, s0) = (c2, s2)" by fastforce
  then have "alert_consume ok send 0 (((pre @ [Triggered evt]) @ between) @ m # post) (0, s0)
      = alert_consume ok send (length pre + length between + 2) post (length pre + length between + 2, s2)"
    using assms(3,4) by (subst alert_consume_append) (auto simp: ac_simps)
  then show "length pre < fst (alert_consume ok send 0 (pre @ Triggered evt # between @ m # post) (0, s0))"
    using alert_consume_mono [of "length pre + length between + 2" "length pre + length between + 2" ok send post s2] by simp
qed

theorem failed_alert_lost_witness:
  "alert_consume (\<lambda>i. True) (\<lambda>i evt s. (Some AlertDbErr, s)) 0 ([] @ [Triggered demo_alert]) (0, ()) = (0, ())
   \<and> length ([] :: message list) <
     fst (alert_consume (\<lambda>i. True) (\<lambda>i evt s. (Some AlertDbErr, s)) 0 ([] @ Triggered demo_alert # [] @ OtherType # []) (0, ()))"
  by (rule failed_alert_lost) auto

end
