(* ===== verification/Alert_Handler.thy ===== *)
theory Alert_Handler
  imports Alert_Delivery Web "HOL-Library.Multiset"
begin

text \<open>
  The HTTP handlers and the router of alert-notification (transport/http), and the properties that span
  its handlers, its services and its rule engine. A decoded request body is an argument, None when the
  json decoder rejects it. A handler returns its response and the new state of the service.
\<close>

section \<open>State, requests and responses\<close>

text \<open>The rules, and the notifier with the delivery log in its outbox.\<close>

record alert_state =
  al_rules :: "rule list"
  al_notifier :: notifier

definition al_logs :: "alert_state \<Rightarrow> delivery_log list" where
  "al_logs s = ob_logs (nf_out (al_notifier s))"

record create_rule_request =
  rr_channel :: string
  rr_workspace :: string
  rr_name :: string
  rr_field :: string
  rr_condition :: string
  rr_threshold :: "f64 option"
  rr_severity :: string
  rr_message :: string
  rr_cooldown :: int
  rr_secret :: string

record rule_response =
  ro_id :: string
  ro_channel :: string
  ro_workspace :: string
  ro_name :: string
  ro_field :: string
  ro_condition :: string
  ro_threshold :: f64
  ro_severity :: string
  ro_message :: string
  ro_enabled :: bool
  ro_cooldown :: int
  ro_created :: instant

record notification_response =
  nr_id :: string
  nr_workspace :: string
  nr_type :: string
  nr_recipient :: string
  nr_subject :: string
  nr_status :: string
  nr_retries :: int
  nr_sent :: "instant option"
  nr_read :: bool
  nr_read_at :: "instant option"
  nr_created :: instant

definition toRuleResponse :: "rule \<Rightarrow> rule_response" where
  "toRuleResponse r =
    \<lparr> ro_id = ru_id r, ro_channel = ru_channel r, ro_workspace = ru_workspace r, ro_name = ru_name r,
      ro_field = ru_field r, ro_condition = ru_condition r, ro_threshold = ru_threshold r, ro_severity = ru_severity r,
      ro_message = ru_message r, ro_enabled = ru_enabled r, ro_cooldown = ru_cooldown r, ro_created = ru_created r \<rparr>"

definition toNotificationResponse :: "notification \<Rightarrow> notification_response" where
  "toNotificationResponse n =
    \<lparr> nr_id = no_id n, nr_workspace = no_workspace n, nr_type = no_type n, nr_recipient = no_recipient n,
      nr_subject = no_subject n, nr_status = no_status n, nr_retries = no_retries n, nr_sent = no_sent n,
      nr_read = no_read n, nr_read_at = no_read_at n, nr_created = no_created n \<rparr>"

text \<open>A delivery log is answered with all its columns.\<close>

definition toDeliveryLogResponse :: "delivery_log \<Rightarrow> delivery_log" where
  "toDeliveryLogResponse l = l"

datatype alert_data =
    RuleData rule_response
  | RuleListData "rule_response offset_result"
  | DeliveryListData "delivery_log offset_result"
  | ValidData bool
  | NotificationData notification_response
  | NotificationListData "notification_response offset_result"
  | ReadData string

type_synonym alert_response = "alert_data envelope"

section \<open>Rules\<close>

definition isAlertValidationError :: "alert_err \<Rightarrow> bool" where
  "isAlertValidationError e \<longleftrightarrow> e = InvalidChannelID \<or> e = InvalidWorkspace \<or> e = InvalidRuleID"

text \<open>The texts of the messages are left out. \<open>input_error\<close> maps as CreateRule and ListRules do; \<open>rule_error\<close>
  as GetRule and DeleteRule, and VerifySignature with a further client error; UpdateRule and
  ListDeliveries each test one error only.\<close>

definition input_error :: "alert_err \<Rightarrow> api_error" where
  "input_error e = (if isAlertValidationError e then BadRequest '''' else ErrInternalServerError)"

definition rule_error :: "alert_err \<Rightarrow> api_error" where
  "rule_error e = (if e = RuleNotFound then NotFound ''rule'' else if e = InvalidRuleID then BadRequest '''' else ErrInternalServerError)"

definition verify_error :: "alert_err \<Rightarrow> api_error" where
  "verify_error e = (if e = NoWebhookSecret then BadRequest '''' else rule_error e)"

definition update_error :: "alert_err \<Rightarrow> api_error" where
  "update_error e = (if e = RuleNotFound then NotFound ''rule'' else ErrInternalServerError)"

definition deliveries_error :: "alert_err \<Rightarrow> api_error" where
  "deliveries_error e = (if e = InvalidRuleID then BadRequest '''' else ErrInternalServerError)"

definition alert_bad_request :: alert_response where
  "alert_bad_request = resp_Error (ApiErr (BadRequest ''''))"

definition create_rule_valid :: "create_rule_request \<Rightarrow> bool" where
  "create_rule_valid r \<longleftrightarrow> rr_channel r \<noteq> '''' \<and> rr_workspace r \<noteq> '''' \<and> rr_name r \<noteq> '''' \<and> rr_field r \<noteq> '''' \<and>
     rr_condition r \<noteq> '''' \<and> rr_threshold r \<noteq> None \<and> rr_severity r \<noteq> ''''"

definition h_CreateRule :: "alert_env \<Rightarrow> create_rule_request option \<Rightarrow> alert_state \<Rightarrow> alert_response \<times> alert_state" where
  "h_CreateRule env req s =
    (case req of
       None \<Rightarrow> (alert_bad_request, s)
     | Some r \<Rightarrow>
         if \<not> create_rule_valid r then (resp_ValidationError, s) else
         (case CreateRule env \<lparr> ri_channel = rr_channel r, ri_workspace = rr_workspace r, ri_name = rr_name r,
              ri_field = rr_field r, ri_condition = rr_condition r, ri_threshold = the (rr_threshold r),
              ri_severity = rr_severity r, ri_message = rr_message r, ri_cooldown = rr_cooldown r,
              ri_secret = rr_secret r \<rparr> (al_rules s) of
            (res, db) \<Rightarrow> (answer input_error (\<lambda>x. resp_Created (RuleData (toRuleResponse x))) res, s\<lparr> al_rules := db \<rparr>)))"

definition h_GetRule :: "alert_env \<Rightarrow> request \<Rightarrow> alert_state \<Rightarrow> alert_response" where
  "h_GetRule env c s =
    answer rule_error (\<lambda>r. resp_OK (RuleData (toRuleResponse r))) (GetRule env (rq_param c ''id'') (al_rules s))"

definition h_ListRules :: "alert_env \<Rightarrow> request \<Rightarrow> alert_state \<Rightarrow> alert_response" where
  "h_ListRules env c s =
    (let page = ParseOffset c in
     answer input_error (\<lambda>(rs, n). resp_OK (RuleListData (NewOffsetResult (map toRuleResponse rs) n page)))
       (ListRules env (q_get c ''workspace_id'') (op_limit page) (Offset page) (al_rules s)))"

definition h_UpdateRule :: "alert_env \<Rightarrow> request \<Rightarrow> update_rule_input option \<Rightarrow> alert_state \<Rightarrow> alert_response \<times> alert_state" where
  "h_UpdateRule env c req s =
    (case req of
       None \<Rightarrow> (alert_bad_request, s)
     | Some r \<Rightarrow> (case UpdateRule env (rq_param c ''id'') r (al_rules s) of (res, db) \<Rightarrow>
         (answer update_error (\<lambda>x. resp_OK (RuleData (toRuleResponse x))) res, s\<lparr> al_rules := db \<rparr>)))"

text \<open>The delivery log refers to the rule and is deleted with it.\<close>

definition cascade_logs :: "rule list \<Rightarrow> notifier \<Rightarrow> notifier" where
  "cascade_logs db n = n\<lparr> nf_out := (nf_out n)\<lparr> ob_logs := filter (\<lambda>l. dl_rule l \<in> ru_id ` set db) (ob_logs (nf_out n)) \<rparr> \<rparr>"

definition h_DeleteRule :: "alert_env \<Rightarrow> request \<Rightarrow> alert_state \<Rightarrow> alert_response \<times> alert_state" where
  "h_DeleteRule env c s =
    (case DeleteRule env (rq_param c ''id'') (al_rules s) of (res, db) \<Rightarrow>
      (answer rule_error (\<lambda>_. resp_NoContent) res,
       s\<lparr> al_rules := db, al_notifier := (if db = al_rules s then al_notifier s else cascade_logs db (al_notifier s)) \<rparr>))"

definition h_ListDeliveries :: "alert_env \<Rightarrow> request \<Rightarrow> alert_state \<Rightarrow> alert_response" where
  "h_ListDeliveries env c s =
    (let page = ParseOffset c in
     answer deliveries_error (\<lambda>(ls, n). resp_OK (DeliveryListData (NewOffsetResult (map toDeliveryLogResponse ls) n page)))
       (ListDeliveries env (rq_param c ''id'') (op_limit page) (Offset page) (al_logs s)))"

definition h_VerifySignature :: "alert_env \<Rightarrow> (string \<Rightarrow> string \<Rightarrow> string) \<Rightarrow> request \<Rightarrow> (string \<times> string) option \<Rightarrow> alert_state
    \<Rightarrow> alert_response" where
  "h_VerifySignature env hmac c req s =
    (case req of
       None \<Rightarrow> alert_bad_request
     | Some (payload, sig) \<Rightarrow>
         if payload = '''' \<or> sig = '''' then resp_ValidationError
         else answer verify_error (\<lambda>b. resp_OK (ValidData b))
           (VerifyWebhookSignature env hmac (rq_param c ''id'') payload sig (al_rules s)))"

section \<open>Notifications\<close>

definition send_error :: "alert_err \<Rightarrow> api_error" where
  "send_error e = (if e = InvalidWorkspace then BadRequest '''' else ErrInternalServerError)"

definition notification_error :: "alert_err \<Rightarrow> api_error" where
  "notification_error e = (if e = NotificationNotFound then NotFound ''notification''
     else if e = InvalidNotificationID then BadRequest '''' else ErrInternalServerError)"

definition read_error :: "alert_err \<Rightarrow> api_error" where
  "read_error e = (if e = NotificationNotFound then NotFound ''notification'' else ErrInternalServerError)"

definition send_valid :: "send_input \<Rightarrow> bool" where
  "send_valid r \<longleftrightarrow> si_workspace r \<noteq> '''' \<and> si_type r \<noteq> '''' \<and> si_recipient r \<noteq> '''' \<and> si_subject r \<noteq> '''' \<and> si_body r \<noteq> ''''"

definition h_SendNotification :: "alert_env \<Rightarrow> send_input option \<Rightarrow> alert_state \<Rightarrow> alert_response \<times> alert_state" where
  "h_SendNotification env req s =
    (case req of
       None \<Rightarrow> (alert_bad_request, s)
     | Some r \<Rightarrow>
         if \<not> send_valid r then (resp_ValidationError, s) else
         (case notif_Send env r (al_notifier s) of (res, n) \<Rightarrow>
           (answer send_error (\<lambda>x. resp_Created (NotificationData (toNotificationResponse x))) res, s\<lparr> al_notifier := n \<rparr>)))"

definition h_GetNotification :: "alert_env \<Rightarrow> request \<Rightarrow> alert_state \<Rightarrow> alert_response" where
  "h_GetNotification env c s =
    answer notification_error (\<lambda>n. resp_OK (NotificationData (toNotificationResponse n)))
      (GetNotification env (rq_param c ''id'') (al_notifier s))"

definition h_ListNotifications :: "alert_env \<Rightarrow> request \<Rightarrow> alert_state \<Rightarrow> alert_response" where
  "h_ListNotifications env c s =
    (let page = ParseOffset c in
     answer send_error (\<lambda>(ns, n). resp_OK (NotificationListData (NewOffsetResult (map toNotificationResponse ns) n page)))
       (ListNotifications env (q_get c ''workspace_id'') (op_limit page) (Offset page) (al_notifier s)))"

definition h_MarkRead :: "alert_env \<Rightarrow> (string \<Rightarrow> uuid option) \<Rightarrow> request \<Rightarrow> alert_state \<Rightarrow> alert_response \<times> alert_state" where
  "h_MarkRead env cast c s =
    (case GetTenantID c of
       None \<Rightarrow> (resp_Error (ApiErr (Unauthorized ''missing tenant'')), s)
     | Some tenantID \<Rightarrow> (case MarkNotificationRead env cast (rq_param c ''id'') tenantID (al_notifier s) of (res, n) \<Rightarrow>
         (answer read_error (\<lambda>_. resp_OK (ReadData (rq_param c ''id''))) res, s\<lparr> al_notifier := n \<rparr>)))"

definition h_MarkAllRead :: "alert_env \<Rightarrow> (string \<Rightarrow> uuid option) \<Rightarrow> request \<Rightarrow> alert_state \<Rightarrow> alert_response \<times> alert_state" where
  "h_MarkAllRead env cast c s =
    (case GetTenantID c of
       None \<Rightarrow> (resp_Error (ApiErr (Unauthorized ''missing tenant'')), s)
     | Some tenantID \<Rightarrow> (case MarkAllNotificationsRead env cast tenantID (al_notifier s) of (res, n) \<Rightarrow>
         (answer (\<lambda>_. ErrInternalServerError) (\<lambda>_. resp_NoContent) res, s\<lparr> al_notifier := n \<rparr>)))"

section \<open>The router\<close>

datatype alert_endpoint =
    GET_alert_health
  | POST_rules "create_rule_request option" | GET_rules | GET_rule | PUT_rule "update_rule_input option" | DELETE_rule
  | GET_deliveries | POST_verify_signature "(string \<times> string) option"
  | POST_notifications "send_input option" | GET_notifications | POST_read_all | GET_notification | PATCH_read

definition alert_v1 :: "alert_env \<Rightarrow> (string \<Rightarrow> string \<Rightarrow> string) \<Rightarrow> (string \<Rightarrow> uuid option) \<Rightarrow> alert_endpoint \<Rightarrow> alert_state \<Rightarrow> request
    \<Rightarrow> alert_response \<times> alert_state" where
  "alert_v1 env hmac cast e s c = (case e of
      GET_alert_health \<Rightarrow> (\<lparr> rs_status = 200, rs_success = True, rs_data = None, rs_error = None \<rparr>, s)
    | POST_rules r \<Rightarrow> h_CreateRule env r s
    | GET_rules \<Rightarrow> (h_ListRules env c s, s)
    | GET_rule \<Rightarrow> (h_GetRule env c s, s)
    | PUT_rule r \<Rightarrow> h_UpdateRule env c r s
    | DELETE_rule \<Rightarrow> h_DeleteRule env c s
    | GET_deliveries \<Rightarrow> (h_ListDeliveries env c s, s)
    | POST_verify_signature r \<Rightarrow> (h_VerifySignature env hmac c r s, s)
    | POST_notifications r \<Rightarrow> h_SendNotification env r s
    | GET_notifications \<Rightarrow> (h_ListNotifications env c s, s)
    | POST_read_all \<Rightarrow> h_MarkAllRead env cast c s
    | GET_notification \<Rightarrow> (h_GetNotification env c s, s)
    | PATCH_read \<Rightarrow> h_MarkRead env cast c s)"

text \<open>Everything but health runs behind JWTAuth.\<close>

definition alert_router :: "(string \<Rightarrow> claims option) \<Rightarrow> alert_env \<Rightarrow> (string \<Rightarrow> string \<Rightarrow> string) \<Rightarrow> (string \<Rightarrow> uuid option)
    \<Rightarrow> alert_endpoint \<Rightarrow> request \<Rightarrow> alert_state \<Rightarrow> alert_response \<times> alert_state" where
  "alert_router verify env hmac cast e c s =
    (if e = GET_alert_health then alert_v1 env hmac cast e s c
     else authorized verify (alert_v1 env hmac cast e s) c s)"

section \<open>Properties\<close>

text \<open>What no request can change of a notification: all but the read state and the time of the change.\<close>

definition unread_view :: "notification \<Rightarrow> notification" where
  "unread_view n = n\<lparr> no_read := False, no_read_at := None, no_updated := 0 \<rparr>"

text \<open>Reading a notification is confined to the tenant of the token: whatever endpoint of the service is
  called, the stored notifications keep their order and content, a new one is at the end, and the read
  state of a notification changes only if its workspace id is the tenant id in the caller's claims.\<close>

theorem read_state_confined:
  assumes "alert_v1 env hmac cast e s (with_claims c cl) = (resp, s')" "i < length (nf_table (al_notifier s))"
  shows "i < length (nf_table (al_notifier s')) \<and>
    unread_view (nf_table (al_notifier s') ! i) = unread_view (nf_table (al_notifier s) ! i) \<and>
    (nf_table (al_notifier s') ! i = nf_table (al_notifier s) ! i \<or>
     (e = POST_read_all \<or> e = PATCH_read) \<and> cast (cl_tid cl) = Some (no_workspace (nf_table (al_notifier s) ! i)))"
proof -
  have tid: "GetTenantID (with_claims c cl) = Some (cl_tid cl)"
    by (simp add: GetTenantID_def with_claims_def ctx_set_def)
  note defs = h_CreateRule_def h_UpdateRule_def h_DeleteRule_def cascade_logs_def h_SendNotification_def
    notif_Send_def save_and_start_def NotificationRepo_Save_def
  show ?thesis
  proof (cases e)
    case POST_read_all
    with assms show ?thesis by (auto simp: alert_v1_def h_MarkAllRead_def tid MarkAllNotificationsRead_def
        NotificationRepo_MarkAllRead_def unread_view_def split: prod.splits option.splits if_splits)
  next
    case PATCH_read
    with assms show ?thesis by (auto simp: alert_v1_def h_MarkRead_def tid MarkNotificationRead_def
        NotificationRepo_MarkRead_def unread_view_def split: prod.splits option.splits if_splits)
  next
    case (POST_notifications r)
    with assms show ?thesis
      by (auto simp: alert_v1_def defs nth_append split: prod.splits option.splits if_splits)
  qed (use assms in \<open>auto simp: alert_v1_def defs split: prod.splits option.splits if_splits\<close>)
qed

definition demo_alert_env :: "instant \<Rightarrow> uuid \<Rightarrow> alert_env" where
  "demo_alert_env t i = \<lparr> av_now = t, av_fresh = i, av_parse = (\<lambda>x. if x = '''' then None else Some x), av_db = (\<lambda>_. True) \<rparr>"

definition demo_note :: notification where
  "demo_note = NewNotification 1 ''n1'' ''t1'' ''email'' ''a@b.c'' ''s'' ''b''"

definition demo_notes :: alert_state where
  "demo_notes = \<lparr> al_rules = [], al_notifier = \<lparr> nf_table = [demo_note], nf_jobs = [],
     nf_out = \<lparr> ob_mails = [], ob_posts = [], ob_logs = [] \<rparr> \<rparr> \<rparr>"

definition demo_claims :: "string \<Rightarrow> claims" where
  "demo_claims t = \<lparr> cl_uid = ''u1'', cl_tid = t, cl_email = '''', cl_roles = [] \<rparr>"

theorem read_state_confined_witness:
  "\<exists>s'. alert_v1 (demo_alert_env 9 ''x'') (\<lambda>_ _. '''') Some PATCH_read demo_notes (with_claims (demo_call '''' ''n1'') (demo_claims ''t1''))
       = (resp_OK (ReadData ''n1''), s') \<and>
     no_read (nf_table (al_notifier s') ! 0) \<and> unread_view (nf_table (al_notifier s') ! 0) = unread_view demo_note"
proof -
  let ?r = "alert_v1 (demo_alert_env 9 ''x'') (\<lambda>_ _. '''') Some PATCH_read demo_notes (with_claims (demo_call '''' ''n1'') (demo_claims ''t1''))"
  have r: "?r = (resp_OK (ReadData ''n1''), snd ?r)" by code_simp
  have "0 < length (nf_table (al_notifier demo_notes))" "nf_table (al_notifier demo_notes) ! 0 = demo_note" by (simp_all add: demo_notes_def)
  moreover have "no_read (nf_table (al_notifier (snd ?r)) ! 0)" by code_simp
  ultimately show ?thesis using read_state_confined [OF r] r by metis
qed

section \<open>The life of a notification\<close>

text \<open>A step of the notifier: a request or an alert saves a new notification and starts its dispatch, or
  one of the started dispatches runs, in any order.\<close>

inductive notifier_step :: "notifier \<Rightarrow> notifier \<Rightarrow> bool" where
  step_send: "notif_Send env inp s = (r, s') \<Longrightarrow> notifier_step s s'"
| step_alert: "SendAlertNotification env body subject fallback evt s = (r, s') \<Longrightarrow> notifier_step s s'"
| step_read: "MarkNotificationRead env cast i t s = (r, s') \<Longrightarrow> notifier_step s s'"
| step_read_all: "MarkAllNotificationsRead env cast t s = (r, s') \<Longrightarrow> notifier_step s s'"
| step_dispatch: "nf_jobs s = xs @ n # ys \<Longrightarrow> notifier_step s ((notif_dispatch denv True n s)\<lparr> nf_jobs := xs @ ys \<rparr>)"

inductive_cases notifier_stepE: "notifier_step s s'"

definition NewNotifier :: notifier where
  "NewNotifier = \<lparr> nf_table = [], nf_jobs = [], nf_out = \<lparr> ob_mails = [], ob_posts = [], ob_logs = [] \<rparr> \<rparr>"

inductive notifier_reachable :: "notifier \<Rightarrow> bool" where
  reach_new: "notifier_reachable NewNotifier"
| reach_step: "notifier_reachable s \<Longrightarrow> notifier_step s s' \<Longrightarrow> notifier_reachable s'"

text \<open>The statuses are the three of the code, and a pending notification has a dispatch to come.\<close>

definition settled :: "notification \<Rightarrow> bool" where
  "settled n \<longleftrightarrow> no_status n = StatusSent \<or> no_status n = StatusFailed"

definition pending_inv :: "notification list \<Rightarrow> notification list \<Rightarrow> bool" where
  "pending_inv jobs tab \<longleftrightarrow> list_all (\<lambda>n. settled n \<or> no_status n = StatusPending \<and> no_id n \<in> no_id ` set jobs) tab"

lemma pending_inv_save:
  assumes "save_and_start env n s = (r, s')" "no_status n = StatusPending" "pending_inv (nf_jobs s) (nf_table s)"
  shows "pending_inv (nf_jobs s') (nf_table s')"
  using assms by (auto simp: save_and_start_def NotificationRepo_Save_def pending_inv_def list_all_iff settled_def
      split: if_splits prod.splits outcome.splits)

lemma pending_inv_map:
  assumes "pending_inv jobs tab" "\<And>n. no_status (f n) = no_status n" "\<And>n. no_id (f n) = no_id n"
  shows "pending_inv jobs (map f tab)"
  using assms by (auto simp: pending_inv_def list_all_iff settled_def)

lemma dispatch_settles:
  assumes "pending_inv (xs @ n # ys) (nf_table s)"
  shows "pending_inv (xs @ ys) (nf_table (notif_dispatch denv True n s))"
  using assms by (auto simp: notif_dispatch_def NotificationRepo_Update_def pending_inv_def list_all_iff settled_def MarkSent_def
      MarkFailed_def Let_def split: prod.splits option.splits)

lemma notifier_inv: "notifier_reachable s \<Longrightarrow> pending_inv (nf_jobs s) (nf_table s)"
proof (induction rule: notifier_reachable.induct)
  case reach_new
  show ?case by (simp add: NewNotifier_def pending_inv_def)
next
  case (reach_step s s')
  note inv = reach_step.IH
  from \<open>notifier_step s s'\<close> show ?case
  proof (cases rule: notifier_step.cases)
    case (step_send env inp r)
    then show ?thesis using inv pending_inv_save [of env _ s r s']
      by (auto simp: notif_Send_def NewNotification_def split: option.splits)
  next
    case (step_alert env body subject fallback evt r)
    then show ?thesis using inv pending_inv_save [of env _ s _ s']
      by (fastforce simp: SendAlertNotification_def NewNotification_def Let_def split: if_splits prod.splits outcome.splits)
  next
    case (step_read env cast i t r)
    then show ?thesis using inv
      by (auto simp: MarkNotificationRead_def NotificationRepo_MarkRead_def intro!: pending_inv_map
          split: prod.splits option.splits if_splits)
  next
    case (step_read_all env cast t r)
    then show ?thesis using inv
      by (auto simp: MarkAllNotificationsRead_def NotificationRepo_MarkAllRead_def intro!: pending_inv_map
          split: prod.splits option.splits if_splits)
  next
    case (step_dispatch xs n ys denv)
    then show ?thesis using inv dispatch_settles by simp
  qed
qed

lemma dispatches_settle:
  "pending_inv (map snd order) (nf_table s) \<Longrightarrow>
    pending_inv [] (nf_table (fold (\<lambda>(denv, n). notif_dispatch denv True n) order s))"
proof (induction order arbitrary: s)
  case (Cons o' order)
  obtain denv n where "o' = (denv, n)" by fastforce
  then show ?case using Cons dispatch_settles [of "[]" n "map snd order" s denv] by simp
qed simp

lemma notif_dispatch_jobs [simp]: "nf_jobs (notif_dispatch denv up n s) = nf_jobs s"
  by (simp add: notif_dispatch_def Let_def split: prod.splits)


definition demo_dispatch :: "alert_err option \<Rightarrow> dispatch_env" where
  "demo_dispatch err = \<lparr> dp_now = 8, dp_fresh = ''l1'', dp_mail = (\<lambda>_ _ _. err), dp_post = (\<lambda>_ _ _. (200, '''', 1, None)),
     dp_hmac = (\<lambda>_ _. ''''), dp_rules = [], dp_log_up = True \<rparr>"

definition demo_send :: send_input where
  "demo_send = \<lparr> si_workspace = ''w'', si_type = ''email'', si_recipient = ''a@b.c'', si_subject = ''s'', si_body = ''b'' \<rparr>"

lemma reach_send: "notifier_reachable s \<Longrightarrow> notifier_reachable (snd (notif_Send env inp s))"
  by (metis prod.collapse reach_step step_send)


section \<open>Rules that cannot fire\<close>

definition known_condition :: "string \<Rightarrow> bool" where
  "known_condition x \<longleftrightarrow> x \<in> set [ConditionGT, ConditionGTE, ConditionLT, ConditionLTE, ConditionEQ, ConditionNEQ]"

lemma unknown_condition_silent:
  "\<not> known_condition (ru_condition r) \<Longrightarrow> \<not> rule_Evaluate r v"
  by (simp add: rule_Evaluate_def known_condition_def)

lemma CreateRule_condition:
  assumes "CreateRule env inp db = (Ok r, db')"
  shows "ru_condition r = ri_condition inp"
  using assms by (auto simp: CreateRule_def NewRule_def Let_def split: option.splits prod.splits outcome.splits if_splits)

text \<open>The conditions are not checked: a request to create a rule with any other text than the six conditions
  is accepted when its ids parse and the database takes it, and the rule it stores, enabled, never fires,
  for no value of the field; UpdateRule has no way to repair it.\<close>

theorem unknown_condition_accepted:
  assumes "\<not> known_condition (rr_condition req)" "create_rule_valid req" "av_parse env (rr_channel req) = Some ch"
    "av_parse env (rr_workspace req) = Some ws" "av_db env 0" "int32 (rr_cooldown req)" "av_fresh env \<notin> ru_id ` set (al_rules s)"
  shows "\<exists>r. rs_status (fst (h_CreateRule env (Some req) s)) = 201 \<and> al_rules (snd (h_CreateRule env (Some req) s)) = al_rules s @ [r] \<and>
    ru_enabled r \<and> \<not> triggers (apply_rule_update now inp r) evt"
proof -
  have six: "int32 300" by (simp add: int32_def)
  have fresh: "\<not> list_ex (\<lambda>x. ru_id x = av_fresh env) (al_rules s)" using assms(7) by (metis (mono_tags, lifting) imageI list_ex_iff)
  have silent: "\<not> rule_Evaluate (apply_rule_update now inp r) v" if "ru_condition r = rr_condition req" for r v
    using assms(1) that by (intro unknown_condition_silent) (simp add: apply_rule_update_def)
  show ?thesis using assms(2-6) six fresh
    by (auto simp: h_CreateRule_def CreateRule_def NewRule_def Let_def RuleRepo_Create_def resp_Created_def triggers_def
        intro!: silent split: option.splits)
qed

definition bad_rule_request :: create_rule_request where
  "bad_rule_request = \<lparr> rr_channel = ''c'', rr_workspace = ''w'', rr_name = ''hot'', rr_field = ''temp'', rr_condition = ''>'',
     rr_threshold = Some (Fin 30), rr_severity = ''critical'', rr_message = '''', rr_cooldown = 0, rr_secret = '''' \<rparr>"

theorem unknown_condition_accepted_witness:
  "\<exists>r. rs_status (fst (h_CreateRule (demo_alert_env 5 ''r1'') (Some bad_rule_request) demo_notes)) = 201 \<and>
     al_rules (snd (h_CreateRule (demo_alert_env 5 ''r1'') (Some bad_rule_request) demo_notes)) = [r] \<and>
     \<not> triggers (apply_rule_update 0 \<lparr> ur_name = '''', ur_threshold = None, ur_severity = '''', ur_message = '''',
        ur_enabled = Some True, ur_cooldown = None, ur_secret = None \<rparr> r) hot_event"
  using unknown_condition_accepted [of bad_rule_request "demo_alert_env 5 ''r1''" "''c''" "''w''" demo_notes 0
     "\<lparr> ur_name = '''', ur_threshold = None, ur_severity = '''', ur_message = '''',
        ur_enabled = Some True, ur_cooldown = None, ur_secret = None \<rparr>" hot_event]
  by (auto simp: bad_rule_request_def demo_alert_env_def demo_notes_def known_condition_def ConditionGT_def ConditionGTE_def
      ConditionLT_def ConditionLTE_def ConditionEQ_def ConditionNEQ_def create_rule_valid_def int32_def)

end
