(* ===== verification/Pipeline.thy ===== *)
theory Pipeline
  imports Ingest_Handler Alert_Handler "HOL-Library.Sublist"
begin

text \<open>
  The path of a reading behind the ingestion service: the normalization service
  (services/normalization: application/normalize\<open>_\<close>service.go, infrastructure/influxdb/writer.go,
  infrastructure/kafka, the consumer loop of cmd/server/main.go), the consumer of normalized readings
  and the producer of alerts in alert-notification (infrastructure/kafka), and the properties of the
  composition ingestion - normalization - InfluxDB and rule engine. The json encoding of events is
  lossless where it succeeds, so a message carries the event itself; the InfluxDB client library is an
  argument with the laws its documentation states.
\<close>

section \<open>Points of InfluxDB\<close>

text \<open>The operations of the client library on points, and what its documentation says of them: a tag or a
  field that is added is there afterwards, with its value, and the others are as before.\<close>

record 'p point_api =
  pa_new :: "string \<Rightarrow> 'p"
  pa_tag :: "string \<Rightarrow> string \<Rightarrow> 'p \<Rightarrow> 'p"
  pa_field :: "string \<Rightarrow> f64 \<Rightarrow> 'p \<Rightarrow> 'p"
  pa_time :: "instant \<Rightarrow> 'p \<Rightarrow> 'p"

definition point_laws :: "'p point_api \<Rightarrow> ('p \<Rightarrow> string \<rightharpoonup> string) \<Rightarrow> ('p \<Rightarrow> string \<rightharpoonup> f64) \<Rightarrow> bool" where
  "point_laws api tags_of fields_of \<longleftrightarrow>
    (\<forall>k v p. tags_of (pa_tag api k v p) = (tags_of p)(k \<mapsto> v) \<and> fields_of (pa_tag api k v p) = fields_of p) \<and>
    (\<forall>k v p. fields_of (pa_field api k v p) = (fields_of p)(k \<mapsto> v) \<and> tags_of (pa_field api k v p) = tags_of p) \<and>
    (\<forall>t p. tags_of (pa_time api t p) = tags_of p \<and> fields_of (pa_time api t p) = fields_of p) \<and>
    (\<forall>m. fields_of (pa_new api m) = Map.empty)"

definition buildPoint :: "'p point_api \<Rightarrow> reading \<Rightarrow> 'p" where
  "buildPoint api r =
    fold (\<lambda>(k, v). pa_field api k v) (r_fields r)
      (fold (\<lambda>(k, v). pa_tag api k v) (r_tags r)
        (pa_time api (r_timestamp r)
          (pa_tag api ''device_id'' (r_device r) (pa_tag api ''channel_id'' (r_channel r) (pa_new api ''telemetry'')))))"

definition Writer_Write :: "'p point_api \<Rightarrow> ('p \<Rightarrow> 's effect) \<Rightarrow> reading \<Rightarrow> 's effect" where
  "Writer_Write api WritePoint r s = WritePoint (buildPoint api r) s"

section \<open>The normalization service\<close>

record 's norm_ports =
  np_write :: "reading \<Rightarrow> 's effect"
  np_publish :: "reading_event \<Rightarrow> 's effect"

text \<open>A publisher failure is only logged.\<close>

definition Process :: "'s norm_ports \<Rightarrow> reading_event \<Rightarrow> 's effect" where
  "Process ports evt s =
    (if length (r_fields (ev_reading evt)) = 0 then (Some ErrEmptyFields, s) else
     case np_write ports (ev_reading evt) s of
       (Some e, s') \<Rightarrow> (Some e, s')
     | (None, s') \<Rightarrow> (None, snd (np_publish ports evt s')))"

definition NormalizedProducer_PublishReading :: "(string \<times> reading_event \<Rightarrow> 's effect) \<Rightarrow> reading_event \<Rightarrow> 's effect" where
  "NormalizedProducer_PublishReading WriteMessage evt s =
    (if \<not> json_event_ok evt then (Some ErrMarshal, s)
     else WriteMessage (r_channel (ev_reading evt), evt) s)"

text \<open>The loop of main: a message that cannot be read or decoded is None; a failed event is logged and the
  loop goes on to the next one.\<close>

fun normalize_loop :: "'s norm_ports \<Rightarrow> reading_event option list \<Rightarrow> 's \<Rightarrow> 's" where
  "normalize_loop ports [] s = s"
| "normalize_loop ports (None # ms) s = normalize_loop ports ms s"
| "normalize_loop ports (Some evt # ms) s = normalize_loop ports ms (snd (Process ports evt s))"

text \<open>The two sinks: the bucket and the normalized topic; \<open>sk_down\<close> tells which of the next writes to
  InfluxDB fail.\<close>

record 'p sinks =
  sk_points :: "'p list"
  sk_topic :: "reading_event list"
  sk_down :: "bool list"

definition influx_write :: "'p \<Rightarrow> 'p sinks effect" where
  "influx_write p s = (case sk_down s of
      True # r \<Rightarrow> (Some ErrInfra, s\<lparr> sk_down := r \<rparr>)
    | _ \<Rightarrow> (None, s\<lparr> sk_down := tl (sk_down s), sk_points := sk_points s @ [p] \<rparr>))"

definition sink_ports :: "'p point_api \<Rightarrow> 'p sinks norm_ports" where
  "sink_ports api = \<lparr> np_write = Writer_Write api influx_write,
     np_publish = NormalizedProducer_PublishReading (\<lambda>(k, evt) s. (None, s\<lparr> sk_topic := sk_topic s @ [evt] \<rparr>)) \<rparr>"

section \<open>Telemetry to alerts\<close>

definition telemetry_of :: "reading_event \<Rightarrow> telemetry_event" where
  "telemetry_of evt = (let r = ev_reading evt in
    \<lparr> te_channel = r_channel r, te_device = r_device r, te_fields = map_of (r_fields r), te_timestamp = r_timestamp r \<rparr>)"

text \<open>The json encoder rejects values that are not finite and times out of range; PublishAlert returns such
  an error and the engine only logs it.\<close>

definition PublishAlert :: "(string \<times> alert_event \<Rightarrow> 's \<Rightarrow> alert_err option \<times> 's) \<Rightarrow> alert_event \<Rightarrow> 's \<Rightarrow> alert_err option \<times> 's" where
  "PublishAlert WriteMessage evt s =
    (if \<not> finite_f64 (ae_actual evt) \<or> \<not> finite_f64 (ae_threshold evt) \<or> \<not> json_time_ok (ae_triggered evt)
     then (Some AlertMarshalErr, s) else WriteMessage (ae_channel evt, evt) s)"

text \<open>The consumer of normalized readings: \<open>ok i\<close> tells whether the commit of message \<open>i\<close> succeeds. Its state
  is the committed offset, the engine and the alerts that were handed to the publisher.\<close>

fun telemetry_consume :: "(nat \<Rightarrow> bool) \<Rightarrow> (nat \<Rightarrow> nat \<Rightarrow> instant) \<Rightarrow> (nat \<Rightarrow> nat \<Rightarrow> uuid) \<Rightarrow> nat \<Rightarrow> reading_event option list
    \<Rightarrow> nat \<times> engine \<times> alert_event list \<Rightarrow> nat \<times> engine \<times> alert_event list" where
  "telemetry_consume ok clock fresh i [] st = st"
| "telemetry_consume ok clock fresh i (m # ms) (c, e, alerts) =
    (let c' = (if ok i then Suc i else c) in
     case m of
       None \<Rightarrow> telemetry_consume ok clock fresh (Suc i) ms (c', e, alerts)
     | Some evt \<Rightarrow> (case engine_Evaluate (clock i) (fresh i) (telemetry_of evt) e of
         (new, e') \<Rightarrow> telemetry_consume ok clock fresh (Suc i) ms (c', e', alerts @ new)))"

section \<open>What a point is stored under\<close>

lemma fold_tags:
  assumes "point_laws api tags_of fields_of"
  shows "tags_of (fold (\<lambda>(k, v). pa_tag api k v) ts p) = fold (\<lambda>(k, v) m. m(k \<mapsto> v)) ts (tags_of p)"
    "fields_of (fold (\<lambda>(k, v). pa_tag api k v) ts p) = fields_of p"
  using assms by (induction ts arbitrary: p) (auto simp: point_laws_def)

lemma fold_fields:
  assumes "point_laws api tags_of fields_of"
  shows "fields_of (fold (\<lambda>(k, v). pa_field api k v) fs p) = fold (\<lambda>(k, v) m. m(k \<mapsto> v)) fs (fields_of p)"
    "tags_of (fold (\<lambda>(k, v). pa_field api k v) fs p) = tags_of p"
  using assms by (induction fs arbitrary: p) (auto simp: point_laws_def)

lemma fold_upd_map_of:
  "distinct (map fst xs) \<Longrightarrow> fold (\<lambda>(k, v) m. m(k \<mapsto> v)) xs m = m ++ map_of xs"
proof (induction xs arbitrary: m)
  case (Cons x xs)
  obtain k v where x: "x = (k, v)" by fastforce
  with Cons.prems have "k \<notin> dom (map_of xs)" by (auto simp: dom_map_of_conv_image_fst)
  with Cons show ?case by (auto simp: x map_add_def fun_eq_iff split: option.splits)
qed simp

text \<open>Tags and fields of the stored point: the reading's own channel and device, overridden by its tags.\<close>

lemma buildPoint_tags:
  assumes "point_laws api tags_of fields_of" "distinct (map fst (r_tags r))"
  shows "tags_of (buildPoint api r) =
    (tags_of (pa_new api ''telemetry''))(''channel_id'' \<mapsto> r_channel r, ''device_id'' \<mapsto> r_device r) ++ map_of (r_tags r)"
  using assms by (simp add: buildPoint_def fold_tags [OF assms(1)] fold_fields [OF assms(1)] fold_upd_map_of)
    (simp add: point_laws_def)

lemma buildPoint_fields:
  assumes "point_laws api tags_of fields_of" "distinct (map fst (r_fields r))"
  shows "fields_of (buildPoint api r) = map_of (r_fields r)"
  using assms by (simp add: buildPoint_def fold_tags [OF assms(1)] fold_fields [OF assms(1)] fold_upd_map_of)
    (simp add: point_laws_def)

section \<open>What normalization stores\<close>

definition has_fields :: "reading_event \<Rightarrow> bool" where
  "has_fields evt \<longleftrightarrow> r_fields (ev_reading evt) \<noteq> []"

definition good_events :: "reading_event option list \<Rightarrow> reading_event list" where
  "good_events ms = filter has_fields (List.map_filter id ms)"

lemma good_events_simps [simp]:
  "good_events [] = []" "good_events (None # ms) = good_events ms"
  "good_events (Some evt # ms) = (if has_fields evt then evt # good_events ms else good_events ms)"
  "good_events (map Some evs) = filter has_fields evs"
  by (simp_all add: good_events_def List.map_filter_simps) (induction evs, simp_all add: List.map_filter_simps)

lemma Process_sinks:
  "snd (Process (sink_ports api) evt s) =
    (if \<not> has_fields evt then s
     else if sk_down s \<noteq> [] \<and> hd (sk_down s) then s\<lparr> sk_down := tl (sk_down s) \<rparr>
     else s\<lparr> sk_down := tl (sk_down s), sk_points := sk_points s @ [buildPoint api (ev_reading evt)],
             sk_topic := sk_topic s @ (if json_event_ok evt then [evt] else []) \<rparr>)"
  by (auto simp: Process_def has_fields_def sink_ports_def Writer_Write_def influx_write_def
      NormalizedProducer_PublishReading_def split: list.split bool.split)

text \<open>Normalization stores and forwards the same readings: of the decodable events that have fields, in
  their order, those whose write to InfluxDB succeeds are kept; each kept event is one point in the
  bucket, and those of them that json can encode, no others, are on the normalized topic. No event is
  stored twice or reordered, every loss is a failed write, and without failures all are kept.\<close>

theorem normalize_loop_stores:
  "\<exists>kept. subseq kept (good_events ms) \<and>
    sk_points (normalize_loop (sink_ports api) ms s) = sk_points s @ map (\<lambda>evt. buildPoint api (ev_reading evt)) kept \<and>
    sk_topic (normalize_loop (sink_ports api) ms s) = sk_topic s @ filter json_event_ok kept \<and>
    length (good_events ms) \<le> length kept + count_list (sk_down s) True"
proof (induction ms arbitrary: s)
  case (Cons m ms)
  show ?case
  proof (cases m)
    case None
    with Cons [of s] show ?thesis by simp
  next
    case (Some evt)
    let ?s = "snd (Process (sink_ports api) evt s)"
    obtain kept where kept: "subseq kept (good_events ms)"
      "sk_points (normalize_loop (sink_ports api) ms ?s) = sk_points ?s @ map (\<lambda>evt. buildPoint api (ev_reading evt)) kept"
      "sk_topic (normalize_loop (sink_ports api) ms ?s) = sk_topic ?s @ filter json_event_ok kept"
      "length (good_events ms) \<le> length kept + count_list (sk_down ?s) True"
      using Cons [of ?s] by blast
    have drop: "count_list (tl (sk_down s)) True \<le> count_list (sk_down s) True" by (cases "sk_down s") auto
    consider "\<not> has_fields evt" | "has_fields evt" "sk_down s \<noteq> []" "hd (sk_down s)"
      | "has_fields evt" "\<not> (sk_down s \<noteq> [] \<and> hd (sk_down s))" by blast
    then show ?thesis
    proof cases
      case 1
      with kept Some show ?thesis by (intro exI [of _ kept]) (simp add: Process_sinks)
    next
      case 2
      then have "count_list (sk_down s) True = Suc (count_list (tl (sk_down s)) True)" by (cases "sk_down s") auto
      with 2 kept Some show ?thesis by (intro exI [of _ kept]) (simp add: Process_sinks list_emb_Cons)
    next
      case 3
      with kept Some drop show ?thesis by (intro exI [of _ "evt # kept"]) (auto simp: Process_sinks)
    qed
  qed
qed simp

section \<open>From ingestion to the bucket and the rule engine\<close>

lemma buildMessages_encodable:
  "buildMessages fresh now ctx i rs replay = Ok msgs \<Longrightarrow> list_all (\<lambda>m. json_event_ok (km_value m)) msgs"
  by (induction fresh now ctx i rs replay arbitrary: msgs rule: buildMessages.induct)
    (auto simp: Let_def go_simps split: if_splits)

lemma publish_with_messages:
  assumes "publish_with fresh now ctx topic_write replay rs w = (None, w')"
  shows "\<exists>msgs. w_topic w' = w_topic w @ msgs \<and> map (\<lambda>m. ev_reading (km_value m)) msgs = rs \<and>
    list_all (\<lambda>m. json_event_ok (km_value m)) msgs"
  using assms buildMessages_readings buildMessages_encodable
  by (fastforce simp: publish_with_def topic_write_def split: outcome.splits list.splits bool.splits if_splits)

lemma ingest_readings_fields:
  assumes "ingest_readings now maxAge inp = Ok rs" "r \<in> set rs"
  shows "r_channel r = in_channel inp \<and> r_device r = in_device inp \<and> r_tags r = in_tags inp \<and> r_fields r \<noteq> []"
  using assms group_fields_wf by (fastforce simp: ingest_readings_Ok groupByTimestamp_Ok NewReading_def)

lemma batch_readings_fields:
  "batch_readings now maxAge inps = Ok rs \<Longrightarrow> r \<in> set rs \<Longrightarrow> r_fields r \<noteq> []"
  by (induction inps arbitrary: rs) (auto simp: go_simps dest: ingest_readings_fields)


lemma service_result_201: "rs_status (service_result res success) = 201 \<Longrightarrow> res = Ok ()"
proof (cases res)
  case (Fail e)
  moreover have "rs_status (errorToHTTPResponse e :: ingest_response envelope) \<noteq> 201" by (cases e) (simp_all add: errorToHTTPResponse_def http_simps)
  ultimately show "rs_status (service_result res success) = 201 \<Longrightarrow> res = Ok ()" by (simp add: service_result_def)
qed (simp_all add: service_result_def recovered_def)

lemma group_fields_nonempty:
  "group_fields now maxAge fieldTS defaultTS flds gs = Ok gs' \<Longrightarrow> flds \<noteq> [] \<or> gs \<noteq> [] \<Longrightarrow> gs' \<noteq> []"
proof (induction flds arbitrary: gs)
  case (Cons f flds)
  obtain k v where f: "f = (k, v)" by fastforce
  have "add_to_group t k v gs \<noteq> []" for t by (cases gs) (auto split: prod.splits if_splits)
  with Cons.IH [OF group_fields_step] Cons.prems(1) f show ?case by blast
qed simp

text \<open>C37. The tags of a reading can move it to another channel: the ingestion service pins a reading's channel to the
  one of the API key, but its free tags are added to the point after the tag \<open>channel_id\<close> and replace
  it. When a device sends an accepted json reading with the tag \<open>channel_id\<close> of a victim, all that it
  publishes is stored under the victim's channel, which the queries filter by.\<close>

theorem tags_move_readings:
  assumes "handler_Ingest now json msgp h (Some schema) ch ctJSON (Some req) limited w = (resp, w')" "rs_status resp = 201"
    "svc_Ingest (h_svc h) = Ingest now maxAge (ReadingProducer fresh now ctx topic_write)"
    "distinct (map fst (iq_tags req))" "map_of (iq_tags req) ''channel_id'' = Some victim"
    "point_laws api tags_of fields_of"
  shows "\<exists>rs. topic_readings w' = topic_readings w @ rs \<and> rs \<noteq> [] \<and>
    (\<forall>r\<in>set rs. r_channel r = ch \<and> tags_of (buildPoint api r) ''channel_id'' = Some victim)"
proof -
  let ?inp = "request_input ch (ds_device schema) req"
  have "iq_fields req \<noteq> None \<and> (\<exists>res. svc_Ingest (h_svc h) ?inp w = (res, w') \<and> resp = service_result res (created 1 ch))"
    using assms(1,2) by (auto simp: handler_Ingest_def ingestJSON_def resp_ValidationError_def Let_def
        split: option.splits prod.splits if_splits)
  then have run: "svc_Ingest (h_svc h) ?inp w = (Ok (), w')" using assms(2) service_result_201 by blast
  then obtain rs where rs: "ingest_readings now maxAge ?inp = Ok rs" "topic_readings w' = topic_readings w @ rs"
    using kafka_redis.Ingest_publishes assms(3) by metis
  have "r_channel r = ch \<and> tags_of (buildPoint api r) ''channel_id'' = Some victim" if "r \<in> set rs" for r
    using ingest_readings_fields [OF rs(1) that] assms(4,5) buildPoint_tags [OF assms(6), of r] by (simp add: request_input_def)
  moreover have "rs \<noteq> []"
    using rs(1) group_fields_nonempty [of now maxAge "in_field_ts ?inp" _ "in_fields ?inp" "[]"]
    by (auto simp: ingest_readings_Ok groupByTimestamp_Ok input_valid_def)
  ultimately show ?thesis using rs(2) by blast
qed

text \<open>An instance of the client library for the witnesses.\<close>

definition demo_points :: "((string \<rightharpoonup> string) \<times> (string \<rightharpoonup> f64)) point_api" where
  "demo_points = \<lparr> pa_new = (\<lambda>_. (Map.empty, Map.empty)), pa_tag = (\<lambda>k v (t, f). (t(k \<mapsto> v), f)),
     pa_field = (\<lambda>k v (t, f). (t, f(k \<mapsto> v))), pa_time = (\<lambda>_ p. p) \<rparr>"

lemma demo_points_laws: "point_laws demo_points fst snd"
  by (simp add: point_laws_def demo_points_def split: prod.split)

definition demo_tags_request :: ingest_request where
  "demo_tags_request = \<lparr> iq_fields = Some [(''a'', Fin 1)], iq_field_ts = Map.empty,
     iq_tags = [(''channel_id'', ''victim'')], iq_timestamp = None \<rparr>"

theorem tags_move_readings_witness:
  "\<exists>w'. snd (handler_Ingest 5 (\<lambda>_. None) (\<lambda>_. None) (NewHandler (demo_service 5) None) (Some demo_schema)
       ''550e8400-e29b-41d4-a716-446655440000'' ctJSON (Some demo_tags_request) (\<lambda>_. None) (demo_world [])) = w' \<and>
     (\<exists>rs. topic_readings w' = topic_readings (demo_world []) @ rs \<and> rs \<noteq> [] \<and>
       (\<forall>r\<in>set rs. r_channel r = ''550e8400-e29b-41d4-a716-446655440000'' \<and>
          fst (buildPoint demo_points r) ''channel_id'' = Some ''victim''))"
proof -
  let ?run = "handler_Ingest 5 (\<lambda>_. None) (\<lambda>_. None) (NewHandler (demo_service 5) None) (Some demo_schema)
       ''550e8400-e29b-41d4-a716-446655440000'' ctJSON (Some demo_tags_request) (\<lambda>_. None) (demo_world [])"
  have run: "?run = (fst ?run, snd ?run)" by simp
  have valid: "ValidateChannelID ''550e8400-e29b-41d4-a716-446655440000'' = Ok ()" by code_simp
  have ok: "rs_status (fst ?run) = 201"
    by (simp add: handler_Ingest_def ingestJSON_def demo_tags_request_def NewHandler_def demo_service_def Ingest_def ingest_readings_def
        request_input_def valid nil_map_def groupByTimestamp_def ReadingProducer_def publish_with_def Let_def topic_write_def
        demo_world_def NewReading_def json_event_ok_def json_time_ok_def json_fields_ok_def second_def as_result_def
        service_result_def created_def resp_Created_def)
  show ?thesis
    using tags_move_readings [where maxAge = 0 and fresh = "\<lambda>_. ''u''" and ctx = None and victim = "''victim''",
        OF run ok _ _ _ demo_points_laws]
    by (auto simp: NewHandler_def demo_service_def Let_def demo_tags_request_def)
qed

definition empty_sinks :: "'p sinks" where
  "empty_sinks = \<lparr> sk_points = [], sk_topic = [], sk_down = [] \<rparr>"


theorem normalize_loop_stores_witness:
  "sk_points (normalize_loop (sink_ports demo_points) [None, Some \<lparr> ev_id = '''', ev_type = '''', ev_published_at = 0,
      ev_reading = NewReading ''c'' ''d'' [] [] 0 \<rparr>] empty_sinks) = []"
  using normalize_loop_stores [of "[None, Some \<lparr> ev_id = '''', ev_type = '''', ev_published_at = 0,
      ev_reading = NewReading ''c'' ''d'' [] [] 0 \<rparr>]" demo_points empty_sinks]
  by (auto simp: has_fields_def NewReading_def empty_sinks_def)

end
