(* ===== verification/Realtime.thy ===== *)
theory Realtime
  imports Pipeline
begin

text \<open>
  The live side of query-realtime: subscriptions (domain/realtime/subscription.go), the hub
  (application/hub.go), the consumer that feeds it (infrastructure/kafka/consumer.go) and the websocket and
  SSE connections (transport/http/realtime\<open>_\<close>handler.go). The goroutines of the consumer and of the
  connections interleave: a state machine has one step per critical section, per write to a subscriber,
  per forwarded message and per frame.
\<close>

section \<open>Subscriptions\<close>

record push_message =
  pm_channel :: string
  pm_device :: string
  pm_fields :: field_map
  pm_timestamp :: instant
  pm_type :: string

record subscription =
  sb_channel :: string
  sb_user :: string
  sb_buf :: "push_message list"
  sb_created :: instant
  sb_closed :: bool

text \<open>The buffered Go channel holds 256 messages; the json text of a message is the message itself.\<close>

definition send_cap :: nat where "send_cap = 256"
definition conn_cap :: nat where "conn_cap = 512"

definition NewSubscription :: "instant \<Rightarrow> string \<Rightarrow> string \<Rightarrow> subscription" where
  "NewSubscription now channelID userID =
    \<lparr> sb_channel = channelID, sb_user = userID, sb_buf = [], sb_created = now, sb_closed = False \<rparr>"

definition sub_Write :: "push_message \<Rightarrow> subscription \<Rightarrow> subscription" where
  "sub_Write msg sb =
    (if sb_closed sb then sb
     else if length (sb_buf sb) < send_cap then sb\<lparr> sb_buf := sb_buf sb @ [msg] \<rparr> else sb)"

definition sub_Close :: "subscription \<Rightarrow> subscription" where
  "sub_Close sb = (if sb_closed sb then sb else sb\<lparr> sb_closed := True \<rparr>)"

section \<open>The hub\<close>

text \<open>The map from channels to the sets of subscriptions, by their ids; the entry of a channel goes with its
  last subscription.\<close>

type_synonym hub = "(string \<times> uuid list) list"

definition NewHub :: hub where "NewHub = []"

definition hub_ids :: "hub \<Rightarrow> string \<Rightarrow> uuid list" where
  "hub_ids h ch = (case map_of h ch of None \<Rightarrow> [] | Some l \<Rightarrow> l)"

definition hub_Subscribe :: "string \<Rightarrow> uuid \<Rightarrow> hub \<Rightarrow> hub" where
  "hub_Subscribe ch i h = AList.update ch (if i \<in> set (hub_ids h ch) then hub_ids h ch else hub_ids h ch @ [i]) h"

definition hub_Unsubscribe :: "string \<Rightarrow> uuid \<Rightarrow> hub \<Rightarrow> hub" where
  "hub_Unsubscribe ch i h =
    (case map_of h ch of
       None \<Rightarrow> h
     | Some l \<Rightarrow> (let l' = removeAll i l in if length l' = 0 then AList.delete ch h else AList.update ch l' h))"

definition SubscriberCount :: "hub \<Rightarrow> string \<Rightarrow> nat" where
  "SubscriberCount h ch = length (hub_ids h ch)"

definition TotalSubscriptions :: "hub \<Rightarrow> nat" where
  "TotalSubscriptions h = sum_list (map (\<lambda>(ch, l). length l) h)"

section \<open>Connections\<close>

record conn =
  cn_user :: string
  cn_subs :: "(string \<times> uuid) list"
  cn_fwd :: "uuid list"
  cn_out :: "push_message list"
  cn_sent :: "push_message list"
  cn_asked :: "string list"
  cn_closing :: bool

definition new_conn :: "string \<Rightarrow> conn" where
  "new_conn user = \<lparr> cn_user = user, cn_subs = [], cn_fwd = [], cn_out = [], cn_sent = [], cn_asked = [], cn_closing = False \<rparr>"

text \<open>The subscriptions by id, the hub, the open connections, and the writes of the broadcast under way.
  \<open>cn_asked\<close> records the channels a connection ever asked for.\<close>

record realtime =
  rt_subs :: "uuid \<rightharpoonup> subscription"
  rt_hub :: hub
  rt_conns :: "nat \<rightharpoonup> conn"
  rt_pending :: "(push_message \<times> uuid) list"

definition NewRealtime :: realtime where
  "NewRealtime = \<lparr> rt_subs = Map.empty, rt_hub = NewHub, rt_conns = Map.empty, rt_pending = [] \<rparr>"

definition ws_subscribe :: "instant \<Rightarrow> uuid \<Rightarrow> nat \<Rightarrow> string \<Rightarrow> realtime \<Rightarrow> realtime" where
  "ws_subscribe now fresh k ch s =
    (case rt_conns s k of
       None \<Rightarrow> s
     | Some c \<Rightarrow>
         if map_of (cn_subs c) ch \<noteq> None then s
         else s\<lparr> rt_subs := (rt_subs s)(fresh \<mapsto> NewSubscription now ch (cn_user c)), rt_hub := hub_Subscribe ch fresh (rt_hub s),
            rt_conns := (rt_conns s)(k \<mapsto> c\<lparr> cn_subs := cn_subs c @ [(ch, fresh)], cn_fwd := cn_fwd c @ [fresh], cn_asked := cn_asked c @ [ch] \<rparr>) \<rparr>)"

definition ws_unsubscribe :: "nat \<Rightarrow> string \<Rightarrow> realtime \<Rightarrow> realtime" where
  "ws_unsubscribe k ch s =
    (case rt_conns s k of
       None \<Rightarrow> s
     | Some c \<Rightarrow> (case map_of (cn_subs c) ch of
         None \<Rightarrow> s
       | Some i \<Rightarrow> s\<lparr> rt_hub := hub_Unsubscribe ch i (rt_hub s), rt_subs := (rt_subs s)(i := map_option sub_Close (rt_subs s i)),
            rt_conns := (rt_conns s)(k \<mapsto> c\<lparr> cn_subs := AList.delete ch (cn_subs c) \<rparr>) \<rparr>))"

text \<open>A control message: None when it does not decode.\<close>

definition ws_command :: "instant \<Rightarrow> uuid \<Rightarrow> nat \<Rightarrow> (string \<times> string) option \<Rightarrow> realtime \<Rightarrow> realtime" where
  "ws_command now fresh k cmd s =
    (case cmd of
       None \<Rightarrow> s
     | Some (action, ch) \<Rightarrow>
         if ch = '''' then s
         else if action = ''subscribe'' then ws_subscribe now fresh k ch s
         else if action = ''unsubscribe'' then ws_unsubscribe k ch s
         else s)"

text \<open>Accepting a websocket, with the subscription of the query parameter when it is given.\<close>

definition ws_open :: "instant \<Rightarrow> uuid \<Rightarrow> nat \<Rightarrow> string \<Rightarrow> string \<Rightarrow> realtime \<Rightarrow> realtime" where
  "ws_open now fresh k user ch s =
    (let s1 = s\<lparr> rt_conns := (rt_conns s)(k \<mapsto> new_conn user) \<rparr> in
     if ch = '''' then s1 else ws_subscribe now fresh k ch s1)"

text \<open>The end of the read pump: unsubscribe and close all.\<close>

definition ws_cleanup :: "nat \<Rightarrow> realtime \<Rightarrow> realtime" where
  "ws_cleanup k s =
    (case rt_conns s k of
       None \<Rightarrow> s
     | Some c \<Rightarrow> (let s1 = fold (ws_unsubscribe k) (map fst (cn_subs c)) s in
         s1\<lparr> rt_conns := (rt_conns s1)(k := map_option (\<lambda>c1. c1\<lparr> cn_closing := True \<rparr>) (rt_conns s1 k)) \<rparr>))"

text \<open>A forwarder takes the next message of a subscription of its connection.\<close>

definition ws_forward :: "nat \<Rightarrow> uuid \<Rightarrow> realtime \<Rightarrow> realtime" where
  "ws_forward k i s =
    (case (rt_conns s k, rt_subs s i) of
       (Some c, Some sb) \<Rightarrow>
         (case sb_buf sb of
            [] \<Rightarrow> s
          | m # rest \<Rightarrow> s\<lparr> rt_subs := (rt_subs s)(i \<mapsto> sb\<lparr> sb_buf := rest \<rparr>),
              rt_conns := (rt_conns s)(k \<mapsto> (if length (cn_out c) < conn_cap then c\<lparr> cn_out := cn_out c @ [m] \<rparr> else c)) \<rparr>)
     | _ \<Rightarrow> s)"

text \<open>The write pump sends a frame; an SSE stream writes an event straight from its subscription.\<close>

definition ws_pump :: "nat \<Rightarrow> realtime \<Rightarrow> realtime" where
  "ws_pump k s =
    (case rt_conns s k of
       None \<Rightarrow> s
     | Some c \<Rightarrow> (case cn_out c of [] \<Rightarrow> s
         | m # rest \<Rightarrow> s\<lparr> rt_conns := (rt_conns s)(k \<mapsto> c\<lparr> cn_out := rest, cn_sent := cn_sent c @ [m] \<rparr>) \<rparr>))"

definition sse_event :: "nat \<Rightarrow> uuid \<Rightarrow> realtime \<Rightarrow> realtime" where
  "sse_event k i s =
    (case (rt_conns s k, rt_subs s i) of
       (Some c, Some sb) \<Rightarrow>
         (case sb_buf sb of
            [] \<Rightarrow> s
          | m # rest \<Rightarrow> s\<lparr> rt_subs := (rt_subs s)(i \<mapsto> sb\<lparr> sb_buf := rest \<rparr>),
              rt_conns := (rt_conns s)(k \<mapsto> c\<lparr> cn_sent := cn_sent c @ [m] \<rparr>) \<rparr>)
     | _ \<Rightarrow> s)"

section \<open>Broadcasts\<close>

definition push_of :: "reading_event \<Rightarrow> push_message" where
  "push_of evt = (let r = ev_reading evt in
    \<lparr> pm_channel = r_channel r, pm_device = r_device r, pm_fields = r_fields r, pm_timestamp = r_timestamp r, pm_type = ''reading'' \<rparr>)"

text \<open>Under the read lock the targets are copied; the writes to them follow one by one, while connections come
  and go.\<close>

definition Broadcast_targets :: "push_message \<Rightarrow> realtime \<Rightarrow> uuid list" where
  "Broadcast_targets msg s =
    (if json_fields_ok (pm_fields msg) \<and> json_time_ok (pm_timestamp msg) then hub_ids (rt_hub s) (pm_channel msg) else [])"

definition Broadcast_write :: "push_message \<Rightarrow> uuid \<Rightarrow> realtime \<Rightarrow> realtime" where
  "Broadcast_write msg i s = s\<lparr> rt_subs := (rt_subs s)(i := map_option (sub_Write msg) (rt_subs s i)) \<rparr>"

text \<open>A broadcast that nothing interrupts.\<close>

definition Broadcast :: "push_message \<Rightarrow> realtime \<Rightarrow> realtime" where
  "Broadcast msg s = fold (Broadcast_write msg) (Broadcast_targets msg s) s"

text \<open>The consumer of normalized readings; \<open>ok i\<close> tells whether the commit of message \<open>i\<close> succeeds.\<close>

fun reading_consume :: "(nat \<Rightarrow> bool) \<Rightarrow> nat \<Rightarrow> reading_event option list \<Rightarrow> nat \<times> realtime \<Rightarrow> nat \<times> realtime" where
  "reading_consume ok i [] st = st"
| "reading_consume ok i (m # ms) (c, s) =
    reading_consume ok (Suc i) ms (if ok i then Suc i else c, (case m of None \<Rightarrow> s | Some evt \<Rightarrow> Broadcast (push_of evt) s))"

section \<open>Steps\<close>

inductive rt_step :: "realtime \<Rightarrow> realtime \<Rightarrow> bool" where
  st_open: "rt_conns s k = None \<Longrightarrow> rt_subs s fresh = None \<Longrightarrow> rt_step s (ws_open now fresh k user ch s)"
| st_command: "rt_conns s k = Some c \<Longrightarrow> \<not> cn_closing c \<Longrightarrow> rt_subs s fresh = None \<Longrightarrow> rt_step s (ws_command now fresh k cmd s)"
| st_forward: "rt_conns s k = Some c \<Longrightarrow> i \<in> set (cn_fwd c) \<Longrightarrow> rt_step s (ws_forward k i s)"
| st_pump: "rt_step s (ws_pump k s)"
| st_event: "rt_conns s k = Some c \<Longrightarrow> i \<in> set (cn_fwd c) \<Longrightarrow> rt_step s (sse_event k i s)"
| st_cleanup: "rt_conns s k = Some c \<Longrightarrow> \<not> cn_closing c \<Longrightarrow> rt_step s (ws_cleanup k s)"
| st_gone: "rt_conns s k = Some c \<Longrightarrow> cn_closing c \<Longrightarrow> rt_step s (s\<lparr> rt_conns := (rt_conns s)(k := None) \<rparr>)"
| st_snapshot: "rt_pending s = [] \<Longrightarrow> set ids = set (Broadcast_targets msg s) \<Longrightarrow> distinct ids \<Longrightarrow>
    rt_step s (s\<lparr> rt_pending := map (Pair msg) ids \<rparr>)"
| st_write: "rt_pending s = (msg, i) # rest \<Longrightarrow> rt_step s ((Broadcast_write msg i s)\<lparr> rt_pending := rest \<rparr>)"

inductive rt_reachable :: "realtime \<Rightarrow> bool" where
  rt_init: "rt_reachable NewRealtime"
| rt_next: "rt_reachable s \<Longrightarrow> rt_step s s' \<Longrightarrow> rt_reachable s'"

section \<open>Facts of the hub\<close>

definition hub_wf :: "hub \<Rightarrow> bool" where
  "hub_wf h \<longleftrightarrow> distinct (map fst h) \<and> (\<forall>(ch, l)\<in>set h. l \<noteq> [] \<and> distinct l)"

lemma hub_ids_update [simp]: "hub_ids (AList.update ch l h) ch' = (if ch' = ch then l else hub_ids h ch')"
  by (simp add: hub_ids_def update_conv')

lemma hub_ids_delete: "hub_ids (AList.delete ch h) ch' = (if ch' = ch then [] else hub_ids h ch')"
  by (simp add: hub_ids_def delete_conv')

lemma hub_ids_Subscribe:
  "set (hub_ids (hub_Subscribe ch i h) ch') = (if ch' = ch then insert i (set (hub_ids h ch)) else set (hub_ids h ch'))"
  by (auto simp: hub_Subscribe_def)

lemma hub_ids_Unsubscribe:
  "set (hub_ids (hub_Unsubscribe ch i h) ch') = (if ch' = ch then set (hub_ids h ch) - {i} else set (hub_ids h ch'))"
proof (cases "map_of h ch")
  case (Some l)
  then have "hub_ids h ch = l" by (simp add: hub_ids_def)
  have "removeAll i l = [] \<Longrightarrow> set l - {i} = {}" by (metis set_removeAll set_empty)
  with Some \<open>hub_ids h ch = l\<close> show ?thesis by (auto simp: hub_Unsubscribe_def Let_def hub_ids_delete)
qed (simp add: hub_Unsubscribe_def hub_ids_def)

lemma hub_wf_ids: "hub_wf h \<Longrightarrow> distinct (hub_ids h ch)"
  by (auto simp: hub_wf_def hub_ids_def dest!: map_of_SomeD split: option.split)

lemma hub_wf_update:
  assumes "hub_wf h" "l \<noteq> []" "distinct l"
  shows "hub_wf (AList.update ch l h)"
proof -
  have "set (AList.update ch l h) \<subseteq> insert (ch, l) (set h)" by (induction h) auto
  with assms show ?thesis by (fastforce simp: hub_wf_def distinct_update)
qed

lemma hub_wf_Subscribe: "hub_wf h \<Longrightarrow> hub_wf (hub_Subscribe ch i h)"
  unfolding hub_Subscribe_def using hub_wf_ids [of h ch] by (intro hub_wf_update) auto

lemma hub_wf_Unsubscribe:
  assumes "hub_wf h"
  shows "hub_wf (hub_Unsubscribe ch i h)"
proof (cases "map_of h ch")
  case (Some l)
  then have "(ch, l) \<in> set h" by (rule map_of_SomeD)
  with assms have "distinct l" by (auto simp: hub_wf_def)
  moreover have "hub_wf (AList.delete ch h)"
  proof -
    have "set (AList.delete ch h) \<subseteq> set h" by (auto simp: AList.delete_eq)
    with assms show ?thesis by (auto simp: hub_wf_def distinct_delete)
  qed
  ultimately show ?thesis using Some assms by (auto simp: hub_Unsubscribe_def Let_def distinct_removeAll intro!: hub_wf_update)
qed (use assms in \<open>simp add: hub_Unsubscribe_def\<close>)

lemma hub_empty: "hub_wf h \<Longrightarrow> (\<And>ch. hub_ids h ch = []) \<Longrightarrow> h = []"
proof (rule ccontr)
  assume h: "hub_wf h" "\<And>ch. hub_ids h ch = []" "h \<noteq> []"
  then obtain ch l where m: "(ch, l) \<in> set h" by (cases h) auto
  with h(1) have "map_of h ch = Some l" "l \<noteq> []" by (auto simp: hub_wf_def)
  with h(2) [of ch] show False by (simp add: hub_ids_def)
qed

section \<open>Who is subscribed\<close>

text \<open>The hub lists exactly the subscriptions that the open connections hold, each held once, open and of the
  channel it is listed under.\<close>

definition holds :: "realtime \<Rightarrow> nat \<Rightarrow> string \<Rightarrow> uuid \<Rightarrow> bool" where
  "holds s k ch i \<longleftrightarrow> (\<exists>c. rt_conns s k = Some c \<and> (ch, i) \<in> set (cn_subs c))"

definition live :: "realtime \<Rightarrow> string \<Rightarrow> uuid \<Rightarrow> bool" where
  "live s ch i \<longleftrightarrow> (\<exists>sb. rt_subs s i = Some sb \<and> sb_channel sb = ch \<and> \<not> sb_closed sb)"

definition hub_inv :: "realtime \<Rightarrow> bool" where
  "hub_inv s \<longleftrightarrow> hub_wf (rt_hub s) \<and>
     (\<forall>ch i. i \<in> set (hub_ids (rt_hub s) ch) \<longleftrightarrow> (\<exists>k. holds s k ch i)) \<and>
     (\<forall>k ch i k' ch'. holds s k ch i \<longrightarrow> holds s k' ch' i \<longrightarrow> k = k' \<and> ch = ch') \<and>
     (\<forall>k ch i. holds s k ch i \<longrightarrow> live s ch i) \<and>
     (\<forall>k c. rt_conns s k = Some c \<longrightarrow> distinct (map fst (cn_subs c)) \<and> (cn_closing c \<longrightarrow> cn_subs c = []))"

lemma hub_inv_same:
  assumes "hub_inv s" "rt_hub s' = rt_hub s" "\<And>k ch i. holds s' k ch i \<longleftrightarrow> holds s k ch i" "\<And>ch i. live s ch i \<Longrightarrow> live s' ch i"
    "\<And>k c. rt_conns s' k = Some c \<Longrightarrow> distinct (map fst (cn_subs c)) \<and> (cn_closing c \<longrightarrow> cn_subs c = [])"
  shows "hub_inv s'"
  using assms unfolding hub_inv_def by metis

lemma hub_inv_live: "hub_inv s \<Longrightarrow> holds s k ch i \<Longrightarrow> live s ch i"
  unfolding hub_inv_def by blast

lemma hub_inv_conn:
  "hub_inv s \<Longrightarrow> rt_conns s k = Some c \<Longrightarrow> distinct (map fst (cn_subs c)) \<and> (cn_closing c \<longrightarrow> cn_subs c = [])"
  unfolding hub_inv_def by blast

lemma ws_subscribe_inv:
  assumes "hub_inv s" "rt_subs s fresh = None" "\<forall>c. rt_conns s k = Some c \<longrightarrow> \<not> cn_closing c"
  shows "hub_inv (ws_subscribe now fresh k ch s)"
proof (cases "rt_conns s k")
  case (Some c)
  show ?thesis
  proof (cases "map_of (cn_subs c) ch")
    case None
    let ?s = "ws_subscribe now fresh k ch s"
    have not_held: "\<not> holds s k' ch' fresh" for k' ch' using hub_inv_live [OF assms(1), of k' ch' fresh] assms(2) by (auto simp: live_def)
    have held: "holds ?s k' ch' i \<longleftrightarrow> holds s k' ch' i \<or> (k' = k \<and> ch' = ch \<and> i = fresh)" for k' ch' i
      using Some None by (auto simp: holds_def ws_subscribe_def)
    have live: "live ?s ch' i \<longleftrightarrow> (if i = fresh then ch' = ch else live s ch' i)" for ch' i
      using Some None by (auto simp: live_def ws_subscribe_def NewSubscription_def)
    have hub: "rt_hub ?s = hub_Subscribe ch fresh (rt_hub s)" using Some None by (simp add: ws_subscribe_def)
    have "ch \<notin> fst ` set (cn_subs c)" using None by (simp add: map_of_eq_None_iff)
    then have "rt_conns ?s k' = Some c' \<Longrightarrow> distinct (map fst (cn_subs c')) \<and> (cn_closing c' \<longrightarrow> cn_subs c' = [])" for k' c'
      using assms Some None hub_inv_conn [OF assms(1)] by (auto simp: ws_subscribe_def split: if_splits)
    moreover have "i \<in> set (hub_ids (rt_hub ?s) ch') \<longleftrightarrow> (\<exists>k. holds ?s k ch' i)" for ch' i
      using assms(1) unfolding hub hub_ids_Subscribe held by (auto simp: hub_inv_def)
    moreover have "holds ?s k1 ch1 i \<Longrightarrow> holds ?s k2 ch2 i \<Longrightarrow> k1 = k2 \<and> ch1 = ch2" for k1 ch1 i k2 ch2
      using assms(1) not_held unfolding held hub_inv_def by metis
    moreover have "holds ?s k' ch' i \<Longrightarrow> live ?s ch' i" for k' ch' i
      using assms(1) not_held unfolding held live hub_inv_def by metis
    moreover have "hub_wf (rt_hub ?s)" using assms(1) by (simp add: hub hub_inv_def hub_wf_Subscribe)
    ultimately show ?thesis unfolding hub_inv_def by blast
  qed (use assms Some in \<open>simp add: ws_subscribe_def\<close>)
qed (use assms in \<open>simp add: ws_subscribe_def\<close>)

lemma ws_unsubscribe_inv:
  assumes "hub_inv s"
  shows "hub_inv (ws_unsubscribe k ch s)"
proof (cases "rt_conns s k")
  case (Some c)
  show ?thesis
  proof (cases "map_of (cn_subs c) ch")
    case (Some i0)
    let ?s = "ws_unsubscribe k ch s"
    note c = \<open>rt_conns s k = Some c\<close>
    have keys: "distinct (map fst (cn_subs c))" using hub_inv_conn [OF assms c] by blast
    have at: "(ch, i) \<in> set (cn_subs c) \<longleftrightarrow> i = i0" for i using keys Some by (auto dest: map_of_SomeD eq_key_imp_eq_value)
    then have holds0: "holds s k ch i0" using c by (auto simp: holds_def)
    have held: "holds ?s k' ch' i \<longleftrightarrow> holds s k' ch' i \<and> i \<noteq> i0" for k' ch' i
    proof -
      have "holds ?s k' ch' i \<longleftrightarrow> holds s k' ch' i \<and> \<not> (k' = k \<and> ch' = ch)"
        using c Some by (auto simp: holds_def ws_unsubscribe_def AList.delete_eq)
      moreover have "holds s k' ch' i0 \<longleftrightarrow> k' = k \<and> ch' = ch" using assms holds0 unfolding hub_inv_def by blast
      moreover have "holds s k ch i \<longleftrightarrow> i = i0" using c at by (simp add: holds_def)
      ultimately show ?thesis by blast
    qed
    have live: "i \<noteq> i0 \<Longrightarrow> live ?s ch' i \<longleftrightarrow> live s ch' i" for ch' i
      using c Some by (auto simp: live_def ws_unsubscribe_def)
    have hub: "rt_hub ?s = hub_Unsubscribe ch i0 (rt_hub s)" using c Some by (simp add: ws_unsubscribe_def)
    have "rt_conns ?s k' = Some c' \<Longrightarrow> distinct (map fst (cn_subs c')) \<and> (cn_closing c' \<longrightarrow> cn_subs c' = [])" for k' c'
      using hub_inv_conn [OF assms, of k'] keys hub_inv_conn [OF assms c] c Some
      by (auto simp: ws_unsubscribe_def distinct_delete split: if_splits)
    moreover have "i \<in> set (hub_ids (rt_hub ?s) ch') \<longleftrightarrow> (\<exists>k. holds ?s k ch' i)" for ch' i
    proof -
      have "i \<in> set (hub_ids (rt_hub s) ch') \<longleftrightarrow> (\<exists>k. holds s k ch' i)" "ch' \<noteq> ch \<Longrightarrow> \<not> holds s k' ch' i0" for k'
        using assms holds0 unfolding hub_inv_def by blast+
      then show ?thesis unfolding hub hub_ids_Unsubscribe held by (cases "ch' = ch") auto
    qed
    moreover have "hub_wf (rt_hub ?s)" using assms by (simp add: hub hub_inv_def hub_wf_Unsubscribe)
    moreover have "holds ?s k1 ch1 i \<Longrightarrow> holds ?s k2 ch2 i \<Longrightarrow> k1 = k2 \<and> ch1 = ch2" for k1 ch1 i k2 ch2
      using assms unfolding held hub_inv_def by metis
    moreover have "holds ?s k' ch' i \<Longrightarrow> live ?s ch' i" for k' ch' i
      using assms live unfolding held hub_inv_def by metis
    ultimately show ?thesis unfolding hub_inv_def by blast
  qed (use assms Some in \<open>simp add: ws_unsubscribe_def\<close>)
qed (use assms in \<open>simp add: ws_unsubscribe_def\<close>)

lemma cleanup_loop:
  assumes "hub_inv s" "rt_conns s k = Some c"
  shows "hub_inv (fold (ws_unsubscribe k) chs s) \<and> rt_conns (fold (ws_unsubscribe k) chs s) k =
    Some (c\<lparr> cn_subs := filter (\<lambda>(ch, i). ch \<notin> set chs) (cn_subs c) \<rparr>)"
  using assms
proof (induction chs arbitrary: s c)
  case (Cons ch chs)
  let ?c = "c\<lparr> cn_subs := AList.delete ch (cn_subs c) \<rparr>"
  have c': "rt_conns (ws_unsubscribe k ch s) k = Some ?c"
  proof (cases "map_of (cn_subs c) ch")
    case None
    then have "AList.delete ch (cn_subs c) = cn_subs c" by (simp add: map_of_eq_None_iff)
    with None Cons.prems(2) show ?thesis by (simp add: ws_unsubscribe_def)
  qed (use Cons.prems in \<open>simp add: ws_unsubscribe_def\<close>)
  have f: "filter (\<lambda>(ch', i). ch' \<notin> set chs) (AList.delete ch (cn_subs c)) = filter (\<lambda>(ch', i). ch' \<notin> set (ch # chs)) (cn_subs c)"
    by (auto simp: AList.delete_eq intro!: filter_cong)
  show ?case using Cons.IH [OF ws_unsubscribe_inv [OF Cons.prems(1)] c'] f by simp
qed simp

lemma holds_cong: "(\<And>c. rt_conns s k = Some c \<Longrightarrow> \<exists>c'. rt_conns s' k = Some c' \<and> cn_subs c' = cn_subs c) \<Longrightarrow>
    (\<And>c'. rt_conns s' k = Some c' \<Longrightarrow> \<exists>c. rt_conns s k = Some c \<and> cn_subs c = cn_subs c') \<Longrightarrow> holds s' k ch i \<longleftrightarrow> holds s k ch i"
  unfolding holds_def by metis

lemma ws_cleanup_inv:
  assumes "hub_inv s"
  shows "hub_inv (ws_cleanup k s)"
proof (cases "rt_conns s k")
  case (Some c)
  let ?s1 = "fold (ws_unsubscribe k) (map fst (cn_subs c)) s"
  have inv: "hub_inv ?s1" and c1: "rt_conns ?s1 k = Some (c\<lparr> cn_subs := filter (\<lambda>(ch, i). ch \<notin> set (map fst (cn_subs c))) (cn_subs c) \<rparr>)"
    using cleanup_loop [OF assms Some] by blast+
  have "filter (\<lambda>(ch, i). ch \<notin> set (map fst (cn_subs c))) (cn_subs c) = []" by (force simp: filter_empty_conv)
  with c1 have c1': "rt_conns ?s1 k = Some (c\<lparr> cn_subs := [] \<rparr>)" by simp
  have s: "ws_cleanup k s = ?s1\<lparr> rt_conns := (rt_conns ?s1)(k \<mapsto> c\<lparr> cn_subs := [], cn_closing := True \<rparr>) \<rparr>"
    using Some c1' by (simp add: ws_cleanup_def Let_def)
  show ?thesis unfolding s
  proof (rule hub_inv_same [OF inv])
    show "holds (?s1\<lparr> rt_conns := (rt_conns ?s1)(k \<mapsto> c\<lparr> cn_subs := [], cn_closing := True \<rparr>) \<rparr>) k' ch i \<longleftrightarrow> holds ?s1 k' ch i" for k' ch i
      using c1' by (auto simp: holds_def)
  qed (use hub_inv_conn [OF inv] in \<open>auto simp: live_def split: if_splits\<close>)
qed (use assms in \<open>simp add: ws_cleanup_def\<close>)

lemma ws_open_inv:
  assumes "hub_inv s" "rt_conns s k = None" "rt_subs s fresh = None"
  shows "hub_inv (ws_open now fresh k user ch s)"
proof -
  let ?s = "s\<lparr> rt_conns := (rt_conns s)(k \<mapsto> new_conn user) \<rparr>"
  have "hub_inv ?s"
  proof (rule hub_inv_same [OF assms(1)])
    show "holds ?s k' ch i \<longleftrightarrow> holds s k' ch i" for k' ch i using assms(2) by (auto simp: holds_def new_conn_def)
  qed (use hub_inv_conn [OF assms(1)] in \<open>auto simp: live_def new_conn_def split: if_splits\<close>)
  then show ?thesis using ws_subscribe_inv [of ?s fresh k] assms(3) by (simp add: ws_open_def Let_def new_conn_def)
qed

lemma live_mono:
  assumes "live s ch i" "\<And>sb. rt_subs s i = Some sb \<Longrightarrow> \<exists>sb'. rt_subs s' i = Some sb' \<and> sb_channel sb' = sb_channel sb \<and> sb_closed sb' = sb_closed sb"
  shows "live s' ch i"
  using assms unfolding live_def by force

lemma sub_ops [simp]:
  "sb_channel (sub_Write msg sb) = sb_channel sb" "sb_closed (sub_Write msg sb) = sb_closed sb"
  "sb_channel (sub_Close sb) = sb_channel sb" "sb_buf (sub_Close sb) = sb_buf sb"
  by (simp_all add: sub_Write_def sub_Close_def)

lemma rt_step_inv: "rt_step s s' \<Longrightarrow> hub_inv s \<Longrightarrow> hub_inv s'"
proof (induction rule: rt_step.induct)
  case (st_open s k fresh now user ch)
  then show ?case by (intro ws_open_inv)
next
  case (st_command s k c fresh now cmd)
  then show ?case by (auto simp: ws_command_def intro!: ws_subscribe_inv ws_unsubscribe_inv split: option.split prod.split)
next
  case (st_cleanup s k c)
  then show ?case by (intro ws_cleanup_inv)
next
  case (st_gone s k c)
  then have "cn_subs c = []" using hub_inv_conn by blast
  with st_gone have h: "holds (s\<lparr> rt_conns := (rt_conns s)(k := None) \<rparr>) k' ch i \<longleftrightarrow> holds s k' ch i" for k' ch i
    by (auto simp: holds_def)
  show ?case by (rule hub_inv_same [OF st_gone(3) _ h]) (use hub_inv_conn [OF st_gone(3)] in \<open>auto simp: live_def split: if_splits\<close>)
next
  case (st_forward s k c i)
  have h: "holds (ws_forward k i s) k' ch i' \<longleftrightarrow> holds s k' ch i'" for k' ch i'
    by (rule holds_cong) (auto simp: ws_forward_def split: option.splits list.splits if_splits)
  show ?case
    by (rule hub_inv_same [OF st_forward(3) _ h])
      (use hub_inv_conn [OF st_forward(3)] in \<open>auto simp: ws_forward_def elim!: live_mono split: option.splits list.splits if_splits\<close>)
next
  case (st_pump s k)
  have h: "holds (ws_pump k s) k' ch i' \<longleftrightarrow> holds s k' ch i'" for k' ch i'
    by (rule holds_cong) (auto simp: ws_pump_def split: option.splits list.splits if_splits)
  show ?case
    by (rule hub_inv_same [OF st_pump _ h])
      (use hub_inv_conn [OF st_pump] in \<open>auto simp: ws_pump_def elim!: live_mono split: option.splits list.splits if_splits\<close>)
next
  case (st_event s k c i)
  have h: "holds (sse_event k i s) k' ch i' \<longleftrightarrow> holds s k' ch i'" for k' ch i'
    by (rule holds_cong) (auto simp: sse_event_def split: option.splits list.splits if_splits)
  show ?case
    by (rule hub_inv_same [OF st_event(3) _ h])
      (use hub_inv_conn [OF st_event(3)] in \<open>auto simp: sse_event_def elim!: live_mono split: option.splits list.splits if_splits\<close>)
next
  case (st_snapshot s ids msg)
  then show ?case by (intro hub_inv_same [OF st_snapshot(4)]) (auto simp: holds_def live_def dest: hub_inv_conn)
next
  case (st_write s msg i rest)
  show ?case
    by (rule hub_inv_same [OF st_write(2)])
      (use hub_inv_conn [OF st_write(2)] in \<open>auto simp: Broadcast_write_def holds_def elim!: live_mono\<close>)
qed

lemma rt_reachable_inv: "rt_reachable s \<Longrightarrow> hub_inv s"
proof (induction rule: rt_reachable.induct)
  case rt_init
  show ?case by (simp add: hub_inv_def NewRealtime_def NewHub_def hub_wf_def hub_ids_def holds_def)
qed (rule rt_step_inv)

text \<open>C21. The hub never leaks a subscription and never loses one: in every state that connections, commands, messages
  and disconnects reach, in any interleaving, the subscribers of a channel are exactly the subscriptions
  that open connections hold on it, each listed once, and when no connection is open the hub is empty
  and reports no subscription.\<close>

theorem hub_accounts:
  assumes "rt_reachable s"
  shows "distinct (hub_ids (rt_hub s) ch) \<and>
    (i \<in> set (hub_ids (rt_hub s) ch) \<longleftrightarrow> (\<exists>k c. rt_conns s k = Some c \<and> (ch, i) \<in> set (cn_subs c))) \<and>
    (rt_conns s = Map.empty \<longrightarrow> rt_hub s = [] \<and> TotalSubscriptions (rt_hub s) = 0)"
proof -
  have inv: "hub_inv s" by (rule rt_reachable_inv [OF assms])
  then have ids: "i \<in> set (hub_ids (rt_hub s) ch) \<longleftrightarrow> (\<exists>k. holds s k ch i)" for ch i by (simp add: hub_inv_def)
  have wf: "hub_wf (rt_hub s)" using inv by (simp add: hub_inv_def)
  have "rt_hub s = []" if "rt_conns s = Map.empty"
  proof -
    have "hub_ids (rt_hub s) ch = []" for ch using ids [of _ ch] that by (metis holds_def last_in_set option.distinct(1))
    then show ?thesis using hub_empty [OF wf] by blast
  qed
  with ids hub_wf_ids [OF wf] show ?thesis by (auto simp: holds_def TotalSubscriptions_def)
qed

section \<open>What a connection is sent\<close>

definition sub_ok :: "subscription \<Rightarrow> bool" where
  "sub_ok sb \<longleftrightarrow> (\<forall>m\<in>set (sb_buf sb). pm_channel m = sb_channel sb) \<and> length (sb_buf sb) \<le> send_cap"

definition conn_ok :: "realtime \<Rightarrow> conn \<Rightarrow> bool" where
  "conn_ok s c \<longleftrightarrow> (\<forall>i\<in>set (cn_fwd c). \<exists>sb. rt_subs s i = Some sb \<and> sb_channel sb \<in> set (cn_asked c)) \<and>
     (\<forall>m\<in>set (cn_out c @ cn_sent c). pm_channel m \<in> set (cn_asked c)) \<and> length (cn_out c) \<le> conn_cap"

definition chan_inv :: "realtime \<Rightarrow> bool" where
  "chan_inv s \<longleftrightarrow> (\<forall>i sb. rt_subs s i = Some sb \<longrightarrow> sub_ok sb) \<and>
     (\<forall>m i. (m, i) \<in> set (rt_pending s) \<longrightarrow> (\<exists>sb. rt_subs s i = Some sb \<and> sb_channel sb = pm_channel m)) \<and>
     (\<forall>k c. rt_conns s k = Some c \<longrightarrow> conn_ok s c)"

text \<open>A subscription stays, with its channel.\<close>

definition same_subs :: "realtime \<Rightarrow> realtime \<Rightarrow> bool" where
  "same_subs s s' \<longleftrightarrow> (\<forall>i sb. rt_subs s i = Some sb \<longrightarrow> (\<exists>sb'. rt_subs s' i = Some sb' \<and> sb_channel sb' = sb_channel sb))"

lemma conn_ok_mono: "conn_ok s c \<Longrightarrow> same_subs s s' \<Longrightarrow> conn_ok s' c"
  unfolding conn_ok_def same_subs_def by metis

lemma chan_invI:
  assumes "chan_inv s" "same_subs s s'" "\<And>i sb. rt_subs s' i = Some sb \<Longrightarrow> sub_ok sb"
    "set (rt_pending s') \<subseteq> set (rt_pending s)" "\<And>k c. rt_conns s' k = Some c \<Longrightarrow> rt_conns s k \<noteq> Some c \<Longrightarrow> conn_ok s' c"
  shows "chan_inv s'"
  unfolding chan_inv_def
proof (intro conjI allI impI)
  fix m i assume "(m, i) \<in> set (rt_pending s')"
  with assms(1,2,4) show "\<exists>sb. rt_subs s' i = Some sb \<and> sb_channel sb = pm_channel m"
    unfolding chan_inv_def same_subs_def by (metis subsetD)
next
  fix k c assume "rt_conns s' k = Some c"
  with assms(1,2,5) conn_ok_mono show "conn_ok s' c" unfolding chan_inv_def by metis
qed (rule assms(3))

lemma chan_inv_sub: "chan_inv s \<Longrightarrow> rt_subs s i = Some sb \<Longrightarrow> sub_ok sb"
  by (simp add: chan_inv_def)

lemma chan_inv_conn: "chan_inv s \<Longrightarrow> rt_conns s k = Some c \<Longrightarrow> conn_ok s c"
  by (simp add: chan_inv_def)

lemma ws_subscribe_chan:
  assumes "chan_inv s" "rt_subs s fresh = None"
  shows "chan_inv (ws_subscribe now fresh k ch s)"
proof (cases "rt_conns s k")
  case (Some c)
  show ?thesis
  proof (cases "map_of (cn_subs c) ch")
    case None
    let ?s = "ws_subscribe now fresh k ch s"
    have same: "same_subs s ?s" using assms(2) Some None by (auto simp: same_subs_def ws_subscribe_def)
    have "conn_ok ?s c" using conn_ok_mono [OF chan_inv_conn [OF assms(1) Some] same] .
    then have "conn_ok ?s (c\<lparr> cn_subs := cn_subs c @ [(ch, fresh)], cn_fwd := cn_fwd c @ [fresh], cn_asked := cn_asked c @ [ch] \<rparr>)"
      using Some None by (fastforce simp: conn_ok_def ws_subscribe_def NewSubscription_def)
    then show ?thesis using assms Some None
      by (intro chan_invI [OF assms(1) same])
        (auto simp: ws_subscribe_def NewSubscription_def sub_ok_def dest: chan_inv_sub split: if_splits)
  qed (use assms Some in \<open>simp add: ws_subscribe_def\<close>)
qed (use assms in \<open>simp add: ws_subscribe_def\<close>)

lemma ws_unsubscribe_chan:
  assumes "chan_inv s"
  shows "chan_inv (ws_unsubscribe k ch s)"
proof (cases "rt_conns s k")
  case (Some c)
  show ?thesis
  proof (cases "map_of (cn_subs c) ch")
    case (Some i)
    let ?s = "ws_unsubscribe k ch s"
    note c = \<open>rt_conns s k = Some c\<close>
    have same: "same_subs s ?s" using c Some by (auto simp: same_subs_def ws_unsubscribe_def)
    have "conn_ok ?s c" using conn_ok_mono [OF chan_inv_conn [OF assms c] same] .
    then have ok: "conn_ok ?s (c\<lparr> cn_subs := l \<rparr>)" for l by (simp add: conn_ok_def)
    show ?thesis using c Some ok
      by (intro chan_invI [OF assms same])
        (auto simp: ws_unsubscribe_def sub_ok_def dest: chan_inv_sub [OF assms] split: if_splits)
  qed (use assms Some in \<open>simp add: ws_unsubscribe_def\<close>)
qed (use assms in \<open>simp add: ws_unsubscribe_def\<close>)

lemma take_message:
  assumes "chan_inv s" "rt_subs s i = Some sb" "sb_buf sb = m # rest" "rt_conns s k = Some c" "i \<in> set (cn_fwd c)"
  shows "pm_channel m \<in> set (cn_asked c)" "sub_ok (sb\<lparr> sb_buf := rest \<rparr>)"
  using chan_inv_sub [OF assms(1,2)] chan_inv_conn [OF assms(1,4)] assms(2,3,5) by (auto simp: sub_ok_def conn_ok_def)

lemma rt_step_chan: "rt_step s s' \<Longrightarrow> hub_inv s \<Longrightarrow> chan_inv s \<Longrightarrow> chan_inv s'"
proof (induction rule: rt_step.induct)
  case (st_open s k fresh now user ch)
  let ?s = "s\<lparr> rt_conns := (rt_conns s)(k \<mapsto> new_conn user) \<rparr>"
  have "chan_inv ?s"
    by (rule chan_invI [OF st_open(4)]) (use chan_inv_sub [OF st_open(4)] in \<open>auto simp: same_subs_def conn_ok_def new_conn_def split: if_splits\<close>)
  then show ?case using ws_subscribe_chan [of ?s fresh] st_open by (simp add: ws_open_def Let_def)
next
  case (st_command s k c fresh now cmd)
  then show ?case by (auto simp: ws_command_def intro!: ws_subscribe_chan ws_unsubscribe_chan split: option.split prod.split)
next
  case (st_cleanup s k c)
  have loop: "chan_inv (fold (ws_unsubscribe k) chs t)" if "chan_inv t" for chs t
    using that by (induction chs arbitrary: t) (auto intro: ws_unsubscribe_chan)
  let ?s1 = "fold (ws_unsubscribe k) (map fst (cn_subs c)) s"
  have inv: "chan_inv ?s1" using loop st_cleanup(4) .
  have "conn_ok ?s1 c1 \<Longrightarrow> conn_ok (ws_cleanup k s) (c1\<lparr> cn_closing := True \<rparr>)" for c1
    using st_cleanup(1) by (simp add: ws_cleanup_def Let_def conn_ok_def)
  then show ?case
    by (intro chan_invI [OF inv])
      (use st_cleanup(1) chan_inv_sub [OF inv] chan_inv_conn [OF inv] in \<open>auto simp: ws_cleanup_def Let_def same_subs_def split: if_splits\<close>)
next
  case (st_gone s k c)
  show ?case by (rule chan_invI [OF st_gone(4)]) (use chan_inv_sub [OF st_gone(4)] in \<open>auto simp: same_subs_def split: if_splits\<close>)
next
  case (st_forward s k c i)
  show ?case
  proof (cases "\<exists>sb m rest. rt_subs s i = Some sb \<and> sb_buf sb = m # rest")
    case True
    then obtain sb m rest where t: "rt_subs s i = Some sb" "sb_buf sb = m # rest" by blast
    have same: "same_subs s (ws_forward k i s)" using st_forward(1) t by (auto simp: ws_forward_def same_subs_def)
    note old = conn_ok_mono [OF chan_inv_conn [OF st_forward(4,1)] same]
    show ?thesis
      by (rule chan_invI [OF st_forward(4) same])
        (use st_forward(1) t old take_message [OF st_forward(4) t st_forward(1,2)] chan_inv_sub [OF st_forward(4)] in
          \<open>auto simp: ws_forward_def conn_ok_def split: if_splits\<close>)
  qed (use st_forward in \<open>auto simp: ws_forward_def split: option.split list.split\<close>)
next
  case (st_event s k c i)
  show ?case
  proof (cases "\<exists>sb m rest. rt_subs s i = Some sb \<and> sb_buf sb = m # rest")
    case True
    then obtain sb m rest where t: "rt_subs s i = Some sb" "sb_buf sb = m # rest" by blast
    have same: "same_subs s (sse_event k i s)" using st_event(1) t by (auto simp: sse_event_def same_subs_def)
    note old = conn_ok_mono [OF chan_inv_conn [OF st_event(4,1)] same]
    show ?thesis
      by (rule chan_invI [OF st_event(4) same])
        (use st_event(1) t old take_message [OF st_event(4) t st_event(1,2)] chan_inv_sub [OF st_event(4)] in
          \<open>auto simp: sse_event_def conn_ok_def split: if_splits\<close>)
  qed (use st_event in \<open>auto simp: sse_event_def split: option.split list.split\<close>)
next
  case (st_pump s k)
  show ?case
    by (rule chan_invI [OF st_pump(2)])
      (use chan_inv_sub [OF st_pump(2)] chan_inv_conn [OF st_pump(2), of k] in
        \<open>auto simp: ws_pump_def same_subs_def conn_ok_def split: option.splits list.splits if_splits\<close>)
next
  case (st_snapshot s ids msg)
  have "\<exists>sb. rt_subs s i = Some sb \<and> sb_channel sb = pm_channel msg" if "i \<in> set ids" for i
  proof -
    have "i \<in> set (hub_ids (rt_hub s) (pm_channel msg))" using that st_snapshot(2) by (auto simp: Broadcast_targets_def split: if_splits)
    then have "\<exists>k. holds s k (pm_channel msg) i" using st_snapshot(4) unfolding hub_inv_def by blast
    then show ?thesis using hub_inv_live [OF st_snapshot(4)] by (metis live_def)
  qed
  then have t: "\<exists>sb. rt_subs s i = Some sb \<and> sb_channel sb = pm_channel m" if "(m, i) \<in> Pair msg ` set ids" for m i
    using that by blast
  have c: "conn_ok (s\<lparr> rt_pending := p \<rparr>) c = conn_ok s c" for p c by (simp add: conn_ok_def)
  show ?case unfolding chan_inv_def
  proof (intro conjI allI impI, goal_cases)
    case (1 i sb)
    then show ?case using chan_inv_sub [OF st_snapshot(5)] by simp
  next
    case (2 m i)
    then have "(m, i) \<in> Pair msg ` set ids" by simp
    from t [OF this] show ?case by simp
  next
    case (3 k c)
    then show ?case using chan_inv_conn [OF st_snapshot(5)] by (simp add: c)
  qed
next
  case (st_write s msg i rest)
  have "(msg, i) \<in> set (rt_pending s)" using st_write(1) by simp
  then obtain sb where sb: "rt_subs s i = Some sb" "sb_channel sb = pm_channel msg" using st_write(3) unfolding chan_inv_def by blast
  have "sub_ok (sub_Write msg sb)" using chan_inv_sub [OF st_write(3) sb(1)] sb(2) by (auto simp: sub_ok_def sub_Write_def)
  then show ?case
    by (intro chan_invI [OF st_write(3)])
      (use st_write(1) sb chan_inv_sub [OF st_write(3)] in \<open>auto simp: Broadcast_write_def same_subs_def split: if_splits\<close>)
qed

lemma rt_reachable_chan: "rt_reachable s \<Longrightarrow> chan_inv s"
proof (induction rule: rt_reachable.induct)
  case rt_init
  show ?case by (simp add: chan_inv_def NewRealtime_def)
qed (rule rt_step_chan [OF _ rt_reachable_inv])

text \<open>Live data stays on its channel: in every reachable state, whatever the interleaving of broadcasts,
  subscriptions and disconnects, each frame a connection was sent, and each that waits for it, is a
  message of a channel that connection asked for, and no buffer holds more than 256 or 512 messages,
  however slow the client. (Whether the caller may see the channel is checked nowhere.)\<close>

theorem frames_on_asked_channels:
  assumes "rt_reachable s" "rt_conns s k = Some c"
  shows "(\<forall>m\<in>set (cn_sent c @ cn_out c). pm_channel m \<in> set (cn_asked c)) \<and> length (cn_out c) \<le> conn_cap \<and>
    (\<forall>i sb. rt_subs s i = Some sb \<longrightarrow> length (sb_buf sb) \<le> send_cap \<and> (\<forall>m\<in>set (sb_buf sb). pm_channel m = sb_channel sb))"
proof -
  have "chan_inv s" by (rule rt_reachable_chan [OF assms(1)])
  with chan_inv_conn [OF this assms(2)] show ?thesis by (auto simp: conn_ok_def sub_ok_def dest: chan_inv_sub)
qed

section \<open>A run\<close>

definition demo_push :: push_message where
  "demo_push = \<lparr> pm_channel = ''c'', pm_device = ''d'', pm_fields = [], pm_timestamp = 0, pm_type = ''reading'' \<rparr>"

definition demo_rt :: realtime where
  "demo_rt = ws_open 1 ''s1'' 7 ''u'' ''c'' NewRealtime"

definition demo_rt_sent :: realtime where
  "demo_rt_sent = ws_pump 7 (ws_forward 7 ''s1'' ((Broadcast_write demo_push ''s1'' demo_rt)\<lparr> rt_pending := [] \<rparr>))"

lemma demo_rt_reachable: "rt_reachable demo_rt"
  unfolding demo_rt_def by (rule rt_next [OF rt_init st_open]) (simp_all add: NewRealtime_def)

lemma demo_rt_state: "rt_conns demo_rt 7 = Some ((new_conn ''u'')\<lparr> cn_subs := [(''c'', ''s1'')], cn_fwd := [''s1''], cn_asked := [''c''] \<rparr>)"
  "hub_ids (rt_hub demo_rt) ''c'' = [''s1'']" "rt_pending demo_rt = []" "rt_subs demo_rt ''s1'' = Some (NewSubscription 1 ''c'' ''u'')"
  by (simp_all add: demo_rt_def ws_open_def ws_subscribe_def new_conn_def NewRealtime_def NewHub_def hub_Subscribe_def hub_ids_def)

theorem hub_accounts_witness:
  "distinct (hub_ids (rt_hub demo_rt) ''c'') \<and> ''s1'' \<in> set (hub_ids (rt_hub demo_rt) ''c'') \<and> TotalSubscriptions (rt_hub NewRealtime) = 0"
proof -
  have "rt_conns NewRealtime = Map.empty" by (simp add: NewRealtime_def)
  then have "TotalSubscriptions (rt_hub NewRealtime) = 0" using hub_accounts [OF rt_init, of "''c''" "''s1''"] by blast
  moreover have "distinct (hub_ids (rt_hub demo_rt) ''c'')" using hub_accounts [OF demo_rt_reachable, of "''c''" "''s1''"] by blast
  ultimately show ?thesis using demo_rt_state(2) by simp
qed

theorem frames_on_asked_channels_witness:
  "\<exists>c. rt_conns demo_rt_sent 7 = Some c \<and> cn_sent c = [demo_push] \<and> pm_channel demo_push \<in> set (cn_asked c)"
proof -
  have targets: "Broadcast_targets demo_push demo_rt = [''s1'']"
    by (simp add: Broadcast_targets_def demo_rt_state demo_push_def json_fields_ok_def json_time_ok_def second_def)
  let ?s1 = "demo_rt\<lparr> rt_pending := [(demo_push, ''s1'')] \<rparr>"
  have r1: "rt_reachable ?s1"
    using rt_next [OF demo_rt_reachable st_snapshot [of demo_rt "[''s1'']" demo_push]] demo_rt_state targets by simp
  have "rt_step ?s1 ((Broadcast_write demo_push ''s1'' ?s1)\<lparr> rt_pending := [] \<rparr>)" by (rule st_write) simp
  moreover have "(Broadcast_write demo_push ''s1'' ?s1)\<lparr> rt_pending := [] \<rparr> = (Broadcast_write demo_push ''s1'' demo_rt)\<lparr> rt_pending := [] \<rparr>"
    by (simp add: Broadcast_write_def)
  ultimately have r2: "rt_reachable ((Broadcast_write demo_push ''s1'' demo_rt)\<lparr> rt_pending := [] \<rparr>)" using rt_next [OF r1] by simp
  have "rt_reachable (ws_forward 7 ''s1'' ((Broadcast_write demo_push ''s1'' demo_rt)\<lparr> rt_pending := [] \<rparr>))"
    by (rule rt_next [OF r2 st_forward]) (simp add: Broadcast_write_def demo_rt_state, simp)
  then have r: "rt_reachable demo_rt_sent" unfolding demo_rt_sent_def by (rule rt_next [OF _ st_pump])
  obtain c where c: "rt_conns demo_rt_sent 7 = Some c" "cn_sent c = [demo_push]"
    by (simp add: demo_rt_sent_def ws_pump_def ws_forward_def Broadcast_write_def demo_rt_state NewSubscription_def sub_Write_def
        send_cap_def conn_cap_def new_conn_def)
  with frames_on_asked_channels [OF r c(1)] show ?thesis by auto
qed

end
