(* ===== verification/Live_Router.thy ===== *)
theory Live_Router
  imports Config Query Realtime
begin

text \<open>
  The routes of query-realtime (transport/http/router.go) and the rest of its realtime handler: the origins a websocket may
  come from, the upgrade, the stream of server-sent events, and the statistics of the hub. A connection that is accepted is a
  step of the state machine of Realtime. The pages of API documents, security headers and request ids are left out.
\<close>

section \<open>Origins\<close>

definition allowedOrigins :: "environ \<Rightarrow> string list" where
  "allowedOrigins e =
    (let raw = (if e ''ALLOWED_ORIGINS'' = '''' then e ''FRONTEND_URL'' else e ''ALLOWED_ORIGINS'')
     in filter (\<lambda>x. x \<noteq> '''') (map TrimSpace (split_on (CHR '','') [] raw)))"

definition CheckOrigin :: "string list \<Rightarrow> string \<Rightarrow> bool" where
  "CheckOrigin origins origin =
    (if origin = '''' then True
     else if ''*'' \<in> set origins then True
     else if length origins = 0 then False
     else origin \<in> set origins)"

section \<open>Handlers\<close>

text \<open>What the two halves of the service keep.\<close>

record live =
  lv_cache :: redis
  lv_rt :: realtime

text \<open>\<open>lx_handshake\<close> is what the websocket library asks of a request besides its origin; \<open>lx_id\<close> and \<open>lx_conn\<close> are the id of
  the subscription and the number of the connection of this request; the origins were read when the handler was made.\<close>

record live_env =
  lx_verify :: "string \<Rightarrow> claims option"
  lx_query :: query_env
  lx_codecs :: query_codecs
  lx_origins :: "string list"
  lx_handshake :: "request \<Rightarrow> bool"
  lx_now :: instant
  lx_id :: uuid
  lx_conn :: nat

definition NewRealtimeHandler :: "environ \<Rightarrow> live_env \<Rightarrow> live_env" where
  "NewRealtimeHandler e x = x\<lparr> lx_origins := allowedOrigins e \<rparr>"

datatype live_reply = QueryReply "query_data envelope" | StatsReply "nat envelope" | UpgradeRefused | Opened nat | Healthy

definition user_of :: "request \<Rightarrow> string" where
  "user_of c = (case GetUserID c of Some u \<Rightarrow> u | None \<Rightarrow> '''')"

definition h_WebSocket :: "live_env \<Rightarrow> request \<Rightarrow> live \<Rightarrow> live_reply \<times> live" where
  "h_WebSocket x c s =
    (if \<not> lx_handshake x c \<or> \<not> CheckOrigin (lx_origins x) (rq_header c ''Origin'') then (UpgradeRefused, s)
     else (Opened (lx_conn x), s\<lparr> lv_rt := ws_open (lx_now x) (lx_id x) (lx_conn x) (user_of c) (q_get c ''channel_id'') (lv_rt s) \<rparr>))"

text \<open>A stream is a connection with one subscription from its start.\<close>

definition h_SSE :: "live_env \<Rightarrow> request \<Rightarrow> live \<Rightarrow> live_reply \<times> live" where
  "h_SSE x c s =
    (if q_get c ''channel_id'' = '''' then (QueryReply (resp_Error (ApiErr (BadRequest ''channel_id is required''))), s)
     else (Opened (lx_conn x), s\<lparr> lv_rt := ws_open (lx_now x) (lx_id x) (lx_conn x) (user_of c) (q_get c ''channel_id'') (lv_rt s) \<rparr>))"

definition h_Stats :: "live \<Rightarrow> live_reply" where
  "h_Stats s = StatsReply (resp_OK (TotalSubscriptions (rt_hub (lv_rt s))))"

section \<open>Routes\<close>

datatype live_endpoint = GET_health | GET_query "query_params option" | GET_latest | GET_ws | GET_sse | GET_stats

definition live_v1 :: "live_env \<Rightarrow> live_endpoint \<Rightarrow> request \<Rightarrow> live \<Rightarrow> live_reply \<times> live" where
  "live_v1 x e c s = (case e of
      GET_health \<Rightarrow> (Healthy, s)
    | GET_query p \<Rightarrow> (case h_Query (lx_query x) (lx_codecs x) c p (lv_cache s) of (r, db) \<Rightarrow> (QueryReply r, s\<lparr> lv_cache := db \<rparr>))
    | GET_latest \<Rightarrow> (case h_QueryLatest (lx_query x) c (lv_cache s) of (r, db) \<Rightarrow> (QueryReply r, s\<lparr> lv_cache := db \<rparr>))
    | GET_ws \<Rightarrow> h_WebSocket x c s
    | GET_sse \<Rightarrow> h_SSE x c s
    | GET_stats \<Rightarrow> (h_Stats s, s))"

definition live_router :: "live_env \<Rightarrow> live_endpoint \<Rightarrow> request \<Rightarrow> live \<Rightarrow> live_reply \<times> live" where
  "live_router x e c s =
    (if e = GET_health then live_v1 x e c s
     else case JWTAuth (lx_verify x) c of
        Ok c' \<Rightarrow> live_v1 x e c' s
      | Fail resp \<Rightarrow> (QueryReply resp, s)
      | Panic \<Rightarrow> (QueryReply gin_recovered, s))"

section \<open>Who opens a connection\<close>

lemma JWTAuth_Ok:
  "JWTAuth verify c = Ok c' \<longleftrightarrow> (\<exists>tok cl. extractBearerToken c = Ok tok \<and> verify tok = Some cl \<and> c' = with_claims c cl)"
  by (auto simp: JWTAuth_def split: outcome.splits option.splits)

lemma claims_kept [simp]:
  "user_of (with_claims c cl) = cl_uid cl" "q_get (with_claims c cl) = q_get c" "rq_header (with_claims c cl) = rq_header c"
  by (auto simp: user_of_def GetUserID_def with_claims_def ctx_set_def q_get_def fun_eq_iff)

definition fresh_for :: "live_env \<Rightarrow> live \<Rightarrow> bool" where
  "fresh_for x s \<longleftrightarrow> rt_conns (lv_rt s) (lx_conn x) = None \<and> rt_subs (lv_rt s) (lx_id x) = None"

text \<open>The routes touch the connections only to open one, for the user of the token.\<close>

lemma live_router_cases:
  "lv_rt (snd (live_router x e c s)) = lv_rt s \<or>
   (\<exists>tok cl. extractBearerToken c = Ok tok \<and> lx_verify x tok = Some cl \<and>
     lv_rt (snd (live_router x e c s)) = ws_open (lx_now x) (lx_id x) (lx_conn x) (cl_uid cl) (q_get c ''channel_id'') (lv_rt s) \<and>
     (e = GET_sse \<and> q_get c ''channel_id'' \<noteq> '''' \<or> e = GET_ws \<and> CheckOrigin (lx_origins x) (rq_header c ''Origin'')))"
proof (cases "JWTAuth (lx_verify x) c :: (query_data envelope, request) outcome")
  case (Ok c')
  then obtain tok cl where t: "extractBearerToken c = Ok tok" "lx_verify x tok = Some cl" "c' = with_claims c cl"
    by (auto simp: JWTAuth_Ok)
  with Ok show ?thesis
    by (cases e) (auto simp: live_router_def live_v1_def h_WebSocket_def h_SSE_def split: prod.splits)
qed (auto simp: live_router_def live_v1_def)

lemma ws_open_parts:
  assumes "rt_subs s i = None"
  shows "\<exists>cn. rt_conns (ws_open now i k u ch s) k = Some cn \<and> cn_user cn = u \<and> set (cn_asked cn) \<subseteq> {ch}"
    and "k' \<noteq> k \<Longrightarrow> rt_conns (ws_open now i k u ch s) k' = rt_conns s k'"
  by (auto simp: ws_open_def ws_subscribe_def new_conn_def Let_def)


section \<open>Whose channel it is\<close>

lemma writes_once:
  "distinct ids \<Longrightarrow> rt_subs (fold (Broadcast_write m) ids s) i = (if i \<in> set ids then map_option (sub_Write m) (rt_subs s i) else rt_subs s i)"
  by (induction ids arbitrary: s) (auto simp: Broadcast_write_def)

text \<open>Any user hears any channel. A valid token of whatever tenant opens a stream on whatever channel it names: the
  next reading of that channel is written to its subscription.\<close>

theorem stream_of_any_channel:
  assumes "rt_reachable (lv_rt s)" "fresh_for x s" "extractBearerToken c = Ok tok" "lx_verify x tok = Some cl"
    and "q_get c ''channel_id'' = pm_channel m" "pm_channel m \<noteq> ''''" "json_fields_ok (pm_fields m)" "json_time_ok (pm_timestamp m)"
  shows "\<exists>s' sub. live_router x GET_sse c s = (Opened (lx_conn x), s') \<and>
    rt_subs (Broadcast m (lv_rt s')) (lx_id x) = Some sub \<and> sb_user sub = cl_uid cl \<and> sb_buf sub = [m]"
proof -
  let ?t = "ws_open (lx_now x) (lx_id x) (lx_conn x) (cl_uid cl) (pm_channel m) (lv_rt s)"
  have free: "rt_conns (lv_rt s) (lx_conn x) = None" "rt_subs (lv_rt s) (lx_id x) = None"
    using assms(2) by (auto simp: fresh_for_def)
  have run: "live_router x GET_sse c s = (Opened (lx_conn x), s\<lparr> lv_rt := ?t \<rparr>)"
    using assms(3-6) by (simp add: live_router_def JWTAuth_def live_v1_def h_SSE_def)
  have sub: "rt_subs ?t (lx_id x) = Some (NewSubscription (lx_now x) (pm_channel m) (cl_uid cl))"
    and hub: "lx_id x \<in> set (hub_ids (rt_hub ?t) (pm_channel m))"
    using assms(6) by (auto simp: ws_open_def ws_subscribe_def new_conn_def Let_def hub_ids_Subscribe)
  have "rt_reachable ?t" by (rule rt_next [OF assms(1) st_open [OF free]])
  then have "distinct (hub_ids (rt_hub ?t) (pm_channel m))" by (simp add: rt_reachable_inv [unfolded hub_inv_def] hub_wf_ids)
  then have "rt_subs (Broadcast m ?t) (lx_id x) = Some (sub_Write m (NewSubscription (lx_now x) (pm_channel m) (cl_uid cl)))"
    using assms(7,8) hub sub by (simp add: Broadcast_def Broadcast_targets_def writes_once)
  then show ?thesis unfolding run by (auto simp: sub_Write_def NewSubscription_def send_cap_def)
qed

section \<open>A stranger\<close>

definition demo_live_env :: live_env where
  "demo_live_env = \<lparr> lx_verify = stranger, lx_query = demo_query_env 0 [], lx_codecs = \<lparr> qc_time = (\<lambda>_. None), qc_format = (\<lambda>_. ''''),
     qc_num = (\<lambda>_. ''''), qc_order = (\<lambda>l. l) \<rparr>, lx_origins = [''https://app''], lx_handshake = (\<lambda>_. True), lx_now = 0, lx_id = ''s1'', lx_conn = 1 \<rparr>"

definition demo_live :: live where
  "demo_live = \<lparr> lv_cache = Map.empty, lv_rt = NewRealtime \<rparr>"

definition demo_listen :: "string \<Rightarrow> request" where
  "demo_listen from = \<lparr> rq_header = (\<lambda>h. if h = ''Origin'' then from else ''''), rq_query = (\<lambda>k. if k = ''token'' then Some ''t'' else
     if k = ''channel_id'' then Some ''c1'' else None), rq_form = (\<lambda>_. ''''), rq_param = (\<lambda>_. ''''), rq_ip = '''', rq_ctx = Map.empty \<rparr>"

lemma demo_fresh: "rt_reachable (lv_rt demo_live)" "fresh_for demo_live_env demo_live"
  by (simp_all add: demo_live_def fresh_for_def NewRealtime_def rt_init [unfolded NewRealtime_def])

lemma demo_token:
  "extractBearerToken (demo_listen from) = Ok ''t''" "q_get (demo_listen from) ''channel_id'' = ''c1''"
  "rq_header (demo_listen from) ''Origin'' = from"
  "lx_verify demo_live_env ''t'' = Some \<lparr> cl_uid = ''mallory'', cl_tid = ''elsewhere'', cl_email = '''', cl_roles = [] \<rparr>"
  by (simp_all add: extractBearerToken_def demo_listen_def q_get_def demo_live_env_def stranger_def)

lemma demo_live_env_parts: "lx_conn demo_live_env = 1" "lx_id demo_live_env = ''s1''" "lx_handshake demo_live_env = (\<lambda>_. True)"
  "lx_origins demo_live_env = [''https://app'']" "lx_now demo_live_env = 0"
  by (simp_all add: demo_live_env_def)

lemma demo_ws: "live_router demo_live_env GET_ws (demo_listen from) demo_live =
    (if from \<in> {'''', ''https://app''} then (Opened 1, demo_live\<lparr> lv_rt := ws_open 0 ''s1'' 1 ''mallory'' ''c1'' NewRealtime \<rparr>)
     else (UpgradeRefused, demo_live))"
  by (simp add: live_router_def JWTAuth_def demo_token live_v1_def h_WebSocket_def CheckOrigin_def demo_live_env_parts demo_live_def)


theorem stream_of_any_channel_witness:
  "\<exists>s' sub. live_router demo_live_env GET_sse (demo_listen '''') demo_live = (Opened 1, s') \<and>
    rt_subs (Broadcast (demo_push\<lparr> pm_channel := ''c1'' \<rparr>) (lv_rt s')) ''s1'' = Some sub \<and> sb_buf sub = [demo_push\<lparr> pm_channel := ''c1'' \<rparr>]"
proof -
  have "q_get (demo_listen '''') ''channel_id'' = pm_channel (demo_push\<lparr> pm_channel := ''c1'' \<rparr>)" "pm_channel (demo_push\<lparr> pm_channel := ''c1'' \<rparr>) \<noteq> ''''"
    "json_fields_ok (pm_fields (demo_push\<lparr> pm_channel := ''c1'' \<rparr>))" "json_time_ok (pm_timestamp (demo_push\<lparr> pm_channel := ''c1'' \<rparr>))"
    by (simp_all add: demo_token demo_push_def) (code_simp)+
  from stream_of_any_channel [OF demo_fresh demo_token(1,4) this] show ?thesis
    unfolding demo_live_env_parts by blast
qed

end
