(* ===== verification/IAM_Domain.thy ===== *)
theory IAM_Domain
  imports Registry_Domain
begin

text \<open>
  The domain of the identity service (services/iam/internal/domain): users with their passwords and
  one-time tokens, refresh tokens, organisations, workspaces, members and API keys. bcrypt, SHA-256, the
  mail address parser and the ids that are drawn are arguments.
\<close>

datatype iam_err =
    UserNotFound | InvalidCredentials | TokenNotFound | TokenExpired | InvalidToken | AccountIsNotActive
  | GetRolesFailed | IssueTokenFailed | EmailAlreadyRegistered | InvalidResetToken | InvalidPassword | InvalidEmail
  | OrgNotFound | WorkspaceNotFound | SlugAlreadyTaken | InvalidName | InvalidSlug | MemberNotFound
  | MemberAlreadyExists | InvalidRole | APIKeyNotFound | WorkspaceAPIKeyNotFound | InvalidScope
  | FirstNameRequired | LastNameRequired | PasswordTooShort | BcryptErr | UuidErr | SqlErr | EntropyErr | SignErr

section \<open>Users\<close>

datatype user_status = UserStatusPending | UserStatusActive | UserStatusDisabled

definition RoleAdmin :: string where "RoleAdmin = ''admin''"
definition RoleOperator :: string where "RoleOperator = ''operator''"
definition RoleViewer :: string where "RoleViewer = ''viewer''"

record user =
  us_id :: uuid
  us_tenant :: uuid
  us_email :: string
  us_password :: string
  us_first :: string
  us_last :: string
  us_roles :: "string list"
  us_status :: user_status
  us_verified :: bool
  us_verify :: string
  us_reset :: string
  us_reset_expiry :: "instant option"
  us_created :: instant
  us_updated :: instant

text \<open>\<open>sha\<close> is the SHA-256 of a text as 64 hex digits; \<open>bcrypt\<close> draws a salt and hashes, None when it
  fails; \<open>matches\<close> compares a stored hash with an input.\<close>

definition hashPasswordInput :: "(string \<Rightarrow> string) \<Rightarrow> string \<Rightarrow> string" where
  "hashPasswordInput sha password = sha password"

definition NewUser :: "instant \<Rightarrow> (string \<Rightarrow> bool) \<Rightarrow> (string \<Rightarrow> string) \<Rightarrow> (string \<Rightarrow> string option) \<Rightarrow> uuid \<Rightarrow> uuid
    \<Rightarrow> uuid \<Rightarrow> string \<Rightarrow> string \<Rightarrow> string \<Rightarrow> string \<Rightarrow> (iam_err, user) outcome" where
  "NewUser now mail_ok sha bcrypt newID newToken tenantID email password firstName lastName =
    (if \<not> mail_ok email then Fail InvalidEmail
     else if firstName = '''' then Fail FirstNameRequired
     else if lastName = '''' then Fail LastNameRequired
     else if length password < 8 then Fail PasswordTooShort
     else case bcrypt (hashPasswordInput sha password) of
       None \<Rightarrow> Fail BcryptErr
     | Some h \<Rightarrow> Ok \<lparr> us_id = newID, us_tenant = tenantID, us_email = email, us_password = h, us_first = firstName,
         us_last = lastName, us_roles = [RoleViewer], us_status = UserStatusPending, us_verified = False,
         us_verify = newToken, us_reset = '''', us_reset_expiry = None, us_created = now, us_updated = now \<rparr>)"

definition CheckPassword :: "(string \<Rightarrow> string) \<Rightarrow> (string \<Rightarrow> string \<Rightarrow> bool) \<Rightarrow> user \<Rightarrow> string \<Rightarrow> bool" where
  "CheckPassword sha matches u password = matches (us_password u) (hashPasswordInput sha password)"

definition SetPassword :: "instant \<Rightarrow> (string \<Rightarrow> string) \<Rightarrow> (string \<Rightarrow> string option) \<Rightarrow> string \<Rightarrow> user
    \<Rightarrow> (iam_err, user) outcome" where
  "SetPassword now sha bcrypt password u =
    (if length password < 8 then Fail PasswordTooShort else
     case bcrypt (hashPasswordInput sha password) of
       None \<Rightarrow> Fail BcryptErr
     | Some h \<Rightarrow> Ok (u\<lparr> us_password := h, us_updated := now \<rparr>))"

definition FullName :: "user \<Rightarrow> string" where
  "FullName u = us_first u @ '' '' @ us_last u"

definition user_IsActive :: "user \<Rightarrow> bool" where
  "user_IsActive u = (us_status u = UserStatusActive)"

definition Activate :: "instant \<Rightarrow> user \<Rightarrow> user" where
  "Activate now u = u\<lparr> us_status := UserStatusActive, us_verified := True, us_verify := '''', us_updated := now \<rparr>"

definition Disable :: "instant \<Rightarrow> user \<Rightarrow> user" where
  "Disable now u = u\<lparr> us_status := UserStatusDisabled, us_updated := now \<rparr>"

definition SetResetToken :: "instant \<Rightarrow> string \<Rightarrow> instant \<Rightarrow> user \<Rightarrow> user" where
  "SetResetToken now token expiry u = u\<lparr> us_reset := token, us_reset_expiry := Some expiry, us_updated := now \<rparr>"

definition ClearResetToken :: "instant \<Rightarrow> user \<Rightarrow> user" where
  "ClearResetToken now u = u\<lparr> us_reset := '''', us_reset_expiry := None, us_updated := now \<rparr>"

definition IsResetTokenValid :: "instant \<Rightarrow> user \<Rightarrow> string \<Rightarrow> bool" where
  "IsResetTokenValid now u token =
    (if us_reset u = '''' \<or> token = '''' \<or> us_reset u \<noteq> token \<or> us_reset_expiry u = None then False
     else now < the (us_reset_expiry u))"

definition HasRole :: "user \<Rightarrow> string \<Rightarrow> bool" where
  "HasRole u role = list_ex (\<lambda>r. r = role) (us_roles u)"

section \<open>Refresh tokens\<close>

record refresh_token =
  rt_id :: uuid
  rt_user :: uuid
  rt_hash :: string
  rt_family :: uuid
  rt_expires :: instant
  rt_created :: instant
  rt_revoked :: bool
  rt_agent :: string
  rt_ip :: string

definition NewRefreshToken :: "instant \<Rightarrow> uuid \<Rightarrow> uuid \<Rightarrow> string \<Rightarrow> uuid \<Rightarrow> duration \<Rightarrow> string \<Rightarrow> string \<Rightarrow> refresh_token" where
  "NewRefreshToken now newID userID tokenHash family ttl userAgent ip =
    \<lparr> rt_id = newID, rt_user = userID, rt_hash = tokenHash, rt_family = family, rt_expires = now + ttl,
      rt_created = now, rt_revoked = False, rt_agent = userAgent, rt_ip = ip \<rparr>"

definition token_IsExpired :: "instant \<Rightarrow> refresh_token \<Rightarrow> bool" where
  "token_IsExpired now t = (rt_expires t < now)"

definition token_IsValid :: "instant \<Rightarrow> refresh_token \<Rightarrow> bool" where
  "token_IsValid now t = (\<not> rt_revoked t \<and> \<not> token_IsExpired now t)"

record token_pair =
  tp_access :: string
  tp_refresh :: string
  tp_expires :: instant
  tp_type :: string

section \<open>Slugs\<close>

text \<open>The regular expression \<open>^[a-z0-9]+(-[a-z0-9]+)*$\<close> as a two-state automaton: the boolean says
  whether the text read so far ends in a letter or digit.\<close>

definition slug_alnum :: "char \<Rightarrow> bool" where
  "slug_alnum c = (let n = (of_char c :: nat) in (97 \<le> n \<and> n \<le> 122) \<or> (48 \<le> n \<and> n \<le> 57))"

fun slugRegex :: "bool \<Rightarrow> string \<Rightarrow> bool" where
  "slugRegex ends [] = ends"
| "slugRegex ends (c # cs) =
    (if slug_alnum c then slugRegex True cs else ends \<and> c = CHR ''-'' \<and> slugRegex False cs)"

definition isValidSlug :: "string \<Rightarrow> bool" where
  "isValidSlug slug = slugRegex False slug"

section \<open>Organisations, workspaces and members\<close>

datatype org_plan = OrgPlanFree | OrgPlanStarter | OrgPlanPro | OrgPlanEnterprise

record org =
  og_id :: uuid
  og_name :: string
  og_slug :: string
  og_plan :: org_plan
  og_owner :: uuid
  og_logo :: string
  og_website :: string
  og_created :: instant
  og_updated :: instant

definition NewOrg :: "instant \<Rightarrow> uuid \<Rightarrow> string \<Rightarrow> string \<Rightarrow> uuid \<Rightarrow> (iam_err, org) outcome" where
  "NewOrg now newID name slug ownerUserID =
    (if name = '''' then Fail InvalidName
     else if \<not> isValidSlug slug then Fail InvalidSlug
     else Ok \<lparr> og_id = newID, og_name = name, og_slug = slug, og_plan = OrgPlanFree, og_owner = ownerUserID,
            og_logo = '''', og_website = '''', og_created = now, og_updated = now \<rparr>)"

record workspace =
  wk_id :: uuid
  wk_org :: uuid
  wk_name :: string
  wk_slug :: string
  wk_description :: string
  wk_members :: nat
  wk_created :: instant
  wk_updated :: instant

definition NewWorkspace :: "instant \<Rightarrow> uuid \<Rightarrow> uuid \<Rightarrow> string \<Rightarrow> string \<Rightarrow> string \<Rightarrow> (iam_err, workspace) outcome" where
  "NewWorkspace now newID orgID name slug description =
    (if name = '''' then Fail InvalidName
     else if \<not> isValidSlug slug then Fail InvalidSlug
     else Ok \<lparr> wk_id = newID, wk_org = orgID, wk_name = name, wk_slug = slug, wk_description = description,
            wk_members = 0, wk_created = now, wk_updated = now \<rparr>)"

definition ValidRoles :: "string \<Rightarrow> bool" where
  "ValidRoles r = (r \<in> {''owner'', ''admin'', ''member'', ''viewer''})"

record member =
  mb_id :: uuid
  mb_workspace :: uuid
  mb_user :: uuid
  mb_name :: string
  mb_email :: string
  mb_role :: string
  mb_joined :: instant

section \<open>API keys\<close>

text \<open>The scopes of a tenant key are a slice: None is the nil slice of a request without scopes.\<close>

record api_key =
  ak_id :: string
  ak_tenant :: string
  ak_user :: string
  ak_name :: string
  ak_prefix :: string
  ak_hash :: string
  ak_scopes :: "string list option"
  ak_created :: instant
  ak_used :: "instant option"

definition ValidScopes :: "string \<Rightarrow> bool" where
  "ValidScopes s = (s \<in> {''read'', ''write''})"

record ws_key =
  wa_id :: uuid
  wa_workspace :: uuid
  wa_name :: string
  wa_scope :: string
  wa_prefix :: string
  wa_hash :: string
  wa_created :: instant
  wa_used :: "instant option"
  wa_revoked :: "instant option"

definition NewWorkspaceAPIKey :: "instant \<Rightarrow> (string \<Rightarrow> string) \<Rightarrow> 8 word list option \<Rightarrow> uuid \<Rightarrow> uuid \<Rightarrow> string \<Rightarrow> string
    \<Rightarrow> (iam_err, ws_key \<times> string) outcome" where
  "NewWorkspaceAPIKey now sha rand newID workspaceID name scope =
    (if name = '''' then Fail InvalidName
     else if \<not> ValidScopes scope then Fail InvalidScope
     else case rand of
       None \<Rightarrow> Fail EntropyErr
     | Some raw \<Rightarrow>
         let plainKey = ''wsk_'' @ hex_encode raw in
         Ok (\<lparr> wa_id = newID, wa_workspace = workspaceID, wa_name = name, wa_scope = scope, wa_prefix = take 8 plainKey,
             wa_hash = sha plainKey, wa_created = now, wa_used = None, wa_revoked = None \<rparr>, plainKey))"

end
