(* ===== verification/IAM_Store.thy ===== *)
theory IAM_Store
  imports IAM_Domain "HOL-Library.Sublist"
begin

text \<open>
  The persistence of the identity service: the SQL of the repositories as functions on its eight tables
  with the constraints of the migrations (infrastructure/postgres/*.go, migrations/*.up.sql), and the Redis
  cache of sessions and revoked access tokens (infrastructure/redis/cache.go). A call takes whether the
  database answers (\<open>up\<close>) and the database clock; a row comes back in insertion order where the SQL
  does not order it.
\<close>

record iam_db =
  ia_orgs :: "org list"
  ia_users :: "user list"
  ia_roles :: "(uuid \<times> string) list"
  ia_tokens :: "refresh_token list"
  ia_workspaces :: "workspace list"
  ia_members :: "member list"
  ia_keys :: "api_key list"
  ia_wskeys :: "ws_key list"

definition empty_iam_db :: iam_db where
  "empty_iam_db = \<lparr> ia_orgs = [], ia_users = [], ia_roles = [], ia_tokens = [], ia_workspaces = [], ia_members = [],
     ia_keys = [], ia_wskeys = [] \<rparr>"

type_synonym 'a iam_call = "iam_db \<Rightarrow> (iam_err, 'a) outcome \<times> iam_db"

definition first_row :: "iam_err \<Rightarrow> bool \<Rightarrow> ('a \<Rightarrow> bool) \<Rightarrow> 'a list \<Rightarrow> (iam_err, 'a) outcome" where
  "first_row missing up P rows =
    (if \<not> up then Fail SqlErr else case filter P rows of [] \<Rightarrow> Fail missing | r # _ \<Rightarrow> Ok r)"

lemma first_row_Ok: "first_row missing up P rows = Ok r \<Longrightarrow> up \<and> r \<in> set rows \<and> P r"
  by (auto simp: first_row_def dest!: arg_cong [where f = set] split: if_splits list.splits)

lemma first_row_not_Panic [simp]: "first_row missing up P rows \<noteq> Panic"
  by (simp add: first_row_def split: list.split)

section \<open>Users\<close>

text \<open>Columns that the INSERT leaves out take their defaults; roles live in their own table. A unique
  violation is told apart by the text of the error.\<close>

definition UserRepo_Create :: "bool \<Rightarrow> instant \<Rightarrow> user \<Rightarrow> unit iam_call" where
  "UserRepo_Create up now u db =
    (if \<not> up then (Fail SqlErr, db)
     else if list_ex (\<lambda>x. us_id x = us_id u \<or> us_email x = us_email u) (ia_users db) then (Fail EmailAlreadyRegistered, db)
     else if \<not> list_ex (\<lambda>o1. og_id o1 = us_tenant u) (ia_orgs db) then (Fail SqlErr, db)
     else (Ok (), db\<lparr> ia_users := ia_users db @
       [u\<lparr> us_roles := [], us_reset := '''', us_reset_expiry := None, us_created := now, us_updated := now \<rparr>] \<rparr>))"

definition UserRepo_GetByID :: "bool \<Rightarrow> uuid \<Rightarrow> iam_db \<Rightarrow> (iam_err, user) outcome" where
  "UserRepo_GetByID up ident db = first_row UserNotFound up (\<lambda>u. us_id u = ident) (ia_users db)"

definition UserRepo_GetByEmail :: "bool \<Rightarrow> string \<Rightarrow> iam_db \<Rightarrow> (iam_err, user) outcome" where
  "UserRepo_GetByEmail up email db = first_row UserNotFound up (\<lambda>u. us_email u = email) (ia_users db)"

definition UserRepo_GetByVerifyToken :: "bool \<Rightarrow> string \<Rightarrow> iam_db \<Rightarrow> (iam_err, user) outcome" where
  "UserRepo_GetByVerifyToken up token db = first_row UserNotFound up (\<lambda>u. us_verify u = token) (ia_users db)"

definition UserRepo_GetByResetToken :: "bool \<Rightarrow> instant \<Rightarrow> string \<Rightarrow> iam_db \<Rightarrow> (iam_err, user) outcome" where
  "UserRepo_GetByResetToken up now token db = first_row InvalidResetToken up
     (\<lambda>u. us_reset u = token \<and> (case us_reset_expiry u of None \<Rightarrow> False | Some e \<Rightarrow> now < e)) (ia_users db)"

definition UserRepo_Update :: "bool \<Rightarrow> instant \<Rightarrow> user \<Rightarrow> unit iam_call" where
  "UserRepo_Update up now u db =
    (if \<not> up then (Fail SqlErr, db)
     else (Ok (), db\<lparr> ia_users := map (\<lambda>x. if us_id x = us_id u
         then x\<lparr> us_first := us_first u, us_last := us_last u, us_password := us_password u, us_status := us_status u,
                 us_verified := us_verified u, us_verify := us_verify u, us_reset := us_reset u,
                 us_reset_expiry := us_reset_expiry u, us_updated := now \<rparr> else x) (ia_users db) \<rparr>))"

text \<open>Deleting users takes their roles, tokens and memberships along.\<close>

definition drop_users :: "(user \<Rightarrow> bool) \<Rightarrow> iam_db \<Rightarrow> iam_db" where
  "drop_users P db =
    (let gone = map us_id (filter P (ia_users db)) in db\<lparr>
       ia_users := filter (\<lambda>u. us_id u \<notin> set gone) (ia_users db),
       ia_roles := filter (\<lambda>(u, r). u \<notin> set gone) (ia_roles db),
       ia_tokens := filter (\<lambda>t. rt_user t \<notin> set gone) (ia_tokens db),
       ia_members := filter (\<lambda>m. mb_user m \<notin> set gone) (ia_members db) \<rparr>)"

definition UserRepo_Delete :: "bool \<Rightarrow> uuid \<Rightarrow> unit iam_call" where
  "UserRepo_Delete up ident db =
    (if \<not> up then (Fail SqlErr, db) else (Ok (), drop_users (\<lambda>u. us_id u = ident) db))"

definition GetRoles :: "bool \<Rightarrow> uuid \<Rightarrow> iam_db \<Rightarrow> (iam_err, string list) outcome" where
  "GetRoles up userID db =
    (if \<not> up then Fail SqlErr else Ok (map snd (filter (\<lambda>(u, r). u = userID) (ia_roles db))))"

text \<open>One transaction: delete the roles of the user and insert the new ones, which fails as a whole for
  a repeated role or an unknown user. \<open>up\<close> says whether all its statements reach the database.\<close>

definition SetRoles :: "bool \<Rightarrow> uuid \<Rightarrow> string list \<Rightarrow> unit iam_call" where
  "SetRoles up userID roles db =
    (if \<not> up \<or> \<not> distinct roles \<or> (roles \<noteq> [] \<and> \<not> list_ex (\<lambda>u. us_id u = userID) (ia_users db)) then (Fail SqlErr, db)
     else (Ok (), db\<lparr> ia_roles := filter (\<lambda>(u, r). u \<noteq> userID) (ia_roles db) @ map (Pair userID) roles \<rparr>))"

section \<open>Refresh tokens\<close>

definition SaveRefreshToken :: "bool \<Rightarrow> instant \<Rightarrow> refresh_token \<Rightarrow> unit iam_call" where
  "SaveRefreshToken up now t db =
    (if \<not> up \<or> list_ex (\<lambda>x. rt_id x = rt_id t \<or> rt_hash x = rt_hash t) (ia_tokens db)
        \<or> \<not> list_ex (\<lambda>u. us_id u = rt_user t) (ia_users db) then (Fail SqlErr, db)
     else (Ok (), db\<lparr> ia_tokens := ia_tokens db @ [t\<lparr> rt_created := now \<rparr>] \<rparr>))"

definition GetRefreshToken :: "bool \<Rightarrow> string \<Rightarrow> iam_db \<Rightarrow> (iam_err, refresh_token) outcome" where
  "GetRefreshToken up tokenHash db = first_row TokenNotFound up (\<lambda>t. rt_hash t = tokenHash) (ia_tokens db)"

definition revoke_tokens :: "(refresh_token \<Rightarrow> bool) \<Rightarrow> iam_db \<Rightarrow> iam_db" where
  "revoke_tokens P db = db\<lparr> ia_tokens := map (\<lambda>t. if P t then t\<lparr> rt_revoked := True \<rparr> else t) (ia_tokens db) \<rparr>"

definition exchangeable :: "instant \<Rightarrow> string \<Rightarrow> refresh_token \<Rightarrow> bool" where
  "exchangeable now tokenHash t = (rt_hash t = tokenHash \<and> \<not> rt_revoked t \<and> now < rt_expires t)"

definition GetAndRevokeRefreshToken :: "bool \<Rightarrow> instant \<Rightarrow> string \<Rightarrow> refresh_token iam_call" where
  "GetAndRevokeRefreshToken up now tokenHash db =
    (case first_row TokenNotFound up (exchangeable now tokenHash) (ia_tokens db) of
       Ok t \<Rightarrow> (Ok (t\<lparr> rt_revoked := True \<rparr>), revoke_tokens (exchangeable now tokenHash) db)
     | r \<Rightarrow> (r, db))"

definition RevokeRefreshToken :: "bool \<Rightarrow> string \<Rightarrow> unit iam_call" where
  "RevokeRefreshToken up tokenHash db =
    (if \<not> up then (Fail SqlErr, db) else (Ok (), revoke_tokens (\<lambda>t. rt_hash t = tokenHash) db))"

definition RevokeFamily :: "bool \<Rightarrow> uuid \<Rightarrow> unit iam_call" where
  "RevokeFamily up family db =
    (if \<not> up then (Fail SqlErr, db) else (Ok (), revoke_tokens (\<lambda>t. rt_family t = family) db))"

definition RevokeAllForUser :: "bool \<Rightarrow> uuid \<Rightarrow> unit iam_call" where
  "RevokeAllForUser up userID db =
    (if \<not> up then (Fail SqlErr, db) else (Ok (), revoke_tokens (\<lambda>t. rt_user t = userID) db))"

definition DeleteExpired :: "bool \<Rightarrow> instant \<Rightarrow> unit iam_call" where
  "DeleteExpired up now db =
    (if \<not> up then (Fail SqlErr, db)
     else (Ok (), db\<lparr> ia_tokens := filter (\<lambda>t. \<not> rt_expires t < now) (ia_tokens db) \<rparr>))"

section \<open>Organisations\<close>

definition OrgRepo_Create :: "bool \<Rightarrow> instant \<Rightarrow> org \<Rightarrow> unit iam_call" where
  "OrgRepo_Create up now o1 db =
    (if \<not> up then (Fail SqlErr, db)
     else if list_ex (\<lambda>x. og_id x = og_id o1 \<or> og_slug x = og_slug o1) (ia_orgs db) then (Fail SlugAlreadyTaken, db)
     else (Ok (), db\<lparr> ia_orgs := ia_orgs db @ [o1\<lparr> og_created := now, og_updated := now \<rparr>] \<rparr>))"

definition OrgRepo_GetByID :: "bool \<Rightarrow> uuid \<Rightarrow> iam_db \<Rightarrow> (iam_err, org) outcome" where
  "OrgRepo_GetByID up ident db = first_row OrgNotFound up (\<lambda>o1. og_id o1 = ident) (ia_orgs db)"

definition OrgRepo_GetBySlug :: "bool \<Rightarrow> string \<Rightarrow> iam_db \<Rightarrow> (iam_err, org) outcome" where
  "OrgRepo_GetBySlug up slug db = first_row OrgNotFound up (\<lambda>o1. og_slug o1 = slug) (ia_orgs db)"

text \<open>ORDER BY created_at DESC LIMIT OFFSET; Postgres rejects a negative limit or offset. The total is a
  query of its own.\<close>

definition newest_page :: "('a \<Rightarrow> instant) \<Rightarrow> 'a list \<Rightarrow> int \<Rightarrow> int \<Rightarrow> 'a list" where
  "newest_page created rows lmt off = take (nat lmt) (drop (nat off) (sort_key (\<lambda>r. - created r) rows))"

definition OrgRepo_List :: "(nat \<Rightarrow> bool) \<Rightarrow> int \<Rightarrow> int \<Rightarrow> iam_db \<Rightarrow> (iam_err, org list \<times> nat) outcome" where
  "OrgRepo_List up lmt off db =
    (if \<not> up 0 \<or> lmt < 0 \<or> off < 0 \<or> \<not> up 1 then Fail SqlErr
     else Ok (newest_page og_created (ia_orgs db) lmt off, length (ia_orgs db)))"

definition OrgRepo_Update :: "bool \<Rightarrow> instant \<Rightarrow> org \<Rightarrow> unit iam_call" where
  "OrgRepo_Update up now o1 db =
    (if \<not> up then (Fail SqlErr, db)
     else (Ok (), db\<lparr> ia_orgs := map (\<lambda>x. if og_id x = og_id o1
         then x\<lparr> og_name := og_name o1, og_logo := og_logo o1, og_website := og_website o1, og_updated := now \<rparr>
         else x) (ia_orgs db) \<rparr>))"

text \<open>Deleting workspaces takes their members and keys along.\<close>

definition drop_workspaces :: "(workspace \<Rightarrow> bool) \<Rightarrow> iam_db \<Rightarrow> iam_db" where
  "drop_workspaces P db =
    (let gone = map wk_id (filter P (ia_workspaces db)) in db\<lparr>
       ia_workspaces := filter (\<lambda>w. wk_id w \<notin> set gone) (ia_workspaces db),
       ia_members := filter (\<lambda>m. mb_workspace m \<notin> set gone) (ia_members db),
       ia_wskeys := filter (\<lambda>k. wa_workspace k \<notin> set gone) (ia_wskeys db) \<rparr>)"

definition OrgRepo_Delete :: "bool \<Rightarrow> uuid \<Rightarrow> unit iam_call" where
  "OrgRepo_Delete up ident db =
    (if \<not> up then (Fail SqlErr, db)
     else (Ok (), (drop_workspaces (\<lambda>w. wk_org w = ident) (drop_users (\<lambda>u. us_tenant u = ident) db))\<lparr>
        ia_orgs := filter (\<lambda>o1. og_id o1 \<noteq> ident) (ia_orgs db) \<rparr>))"

section \<open>Workspaces\<close>

definition WorkspaceRepo_Create :: "bool \<Rightarrow> instant \<Rightarrow> workspace \<Rightarrow> unit iam_call" where
  "WorkspaceRepo_Create up now w db =
    (if \<not> up then (Fail SqlErr, db)
     else if list_ex (\<lambda>x. wk_id x = wk_id w \<or> wk_slug x = wk_slug w) (ia_workspaces db) then (Fail SlugAlreadyTaken, db)
     else if \<not> list_ex (\<lambda>o1. og_id o1 = wk_org w) (ia_orgs db) then (Fail SqlErr, db)
     else (Ok (), db\<lparr> ia_workspaces := ia_workspaces db @ [w\<lparr> wk_members := 0, wk_created := now, wk_updated := now \<rparr>] \<rparr>))"

text \<open>member_count is counted at each read; the table has no such column (the record keeps 0).\<close>

definition counted :: "iam_db \<Rightarrow> workspace \<Rightarrow> workspace" where
  "counted db w = w\<lparr> wk_members := length (filter (\<lambda>m. mb_workspace m = wk_id w) (ia_members db)) \<rparr>"

definition WorkspaceRepo_GetByID :: "bool \<Rightarrow> uuid \<Rightarrow> iam_db \<Rightarrow> (iam_err, workspace) outcome" where
  "WorkspaceRepo_GetByID up ident db =
    bind_o (first_row WorkspaceNotFound up (\<lambda>w. wk_id w = ident) (ia_workspaces db)) (\<lambda>w. Ok (counted db w))"

definition ListByOrg :: "bool \<Rightarrow> uuid \<Rightarrow> iam_db \<Rightarrow> (iam_err, workspace list) outcome" where
  "ListByOrg up orgID db =
    (if \<not> up then Fail SqlErr
     else Ok (map (counted db) (sort_key wk_created (filter (\<lambda>w. wk_org w = orgID) (ia_workspaces db)))))"

definition WorkspaceRepo_Update :: "bool \<Rightarrow> instant \<Rightarrow> workspace \<Rightarrow> unit iam_call" where
  "WorkspaceRepo_Update up now w db =
    (if \<not> up then (Fail SqlErr, db)
     else if list_ex (\<lambda>x. wk_id x = wk_id w) (ia_workspaces db) \<and>
         list_ex (\<lambda>x. wk_id x \<noteq> wk_id w \<and> wk_slug x = wk_slug w) (ia_workspaces db) then (Fail SlugAlreadyTaken, db)
     else (Ok (), db\<lparr> ia_workspaces := map (\<lambda>x. if wk_id x = wk_id w
         then x\<lparr> wk_name := wk_name w, wk_slug := wk_slug w, wk_description := wk_description w, wk_updated := now \<rparr>
         else x) (ia_workspaces db) \<rparr>))"

definition WorkspaceRepo_Delete :: "bool \<Rightarrow> uuid \<Rightarrow> unit iam_call" where
  "WorkspaceRepo_Delete up ident db =
    (if \<not> up then (Fail SqlErr, db) else (Ok (), drop_workspaces (\<lambda>w. wk_id w = ident) db))"

section \<open>Members\<close>

text \<open>The ids of a member are texts that Postgres casts to uuid (\<open>cast\<close>); a text that is not one is
  quoted in the error. The repository takes any error that mentions the words unique or duplicate for a
  unique violation.\<close>

definition taken_for_unique :: "string \<Rightarrow> bool" where
  "taken_for_unique s = (sublist ''unique'' s \<or> sublist ''duplicate'' s)"

definition ListMembers :: "bool \<Rightarrow> (string \<Rightarrow> uuid option) \<Rightarrow> string \<Rightarrow> iam_db \<Rightarrow> (iam_err, member list) outcome" where
  "ListMembers up cast workspaceID db =
    (if \<not> up then Fail SqlErr else
     case cast workspaceID of
       None \<Rightarrow> Fail SqlErr
     | Some w \<Rightarrow> Ok (concat (map (\<lambda>m. map (\<lambda>u. m\<lparr> mb_name := us_first u @ '' '' @ us_last u, mb_email := us_email u \<rparr>)
           (filter (\<lambda>u. us_id u = mb_user m) (ia_users db)))
         (sort_key mb_joined (filter (\<lambda>m. mb_workspace m = w) (ia_members db))))))"

definition bad_cast :: "string \<Rightarrow> iam_err" where
  "bad_cast s = (if taken_for_unique s then MemberAlreadyExists else SqlErr)"

definition AddMember :: "bool \<Rightarrow> (string \<Rightarrow> uuid option) \<Rightarrow> uuid \<Rightarrow> string \<Rightarrow> string \<Rightarrow> string \<Rightarrow> instant \<Rightarrow> unit iam_call" where
  "AddMember up cast newID workspaceID userID role joined db =
    (if \<not> up then (Fail SqlErr, db) else
     case (cast workspaceID, cast userID) of
       (None, _) \<Rightarrow> (Fail (bad_cast workspaceID), db)
     | (Some w, None) \<Rightarrow> (Fail (bad_cast userID), db)
     | (Some w, Some u) \<Rightarrow>
         if list_ex (\<lambda>m. mb_id m = newID \<or> (mb_workspace m = w \<and> mb_user m = u)) (ia_members db)
         then (Fail MemberAlreadyExists, db)
         else if \<not> list_ex (\<lambda>x. wk_id x = w) (ia_workspaces db) \<or> \<not> list_ex (\<lambda>x. us_id x = u) (ia_users db)
         then (Fail SqlErr, db)
         else (Ok (), db\<lparr> ia_members := ia_members db @ [\<lparr> mb_id = newID, mb_workspace = w, mb_user = u, mb_name = '''',
                 mb_email = '''', mb_role = role, mb_joined = joined \<rparr>] \<rparr>))"

definition is_member :: "uuid \<Rightarrow> uuid \<Rightarrow> member \<Rightarrow> bool" where
  "is_member w u m = (mb_workspace m = w \<and> mb_user m = u)"

definition UpdateMember :: "bool \<Rightarrow> (string \<Rightarrow> uuid option) \<Rightarrow> string \<Rightarrow> string \<Rightarrow> string \<Rightarrow> unit iam_call" where
  "UpdateMember up cast workspaceID userID role db =
    (if \<not> up then (Fail SqlErr, db) else
     case (cast workspaceID, cast userID) of
       (Some w, Some u) \<Rightarrow>
         if \<not> list_ex (is_member w u) (ia_members db) then (Fail MemberNotFound, db)
         else (Ok (), db\<lparr> ia_members := map (\<lambda>m. if is_member w u m then m\<lparr> mb_role := role \<rparr> else m) (ia_members db) \<rparr>)
     | _ \<Rightarrow> (Fail SqlErr, db))"

definition RemoveMember :: "bool \<Rightarrow> (string \<Rightarrow> uuid option) \<Rightarrow> string \<Rightarrow> string \<Rightarrow> unit iam_call" where
  "RemoveMember up cast workspaceID userID db =
    (if \<not> up then (Fail SqlErr, db) else
     case (cast workspaceID, cast userID) of
       (Some w, Some u) \<Rightarrow>
         if \<not> list_ex (is_member w u) (ia_members db) then (Fail MemberNotFound, db)
         else (Ok (), db\<lparr> ia_members := filter (\<lambda>m. \<not> is_member w u m) (ia_members db) \<rparr>)
     | _ \<Rightarrow> (Fail SqlErr, db))"

section \<open>API keys\<close>

text \<open>A nil slice of scopes is sent as NULL, which the column does not admit.\<close>

definition APIKeyRepo_List :: "bool \<Rightarrow> string \<Rightarrow> iam_db \<Rightarrow> (iam_err, api_key list) outcome" where
  "APIKeyRepo_List up tenantID db =
    (if \<not> up then Fail SqlErr
     else Ok (sort_key (\<lambda>k. - ak_created k) (filter (\<lambda>k. ak_tenant k = tenantID) (ia_keys db))))"

definition APIKeyRepo_Create :: "bool \<Rightarrow> api_key \<Rightarrow> unit iam_call" where
  "APIKeyRepo_Create up k db =
    (if \<not> up \<or> ak_scopes k = None \<or> list_ex (\<lambda>x. ak_id x = ak_id k \<or> ak_hash x = ak_hash k) (ia_keys db)
     then (Fail SqlErr, db)
     else (Ok (), db\<lparr> ia_keys := ia_keys db @ [k\<lparr> ak_used := None \<rparr>] \<rparr>))"

definition DeleteAPIKey :: "bool \<Rightarrow> string \<Rightarrow> string \<Rightarrow> unit iam_call" where
  "DeleteAPIKey up ident tenantID db =
    (if \<not> up then (Fail SqlErr, db)
     else if \<not> list_ex (\<lambda>k. ak_id k = ident \<and> ak_tenant k = tenantID) (ia_keys db) then (Fail APIKeyNotFound, db)
     else (Ok (), db\<lparr> ia_keys := filter (\<lambda>k. \<not> (ak_id k = ident \<and> ak_tenant k = tenantID)) (ia_keys db) \<rparr>))"

definition GetByHash :: "bool \<Rightarrow> string \<Rightarrow> iam_db \<Rightarrow> (iam_err, api_key) outcome" where
  "GetByHash up keyHash db = first_row APIKeyNotFound up (\<lambda>k. ak_hash k = keyHash) (ia_keys db)"

section \<open>Workspace API keys\<close>

definition live_in :: "uuid \<Rightarrow> ws_key \<Rightarrow> bool" where
  "live_in w k = (wa_workspace k = w \<and> wa_revoked k = None)"

definition WsKeyRepo_Save :: "bool \<Rightarrow> ws_key \<Rightarrow> unit iam_call" where
  "WsKeyRepo_Save up k db =
    (if \<not> up \<or> list_ex (\<lambda>x. wa_id x = wa_id k \<or> wa_hash x = wa_hash k) (ia_wskeys db)
        \<or> \<not> list_ex (\<lambda>w. wk_id w = wa_workspace k) (ia_workspaces db) then (Fail SqlErr, db)
     else (Ok (), db\<lparr> ia_wskeys := ia_wskeys db @ [k\<lparr> wa_used := None, wa_revoked := None \<rparr>] \<rparr>))"

definition GetByPrefix :: "bool \<Rightarrow> string \<Rightarrow> iam_db \<Rightarrow> (iam_err, ws_key) outcome" where
  "GetByPrefix up keyPrefix db =
    first_row WorkspaceAPIKeyNotFound up (\<lambda>k. wa_prefix k = keyPrefix \<and> wa_revoked k = None) (ia_wskeys db)"

definition WsKeyRepo_List :: "(nat \<Rightarrow> bool) \<Rightarrow> uuid \<Rightarrow> int \<Rightarrow> int \<Rightarrow> iam_db \<Rightarrow> (iam_err, ws_key list \<times> nat) outcome" where
  "WsKeyRepo_List up w lmt off db =
    (if \<not> up 0 \<or> \<not> up 1 \<or> lmt < 0 \<or> off < 0 then Fail SqlErr
     else let rows = filter (live_in w) (ia_wskeys db) in Ok (newest_page wa_created rows lmt off, length rows))"

definition WsKeyRepo_Revoke :: "bool \<Rightarrow> instant \<Rightarrow> uuid \<Rightarrow> uuid \<Rightarrow> unit iam_call" where
  "WsKeyRepo_Revoke up now ident w db =
    (if \<not> up then (Fail SqlErr, db)
     else if \<not> list_ex (\<lambda>k. wa_id k = ident \<and> live_in w k) (ia_wskeys db) then (Fail WorkspaceAPIKeyNotFound, db)
     else (Ok (), db\<lparr> ia_wskeys := map (\<lambda>k. if wa_id k = ident \<and> live_in w k then k\<lparr> wa_revoked := Some now \<rparr> else k)
         (ia_wskeys db) \<rparr>))"

section \<open>The Redis cache\<close>

text \<open>\<open>ok\<close> says whether Redis answers; an error is None. The json of a session is an argument.\<close>

definition sessionKey :: "string \<Rightarrow> string" where "sessionKey userID = ''session:'' @ userID"
definition blacklistKey :: "string \<Rightarrow> string" where "blacklistKey jti = ''blacklist:jti:'' @ jti"

definition SetUserSession :: "instant \<Rightarrow> bool \<Rightarrow> string \<Rightarrow> string option \<Rightarrow> int \<Rightarrow> redis \<Rightarrow> redis option" where
  "SetUserSession now ok userID json ttlSeconds r =
    (case json of None \<Rightarrow> None
     | Some b \<Rightarrow> if ok then Some (redis_set now (sessionKey userID) b (wrap64 (ttlSeconds * second)) r) else None)"

definition GetUserSession :: "instant \<Rightarrow> bool \<Rightarrow> string \<Rightarrow> redis \<Rightarrow> string option" where
  "GetUserSession now ok userID r = (if ok then redis_get now r (sessionKey userID) else None)"

definition DeleteUserSession :: "bool \<Rightarrow> string \<Rightarrow> redis \<Rightarrow> redis option" where
  "DeleteUserSession ok userID r = (if ok then Some (redis_del (sessionKey userID) r) else None)"

definition BlacklistToken :: "instant \<Rightarrow> bool \<Rightarrow> string \<Rightarrow> int \<Rightarrow> redis \<Rightarrow> redis option" where
  "BlacklistToken now ok jti ttlSeconds r =
    (if ok then Some (redis_set now (blacklistKey jti) ''1'' (wrap64 (ttlSeconds * second)) r) else None)"

definition IsTokenBlacklisted :: "instant \<Rightarrow> bool \<Rightarrow> string \<Rightarrow> redis \<Rightarrow> bool option" where
  "IsTokenBlacklisted now ok jti r =
    (if \<not> ok then None else case redis_get now r (blacklistKey jti) of None \<Rightarrow> Some False | Some v \<Rightarrow> Some (v = ''1''))"

end
