(* ===== verification/IAM_Service.thy ===== *)
theory IAM_Service
  imports IAM_Store
begin

text \<open>
  The use cases of the identity service (services/iam/internal/application) over its database, its Redis
  cache and the topic of user events (infrastructure/kafka/producer.go). One record gives what the
  environment supplies to a call: the clock, the ids drawn in the order of the code, random bytes,
  uuid.Parse, Postgres's cast to uuid, SHA-256 in hex, bcrypt, the mail address parser, strings.ToLower,
  the signer of access tokens, and which requests to the database, Redis and Kafka succeed.
\<close>

record access_claims = claims +
  ac_issuer :: string
  ac_subject :: string
  ac_issued :: instant
  ac_expires :: instant
  ac_jti :: string

record iam_env =
  ie_now :: instant
  ie_fresh :: "nat \<Rightarrow> uuid"
  ie_rand :: "8 word list option"
  ie_parse :: "string \<Rightarrow> uuid option"
  ie_cast :: "string \<Rightarrow> uuid option"
  ie_sha :: "string \<Rightarrow> string"
  ie_bcrypt :: "string \<Rightarrow> string option"
  ie_matches :: "string \<Rightarrow> string \<Rightarrow> bool"
  ie_mail :: "string \<Rightarrow> bool"
  ie_lower :: "string \<Rightarrow> string"
  ie_issuer :: string
  ie_sign :: "access_claims \<Rightarrow> string option"
  ie_db :: "nat \<Rightarrow> bool"
  ie_redis :: bool
  ie_kafka :: bool

record user_event =
  ue_id :: uuid
  ue_type :: string
  ue_key :: string
  ue_time :: instant
  ue_payload :: "(string \<times> string) list"

record iam =
  im_db :: iam_db
  im_redis :: redis
  im_topic :: "user_event list"

section \<open>Sequencing\<close>

text \<open>A call that may fail and changes the state of the service; \<open>quiet\<close> drops the error of a call (it is
  logged), \<open>failing\<close> replaces it.\<close>

type_synonym 'a iam_svc = "iam \<Rightarrow> (iam_err, 'a) outcome \<times> iam"

definition ret_s :: "'a \<Rightarrow> 'a iam_svc" where "ret_s x s = (Ok x, s)"

definition fail_s :: "iam_err \<Rightarrow> 'a iam_svc" where "fail_s e s = (Fail e, s)"

definition lift_s :: "(iam_err, 'a) outcome \<Rightarrow> 'a iam_svc" where "lift_s r s = (r, s)"

definition bind_s :: "'a iam_svc \<Rightarrow> ('a \<Rightarrow> 'b iam_svc) \<Rightarrow> 'b iam_svc" where
  "bind_s m k s = (case m s of
      (Ok x, s') \<Rightarrow> k x s' | (Fail e, s') \<Rightarrow> (Fail e, s') | (Panic, s') \<Rightarrow> (Panic, s'))"

definition read_s :: "(iam_db \<Rightarrow> (iam_err, 'a) outcome) \<Rightarrow> 'a iam_svc" where
  "read_s f s = (f (im_db s), s)"

definition exec_s :: "'a iam_call \<Rightarrow> 'a iam_svc" where
  "exec_s f s = (case f (im_db s) of (r, db') \<Rightarrow> (r, s\<lparr> im_db := db' \<rparr>))"

definition quiet :: "unit iam_svc \<Rightarrow> unit iam_svc" where
  "quiet m s = (Ok (), snd (m s))"

definition failing :: "iam_err \<Rightarrow> 'a iam_svc \<Rightarrow> 'a iam_svc" where
  "failing e m s = (case m s of (Fail _, s') \<Rightarrow> (Fail e, s') | r \<Rightarrow> r)"

definition when_s :: "bool \<Rightarrow> unit iam_svc \<Rightarrow> unit iam_svc" where
  "when_s b m = (if b then m else ret_s ())"

definition parse_s :: "iam_env \<Rightarrow> string \<Rightarrow> uuid iam_svc" where
  "parse_s env t = lift_s (case ie_parse env t of None \<Rightarrow> Fail UuidErr | Some u \<Rightarrow> Ok u)"

lemmas svc_defs = ret_s_def fail_s_def lift_s_def bind_s_def read_s_def exec_s_def quiet_def failing_def when_s_def parse_s_def

section \<open>User events\<close>

definition publish :: "iam_env \<Rightarrow> uuid \<Rightarrow> string \<Rightarrow> string \<Rightarrow> (string \<times> string) list \<Rightarrow> unit iam_svc" where
  "publish env eventID eventType key payload s =
    (if \<not> ie_kafka env then (Fail SqlErr, s)
     else (Ok (), s\<lparr> im_topic := im_topic s @ [\<lparr> ue_id = eventID, ue_type = eventType, ue_key = key,
        ue_time = ie_now env, ue_payload = payload \<rparr>] \<rparr>))"

definition PublishUserRegistered :: "iam_env \<Rightarrow> uuid \<Rightarrow> user \<Rightarrow> unit iam_svc" where
  "PublishUserRegistered env eventID u = publish env eventID ''user.registered'' (us_id u)
     [(''user_id'', us_id u), (''tenant_id'', us_tenant u), (''email'', us_email u), (''first_name'', us_first u),
      (''last_name'', us_last u)]"

definition PublishUserLoggedIn :: "iam_env \<Rightarrow> uuid \<Rightarrow> user \<Rightarrow> string \<Rightarrow> unit iam_svc" where
  "PublishUserLoggedIn env eventID u ip = publish env eventID ''user.logged_in'' (us_id u)
     [(''user_id'', us_id u), (''email'', us_email u), (''ip'', ip)]"

definition PublishPasswordChanged :: "iam_env \<Rightarrow> uuid \<Rightarrow> uuid \<Rightarrow> unit iam_svc" where
  "PublishPasswordChanged env eventID userID = publish env eventID ''user.password_changed'' userID [(''user_id'', userID)]"

definition PublishEmailVerified :: "iam_env \<Rightarrow> uuid \<Rightarrow> uuid \<Rightarrow> unit iam_svc" where
  "PublishEmailVerified env eventID userID = publish env eventID ''user.email_verified'' userID [(''user_id'', userID)]"

section \<open>Accounts and sessions\<close>

definition accessTokenTTL :: duration where "accessTokenTTL = 900 * second"
definition refreshTokenTTL :: duration where "refreshTokenTTL = 7 * 24 * hour"

record register_input =
  ri_tenant :: string
  ri_email :: string
  ri_password :: string
  ri_first :: string
  ri_last :: string

record client_info =
  ci_agent :: string
  ci_ip :: string

definition new_user :: "iam_env \<Rightarrow> nat \<Rightarrow> uuid \<Rightarrow> string \<Rightarrow> string \<Rightarrow> string \<Rightarrow> string \<Rightarrow> user iam_svc" where
  "new_user env i tenantID email password firstName lastName =
    lift_s (NewUser (ie_now env) (ie_mail env) (ie_sha env) (ie_bcrypt env) (ie_fresh env i) (ie_fresh env (i + 1))
      tenantID email password firstName lastName)"

text \<open>An address counts as taken only when the lookup finds a user; a lookup that fails does not stop the
  registration.\<close>

definition check_email :: "iam_env \<Rightarrow> string \<Rightarrow> unit iam_svc" where
  "check_email env email = read_s (\<lambda>db.
     if is_ok (UserRepo_GetByEmail (ie_db env 0) email db) then Fail EmailAlreadyRegistered else Ok ())"

definition Register :: "iam_env \<Rightarrow> register_input \<Rightarrow> user iam_svc" where
  "Register env inp =
    bind_s (parse_s env (ri_tenant inp)) (\<lambda>tenantID.
    bind_s (check_email env (ri_email inp)) (\<lambda>_.
    bind_s (new_user env 0 tenantID (ri_email inp) (ri_password inp) (ri_first inp) (ri_last inp)) (\<lambda>u.
    bind_s (exec_s (UserRepo_Create (ie_db env 1) (ie_now env) (u\<lparr> us_verify := ie_sha env (us_verify u) \<rparr>))) (\<lambda>_.
    bind_s (exec_s (SetRoles (ie_db env 2) (us_id u) (us_roles u))) (\<lambda>_.
    bind_s (quiet (PublishUserRegistered env (ie_fresh env 2) u)) (\<lambda>_. ret_s u))))))"

definition token_claims :: "iam_env \<Rightarrow> user \<Rightarrow> string \<Rightarrow> access_claims" where
  "token_claims env u jti = \<lparr> cl_uid = us_id u, cl_tid = us_tenant u, cl_email = us_email u, cl_roles = us_roles u,
     ac_issuer = ie_issuer env, ac_subject = us_id u, ac_issued = ie_now env,
     ac_expires = ie_now env + accessTokenTTL, ac_jti = jti \<rparr>"

text \<open>\<open>i\<close> is the index of the first id that the call draws, \<open>d\<close> that of its first database request.\<close>

definition issueTokenPair :: "iam_env \<Rightarrow> nat \<Rightarrow> nat \<Rightarrow> user \<Rightarrow> uuid \<Rightarrow> client_info \<Rightarrow> token_pair iam_svc" where
  "issueTokenPair env i d u family ci =
    (case ie_sign env (token_claims env u (ie_fresh env i)) of
       None \<Rightarrow> fail_s SignErr
     | Some accessToken \<Rightarrow>
         let rawRefresh = ie_fresh env (i + 1) in
         bind_s (exec_s (SaveRefreshToken (ie_db env d) (ie_now env) (NewRefreshToken (ie_now env) (ie_fresh env (i + 2))
           (us_id u) (ie_sha env rawRefresh) family refreshTokenTTL (ci_agent ci) (ci_ip ci)))) (\<lambda>_.
         ret_s \<lparr> tp_access = accessToken, tp_refresh = rawRefresh, tp_expires = ie_now env + accessTokenTTL,
           tp_type = ''Bearer'' \<rparr>))"

definition hide_unknown :: "(iam_err, 'a) outcome \<Rightarrow> (iam_err, 'a) outcome" where
  "hide_unknown r = (case r of Fail UserNotFound \<Rightarrow> Fail InvalidCredentials | _ \<Rightarrow> r)"

definition Login :: "iam_env \<Rightarrow> string \<Rightarrow> string \<Rightarrow> client_info \<Rightarrow> token_pair iam_svc" where
  "Login env email password ci =
    bind_s (read_s (\<lambda>db. hide_unknown (UserRepo_GetByEmail (ie_db env 0) email db))) (\<lambda>u.
    if \<not> CheckPassword (ie_sha env) (ie_matches env) u password then fail_s InvalidCredentials
    else if \<not> user_IsActive u then fail_s AccountIsNotActive
    else bind_s (failing GetRolesFailed (read_s (GetRoles (ie_db env 1) (us_id u)))) (\<lambda>roles.
    let u' = u\<lparr> us_roles := roles \<rparr> in
    bind_s (failing IssueTokenFailed (issueTokenPair env 1 2 u' (ie_fresh env 0) ci)) (\<lambda>pair.
    bind_s (quiet (PublishUserLoggedIn env (ie_fresh env 4) u' (ci_ip ci))) (\<lambda>_. ret_s pair))))"

definition Refresh :: "iam_env \<Rightarrow> string \<Rightarrow> client_info \<Rightarrow> token_pair iam_svc" where
  "Refresh env refreshToken ci =
    bind_s (failing InvalidToken (exec_s (GetAndRevokeRefreshToken (ie_db env 0) (ie_now env) (ie_sha env refreshToken)))) (\<lambda>stored.
    bind_s (read_s (UserRepo_GetByID (ie_db env 1) (rt_user stored))) (\<lambda>u.
    if \<not> user_IsActive u then fail_s AccountIsNotActive
    else bind_s (failing GetRolesFailed (read_s (GetRoles (ie_db env 2) (us_id u)))) (\<lambda>roles.
    failing IssueTokenFailed (issueTokenPair env 0 3 (u\<lparr> us_roles := roles \<rparr>) (rt_family stored) ci))))"

definition blacklist :: "iam_env \<Rightarrow> string \<Rightarrow> int \<Rightarrow> unit iam_svc" where
  "blacklist env jti ttl s = (case BlacklistToken (ie_now env) (ie_redis env) jti ttl (im_redis s) of
      None \<Rightarrow> (Fail SqlErr, s) | Some r \<Rightarrow> (Ok (), s\<lparr> im_redis := r \<rparr>))"

definition Logout :: "iam_env \<Rightarrow> string \<Rightarrow> string \<Rightarrow> int \<Rightarrow> unit iam_svc" where
  "Logout env refreshToken jti jtiTTL =
    bind_s (when_s (refreshToken \<noteq> '''') (quiet (exec_s (RevokeRefreshToken (ie_db env 0) (ie_sha env refreshToken))))) (\<lambda>_.
    when_s (jti \<noteq> '''') (quiet (blacklist env jti jtiTTL)))"

definition ForgotPassword :: "iam_env \<Rightarrow> string \<Rightarrow> unit iam_svc" where
  "ForgotPassword env email s =
    (case UserRepo_GetByEmail (ie_db env 0) email (im_db s) of
       Fail UserNotFound \<Rightarrow> (Ok (), s)
     | Fail e \<Rightarrow> (Fail e, s)
     | Panic \<Rightarrow> (Panic, s)
     | Ok u \<Rightarrow> exec_s (UserRepo_Update (ie_db env 1) (ie_now env)
         (SetResetToken (ie_now env) (ie_sha env (ie_fresh env 0)) (ie_now env + hour) u)) s)"

text \<open>What follows a new password: every refresh token of the user is revoked and an event published, both
  without failing the call.\<close>

definition after_password :: "iam_env \<Rightarrow> nat \<Rightarrow> uuid \<Rightarrow> unit iam_svc" where
  "after_password env d userID =
    bind_s (quiet (exec_s (RevokeAllForUser (ie_db env d) userID))) (\<lambda>_.
    quiet (PublishPasswordChanged env (ie_fresh env 0) userID))"

definition ResetPassword :: "iam_env \<Rightarrow> string \<Rightarrow> string \<Rightarrow> unit iam_svc" where
  "ResetPassword env token newPassword =
    (let tokenHash = ie_sha env token in
     bind_s (failing InvalidResetToken (read_s (UserRepo_GetByResetToken (ie_db env 0) (ie_now env) tokenHash))) (\<lambda>u.
     if \<not> IsResetTokenValid (ie_now env) u tokenHash then fail_s InvalidResetToken
     else bind_s (lift_s (SetPassword (ie_now env) (ie_sha env) (ie_bcrypt env) newPassword u)) (\<lambda>u1.
     let u2 = ClearResetToken (ie_now env) u1 in
     bind_s (exec_s (UserRepo_Update (ie_db env 1) (ie_now env) u2)) (\<lambda>_. after_password env 2 (us_id u2)))))"

definition VerifyEmail :: "iam_env \<Rightarrow> string \<Rightarrow> unit iam_svc" where
  "VerifyEmail env token =
    bind_s (failing InvalidToken (read_s (UserRepo_GetByVerifyToken (ie_db env 0) (ie_sha env token)))) (\<lambda>u.
    if us_verified u then ret_s () else
    bind_s (exec_s (UserRepo_Update (ie_db env 1) (ie_now env) (Activate (ie_now env) u))) (\<lambda>_.
    quiet (PublishEmailVerified env (ie_fresh env 0) (us_id u))))"

definition GetMe :: "iam_env \<Rightarrow> string \<Rightarrow> user iam_svc" where
  "GetMe env userID =
    bind_s (parse_s env userID) (\<lambda>ident.
    bind_s (read_s (UserRepo_GetByID (ie_db env 0) ident)) (\<lambda>u.
    bind_s (failing GetRolesFailed (read_s (GetRoles (ie_db env 1) ident))) (\<lambda>roles. ret_s (u\<lparr> us_roles := roles \<rparr>))))"

definition UpdateMe :: "iam_env \<Rightarrow> string \<Rightarrow> string \<Rightarrow> string \<Rightarrow> user iam_svc" where
  "UpdateMe env userID firstName lastName =
    bind_s (parse_s env userID) (\<lambda>ident.
    bind_s (read_s (UserRepo_GetByID (ie_db env 0) ident)) (\<lambda>u.
    let u1 = (if firstName \<noteq> '''' then u\<lparr> us_first := firstName \<rparr> else u);
        u2 = (if lastName \<noteq> '''' then u1\<lparr> us_last := lastName \<rparr> else u1);
        u3 = u2\<lparr> us_updated := ie_now env \<rparr>
    in bind_s (exec_s (UserRepo_Update (ie_db env 1) (ie_now env) u3)) (\<lambda>_. ret_s u3)))"

definition ChangePassword :: "iam_env \<Rightarrow> string \<Rightarrow> string \<Rightarrow> string \<Rightarrow> unit iam_svc" where
  "ChangePassword env userID currentPassword newPassword =
    bind_s (parse_s env userID) (\<lambda>ident.
    bind_s (read_s (UserRepo_GetByID (ie_db env 0) ident)) (\<lambda>u.
    if \<not> CheckPassword (ie_sha env) (ie_matches env) u currentPassword then fail_s InvalidPassword
    else bind_s (lift_s (SetPassword (ie_now env) (ie_sha env) (ie_bcrypt env) newPassword u)) (\<lambda>u1.
    bind_s (exec_s (UserRepo_Update (ie_db env 1) (ie_now env) u1)) (\<lambda>_. after_password env 2 (us_id u1)))))"

text \<open>A signup makes an organisation of its own: its slug is the local part of the address, without
  what is not a letter or a digit, with the first eight digits of a fresh id.\<close>

definition signup_slug :: "iam_env \<Rightarrow> string \<Rightarrow> string" where
  "signup_slug env emailPrefix =
    (let sanitized = filter slug_alnum emailPrefix in
     (if sanitized = '''' then ''user'' else sanitized) @ ''-'' @ take 8 (ie_fresh env 0))"

definition SelfSignup :: "iam_env \<Rightarrow> string \<Rightarrow> string \<Rightarrow> client_info \<Rightarrow> (token_pair \<times> user) iam_svc" where
  "SelfSignup env email password ci =
    bind_s (check_email env email) (\<lambda>_.
     let emailPrefix = ie_lower env (takeWhile (\<lambda>c. c \<noteq> CHR ''@'') email);
         slug = signup_slug env emailPrefix;
         orgID = ie_fresh env 1;
         first0 = takeWhile (\<lambda>c. c \<noteq> CHR ''.'') emailPrefix;
         firstName = (if first0 = '''' then ''User'' else first0)
     in bind_s (new_user env 2 orgID email password firstName ''User'') (\<lambda>u0.
     let u1 = (Activate (ie_now env) u0)\<lparr> us_verify := '''' \<rparr>;
         org1 = \<lparr> og_id = orgID, og_name = emailPrefix @ (CHR 0x27 # ''s Org''), og_slug = slug, og_plan = OrgPlanFree,
           og_owner = us_id u1, og_logo = '''', og_website = '''', og_created = ie_now env, og_updated = ie_now env \<rparr>
     in bind_s (exec_s (OrgRepo_Create (ie_db env 1) (ie_now env) org1)) (\<lambda>_.
     bind_s (exec_s (UserRepo_Create (ie_db env 2) (ie_now env) u1)) (\<lambda>_.
     let u2 = u1\<lparr> us_roles := [RoleAdmin] \<rparr> in
     bind_s (exec_s (SetRoles (ie_db env 3) (us_id u2) (us_roles u2))) (\<lambda>_.
     bind_s (issueTokenPair env 5 4 u2 (ie_fresh env 4) ci) (\<lambda>pair.
     bind_s (quiet (PublishUserRegistered env (ie_fresh env 8) u2)) (\<lambda>_. ret_s (pair, u2))))))))"

section \<open>Organisations and workspaces\<close>

record create_org_input =
  co_name :: string
  co_slug :: string
  co_owner :: string

definition slug_free :: "(iam_err, org) outcome \<Rightarrow> (iam_err, unit) outcome" where
  "slug_free r = (case r of
      Ok _ \<Rightarrow> Fail SlugAlreadyTaken | Fail OrgNotFound \<Rightarrow> Ok () | Fail e \<Rightarrow> Fail e | Panic \<Rightarrow> Panic)"

definition CreateOrg :: "iam_env \<Rightarrow> create_org_input \<Rightarrow> org iam_svc" where
  "CreateOrg env inp =
    bind_s (parse_s env (co_owner inp)) (\<lambda>ownerID.
    bind_s (read_s (\<lambda>db. slug_free (OrgRepo_GetBySlug (ie_db env 0) (co_slug inp) db))) (\<lambda>_.
    bind_s (lift_s (NewOrg (ie_now env) (ie_fresh env 0) (co_name inp) (co_slug inp) ownerID)) (\<lambda>o1.
    bind_s (exec_s (OrgRepo_Create (ie_db env 1) (ie_now env) o1)) (\<lambda>_. ret_s o1))))"

definition GetOrg :: "iam_env \<Rightarrow> string \<Rightarrow> org iam_svc" where
  "GetOrg env ident = bind_s (parse_s env ident) (\<lambda>uid. read_s (OrgRepo_GetByID (ie_db env 0) uid))"

definition ListOrgs :: "iam_env \<Rightarrow> int \<Rightarrow> int \<Rightarrow> (org list \<times> nat) iam_svc" where
  "ListOrgs env lmt off = read_s (OrgRepo_List (ie_db env) lmt off)"

record update_org_input =
  uo_name :: string
  uo_logo :: string
  uo_website :: string

definition apply_org_update :: "instant \<Rightarrow> update_org_input \<Rightarrow> org \<Rightarrow> org" where
  "apply_org_update now inp o0 =
    (let o1 = (if uo_name inp \<noteq> '''' then o0\<lparr> og_name := uo_name inp \<rparr> else o0);
         o2 = (if uo_logo inp \<noteq> '''' then o1\<lparr> og_logo := uo_logo inp \<rparr> else o1);
         o3 = (if uo_website inp \<noteq> '''' then o2\<lparr> og_website := uo_website inp \<rparr> else o2)
     in o3\<lparr> og_updated := now \<rparr>)"

definition UpdateOrg :: "iam_env \<Rightarrow> string \<Rightarrow> update_org_input \<Rightarrow> org iam_svc" where
  "UpdateOrg env ident inp =
    bind_s (parse_s env ident) (\<lambda>uid.
    bind_s (read_s (OrgRepo_GetByID (ie_db env 0) uid)) (\<lambda>o0.
    let o1 = apply_org_update (ie_now env) inp o0 in
    bind_s (exec_s (OrgRepo_Update (ie_db env 1) (ie_now env) o1)) (\<lambda>_. ret_s o1)))"

definition DeleteOrg :: "iam_env \<Rightarrow> string \<Rightarrow> unit iam_svc" where
  "DeleteOrg env ident = bind_s (parse_s env ident) (\<lambda>uid. exec_s (OrgRepo_Delete (ie_db env 0) uid))"

record create_workspace_input =
  cw_org :: string
  cw_name :: string
  cw_slug :: string
  cw_description :: string

definition CreateWorkspace :: "iam_env \<Rightarrow> create_workspace_input \<Rightarrow> workspace iam_svc" where
  "CreateWorkspace env inp =
    bind_s (parse_s env (cw_org inp)) (\<lambda>orgID.
    bind_s (read_s (OrgRepo_GetByID (ie_db env 0) orgID)) (\<lambda>_.
    bind_s (lift_s (NewWorkspace (ie_now env) (ie_fresh env 0) orgID (cw_name inp) (cw_slug inp) (cw_description inp))) (\<lambda>w.
    bind_s (exec_s (WorkspaceRepo_Create (ie_db env 1) (ie_now env) w)) (\<lambda>_. ret_s w))))"

definition GetWorkspace :: "iam_env \<Rightarrow> string \<Rightarrow> workspace iam_svc" where
  "GetWorkspace env ident = bind_s (parse_s env ident) (\<lambda>uid. read_s (WorkspaceRepo_GetByID (ie_db env 0) uid))"

definition ListWorkspaces :: "iam_env \<Rightarrow> string \<Rightarrow> workspace list iam_svc" where
  "ListWorkspaces env orgID = bind_s (parse_s env orgID) (\<lambda>uid. read_s (ListByOrg (ie_db env 0) uid))"

record update_workspace_input =
  uw_name :: string
  uw_slug :: string
  uw_description :: string

definition apply_workspace_update :: "instant \<Rightarrow> update_workspace_input \<Rightarrow> workspace \<Rightarrow> workspace" where
  "apply_workspace_update now inp w0 =
    (let w1 = (if uw_name inp \<noteq> '''' then w0\<lparr> wk_name := uw_name inp \<rparr> else w0);
         w2 = (if uw_slug inp \<noteq> '''' then w1\<lparr> wk_slug := uw_slug inp \<rparr> else w1);
         w3 = (if uw_description inp \<noteq> '''' then w2\<lparr> wk_description := uw_description inp \<rparr> else w2)
     in w3\<lparr> wk_updated := now \<rparr>)"

definition UpdateWorkspace :: "iam_env \<Rightarrow> string \<Rightarrow> update_workspace_input \<Rightarrow> workspace iam_svc" where
  "UpdateWorkspace env ident inp =
    bind_s (parse_s env ident) (\<lambda>uid.
    bind_s (read_s (WorkspaceRepo_GetByID (ie_db env 0) uid)) (\<lambda>w0.
    let w1 = apply_workspace_update (ie_now env) inp w0 in
    bind_s (exec_s (WorkspaceRepo_Update (ie_db env 1) (ie_now env) w1)) (\<lambda>_. ret_s w1)))"

definition DeleteWorkspace :: "iam_env \<Rightarrow> string \<Rightarrow> unit iam_svc" where
  "DeleteWorkspace env ident = bind_s (parse_s env ident) (\<lambda>uid. exec_s (WorkspaceRepo_Delete (ie_db env 0) uid))"

section \<open>Members\<close>

definition ListWorkspaceMembers :: "iam_env \<Rightarrow> string \<Rightarrow> member list iam_svc" where
  "ListWorkspaceMembers env workspaceID =
    bind_s (parse_s env workspaceID) (\<lambda>_. read_s (ListMembers (ie_db env 0) (ie_cast env) workspaceID))"

definition AddWorkspaceMember :: "iam_env \<Rightarrow> string \<Rightarrow> string \<Rightarrow> string \<Rightarrow> unit iam_svc" where
  "AddWorkspaceMember env workspaceID userID role =
    bind_s (parse_s env workspaceID) (\<lambda>_.
    if \<not> ValidRoles role then fail_s InvalidRole
    else exec_s (AddMember (ie_db env 0) (ie_cast env) (ie_fresh env 0) workspaceID userID role (ie_now env)))"

definition UpdateWorkspaceMember :: "iam_env \<Rightarrow> string \<Rightarrow> string \<Rightarrow> string \<Rightarrow> unit iam_svc" where
  "UpdateWorkspaceMember env workspaceID userID role =
    (if \<not> ValidRoles role then fail_s InvalidRole
     else exec_s (UpdateMember (ie_db env 0) (ie_cast env) workspaceID userID role))"

definition RemoveWorkspaceMember :: "iam_env \<Rightarrow> string \<Rightarrow> string \<Rightarrow> unit iam_svc" where
  "RemoveWorkspaceMember env workspaceID userID = exec_s (RemoveMember (ie_db env 0) (ie_cast env) workspaceID userID)"

section \<open>Keys\<close>

definition ListAPIKeys :: "iam_env \<Rightarrow> string \<Rightarrow> api_key list iam_svc" where
  "ListAPIKeys env tenantID = read_s (APIKeyRepo_List (ie_db env 0) tenantID)"

definition CreateAPIKey :: "iam_env \<Rightarrow> string \<Rightarrow> string \<Rightarrow> string \<Rightarrow> string list option \<Rightarrow> (api_key \<times> string) iam_svc" where
  "CreateAPIKey env tenantID userID name scopes =
    (case ie_rand env of
       None \<Rightarrow> fail_s EntropyErr
     | Some raw \<Rightarrow>
         let plainKey = hex_encode raw;
             key = \<lparr> ak_id = ie_fresh env 0, ak_tenant = tenantID, ak_user = userID, ak_name = name,
               ak_prefix = take 8 plainKey, ak_hash = ie_sha env plainKey, ak_scopes = scopes,
               ak_created = ie_now env, ak_used = None \<rparr>
         in bind_s (exec_s (APIKeyRepo_Create (ie_db env 0) key)) (\<lambda>_. ret_s (key, plainKey)))"

definition RevokeAPIKey :: "iam_env \<Rightarrow> string \<Rightarrow> string \<Rightarrow> unit iam_svc" where
  "RevokeAPIKey env ident tenantID = exec_s (DeleteAPIKey (ie_db env 0) ident tenantID)"

definition CreateWorkspaceAPIKey :: "iam_env \<Rightarrow> string \<Rightarrow> string \<Rightarrow> string \<Rightarrow> (ws_key \<times> string) iam_svc" where
  "CreateWorkspaceAPIKey env workspaceID name scope =
    bind_s (parse_s env workspaceID) (\<lambda>wsID.
    bind_s (read_s (WorkspaceRepo_GetByID (ie_db env 0) wsID)) (\<lambda>_.
    bind_s (lift_s (NewWorkspaceAPIKey (ie_now env) (ie_sha env) (ie_rand env) (ie_fresh env 0) wsID name scope)) (\<lambda>(key, plainKey).
    bind_s (exec_s (WsKeyRepo_Save (ie_db env 1) key)) (\<lambda>_. ret_s (key, plainKey)))))"

definition RevokeWorkspaceAPIKey :: "iam_env \<Rightarrow> string \<Rightarrow> string \<Rightarrow> unit iam_svc" where
  "RevokeWorkspaceAPIKey env workspaceID keyID =
    bind_s (parse_s env workspaceID) (\<lambda>wsID.
    bind_s (parse_s env keyID) (\<lambda>kID. exec_s (WsKeyRepo_Revoke (ie_db env 0) (ie_now env) kID wsID)))"

definition ListWorkspaceAPIKeys :: "iam_env \<Rightarrow> string \<Rightarrow> int \<Rightarrow> int \<Rightarrow> (ws_key list \<times> nat) iam_svc" where
  "ListWorkspaceAPIKeys env workspaceID lmt off =
    bind_s (parse_s env workspaceID) (\<lambda>wsID. read_s (WsKeyRepo_List (ie_db env) wsID lmt off))"

end
