(* ===== verification/IAM_Handler.thy ===== *)
theory IAM_Handler
  imports IAM_Service
begin

text \<open>
  The HTTP handlers and the router of the identity service (services/iam/internal/transport/http). A
  decoded request body is an argument, None when the json decoder rejects it; the texts of the messages are
  left out. A handler returns its response and the new state of the service.
\<close>

section \<open>Responses\<close>

record user_response =
  ur_id :: string
  ur_tenant :: string
  ur_email :: string
  ur_first :: string
  ur_last :: string
  ur_roles :: "string list"
  ur_status :: user_status
  ur_verified :: bool
  ur_created :: instant
  ur_updated :: instant

record token_pair_response =
  tr_access :: string
  tr_refresh :: string
  tr_type :: string
  tr_expires :: instant

record org_response =
  or_id :: string
  or_name :: string
  or_slug :: string
  or_plan :: org_plan
  or_owner :: string
  or_logo :: string
  or_website :: string
  or_created :: instant

record workspace_response =
  wr_id :: string
  wr_org :: string
  wr_name :: string
  wr_slug :: string
  wr_description :: string
  wr_members :: nat
  wr_created :: instant

record member_response =
  mr_id :: string
  mr_workspace :: string
  mr_user :: string
  mr_name :: string
  mr_email :: string
  mr_role :: string
  mr_joined :: instant

record api_key_response =
  kr_id :: string
  kr_tenant :: string
  kr_user :: string
  kr_name :: string
  kr_prefix :: string
  kr_scopes :: "string list option"
  kr_created :: instant
  kr_used :: "instant option"

record ws_key_response =
  wkr_id :: string
  wkr_workspace :: string
  wkr_name :: string
  wkr_scope :: string
  wkr_prefix :: string
  wkr_created :: instant
  wkr_used :: "instant option"

datatype iam_data =
    UserData user_response | TokenData token_pair_response | SignupData token_pair_response user_response
  | MessageData | OrgData org_response | OrgListData "org_response offset_result"
  | WorkspaceData workspace_response | WorkspaceListData "workspace_response list" | MemberListData "member_response list"
  | MemberChange string string string
  | KeyListData "api_key_response list" | KeyCreated api_key_response string
  | WsKeyListData "ws_key_response offset_result" | WsKeyCreated ws_key_response string

type_synonym iam_response = "iam_data envelope"

definition toUserResponse :: "user \<Rightarrow> user_response" where
  "toUserResponse u = \<lparr> ur_id = us_id u, ur_tenant = us_tenant u, ur_email = us_email u, ur_first = us_first u,
     ur_last = us_last u, ur_roles = us_roles u, ur_status = us_status u, ur_verified = us_verified u,
     ur_created = us_created u, ur_updated = us_updated u \<rparr>"

definition toTokenPairResponse :: "token_pair \<Rightarrow> token_pair_response" where
  "toTokenPairResponse p = \<lparr> tr_access = tp_access p, tr_refresh = tp_refresh p, tr_type = tp_type p, tr_expires = tp_expires p \<rparr>"

definition toOrgResponse :: "org \<Rightarrow> org_response" where
  "toOrgResponse o1 = \<lparr> or_id = og_id o1, or_name = og_name o1, or_slug = og_slug o1, or_plan = og_plan o1,
     or_owner = og_owner o1, or_logo = og_logo o1, or_website = og_website o1, or_created = og_created o1 \<rparr>"

definition toWorkspaceResponse :: "workspace \<Rightarrow> workspace_response" where
  "toWorkspaceResponse w = \<lparr> wr_id = wk_id w, wr_org = wk_org w, wr_name = wk_name w, wr_slug = wk_slug w,
     wr_description = wk_description w, wr_members = wk_members w, wr_created = wk_created w \<rparr>"

definition toMemberResponse :: "member \<Rightarrow> member_response" where
  "toMemberResponse m = \<lparr> mr_id = mb_id m, mr_workspace = mb_workspace m, mr_user = mb_user m, mr_name = mb_name m,
     mr_email = mb_email m, mr_role = mb_role m, mr_joined = mb_joined m \<rparr>"

definition toAPIKeyResponse :: "api_key \<Rightarrow> api_key_response" where
  "toAPIKeyResponse k = \<lparr> kr_id = ak_id k, kr_tenant = ak_tenant k, kr_user = ak_user k, kr_name = ak_name k,
     kr_prefix = ak_prefix k, kr_scopes = ak_scopes k, kr_created = ak_created k, kr_used = ak_used k \<rparr>"

definition toWorkspaceAPIKeyResponse :: "ws_key \<Rightarrow> ws_key_response" where
  "toWorkspaceAPIKeyResponse k = \<lparr> wkr_id = wa_id k, wkr_workspace = wa_workspace k, wkr_name = wa_name k,
     wkr_scope = wa_scope k, wkr_prefix = wa_prefix k, wkr_created = wa_created k, wkr_used = wa_used k \<rparr>"

definition mapAuthError :: "iam_err \<Rightarrow> api_error" where
  "mapAuthError e = (case e of
      UserNotFound \<Rightarrow> NotFound ''user''
    | EmailAlreadyRegistered \<Rightarrow> Conflict ''''
    | InvalidCredentials \<Rightarrow> Unauthorized ''''
    | AccountIsNotActive \<Rightarrow> Forbidden ''''
    | InvalidPassword \<Rightarrow> BadRequest ''''
    | InvalidResetToken \<Rightarrow> BadRequest ''''
    | InvalidToken \<Rightarrow> Unauthorized ''''
    | TokenNotFound \<Rightarrow> Unauthorized ''''
    | TokenExpired \<Rightarrow> Unauthorized ''''
    | InvalidEmail \<Rightarrow> BadRequest ''''
    | _ \<Rightarrow> Internal (OtherErr ''''))"

definition mapTenantError :: "iam_err \<Rightarrow> api_error" where
  "mapTenantError e = (case e of
      OrgNotFound \<Rightarrow> NotFound ''org''
    | WorkspaceNotFound \<Rightarrow> NotFound ''workspace''
    | SlugAlreadyTaken \<Rightarrow> Conflict ''''
    | InvalidName \<Rightarrow> BadRequest ''''
    | InvalidSlug \<Rightarrow> BadRequest ''''
    | MemberNotFound \<Rightarrow> NotFound ''workspace member''
    | MemberAlreadyExists \<Rightarrow> Conflict ''''
    | InvalidRole \<Rightarrow> BadRequest ''''
    | APIKeyNotFound \<Rightarrow> NotFound ''api key''
    | WorkspaceAPIKeyNotFound \<Rightarrow> NotFound ''workspace api key''
    | InvalidScope \<Rightarrow> BadRequest ''''
    | _ \<Rightarrow> Internal (OtherErr ''''))"

definition serve :: "(iam_err \<Rightarrow> api_error) \<Rightarrow> ('a \<Rightarrow> iam_response) \<Rightarrow> 'a iam_svc \<Rightarrow> iam \<Rightarrow> iam_response \<times> iam" where
  "serve emap success m s = (case m s of (r, s') \<Rightarrow> (answer emap success r, s'))"

text \<open>Binding a body: 400 when it is not json of the right shape, 422 when a required text is empty.\<close>

definition bound :: "'r option \<Rightarrow> ('r \<Rightarrow> string list) \<Rightarrow> ('r \<Rightarrow> iam \<Rightarrow> iam_response \<times> iam) \<Rightarrow> iam \<Rightarrow> iam_response \<times> iam" where
  "bound req required run s = (case req of
      None \<Rightarrow> (resp_Error (ApiErr (BadRequest '''')), s)
    | Some r \<Rightarrow> if list_all (\<lambda>t. t \<noteq> '''') (required r) then run r s else (resp_ValidationError, s))"

definition client :: "request \<Rightarrow> client_info" where
  "client c = \<lparr> ci_agent = rq_header c ''User-Agent'', ci_ip = rq_ip c \<rparr>"

section \<open>Accounts\<close>

definition h_Register :: "iam_env \<Rightarrow> register_input option \<Rightarrow> iam \<Rightarrow> iam_response \<times> iam" where
  "h_Register env req = bound req (\<lambda>r. [ri_tenant r, ri_email r, ri_password r, ri_first r, ri_last r]) (\<lambda>r.
     serve mapAuthError (\<lambda>u. resp_Created (UserData (toUserResponse u))) (Register env r))"

definition h_Login :: "iam_env \<Rightarrow> request \<Rightarrow> (string \<times> string) option \<Rightarrow> iam \<Rightarrow> iam_response \<times> iam" where
  "h_Login env c req = bound req (\<lambda>(email, password). [email, password]) (\<lambda>(email, password).
     serve mapAuthError (\<lambda>p. resp_OK (TokenData (toTokenPairResponse p))) (Login env email password (client c)))"

definition h_Refresh :: "iam_env \<Rightarrow> request \<Rightarrow> string option \<Rightarrow> iam \<Rightarrow> iam_response \<times> iam" where
  "h_Refresh env c req = bound req (\<lambda>t. [t]) (\<lambda>t.
     serve (\<lambda>_. Unauthorized '''') (\<lambda>p. resp_OK (TokenData (toTokenPairResponse p))) (Refresh env t (client c)))"

text \<open>The body is optional: \<open>refreshToken\<close> is what the decoder leaves in the field.\<close>

definition h_Logout :: "iam_env \<Rightarrow> request \<Rightarrow> string \<Rightarrow> iam \<Rightarrow> iam_response \<times> iam" where
  "h_Logout env c refreshToken =
    (let jti = (case rq_ctx c ''jti'' of Some (CStr j) \<Rightarrow> j | _ \<Rightarrow> '''') in
     serve (\<lambda>_. Internal (OtherErr '''')) (\<lambda>_. resp_NoContent)
       (Logout env refreshToken jti (accessTokenTTL div second)))"

definition h_ForgotPassword :: "iam_env \<Rightarrow> string option \<Rightarrow> iam \<Rightarrow> iam_response \<times> iam" where
  "h_ForgotPassword env req = bound req (\<lambda>e. [e]) (\<lambda>e s. (resp_OK MessageData, snd (ForgotPassword env e s)))"

definition h_ResetPassword :: "iam_env \<Rightarrow> (string \<times> string) option \<Rightarrow> iam \<Rightarrow> iam_response \<times> iam" where
  "h_ResetPassword env req = bound req (\<lambda>(token, password). [token, password]) (\<lambda>(token, password).
     serve mapAuthError (\<lambda>_. resp_OK MessageData) (ResetPassword env token password))"

definition h_VerifyEmail :: "iam_env \<Rightarrow> string option \<Rightarrow> iam \<Rightarrow> iam_response \<times> iam" where
  "h_VerifyEmail env req = bound req (\<lambda>t. [t]) (\<lambda>t. serve mapAuthError (\<lambda>_. resp_OK MessageData) (VerifyEmail env t))"

definition with_user :: "request \<Rightarrow> (string \<Rightarrow> iam \<Rightarrow> iam_response \<times> iam) \<Rightarrow> iam \<Rightarrow> iam_response \<times> iam" where
  "with_user c run s = (case GetUserID c of None \<Rightarrow> (resp_Error (ApiErr (Unauthorized '''')), s) | Some u \<Rightarrow> run u s)"

definition h_GetMe :: "iam_env \<Rightarrow> request \<Rightarrow> iam \<Rightarrow> iam_response \<times> iam" where
  "h_GetMe env c = with_user c (\<lambda>uid. serve mapAuthError (\<lambda>u. resp_OK (UserData (toUserResponse u))) (GetMe env uid))"

definition h_UpdateMe :: "iam_env \<Rightarrow> request \<Rightarrow> (string \<times> string) option \<Rightarrow> iam \<Rightarrow> iam_response \<times> iam" where
  "h_UpdateMe env c req = with_user c (\<lambda>uid. bound req (\<lambda>_. []) (\<lambda>(first, last).
     serve mapAuthError (\<lambda>u. resp_OK (UserData (toUserResponse u))) (UpdateMe env uid first last)))"

definition h_ChangePassword :: "iam_env \<Rightarrow> request \<Rightarrow> (string \<times> string) option \<Rightarrow> iam \<Rightarrow> iam_response \<times> iam" where
  "h_ChangePassword env c req = with_user c (\<lambda>uid. bound req (\<lambda>(cur, new). [cur, new]) (\<lambda>(cur, new).
     serve mapAuthError (\<lambda>_. resp_OK MessageData) (ChangePassword env uid cur new)))"

definition h_Signup :: "iam_env \<Rightarrow> request \<Rightarrow> (string \<times> string) option \<Rightarrow> iam \<Rightarrow> iam_response \<times> iam" where
  "h_Signup env c req = bound req (\<lambda>(email, password). [email, password]) (\<lambda>(email, password).
     serve mapAuthError (\<lambda>(p, u). resp_Created (SignupData (toTokenPairResponse p) (toUserResponse u)))
       (SelfSignup env email password (client c)))"

section \<open>Organisations and workspaces\<close>

definition h_CreateOrg :: "iam_env \<Rightarrow> create_org_input option \<Rightarrow> iam \<Rightarrow> iam_response \<times> iam" where
  "h_CreateOrg env req = bound req (\<lambda>r. [co_name r, co_slug r, co_owner r]) (\<lambda>r.
     serve mapTenantError (\<lambda>o1. resp_Created (OrgData (toOrgResponse o1))) (CreateOrg env r))"

definition h_GetOrg :: "iam_env \<Rightarrow> request \<Rightarrow> iam \<Rightarrow> iam_response \<times> iam" where
  "h_GetOrg env c = serve mapTenantError (\<lambda>o1. resp_OK (OrgData (toOrgResponse o1))) (GetOrg env (rq_param c ''id''))"

definition h_ListOrgs :: "iam_env \<Rightarrow> request \<Rightarrow> iam \<Rightarrow> iam_response \<times> iam" where
  "h_ListOrgs env c = (let page = ParseOffset c in
     serve (\<lambda>_. Internal (OtherErr '''')) (\<lambda>(os, tot). resp_OK (OrgListData (NewOffsetResult (map toOrgResponse os) tot page)))
       (ListOrgs env (op_limit page) (Offset page)))"

definition h_UpdateOrg :: "iam_env \<Rightarrow> request \<Rightarrow> update_org_input option \<Rightarrow> iam \<Rightarrow> iam_response \<times> iam" where
  "h_UpdateOrg env c req = bound req (\<lambda>_. []) (\<lambda>r.
     serve mapTenantError (\<lambda>o1. resp_OK (OrgData (toOrgResponse o1))) (UpdateOrg env (rq_param c ''id'') r))"

definition h_DeleteOrg :: "iam_env \<Rightarrow> request \<Rightarrow> iam \<Rightarrow> iam_response \<times> iam" where
  "h_DeleteOrg env c = serve mapTenantError (\<lambda>_. resp_NoContent) (DeleteOrg env (rq_param c ''id''))"

definition h_CreateWorkspace :: "iam_env \<Rightarrow> create_workspace_input option \<Rightarrow> iam \<Rightarrow> iam_response \<times> iam" where
  "h_CreateWorkspace env req = bound req (\<lambda>r. [cw_org r, cw_name r, cw_slug r]) (\<lambda>r.
     serve mapTenantError (\<lambda>w. resp_Created (WorkspaceData (toWorkspaceResponse w))) (CreateWorkspace env r))"

definition h_ListWorkspaces :: "iam_env \<Rightarrow> request \<Rightarrow> iam \<Rightarrow> iam_response \<times> iam" where
  "h_ListWorkspaces env c = serve mapTenantError (\<lambda>ws. resp_OK (WorkspaceListData (map toWorkspaceResponse ws)))
     (ListWorkspaces env (rq_param c ''id''))"

definition h_UpdateWorkspace :: "iam_env \<Rightarrow> request \<Rightarrow> update_workspace_input option \<Rightarrow> iam \<Rightarrow> iam_response \<times> iam" where
  "h_UpdateWorkspace env c req = bound req (\<lambda>_. []) (\<lambda>r.
     serve mapTenantError (\<lambda>w. resp_OK (WorkspaceData (toWorkspaceResponse w))) (UpdateWorkspace env (rq_param c ''id'') r))"

definition h_DeleteWorkspace :: "iam_env \<Rightarrow> request \<Rightarrow> iam \<Rightarrow> iam_response \<times> iam" where
  "h_DeleteWorkspace env c = serve mapTenantError (\<lambda>_. resp_NoContent) (DeleteWorkspace env (rq_param c ''id''))"

section \<open>Members and keys\<close>

definition h_ListMembers :: "iam_env \<Rightarrow> request \<Rightarrow> iam \<Rightarrow> iam_response \<times> iam" where
  "h_ListMembers env c = serve mapTenantError (\<lambda>ms. resp_OK (MemberListData (map toMemberResponse ms)))
     (ListWorkspaceMembers env (rq_param c ''id''))"

definition h_AddMember :: "iam_env \<Rightarrow> request \<Rightarrow> (string \<times> string) option \<Rightarrow> iam \<Rightarrow> iam_response \<times> iam" where
  "h_AddMember env c req = bound req (\<lambda>(u, role). [u, role]) (\<lambda>(u, role).
     serve mapTenantError (\<lambda>_. resp_Created (MemberChange (rq_param c ''id'') u role))
       (AddWorkspaceMember env (rq_param c ''id'') u role))"

definition h_UpdateMember :: "iam_env \<Rightarrow> request \<Rightarrow> string option \<Rightarrow> iam \<Rightarrow> iam_response \<times> iam" where
  "h_UpdateMember env c req = bound req (\<lambda>role. [role]) (\<lambda>role.
     serve mapTenantError (\<lambda>_. resp_OK (MemberChange (rq_param c ''id'') (rq_param c ''userId'') role))
       (UpdateWorkspaceMember env (rq_param c ''id'') (rq_param c ''userId'') role))"

definition h_RemoveMember :: "iam_env \<Rightarrow> request \<Rightarrow> iam \<Rightarrow> iam_response \<times> iam" where
  "h_RemoveMember env c = serve mapTenantError (\<lambda>_. resp_NoContent)
     (RemoveWorkspaceMember env (rq_param c ''id'') (rq_param c ''userId''))"

definition with_tenant :: "request \<Rightarrow> (string \<Rightarrow> iam \<Rightarrow> iam_response \<times> iam) \<Rightarrow> iam \<Rightarrow> iam_response \<times> iam" where
  "with_tenant c run s = (case GetTenantID c of None \<Rightarrow> (resp_Error (ApiErr (Unauthorized '''')), s) | Some t \<Rightarrow> run t s)"

definition h_ListAPIKeys :: "iam_env \<Rightarrow> request \<Rightarrow> iam \<Rightarrow> iam_response \<times> iam" where
  "h_ListAPIKeys env c = with_tenant c (\<lambda>t.
     serve (\<lambda>_. Internal (OtherErr '''')) (\<lambda>ks. resp_OK (KeyListData (map toAPIKeyResponse ks))) (ListAPIKeys env t))"

definition h_CreateAPIKey :: "iam_env \<Rightarrow> request \<Rightarrow> (string \<times> string list option) option \<Rightarrow> iam \<Rightarrow> iam_response \<times> iam" where
  "h_CreateAPIKey env c req = with_tenant c (\<lambda>t. with_user c (\<lambda>u. bound req (\<lambda>(name, _). [name]) (\<lambda>(name, scopes).
     serve (\<lambda>_. Internal (OtherErr '''')) (\<lambda>(k, plainKey). resp_Created (KeyCreated (toAPIKeyResponse k) plainKey))
       (CreateAPIKey env t u name scopes))))"

definition h_DeleteAPIKey :: "iam_env \<Rightarrow> request \<Rightarrow> iam \<Rightarrow> iam_response \<times> iam" where
  "h_DeleteAPIKey env c = with_tenant c (\<lambda>t.
     serve mapTenantError (\<lambda>_. resp_NoContent) (RevokeAPIKey env (rq_param c ''id'') t))"

definition h_CreateWorkspaceAPIKey :: "iam_env \<Rightarrow> request \<Rightarrow> (string \<times> string) option \<Rightarrow> iam \<Rightarrow> iam_response \<times> iam" where
  "h_CreateWorkspaceAPIKey env c req = bound req (\<lambda>(name, scope). [name, scope]) (\<lambda>(name, scope).
     serve mapTenantError (\<lambda>(k, plainKey). resp_Created (WsKeyCreated (toWorkspaceAPIKeyResponse k) plainKey))
       (CreateWorkspaceAPIKey env (rq_param c ''id'') name scope))"

definition h_DeleteWorkspaceAPIKey :: "iam_env \<Rightarrow> request \<Rightarrow> iam \<Rightarrow> iam_response \<times> iam" where
  "h_DeleteWorkspaceAPIKey env c = serve mapTenantError (\<lambda>_. resp_NoContent)
     (RevokeWorkspaceAPIKey env (rq_param c ''id'') (rq_param c ''key_id''))"

definition h_ListWorkspaceAPIKeys :: "iam_env \<Rightarrow> request \<Rightarrow> iam \<Rightarrow> iam_response \<times> iam" where
  "h_ListWorkspaceAPIKeys env c = (let page = ParseOffset c in
     serve mapTenantError (\<lambda>(ks, tot). resp_OK (WsKeyListData (NewOffsetResult (map toWorkspaceAPIKeyResponse ks) tot page)))
       (ListWorkspaceAPIKeys env (rq_param c ''id'') (op_limit page) (Offset page)))"

section \<open>The router\<close>

datatype iam_endpoint =
    POST_signup "(string \<times> string) option" | POST_register "register_input option" | POST_login "(string \<times> string) option"
  | POST_refresh "string option" | POST_forgot "string option" | POST_reset "(string \<times> string) option"
  | POST_verify "string option"
  | POST_logout string | GET_me | PUT_me "(string \<times> string) option" | PUT_password "(string \<times> string) option"
  | POST_orgs "create_org_input option" | GET_orgs | GET_org | PUT_org "update_org_input option" | DELETE_org
  | GET_org_workspaces | POST_workspaces "create_workspace_input option" | PUT_workspace "update_workspace_input option"
  | DELETE_workspace | GET_members | POST_member "(string \<times> string) option" | PUT_member "string option" | DELETE_member
  | GET_ws_keys | POST_ws_key "(string \<times> string) option" | DELETE_ws_key
  | GET_keys | POST_key "(string \<times> string list option) option" | DELETE_key

text \<open>The open endpoints of the group \<open>/api/v1/auth\<close>, and the ones behind JWTAuth.\<close>

definition auth_open :: "iam_env \<Rightarrow> iam_endpoint \<Rightarrow> request \<Rightarrow> (iam \<Rightarrow> iam_response \<times> iam) option" where
  "auth_open env e c = (case e of
      POST_signup r \<Rightarrow> Some (h_Signup env c r)
    | POST_register r \<Rightarrow> Some (h_Register env r)
    | POST_login r \<Rightarrow> Some (h_Login env c r)
    | POST_refresh r \<Rightarrow> Some (h_Refresh env c r)
    | POST_forgot r \<Rightarrow> Some (h_ForgotPassword env r)
    | POST_reset r \<Rightarrow> Some (h_ResetPassword env r)
    | POST_verify r \<Rightarrow> Some (h_VerifyEmail env r)
    | _ \<Rightarrow> None)"

definition protected :: "iam_env \<Rightarrow> iam_endpoint \<Rightarrow> request \<Rightarrow> iam \<Rightarrow> iam_response \<times> iam" where
  "protected env e c = (case e of
      POST_logout t \<Rightarrow> h_Logout env c t
    | GET_me \<Rightarrow> h_GetMe env c
    | PUT_me r \<Rightarrow> h_UpdateMe env c r
    | PUT_password r \<Rightarrow> h_ChangePassword env c r
    | POST_orgs r \<Rightarrow> h_CreateOrg env r
    | GET_orgs \<Rightarrow> h_ListOrgs env c
    | GET_org \<Rightarrow> h_GetOrg env c
    | PUT_org r \<Rightarrow> h_UpdateOrg env c r
    | DELETE_org \<Rightarrow> h_DeleteOrg env c
    | GET_org_workspaces \<Rightarrow> h_ListWorkspaces env c
    | POST_workspaces r \<Rightarrow> h_CreateWorkspace env r
    | PUT_workspace r \<Rightarrow> h_UpdateWorkspace env c r
    | DELETE_workspace \<Rightarrow> h_DeleteWorkspace env c
    | GET_members \<Rightarrow> h_ListMembers env c
    | POST_member r \<Rightarrow> h_AddMember env c r
    | PUT_member r \<Rightarrow> h_UpdateMember env c r
    | DELETE_member \<Rightarrow> h_RemoveMember env c
    | GET_ws_keys \<Rightarrow> h_ListWorkspaceAPIKeys env c
    | POST_ws_key r \<Rightarrow> h_CreateWorkspaceAPIKey env c r
    | DELETE_ws_key \<Rightarrow> h_DeleteWorkspaceAPIKey env c
    | GET_keys \<Rightarrow> h_ListAPIKeys env c
    | POST_key r \<Rightarrow> h_CreateAPIKey env c r
    | DELETE_key \<Rightarrow> h_DeleteAPIKey env c
    | _ \<Rightarrow> (\<lambda>s. (resp_NoContent, s)))"

definition iam_router :: "(string \<Rightarrow> claims option) \<Rightarrow> iam_env \<Rightarrow> iam_endpoint \<Rightarrow> request \<Rightarrow> iam \<Rightarrow> iam_response \<times> iam" where
  "iam_router verify env e c s = (case auth_open env e c of
      Some run \<Rightarrow> run s | None \<Rightarrow> authorized verify (\<lambda>c'. protected env e c' s) c s)"

end
