(* ===== verification/Support_Store.thy ===== *)
theory Support_Store
  imports IAM_Handler
begin

text \<open>
  The supporting service (services/supporting/internal): its domain of audit events and video streams
  (domain/audit, domain/video), their tables (infrastructure/postgres/event\<open>_\<close>repo.go, stream\<open>_\<close>repo.go)
  and the object store behind the recordings (infrastructure/s3/storage.go). LOWER, the json normalisation of
  a JSONB column and the presigner of S3 are arguments; rows of the same instant come in insertion order.
\<close>

datatype sup_err =
    EventNotFound | InvalidEventID | StreamNotFound | InvalidStreamID | InvalidDeviceID | InvalidWorkspaceID
  | NoRecording | InvalidProtocol | InvalidStatus | SupDbErr | PresignErr

section \<open>Audit events\<close>

type_synonym jsonb = string

record audit_event =
  au_id :: uuid
  au_tenant :: string
  au_user :: string
  au_user_name :: string
  au_type :: string
  au_resource :: string
  au_resource_type :: string
  au_ip :: string
  au_agent :: string
  au_payload :: jsonb
  au_created :: instant

definition NewAuditEvent :: "instant \<Rightarrow> uuid \<Rightarrow> string \<Rightarrow> string \<Rightarrow> string \<Rightarrow> string \<Rightarrow> string \<Rightarrow> string \<Rightarrow> string \<Rightarrow> string
    \<Rightarrow> jsonb \<Rightarrow> audit_event" where
  "NewAuditEvent now newID tenantID userID userName eventType resourceID resourceType ipAddress userAgent payload =
    \<lparr> au_id = newID, au_tenant = tenantID, au_user = userID, au_user_name = userName, au_type = eventType,
      au_resource = resourceID, au_resource_type = resourceType, au_ip = ipAddress, au_agent = userAgent,
      au_payload = payload, au_created = now \<rparr>"

section \<open>Video streams\<close>

record stream =
  st_id :: uuid
  st_device :: uuid
  st_workspace :: uuid
  st_name :: string
  st_description :: string
  st_protocol :: string
  st_source :: string
  st_storage :: string
  st_status :: string
  st_thumbnail :: string
  st_duration :: int
  st_created :: instant
  st_updated :: instant

definition StreamStatusPending :: string where "StreamStatusPending = ''pending''"

definition StreamProtocol_IsValid :: "string \<Rightarrow> bool" where
  "StreamProtocol_IsValid p = (p \<in> {''rtsp'', ''hls'', ''webrtc''})"

definition StreamStatus_IsValid :: "string \<Rightarrow> bool" where
  "StreamStatus_IsValid s = (s \<in> {''pending'', ''live'', ''recorded'', ''archived''})"

definition NewStream :: "instant \<Rightarrow> uuid \<Rightarrow> uuid \<Rightarrow> uuid \<Rightarrow> string \<Rightarrow> string \<Rightarrow> string \<Rightarrow> string \<Rightarrow> stream" where
  "NewStream now newID deviceID workspaceID name description protocol sourceURL =
    \<lparr> st_id = newID, st_device = deviceID, st_workspace = workspaceID, st_name = name, st_description = description,
      st_protocol = protocol, st_source = sourceURL, st_storage = '''', st_status = StreamStatusPending,
      st_thumbnail = '''', st_duration = 0, st_created = now, st_updated = now \<rparr>"

section \<open>The table of audit events\<close>

record sup =
  su_events :: "audit_event list"
  su_streams :: "stream list"
  su_objects :: "string list"

definition sup_row :: "sup_err \<Rightarrow> bool \<Rightarrow> ('a \<Rightarrow> bool) \<Rightarrow> 'a list \<Rightarrow> (sup_err, 'a) outcome" where
  "sup_row missing up P rows =
    (if \<not> up then Fail SupDbErr else case filter P rows of [] \<Rightarrow> Fail missing | r # _ \<Rightarrow> Ok r)"

text \<open>A page and then its count, each a query of its own; Postgres rejects a negative limit or offset.\<close>

definition sup_page :: "('a \<Rightarrow> instant) \<Rightarrow> (nat \<Rightarrow> bool) \<Rightarrow> 'a list \<Rightarrow> int \<Rightarrow> int \<Rightarrow> (sup_err, 'a list \<times> nat) outcome" where
  "sup_page created up rows lmt off =
    (if \<not> up 0 \<or> lmt < 0 \<or> off < 0 \<or> \<not> up 1 then Fail SupDbErr
     else Ok (newest_page created rows lmt off, length rows))"

definition EventRepo_Append :: "bool \<Rightarrow> (string \<Rightarrow> string option) \<Rightarrow> audit_event \<Rightarrow> sup \<Rightarrow> (sup_err, unit) outcome \<times> sup" where
  "EventRepo_Append up jsonb e s =
    (if \<not> up \<or> list_ex (\<lambda>x. au_id x = au_id e) (su_events s) then (Fail SupDbErr, s) else
     case jsonb (au_payload e) of
       None \<Rightarrow> (Fail SupDbErr, s)
     | Some j \<Rightarrow> (Ok (), s\<lparr> su_events := su_events s @ [e\<lparr> au_payload := j \<rparr>] \<rparr>))"

definition EventRepo_GetByID :: "bool \<Rightarrow> uuid \<Rightarrow> sup \<Rightarrow> (sup_err, audit_event) outcome" where
  "EventRepo_GetByID up ident s = sup_row EventNotFound up (\<lambda>e. au_id e = ident) (su_events s)"

text \<open>SQL's LIKE on UTF-8 text: a percent sign stands for any text, an underscore for one character, a backslash
  takes the next byte literally.\<close>

definition utf8_continuation :: "char \<Rightarrow> bool" where
  "utf8_continuation c = (128 \<le> (of_char c :: nat) \<and> (of_char c :: nat) < 192)"

fun like :: "string \<Rightarrow> string \<Rightarrow> bool" where
  "like [] s = (s = [])"
| "like (p # ps) s =
    (if p = CHR ''%'' then like ps s \<or> (case s of [] \<Rightarrow> False | _ # s' \<Rightarrow> like (p # ps) s')
     else if p = CHR ''_'' then (case s of [] \<Rightarrow> False | _ # s' \<Rightarrow> like ps (dropWhile utf8_continuation s'))
     else if p = CHR 0x5C then (case (ps, s) of (q # ps', c # s') \<Rightarrow> c = q \<and> like ps' s' | _ \<Rightarrow> False)
     else (case s of [] \<Rightarrow> False | c # s' \<Rightarrow> c = p \<and> like ps s'))"

record tenant_filter =
  tf_resource_type :: string
  tf_search :: string

definition tenant_row :: "(string \<Rightarrow> string) \<Rightarrow> (string \<Rightarrow> string) \<Rightarrow> string \<Rightarrow> tenant_filter \<Rightarrow> audit_event \<Rightarrow> bool" where
  "tenant_row toLower lower tenantID flt e =
    (au_tenant e = tenantID \<and>
     (tf_resource_type flt = '''' \<or> au_resource_type e = tf_resource_type flt) \<and>
     (tf_search flt = '''' \<or>
       (let pat = ''%'' @ toLower (tf_search flt) @ ''%'' in
        list_ex (\<lambda>t. like pat (lower t)) [au_user e, au_user_name e, au_type e, au_resource e])))"

definition EventRepo_ListByTenant :: "(nat \<Rightarrow> bool) \<Rightarrow> (string \<Rightarrow> string) \<Rightarrow> (string \<Rightarrow> string) \<Rightarrow> string \<Rightarrow> tenant_filter
    \<Rightarrow> int \<Rightarrow> int \<Rightarrow> sup \<Rightarrow> (sup_err, audit_event list \<times> nat) outcome" where
  "EventRepo_ListByTenant up toLower lower tenantID flt lmt off s =
    sup_page au_created up (filter (tenant_row toLower lower tenantID flt) (su_events s)) lmt off"

definition EventRepo_ListByResource :: "(nat \<Rightarrow> bool) \<Rightarrow> string \<Rightarrow> string \<Rightarrow> int \<Rightarrow> int \<Rightarrow> sup
    \<Rightarrow> (sup_err, audit_event list \<times> nat) outcome" where
  "EventRepo_ListByResource up resourceType resourceID lmt off s =
    sup_page au_created up (filter (\<lambda>e. au_resource_type e = resourceType \<and> au_resource e = resourceID) (su_events s)) lmt off"

section \<open>The table of streams\<close>

definition StreamRepo_Create :: "bool \<Rightarrow> stream \<Rightarrow> sup \<Rightarrow> (sup_err, unit) outcome \<times> sup" where
  "StreamRepo_Create up x s =
    (if \<not> up \<or> list_ex (\<lambda>y. st_id y = st_id x) (su_streams s) then (Fail SupDbErr, s)
     else (Ok (), s\<lparr> su_streams := su_streams s @ [x] \<rparr>))"

definition StreamRepo_GetByID :: "bool \<Rightarrow> uuid \<Rightarrow> sup \<Rightarrow> (sup_err, stream) outcome" where
  "StreamRepo_GetByID up ident s = sup_row StreamNotFound up (\<lambda>x. st_id x = ident) (su_streams s)"

definition StreamRepo_ListByDevice :: "(nat \<Rightarrow> bool) \<Rightarrow> uuid \<Rightarrow> int \<Rightarrow> int \<Rightarrow> sup \<Rightarrow> (sup_err, stream list \<times> nat) outcome" where
  "StreamRepo_ListByDevice up deviceID lmt off s =
    sup_page st_created up (filter (\<lambda>x. st_device x = deviceID) (su_streams s)) lmt off"

definition StreamRepo_ListByWorkspace :: "(nat \<Rightarrow> bool) \<Rightarrow> uuid \<Rightarrow> int \<Rightarrow> int \<Rightarrow> sup \<Rightarrow> (sup_err, stream list \<times> nat) outcome" where
  "StreamRepo_ListByWorkspace up workspaceID lmt off s =
    sup_page st_created up (filter (\<lambda>x. st_workspace x = workspaceID) (su_streams s)) lmt off"

definition StreamRepo_Update :: "bool \<Rightarrow> instant \<Rightarrow> stream \<Rightarrow> sup \<Rightarrow> (sup_err, unit) outcome \<times> sup" where
  "StreamRepo_Update up now x s =
    (if \<not> up then (Fail SupDbErr, s)
     else (Ok (), s\<lparr> su_streams := map (\<lambda>y. if st_id y = st_id x
         then y\<lparr> st_name := st_name x, st_description := st_description x, st_status := st_status x,
                 st_storage := st_storage x, st_thumbnail := st_thumbnail x, st_duration := st_duration x,
                 st_updated := now \<rparr> else y) (su_streams s) \<rparr>))"

definition StreamRepo_Delete :: "bool \<Rightarrow> uuid \<Rightarrow> sup \<Rightarrow> (sup_err, unit) outcome \<times> sup" where
  "StreamRepo_Delete up ident s =
    (if \<not> up then (Fail SupDbErr, s)
     else (Ok (), s\<lparr> su_streams := filter (\<lambda>x. st_id x \<noteq> ident) (su_streams s) \<rparr>))"

section \<open>Recordings\<close>

text \<open>\<open>presign\<close> gives the URL of a request to S3 that is valid for the time of its first argument, None when
  it fails: the method, the bucket, the key and the content type. Deleting an object that does not exist succeeds.\<close>

type_synonym presigner = "duration \<Rightarrow> string \<Rightarrow> string \<Rightarrow> string \<Rightarrow> string \<Rightarrow> string option"

definition presigned :: "string option \<Rightarrow> (sup_err, string) outcome" where
  "presigned r = (case r of None \<Rightarrow> Fail PresignErr | Some url \<Rightarrow> Ok url)"

definition GenerateUploadURL :: "presigner \<Rightarrow> string \<Rightarrow> string \<Rightarrow> string \<Rightarrow> (sup_err, string) outcome" where
  "GenerateUploadURL presign bucket key contentType = presigned (presign (900 * second) ''PUT'' bucket key contentType)"

definition GenerateDownloadURL :: "presigner \<Rightarrow> string \<Rightarrow> string \<Rightarrow> (sup_err, string) outcome" where
  "GenerateDownloadURL presign bucket key = presigned (presign hour ''GET'' bucket key '''')"

definition Storage_Delete :: "bool \<Rightarrow> string \<Rightarrow> sup \<Rightarrow> (sup_err, unit) outcome \<times> sup" where
  "Storage_Delete up key s =
    (if up then (Ok (), s\<lparr> su_objects := filter (\<lambda>k. k \<noteq> key) (su_objects s) \<rparr>) else (Fail PresignErr, s))"

end
