(* ===== verification/Support_Service.thy ===== *)
theory Support_Service
  imports Support_Store
begin

text \<open>
  The use cases, the consumer and the HTTP side of the supporting service: recording and listing audit events
  (application/audit\<open>_\<close>service.go), video streams and their recordings (application/video\<open>_\<close>service.go), the consumer of
  user events (infrastructure/kafka/consumer.go), the CSV export, the handlers and the router (transport/http).
  What json.Unmarshal makes of a message comes with the message; message texts are left out.
\<close>

record sup_env =
  se_now :: instant
  se_fresh :: "nat \<Rightarrow> uuid"
  se_parse :: "string \<Rightarrow> uuid option"
  se_jsonb :: "string \<Rightarrow> string option"
  se_tolower :: "string \<Rightarrow> string"
  se_lower :: "string \<Rightarrow> string"
  se_format :: "instant \<Rightarrow> string"
  se_presign :: presigner
  se_bucket :: string
  se_db :: "nat \<Rightarrow> bool"
  se_s3 :: bool

type_synonym 'a sup_call = "sup \<Rightarrow> (sup_err, 'a) outcome \<times> sup"

definition then_sup :: "(sup_err, 'a) outcome \<times> sup \<Rightarrow> ('a \<Rightarrow> 'b sup_call) \<Rightarrow> (sup_err, 'b) outcome \<times> sup" where
  "then_sup r k = (case r of (Ok x, s) \<Rightarrow> k x s | (Fail e, s) \<Rightarrow> (Fail e, s) | (Panic, s) \<Rightarrow> (Panic, s))"

definition parsed :: "sup_env \<Rightarrow> sup_err \<Rightarrow> string \<Rightarrow> (sup_err, uuid) outcome" where
  "parsed env e t = (case se_parse env t of None \<Rightarrow> Fail e | Some u \<Rightarrow> Ok u)"

section \<open>Audit\<close>

record record_input =
  rc_tenant :: string
  rc_user :: string
  rc_user_name :: string
  rc_type :: string
  rc_resource :: string
  rc_resource_type :: string
  rc_ip :: string
  rc_agent :: string
  rc_payload :: string

definition Record :: "sup_env \<Rightarrow> record_input \<Rightarrow> audit_event sup_call" where
  "Record env inp s =
    (let event = NewAuditEvent (se_now env) (se_fresh env 0) (rc_tenant inp) (rc_user inp) (rc_user_name inp) (rc_type inp)
       (rc_resource inp) (rc_resource_type inp) (rc_ip inp) (rc_agent inp) (rc_payload inp) in
     then_sup (EventRepo_Append (se_db env 0) (se_jsonb env) event s) (\<lambda>_ s'. (Ok event, s')))"

definition ListByTenant :: "sup_env \<Rightarrow> string \<Rightarrow> tenant_filter \<Rightarrow> int \<Rightarrow> int \<Rightarrow> sup \<Rightarrow> (sup_err, audit_event list \<times> nat) outcome" where
  "ListByTenant env tenantID flt lmt off s =
    EventRepo_ListByTenant (se_db env) (se_tolower env) (se_lower env) tenantID flt lmt off s"

definition ListByResource :: "sup_env \<Rightarrow> string \<Rightarrow> string \<Rightarrow> int \<Rightarrow> int \<Rightarrow> sup \<Rightarrow> (sup_err, audit_event list \<times> nat) outcome" where
  "ListByResource env resourceType resourceID lmt off s = EventRepo_ListByResource (se_db env) resourceType resourceID lmt off s"

definition GetEvent :: "sup_env \<Rightarrow> string \<Rightarrow> sup \<Rightarrow> (sup_err, audit_event) outcome" where
  "GetEvent env ident s = bind_o (parsed env InvalidEventID ident) (\<lambda>uid. EventRepo_GetByID (se_db env 0) uid s)"

section \<open>The consumer of user events\<close>

record user_payload =
  up_user :: string
  up_tenant :: string
  up_name :: string
  up_email :: string
  up_ip :: string

record generic_event =
  ge_type :: string
  ge_source :: string
  ge_payload :: "user_payload option"

record audit_message =
  am_key :: string
  am_value :: string
  am_event :: "generic_event option"

definition sourceToResourceType :: "string \<Rightarrow> string" where
  "sourceToResourceType source = (if source = '''' then ''unknown'' else source)"

definition display_name :: "user_payload \<Rightarrow> string" where
  "display_name up = (if up_name up \<noteq> '''' then up_name up else if up_email up \<noteq> '''' then up_email up else up_user up)"

definition record_input_of :: "audit_message \<Rightarrow> generic_event \<Rightarrow> record_input" where
  "record_input_of m evt =
    (let (tenantID, userID, userName, ipAddress) = (case ge_payload evt of
         None \<Rightarrow> ('''', '''', '''', '''')
       | Some up \<Rightarrow> (up_tenant up, up_user up, display_name up, up_ip up))
     in \<lparr> rc_tenant = tenantID, rc_user = userID, rc_user_name = userName, rc_type = ge_type evt, rc_resource = am_key m,
          rc_resource_type = sourceToResourceType (ge_source evt), rc_ip = ipAddress, rc_agent = ''kafka-consumer'',
          rc_payload = am_value m \<rparr>)"

text \<open>One message that was fetched: the event is recorded when the envelope decodes, and the message is committed
  in every case, also when recording fails. \<open>ok\<close> says whether the commit succeeds; \<open>n\<close> is the offset of the
  message, the first component of the state the committed offset.\<close>

definition audit_message_step :: "sup_env \<Rightarrow> bool \<Rightarrow> nat \<Rightarrow> audit_message \<Rightarrow> nat \<times> sup \<Rightarrow> nat \<times> sup" where
  "audit_message_step env ok n m cs =
    (case cs of (c, s) \<Rightarrow> case am_event m of
        None \<Rightarrow> (if ok then Suc n else c, s)
      | Some evt \<Rightarrow> (if ok then Suc n else c, snd (Record env (record_input_of m evt) s)))"

fun audit_consume :: "(sup_env \<times> bool) list \<Rightarrow> nat \<Rightarrow> audit_message list \<Rightarrow> nat \<times> sup \<Rightarrow> nat \<times> sup" where
  "audit_consume ((env, ok) # envs) n (m # ms) cs = audit_consume envs (Suc n) ms (audit_message_step env ok n m cs)"
| "audit_consume _ _ _ cs = cs"

section \<open>Video streams\<close>

record create_stream_input =
  cs_device :: string
  cs_workspace :: string
  cs_name :: string
  cs_description :: string
  cs_protocol :: string
  cs_source :: string

definition CreateStream :: "sup_env \<Rightarrow> create_stream_input \<Rightarrow> stream sup_call" where
  "CreateStream env inp s =
    then_sup (parsed env InvalidDeviceID (cs_device inp), s) (\<lambda>deviceID s.
    then_sup (parsed env InvalidWorkspaceID (cs_workspace inp), s) (\<lambda>wsID s.
    if \<not> StreamProtocol_IsValid (cs_protocol inp) then (Fail InvalidProtocol, s)
    else let x = NewStream (se_now env) (se_fresh env 0) deviceID wsID (cs_name inp) (cs_description inp) (cs_protocol inp)
                   (cs_source inp)
         in then_sup (StreamRepo_Create (se_db env 0) x s) (\<lambda>_ s. (Ok x, s))))"

definition GetStream :: "sup_env \<Rightarrow> string \<Rightarrow> sup \<Rightarrow> (sup_err, stream) outcome" where
  "GetStream env ident s = bind_o (parsed env InvalidStreamID ident) (\<lambda>uid. StreamRepo_GetByID (se_db env 0) uid s)"

definition ListStreams :: "sup_env \<Rightarrow> string \<Rightarrow> int \<Rightarrow> int \<Rightarrow> sup \<Rightarrow> (sup_err, stream list \<times> nat) outcome" where
  "ListStreams env deviceID lmt off s =
    bind_o (parsed env InvalidDeviceID deviceID) (\<lambda>uid. StreamRepo_ListByDevice (se_db env) uid lmt off s)"

definition UpdateStreamStatus :: "sup_env \<Rightarrow> string \<Rightarrow> string \<Rightarrow> stream sup_call" where
  "UpdateStreamStatus env ident status s =
    (if \<not> StreamStatus_IsValid status then (Fail InvalidStatus, s) else
     then_sup (GetStream env ident s, s) (\<lambda>x s.
     let x1 = x\<lparr> st_status := status, st_updated := se_now env \<rparr> in
     then_sup (StreamRepo_Update (se_db env 1) (se_now env) x1 s) (\<lambda>_ s. (Ok x1, s))))"

definition storage_key :: "sup_env \<Rightarrow> stream \<Rightarrow> string" where
  "storage_key env x = ''videos/'' @ st_id x @ ''/'' @ se_fresh env 0"

definition GetUploadURL :: "sup_env \<Rightarrow> string \<Rightarrow> string \<Rightarrow> string sup_call" where
  "GetUploadURL env streamID contentType s =
    then_sup (GetStream env streamID s, s) (\<lambda>x s.
    let key = storage_key env x;
        (_, s') = StreamRepo_Update (se_db env 1) (se_now env) (x\<lparr> st_storage := key \<rparr>) s
    in (GenerateUploadURL (se_presign env) (se_bucket env) key contentType, s'))"

definition GetDownloadURL :: "sup_env \<Rightarrow> string \<Rightarrow> sup \<Rightarrow> (sup_err, string) outcome" where
  "GetDownloadURL env streamID s =
    bind_o (GetStream env streamID s) (\<lambda>x.
    if st_storage x = '''' then Fail NoRecording
    else GenerateDownloadURL (se_presign env) (se_bucket env) (st_storage x))"

definition DeleteStream :: "sup_env \<Rightarrow> string \<Rightarrow> unit sup_call" where
  "DeleteStream env ident s =
    then_sup (GetStream env ident s, s) (\<lambda>x s.
    let s' = (if st_storage x \<noteq> '''' then snd (Storage_Delete (se_s3 env) (st_storage x) s) else s)
    in StreamRepo_Delete (se_db env 1) (st_id x) s')"

section \<open>The CSV export\<close>

text \<open>The writer of encoding/csv: a field is quoted when it is \<open>\\.\<close>, holds a comma, a quote or a line break, or
  begins with a space of Unicode; quotes are doubled, and records end with a line feed.\<close>

definition byte_in :: "char \<Rightarrow> nat list \<Rightarrow> bool" where
  "byte_in c ns = (of_char c \<in> set ns)"

definition starts_with_space :: "string \<Rightarrow> bool" where
  "starts_with_space s = (case s of
      [] \<Rightarrow> False
    | a # r \<Rightarrow> byte_in a [9, 10, 11, 12, 13, 32] \<or>
        (case r of
           [] \<Rightarrow> False
         | b # q \<Rightarrow> (byte_in a [0xC2] \<and> byte_in b [0x85, 0xA0]) \<or>
             (case q of
                [] \<Rightarrow> False
              | c # _ \<Rightarrow> (byte_in a [0xE1] \<and> byte_in b [0x9A] \<and> byte_in c [0x80]) \<or>
                  (byte_in a [0xE2] \<and> byte_in b [0x80] \<and> byte_in c ([0x80..<0x8B] @ [0xA8, 0xA9, 0xAF])) \<or>
                  (byte_in a [0xE2] \<and> byte_in b [0x81] \<and> byte_in c [0x9F]) \<or>
                  (byte_in a [0xE3] \<and> byte_in b [0x80] \<and> byte_in c [0x80]))))"

definition fieldNeedsQuotes :: "string \<Rightarrow> bool" where
  "fieldNeedsQuotes field =
    (if field = '''' then False
     else field = [CHR 0x5C, CHR ''.''] \<or>
       list_ex (\<lambda>c. c = CHR 0x0A \<or> c = CHR 0x0D \<or> c = CHR 0x22 \<or> c = CHR '','') field \<or> starts_with_space field)"

definition csv_field :: "string \<Rightarrow> string" where
  "csv_field field =
    (if \<not> fieldNeedsQuotes field then field
     else CHR 0x22 # concat (map (\<lambda>c. if c = CHR 0x22 then [CHR 0x22, CHR 0x22] else [c]) field) @ [CHR 0x22])"

fun csv_record :: "string list \<Rightarrow> string" where
  "csv_record [] = [CHR 0x0A]"
| "csv_record [f] = csv_field f @ [CHR 0x0A]"
| "csv_record (f # g # fs) = csv_field f @ CHR '','' # csv_record (g # fs)"

definition audit_header :: "string list" where
  "audit_header = [''id'', ''user_name'', ''event_type'', ''resource_type'', ''resource_id'', ''ip_address'', ''created_at'']"

definition audit_record :: "(instant \<Rightarrow> string) \<Rightarrow> audit_event \<Rightarrow> string list" where
  "audit_record fmt e = [au_id e, au_user_name e, au_type e, au_resource_type e, au_resource e, au_ip e, fmt (au_created e)]"

definition buildAuditCSV :: "(instant \<Rightarrow> string) \<Rightarrow> audit_event list \<Rightarrow> string" where
  "buildAuditCSV fmt events = concat (map csv_record (audit_header # map (audit_record fmt) events))"

section \<open>HTTP handlers\<close>

record audit_event_response =
  aer_id :: string
  aer_tenant :: string
  aer_user :: string
  aer_user_name :: string
  aer_type :: string
  aer_action :: string
  aer_resource :: string
  aer_resource_type :: string
  aer_target :: string
  aer_ip_address :: string
  aer_ip :: string
  aer_agent :: string
  aer_payload :: string
  aer_created :: instant

record stream_response =
  sr_id :: string
  sr_device :: string
  sr_workspace :: string
  sr_name :: string
  sr_description :: string
  sr_protocol :: string
  sr_source :: string
  sr_status :: string
  sr_thumbnail :: string
  sr_duration :: int
  sr_created :: instant

record url_response =
  pr_url :: string
  pr_expires :: instant

datatype sup_data =
    AuditData audit_event_response | AuditListData "audit_event_response offset_result" | AuditCsv string
  | StreamData stream_response | StreamListData "stream_response offset_result" | UrlData url_response

definition toAuditEventResponse :: "audit_event \<Rightarrow> audit_event_response" where
  "toAuditEventResponse e = \<lparr> aer_id = au_id e, aer_tenant = au_tenant e, aer_user = au_user e, aer_user_name = au_user_name e,
     aer_type = au_type e, aer_action = au_type e, aer_resource = au_resource e, aer_resource_type = au_resource_type e,
     aer_target = au_resource e, aer_ip_address = au_ip e, aer_ip = au_ip e, aer_agent = au_agent e,
     aer_payload = au_payload e, aer_created = au_created e \<rparr>"

definition toStreamResponse :: "stream \<Rightarrow> stream_response" where
  "toStreamResponse x = \<lparr> sr_id = st_id x, sr_device = st_device x, sr_workspace = st_workspace x, sr_name = st_name x,
     sr_description = st_description x, sr_protocol = st_protocol x, sr_source = st_source x, sr_status = st_status x,
     sr_thumbnail = st_thumbnail x, sr_duration = st_duration x, sr_created = st_created x \<rparr>"

definition isVideoValidationError :: "sup_err \<Rightarrow> bool" where
  "isVideoValidationError e = (e \<in> {InvalidDeviceID, InvalidWorkspaceID, InvalidStreamID, InvalidProtocol, InvalidStatus})"

text \<open>The two lists of errors that a handler answers with 404 and 400; every other error is a 500.\<close>

definition sup_error :: "string \<Rightarrow> sup_err list \<Rightarrow> sup_err list \<Rightarrow> sup_err \<Rightarrow> api_error" where
  "sup_error resource missing bad e =
    (if e \<in> set missing then NotFound resource
     else if e \<in> set bad then BadRequest ''''
     else ErrInternalServerError)"

definition sup_answer :: "(sup_err \<Rightarrow> api_error) \<Rightarrow> ('a \<Rightarrow> sup_data envelope) \<Rightarrow> (sup_err, 'a) outcome \<times> sup
    \<Rightarrow> sup_data envelope \<times> sup" where
  "sup_answer emap success rs = (answer emap success (fst rs), snd rs)"

definition h_GetEvent :: "sup_env \<Rightarrow> request \<Rightarrow> sup \<Rightarrow> sup_data envelope \<times> sup" where
  "h_GetEvent env c s =
    sup_answer (sup_error ''audit event'' [EventNotFound] [InvalidEventID]) (\<lambda>e. resp_OK (AuditData (toAuditEventResponse e)))
      (GetEvent env (rq_param c ''id'') s, s)"

definition h_ListByTenant :: "sup_env \<Rightarrow> request \<Rightarrow> sup \<Rightarrow> sup_data envelope \<times> sup" where
  "h_ListByTenant env c s =
    (case GetTenantID c of
       None \<Rightarrow> (resp_Error (ApiErr (Unauthorized '''')), s)
     | Some tenantID \<Rightarrow>
         let page = ParseOffset c; flt = \<lparr> tf_resource_type = q_get c ''resource_type'', tf_search = q_get c ''search'' \<rparr> in
         sup_answer (\<lambda>_. ErrInternalServerError) (\<lambda>(events, tot).
             if q_get c ''format'' = ''csv'' then resp_OK (AuditCsv (buildAuditCSV (se_format env) events))
             else resp_OK (AuditListData (NewOffsetResult (map toAuditEventResponse events) tot page)))
           (ListByTenant env tenantID flt (op_limit page) (Offset page) s, s))"

definition h_ListByResource :: "sup_env \<Rightarrow> request \<Rightarrow> sup \<Rightarrow> sup_data envelope \<times> sup" where
  "h_ListByResource env c s =
    (let page = ParseOffset c; resourceType = q_get c ''resource_type''; resourceID = q_get c ''resource_id'' in
     if resourceType = '''' \<or> resourceID = '''' then (resp_Error (ApiErr (BadRequest '''')), s)
     else sup_answer (\<lambda>_. ErrInternalServerError)
       (\<lambda>(events, tot). resp_OK (AuditListData (NewOffsetResult (map toAuditEventResponse events) tot page)))
       (ListByResource env resourceType resourceID (op_limit page) (Offset page) s, s))"

definition h_CreateStream :: "sup_env \<Rightarrow> create_stream_input option \<Rightarrow> sup \<Rightarrow> sup_data envelope \<times> sup" where
  "h_CreateStream env req s = (case req of
      None \<Rightarrow> (resp_Error (ApiErr (BadRequest '''')), s)
    | Some r \<Rightarrow>
        if cs_device r = '''' \<or> cs_workspace r = '''' \<or> cs_name r = '''' \<or> cs_protocol r = '''' then (resp_ValidationError, s)
        else sup_answer (\<lambda>e. if isVideoValidationError e then BadRequest '''' else ErrInternalServerError)
          (\<lambda>x. resp_Created (StreamData (toStreamResponse x))) (CreateStream env r s))"

definition h_GetStream :: "sup_env \<Rightarrow> request \<Rightarrow> sup \<Rightarrow> sup_data envelope \<times> sup" where
  "h_GetStream env c s =
    sup_answer (sup_error ''stream'' [StreamNotFound] [InvalidStreamID]) (\<lambda>x. resp_OK (StreamData (toStreamResponse x)))
      (GetStream env (rq_param c ''id'') s, s)"

definition h_ListStreams :: "sup_env \<Rightarrow> request \<Rightarrow> sup \<Rightarrow> sup_data envelope \<times> sup" where
  "h_ListStreams env c s =
    (let page = ParseOffset c in
     sup_answer (sup_error '''' [] [InvalidDeviceID])
       (\<lambda>(xs, tot). resp_OK (StreamListData (NewOffsetResult (map toStreamResponse xs) tot page)))
       (ListStreams env (q_get c ''device_id'') (op_limit page) (Offset page) s, s))"

definition h_UpdateStreamStatus :: "sup_env \<Rightarrow> request \<Rightarrow> string option \<Rightarrow> sup \<Rightarrow> sup_data envelope \<times> sup" where
  "h_UpdateStreamStatus env c req s = (case req of
      None \<Rightarrow> (resp_Error (ApiErr (BadRequest '''')), s)
    | Some status \<Rightarrow>
        if status = '''' then (resp_ValidationError, s)
        else sup_answer (sup_error ''stream'' [StreamNotFound] [InvalidStreamID, InvalidStatus])
          (\<lambda>x. resp_OK (StreamData (toStreamResponse x))) (UpdateStreamStatus env (rq_param c ''id'') status s))"

definition h_GetUploadURL :: "sup_env \<Rightarrow> request \<Rightarrow> sup \<Rightarrow> sup_data envelope \<times> sup" where
  "h_GetUploadURL env c s =
    sup_answer (sup_error ''stream'' [StreamNotFound] [InvalidStreamID])
      (\<lambda>url. resp_OK (UrlData \<lparr> pr_url = url, pr_expires = se_now env + 900 * second \<rparr>))
      (GetUploadURL env (rq_param c ''id'') (q_default c ''content_type'' ''video/mp4'') s)"

definition h_GetDownloadURL :: "sup_env \<Rightarrow> request \<Rightarrow> sup \<Rightarrow> sup_data envelope \<times> sup" where
  "h_GetDownloadURL env c s =
    sup_answer (sup_error ''stream recording'' [StreamNotFound, NoRecording] [InvalidStreamID])
      (\<lambda>url. resp_OK (UrlData \<lparr> pr_url = url, pr_expires = se_now env + hour \<rparr>))
      (GetDownloadURL env (rq_param c ''id'') s, s)"

definition h_DeleteStream :: "sup_env \<Rightarrow> request \<Rightarrow> sup \<Rightarrow> sup_data envelope \<times> sup" where
  "h_DeleteStream env c s =
    sup_answer (sup_error ''stream'' [StreamNotFound] [InvalidStreamID]) (\<lambda>_. resp_NoContent)
      (DeleteStream env (rq_param c ''id'') s)"

section \<open>The router\<close>

datatype sup_endpoint =
    POST_streams "create_stream_input option" | GET_streams | GET_stream | PATCH_status "string option" | GET_upload_url
  | GET_download_url | DELETE_stream | GET_audit_events | GET_resource_events | GET_audit_event

definition sup_v1 :: "sup_env \<Rightarrow> sup_endpoint \<Rightarrow> request \<Rightarrow> sup \<Rightarrow> sup_data envelope \<times> sup" where
  "sup_v1 env e c = (case e of
      POST_streams r \<Rightarrow> h_CreateStream env r
    | GET_streams \<Rightarrow> h_ListStreams env c
    | GET_stream \<Rightarrow> h_GetStream env c
    | PATCH_status r \<Rightarrow> h_UpdateStreamStatus env c r
    | GET_upload_url \<Rightarrow> h_GetUploadURL env c
    | GET_download_url \<Rightarrow> h_GetDownloadURL env c
    | DELETE_stream \<Rightarrow> h_DeleteStream env c
    | GET_audit_events \<Rightarrow> h_ListByTenant env c
    | GET_resource_events \<Rightarrow> h_ListByResource env c
    | GET_audit_event \<Rightarrow> h_GetEvent env c)"

definition sup_router :: "(string \<Rightarrow> claims option) \<Rightarrow> sup_env \<Rightarrow> sup_endpoint \<Rightarrow> request \<Rightarrow> sup \<Rightarrow> sup_data envelope \<times> sup" where
  "sup_router verify env e c s = authorized verify (\<lambda>c'. sup_v1 env e c' s) c s"

end
