(* ===== verification/IAM_Invariant.thy ===== *)
theory IAM_Invariant
  imports IAM_Handler
begin

text \<open>
  What every request to the identity service keeps of its tables. The laws of the repositories that the
  use cases rely on are a locale over an invariant of the tables; inside it every use case and every route
  of the router is shown to keep the invariant, once. It is instantiated with the soundness of the tables
  here, and with the death of a refresh token in IAM\<open>_\<close>Properties.
\<close>

section \<open>Calls that keep an invariant\<close>

text \<open>\<open>holds I m Q\<close>: the call keeps \<open>I\<close>, and a value that it returns satisfies \<open>Q\<close>.\<close>

definition holds :: "(iam_db \<Rightarrow> bool) \<Rightarrow> 'a iam_svc \<Rightarrow> ('a \<Rightarrow> bool) \<Rightarrow> bool" where
  "holds I m Q \<longleftrightarrow> (\<forall>s. I (im_db s) \<longrightarrow> I (im_db (snd (m s))) \<and> (\<forall>x. fst (m s) = Ok x \<longrightarrow> Q x))"

lemma holdsD: "holds I m Q \<Longrightarrow> I (im_db s) \<Longrightarrow> I (im_db (snd (m s)))"
  by (simp add: holds_def)

lemma holds_ret [intro]: "Q x \<Longrightarrow> holds I (ret_s x) Q"
  by (simp add: holds_def ret_s_def)

lemma holds_fail [intro]: "holds I (fail_s e) Q"
  by (simp add: holds_def fail_s_def)

lemma holds_lift: "(\<And>x. r = Ok x \<Longrightarrow> Q x) \<Longrightarrow> holds I (lift_s r) Q"
  by (simp add: holds_def lift_s_def)

lemma holds_parse [intro]: "holds I (parse_s env t) (\<lambda>_. True)"
  by (simp add: parse_s_def holds_lift)

lemma holds_read: "(\<And>db x. I db \<Longrightarrow> f db = Ok x \<Longrightarrow> Q x) \<Longrightarrow> holds I (read_s f) Q"
  by (simp add: holds_def read_s_def)

lemma holds_read_any [intro]: "holds I (read_s f) (\<lambda>_. True)"
  by (simp add: holds_read)

lemma holds_exec: "(\<And>db. I db \<Longrightarrow> I (snd (f db))) \<Longrightarrow> holds I (exec_s f) (\<lambda>_. True)"
  by (simp add: holds_def exec_s_def split_beta)

lemma holds_bind: "holds I m Q \<Longrightarrow> (\<And>x. Q x \<Longrightarrow> holds I (k x) R) \<Longrightarrow> holds I (bind_s m k) R"
  by (fastforce simp: holds_def bind_s_def split: prod.splits outcome.splits)

lemma holds_weaken: "holds I m Q \<Longrightarrow> (\<And>x. Q x \<Longrightarrow> R x) \<Longrightarrow> holds I m R"
  by (auto simp: holds_def)

lemma holds_quiet [intro]: "holds I m Q \<Longrightarrow> holds I (quiet m) (\<lambda>_. True)"
  by (simp add: holds_def quiet_def)

lemma holds_failing [intro]: "holds I m Q \<Longrightarrow> holds I (failing e m) Q"
  by (auto simp: holds_def failing_def split: prod.splits outcome.splits)

lemma holds_when [intro]: "(b \<Longrightarrow> holds I m (\<lambda>_. True)) \<Longrightarrow> holds I (when_s b m) (\<lambda>_. True)"
  by (auto simp: when_s_def)

lemma holds_publish [intro]: "holds I (publish env i t k p) (\<lambda>_. True)"
  by (simp add: holds_def publish_def)

lemma holds_publishers [intro]:
  "holds I (PublishUserRegistered env i u) (\<lambda>_. True)" "holds I (PublishUserLoggedIn env i u ip) (\<lambda>_. True)"
  "holds I (PublishPasswordChanged env i uid) (\<lambda>_. True)" "holds I (PublishEmailVerified env i uid) (\<lambda>_. True)"
  by (auto simp: PublishUserRegistered_def PublishUserLoggedIn_def PublishPasswordChanged_def PublishEmailVerified_def)

section \<open>Well-formed rows\<close>

text \<open>An account is active exactly when its address is verified; no use case disables one.\<close>

definition user_wf :: "user \<Rightarrow> bool" where
  "user_wf u \<longleftrightarrow> us_first u \<noteq> '''' \<and> us_last u \<noteq> '''' \<and> us_status u \<noteq> UserStatusDisabled \<and>
     (us_verified u \<longleftrightarrow> us_status u = UserStatusActive) \<and> (us_reset_expiry u = None \<longrightarrow> us_reset u = '''')"

definition org_wf :: "org \<Rightarrow> bool" where
  "org_wf o1 \<longleftrightarrow> og_name o1 \<noteq> '''' \<and> isValidSlug (og_slug o1)"

definition ws_key_wf :: "ws_key \<Rightarrow> bool" where
  "ws_key_wf k \<longleftrightarrow> wa_name k \<noteq> '''' \<and> ValidScopes (wa_scope k)"

lemma user_wf_updates [simp]:
  "user_wf (u\<lparr> us_password := h \<rparr>) = user_wf u" "user_wf (u\<lparr> us_updated := now \<rparr>) = user_wf u"
  "user_wf (u\<lparr> us_verify := t \<rparr>) = user_wf u" "user_wf (u\<lparr> us_roles := rs \<rparr>) = user_wf u"
  by (simp_all add: user_wf_def)

lemma user_wf_setters:
  "user_wf u \<Longrightarrow> user_wf (Activate now u)" "user_wf u \<Longrightarrow> user_wf (SetResetToken now t x u)"
  "user_wf u \<Longrightarrow> user_wf (ClearResetToken now u)"
  by (auto simp: user_wf_def Activate_def SetResetToken_def ClearResetToken_def)

lemma SetPassword_wf: "user_wf u \<Longrightarrow> SetPassword now sha bcrypt p u = Ok u' \<Longrightarrow> user_wf u'"
  by (auto simp: SetPassword_def split: if_splits option.splits)

lemma NewUser_wf: "NewUser now mail sha bcrypt i t tid email p f l = Ok u \<Longrightarrow> user_wf u"
  by (auto simp: NewUser_def user_wf_def split: if_splits option.splits)

lemma NewOrg_wf: "NewOrg now i name slug owner = Ok o1 \<Longrightarrow> org_wf o1"
  by (auto simp: NewOrg_def org_wf_def split: if_splits)

lemma apply_org_update_wf: "org_wf o1 \<Longrightarrow> org_wf (apply_org_update now inp o1)"
  by (simp add: apply_org_update_def org_wf_def)

lemma NewWorkspaceAPIKey_wf: "NewWorkspaceAPIKey now sha rand i w name scope = Ok (k, p) \<Longrightarrow> ws_key_wf k"
  by (auto simp: NewWorkspaceAPIKey_def ws_key_wf_def Let_def split: if_splits option.splits)

section \<open>Slugs\<close>

text \<open>What the regular expression means: words of letters and digits, joined by single hyphens.\<close>

definition slug_word :: "string \<Rightarrow> bool" where
  "slug_word w \<longleftrightarrow> w \<noteq> '''' \<and> list_all slug_alnum w"

definition hyphenated :: "string list \<Rightarrow> string" where
  "hyphenated ws = concat (map (\<lambda>w. CHR ''-'' # w) ws)"

lemma not_alnum_hyphen [simp]: "\<not> slug_alnum CHR ''-''"
  by (simp add: slug_alnum_def)

lemma slugRegex_words: "slugRegex ends s \<longleftrightarrow>
   (\<exists>w ws. list_all slug_alnum w \<and> (ends \<or> w \<noteq> '''') \<and> list_all slug_word ws \<and> s = w @ hyphenated ws)"
proof (induction s arbitrary: ends)
  case Nil
  have "(\<exists>w ws. list_all slug_alnum w \<and> (ends \<or> w \<noteq> '''') \<and> list_all slug_word ws \<and> [] = w @ hyphenated ws) \<longleftrightarrow> ends"
    by (force simp: hyphenated_def intro: exI [of _ "[]"])
  then show ?case by simp
next
  case (Cons c cs)
  show ?case
  proof (cases "slug_alnum c")
    case True
    then have hd: "c \<noteq> CHR ''-''" by auto
    have "(\<exists>w ws. list_all slug_alnum w \<and> (ends \<or> w \<noteq> '''') \<and> list_all slug_word ws \<and> c # cs = w @ hyphenated ws) \<longleftrightarrow>
        (\<exists>w ws. list_all slug_alnum w \<and> list_all slug_word ws \<and> cs = w @ hyphenated ws)" (is "?L \<longleftrightarrow> ?R")
    proof
      assume ?L
      then obtain w ws where w: "list_all slug_alnum w" "list_all slug_word ws" "c # cs = w @ hyphenated ws" by blast
      from w(3) hd obtain w' where "w = c # w'" by (cases w; cases ws) (auto simp: hyphenated_def)
      with w show ?R by auto
    next
      assume ?R
      then obtain w ws where "list_all slug_alnum w" "list_all slug_word ws" "cs = w @ hyphenated ws" by blast
      with True show ?L by (intro exI [of _ "c # w"] exI [of _ ws]) auto
    qed
    with True Cons.IH [of True] show ?thesis by simp
  next
    case False
    have "(\<exists>w ws. list_all slug_alnum w \<and> (ends \<or> w \<noteq> '''') \<and> list_all slug_word ws \<and> c # cs = w @ hyphenated ws) \<longleftrightarrow>
        ends \<and> c = CHR ''-'' \<and> (\<exists>w ws. list_all slug_alnum w \<and> w \<noteq> '''' \<and> list_all slug_word ws \<and> cs = w @ hyphenated ws)"
      (is "?L \<longleftrightarrow> ?R")
    proof
      assume ?L
      then obtain w ws where w: "list_all slug_alnum w" "ends \<or> w \<noteq> ''''" "list_all slug_word ws" "c # cs = w @ hyphenated ws"
        by blast
      from w False have "w = []" by (cases w) auto
      with w obtain v vs where "ws = v # vs" by (cases ws) (auto simp: hyphenated_def)
      with w \<open>w = []\<close> show ?R by (auto simp: hyphenated_def slug_word_def)
    next
      assume ?R
      then obtain w ws where "ends" "c = CHR ''-''" "slug_word w" "list_all slug_word ws" "cs = w @ hyphenated ws"
        by (auto simp: slug_word_def)
      then show ?L by (intro exI [of _ "[]"] exI [of _ "w # ws"]) (auto simp: hyphenated_def)
    qed
    with False Cons.IH [of False] show ?thesis by simp
  qed
qed

text \<open>The slug check accepts exactly the language of its regular expression: non-empty words of lower-case letters
  and digits joined by single hyphens, so no slug is empty, begins or ends with a hyphen or holds two in a
  row.\<close>

theorem isValidSlug_language:
  "isValidSlug slug \<longleftrightarrow> (\<exists>w ws. slug = w @ concat (map (\<lambda>v. CHR ''-'' # v) ws) \<and>
     list_all (\<lambda>v. v \<noteq> '''' \<and> list_all slug_alnum v) (w # ws))"
proof -
  have word: "slug_word = (\<lambda>v. v \<noteq> '''' \<and> list_all slug_alnum v)" by (auto simp: slug_word_def fun_eq_iff)
  show ?thesis unfolding isValidSlug_def slugRegex_words by (auto simp: hyphenated_def word)
qed

lemma isValidSlugI: "slug_word w \<Longrightarrow> slug_word v \<Longrightarrow> isValidSlug (w @ ''-'' @ v)"
  unfolding isValidSlug_def slugRegex_words
  by (intro exI [of _ w] exI [of _ "[v]"]) (simp add: slug_word_def hyphenated_def)

text \<open>The ids drawn are canonical texts: they start with eight digits of lower-case hex.\<close>

definition env_ok :: "iam_env \<Rightarrow> bool" where
  "env_ok env \<longleftrightarrow> slug_word (take 8 (ie_fresh env 0))"

lemma signup_slug_valid: "env_ok env \<Longrightarrow> isValidSlug (signup_slug env p)"
proof -
  assume env: "env_ok env"
  let ?w = "if filter slug_alnum p = '''' then ''user'' else filter slug_alnum p"
  have "slug_word ?w" by (auto simp: slug_word_def list_all_iff slug_alnum_def Let_def)
  with env show ?thesis
    using isValidSlugI [of ?w "take 8 (ie_fresh env 0)"] unfolding signup_slug_def env_ok_def Let_def by metis
qed

section \<open>The laws of the repositories, and the use cases over them\<close>

text \<open>\<open>E\<close> is what the environment of a call satisfies, \<open>T\<close> a set of tenants on whose behalf keys are made
  and revoked.\<close>

locale iam_tables =
  fixes I :: "iam_db \<Rightarrow> bool" and E :: "iam_env \<Rightarrow> bool" and T :: "string \<Rightarrow> bool"
  assumes env: "E env \<Longrightarrow> env_ok env"
    and user_row: "I db \<Longrightarrow> u \<in> set (ia_users db) \<Longrightarrow> user_wf u"
    and org_row: "I db \<Longrightarrow> o1 \<in> set (ia_orgs db) \<Longrightarrow> org_wf o1"
    and workspace_row: "I db \<Longrightarrow> w \<in> set (ia_workspaces db) \<Longrightarrow> wk_name w \<noteq> ''''"
    and user_create: "I db \<Longrightarrow> user_wf u \<Longrightarrow> I (snd (UserRepo_Create up now u db))"
    and user_update: "I db \<Longrightarrow> user_wf u \<Longrightarrow> I (snd (UserRepo_Update up now u db))"
    and set_roles: "I db \<Longrightarrow> I (snd (SetRoles up uid rs db))"
    and save_token: "E env \<Longrightarrow> I db \<Longrightarrow>
      I (snd (SaveRefreshToken up now (NewRefreshToken now i uid (ie_sha env (ie_fresh env j)) fam ttl agent ip) db))"
    and exchange: "I db \<Longrightarrow> I (snd (GetAndRevokeRefreshToken up now h db))"
    and revoke: "I db \<Longrightarrow> I (snd (RevokeRefreshToken up h db))"
    and revoke_all: "I db \<Longrightarrow> I (snd (RevokeAllForUser up uid db))"
    and org_create: "I db \<Longrightarrow> org_wf o1 \<Longrightarrow> I (snd (OrgRepo_Create up now o1 db))"
    and org_update: "I db \<Longrightarrow> org_wf o1 \<Longrightarrow> I (snd (OrgRepo_Update up now o1 db))"
    and org_delete: "I db \<Longrightarrow> I (snd (OrgRepo_Delete up i db))"
    and workspace_create: "I db \<Longrightarrow> wk_name w \<noteq> '''' \<Longrightarrow> I (snd (WorkspaceRepo_Create up now w db))"
    and workspace_update: "I db \<Longrightarrow> wk_name w \<noteq> '''' \<Longrightarrow> I (snd (WorkspaceRepo_Update up now w db))"
    and workspace_delete: "I db \<Longrightarrow> I (snd (WorkspaceRepo_Delete up i db))"
    and member_add: "I db \<Longrightarrow> ValidRoles role \<Longrightarrow> I (snd (AddMember up cast i wid uid role now db))"
    and member_update: "I db \<Longrightarrow> ValidRoles role \<Longrightarrow> I (snd (UpdateMember up cast wid uid role db))"
    and member_remove: "I db \<Longrightarrow> I (snd (RemoveMember up cast wid uid db))"
    and key_create: "T (ak_tenant k) \<Longrightarrow> I db \<Longrightarrow> I (snd (APIKeyRepo_Create up k db))"
    and key_delete: "T t \<Longrightarrow> I db \<Longrightarrow> I (snd (DeleteAPIKey up i t db))"
    and ws_key_save: "I db \<Longrightarrow> ws_key_wf wk \<Longrightarrow> I (snd (WsKeyRepo_Save up wk db))"
    and ws_key_revoke: "I db \<Longrightarrow> I (snd (WsKeyRepo_Revoke up now i wid db))"
begin

lemmas execs = set_roles exchange revoke revoke_all org_delete workspace_delete member_remove ws_key_revoke

lemma holds_execs [intro]:
  "holds I (exec_s (SetRoles up uid rs)) (\<lambda>_. True)" "holds I (exec_s (GetAndRevokeRefreshToken up now h)) (\<lambda>_. True)"
  "holds I (exec_s (RevokeRefreshToken up h)) (\<lambda>_. True)" "holds I (exec_s (RevokeAllForUser up uid)) (\<lambda>_. True)"
  "holds I (exec_s (OrgRepo_Delete up i)) (\<lambda>_. True)" "holds I (exec_s (WorkspaceRepo_Delete up i)) (\<lambda>_. True)"
  "holds I (exec_s (RemoveMember up cast w u)) (\<lambda>_. True)" "holds I (exec_s (WsKeyRepo_Revoke up now i w)) (\<lambda>_. True)"
  by (auto intro!: holds_exec execs)

lemma holds_guarded_execs:
  "user_wf u \<Longrightarrow> holds I (exec_s (UserRepo_Create up now u)) (\<lambda>_. True)"
  "user_wf u \<Longrightarrow> holds I (exec_s (UserRepo_Update up now u)) (\<lambda>_. True)"
  "E env \<Longrightarrow> holds I (exec_s (SaveRefreshToken up now (NewRefreshToken now i uid (ie_sha env (ie_fresh env j)) fam ttl agent ip))) (\<lambda>_. True)"
  "org_wf o1 \<Longrightarrow> holds I (exec_s (OrgRepo_Create up now o1)) (\<lambda>_. True)"
  "org_wf o1 \<Longrightarrow> holds I (exec_s (OrgRepo_Update up now o1)) (\<lambda>_. True)"
  "wk_name w \<noteq> '''' \<Longrightarrow> holds I (exec_s (WorkspaceRepo_Create up now w)) (\<lambda>_. True)"
  "wk_name w \<noteq> '''' \<Longrightarrow> holds I (exec_s (WorkspaceRepo_Update up now w)) (\<lambda>_. True)"
  "ValidRoles role \<Longrightarrow> holds I (exec_s (AddMember up cast i ws us role now)) (\<lambda>_. True)"
  "ValidRoles role \<Longrightarrow> holds I (exec_s (UpdateMember up cast ws us role)) (\<lambda>_. True)"
  "ws_key_wf wk \<Longrightarrow> holds I (exec_s (WsKeyRepo_Save up wk)) (\<lambda>_. True)"
  "T (ak_tenant k) \<Longrightarrow> holds I (exec_s (APIKeyRepo_Create up k)) (\<lambda>_. True)"
  "T t \<Longrightarrow> holds I (exec_s (DeleteAPIKey up ki t)) (\<lambda>_. True)"
  by (auto intro!: holds_exec user_create user_update save_token org_create org_update workspace_create workspace_update
      member_add member_update ws_key_save key_create key_delete)

lemma holds_user_reads:
  "holds I (read_s (UserRepo_GetByID up i)) user_wf" "holds I (read_s (UserRepo_GetByVerifyToken up t)) user_wf"
  "holds I (read_s (UserRepo_GetByResetToken up now t)) user_wf"
  "holds I (read_s (\<lambda>db. hide_unknown (UserRepo_GetByEmail up e db))) user_wf"
  by (auto intro!: holds_read dest!: first_row_Ok simp: UserRepo_GetByID_def UserRepo_GetByVerifyToken_def
      UserRepo_GetByResetToken_def UserRepo_GetByEmail_def hide_unknown_def user_row split: outcome.splits iam_err.splits)

lemma holds_other_reads:
  "holds I (read_s (OrgRepo_GetByID up i)) org_wf"
  "holds I (read_s (WorkspaceRepo_GetByID up i)) (\<lambda>w. wk_name w \<noteq> '''')"
  by (auto intro!: holds_read dest!: first_row_Ok simp: OrgRepo_GetByID_def WorkspaceRepo_GetByID_def go_simps counted_def
      org_row workspace_row)

lemma holds_new_user: "holds I (new_user env i t e p f l) user_wf"
  by (auto simp: new_user_def intro!: holds_lift dest: NewUser_wf)

lemma keeps_issueTokenPair: "E env \<Longrightarrow> holds I (issueTokenPair env i d u fam ci) (\<lambda>_. True)"
  by (auto simp: issueTokenPair_def Let_def intro!: holds_bind [OF holds_guarded_execs(3)] split: option.split)

lemma keeps_check_email: "holds I (check_email env e) (\<lambda>_. True)"
  unfolding check_email_def by (rule holds_read_any)

lemma keeps_Register: "holds I (Register env inp) (\<lambda>_. True)"
  unfolding Register_def
  by (rule holds_bind [OF holds_parse], rule holds_bind [OF keeps_check_email], rule holds_bind [OF holds_new_user],
      rule holds_bind [OF holds_guarded_execs(1)], simp, rule holds_bind [OF holds_execs(1)],
      rule holds_bind [OF holds_quiet [OF holds_publishers(1)]], rule holds_ret, simp)

lemma keeps_Login: "E env \<Longrightarrow> holds I (Login env e p ci) (\<lambda>_. True)"
  unfolding Login_def Let_def
  by (rule holds_bind [OF holds_user_reads(4)])
    (auto intro!: holds_bind [OF holds_failing [OF holds_read_any]] holds_bind [OF holds_failing [OF keeps_issueTokenPair]]
      holds_bind [OF holds_quiet [OF holds_publishers(2)]])

lemma keeps_Refresh: "E env \<Longrightarrow> holds I (Refresh env t ci) (\<lambda>_. True)"
  unfolding Refresh_def
  by (rule holds_bind [OF holds_failing [OF holds_execs(2)]])
    (auto intro!: holds_bind [OF holds_user_reads(1)] holds_bind [OF holds_failing [OF holds_read_any]]
      holds_failing keeps_issueTokenPair)

lemma keeps_blacklist: "holds I (blacklist env j ttl) (\<lambda>_. True)"
  by (auto simp: holds_def blacklist_def split: option.splits)

lemma keeps_Logout: "holds I (Logout env t j ttl) (\<lambda>_. True)"
  unfolding Logout_def
  by (intro holds_bind [OF holds_when [OF holds_quiet [OF holds_execs(3)]]] holds_when holds_quiet [OF keeps_blacklist])

lemma keeps_ForgotPassword: "holds I (ForgotPassword env e) (\<lambda>_. True)"
proof -
  have "I (im_db (snd (ForgotPassword env e s)))" if "I (im_db s)" for s
    using that user_row [OF that]
    by (auto simp: ForgotPassword_def UserRepo_GetByEmail_def exec_s_def split_beta dest!: first_row_Ok
        intro!: user_update user_wf_setters split: outcome.splits iam_err.splits)
  then show ?thesis by (simp add: holds_def)
qed

lemma keeps_after_password: "holds I (after_password env d u) (\<lambda>_. True)"
  unfolding after_password_def
  by (intro holds_bind [OF holds_quiet [OF holds_execs(4)]] holds_quiet [OF holds_publishers(3)])

lemma keeps_set_password: "user_wf u \<Longrightarrow> holds I (lift_s (SetPassword now sha bcrypt p u)) user_wf"
  by (rule holds_lift) (rule SetPassword_wf)

lemma keeps_ResetPassword: "holds I (ResetPassword env t p) (\<lambda>_. True)"
  unfolding ResetPassword_def Let_def
  by (rule holds_bind [OF holds_failing [OF holds_user_reads(3)]])
    (auto intro!: holds_bind [OF keeps_set_password] holds_bind [OF holds_guarded_execs(2)] user_wf_setters keeps_after_password)

lemma keeps_VerifyEmail: "holds I (VerifyEmail env t) (\<lambda>_. True)"
  unfolding VerifyEmail_def
  by (rule holds_bind [OF holds_failing [OF holds_user_reads(2)]])
    (auto intro!: holds_bind [OF holds_guarded_execs(2)] user_wf_setters holds_quiet [OF holds_publishers(4)])

lemma keeps_ChangePassword: "holds I (ChangePassword env i cur new) (\<lambda>_. True)"
  unfolding ChangePassword_def
  by (intro holds_bind [OF holds_parse] holds_bind [OF holds_user_reads(1)])
    (auto intro!: holds_bind [OF keeps_set_password] holds_bind [OF holds_guarded_execs(2)] keeps_after_password)

lemma keeps_GetMe: "holds I (GetMe env i) (\<lambda>_. True)"
  unfolding GetMe_def
  by (intro holds_bind [OF holds_parse] holds_bind [OF holds_read_any] holds_bind [OF holds_failing [OF holds_read_any]]) auto

lemma keeps_UpdateMe: "holds I (UpdateMe env i f l) (\<lambda>_. True)"
  unfolding UpdateMe_def Let_def
  by (intro holds_bind [OF holds_parse] holds_bind [OF holds_user_reads(1)])
    (auto intro!: holds_bind [OF holds_guarded_execs(2)] simp: user_wf_def)

lemma keeps_SelfSignup:
  assumes E: "E env"
  shows "holds I (SelfSignup env e p ci) (\<lambda>_. True)"
proof -
  let ?pre = "ie_lower env (takeWhile (\<lambda>c. c \<noteq> CHR ''@'') e)"
  have slug: "org_wf \<lparr> og_id = i, og_name = ?pre @ (CHR 0x27 # ''s Org''), og_slug = signup_slug env ?pre, og_plan = OrgPlanFree,
           og_owner = j, og_logo = [], og_website = [], og_created = t, og_updated = t \<rparr>" for i j t
    using signup_slug_valid [OF env [OF E]] by (simp add: org_wf_def)
  show ?thesis
    unfolding SelfSignup_def Let_def
    by (rule holds_bind [OF keeps_check_email], rule holds_bind [OF holds_new_user],
      rule holds_bind [OF holds_guarded_execs(4) [OF slug]], rule holds_bind [OF holds_guarded_execs(1)],
      simp add: user_wf_setters, rule holds_bind [OF holds_execs(1)], rule holds_bind [OF keeps_issueTokenPair [OF E]],
      rule holds_bind [OF holds_quiet [OF holds_publishers(1)]], rule holds_ret, simp)
qed

lemma keeps_CreateOrg: "holds I (CreateOrg env inp) (\<lambda>_. True)"
  unfolding CreateOrg_def
  by (rule holds_bind [OF holds_parse], rule holds_bind [OF holds_read_any], rule holds_bind [OF holds_lift [where Q = org_wf]],
      erule NewOrg_wf, rule holds_bind [OF holds_guarded_execs(4)], auto)

lemma keeps_UpdateOrg: "holds I (UpdateOrg env i inp) (\<lambda>_. True)"
  unfolding UpdateOrg_def Let_def
  by (rule holds_bind [OF holds_parse], rule holds_bind [OF holds_other_reads(1)], rule holds_bind [OF holds_guarded_execs(5)])
    (auto simp: apply_org_update_wf)

lemma keeps_CreateWorkspace: "holds I (CreateWorkspace env inp) (\<lambda>_. True)"
  unfolding CreateWorkspace_def
  by (rule holds_bind [OF holds_parse], rule holds_bind [OF holds_read_any],
      rule holds_bind [OF holds_lift [where Q = "\<lambda>w. wk_name w \<noteq> []"]], force simp: NewWorkspace_def split: if_splits,
      rule holds_bind [OF holds_guarded_execs(6)], auto)

lemma keeps_UpdateWorkspace: "holds I (UpdateWorkspace env i inp) (\<lambda>_. True)"
  unfolding UpdateWorkspace_def Let_def
  by (rule holds_bind [OF holds_parse], rule holds_bind [OF holds_other_reads(2)], rule holds_bind [OF holds_guarded_execs(7)])
    (auto simp: apply_workspace_update_def)

lemma keeps_members:
  "holds I (AddWorkspaceMember env w u role) (\<lambda>_. True)" "holds I (UpdateWorkspaceMember env w u role) (\<lambda>_. True)"
  "holds I (RemoveWorkspaceMember env w u) (\<lambda>_. True)" "holds I (ListWorkspaceMembers env w) (\<lambda>_. True)"
  unfolding AddWorkspaceMember_def UpdateWorkspaceMember_def RemoveWorkspaceMember_def ListWorkspaceMembers_def
  by (auto intro!: holds_bind [OF holds_parse] holds_guarded_execs)

lemma keeps_keys:
  "T t \<Longrightarrow> holds I (CreateAPIKey env t u n sc) (\<lambda>_. True)" "T t \<Longrightarrow> holds I (RevokeAPIKey env i t) (\<lambda>_. True)"
  by (auto simp: CreateAPIKey_def RevokeAPIKey_def Let_def intro!: holds_bind [OF holds_guarded_execs(11)] holds_guarded_execs(12)
      split: option.split)

lemma keeps_CreateWorkspaceAPIKey: "holds I (CreateWorkspaceAPIKey env w n sc) (\<lambda>_. True)"
  unfolding CreateWorkspaceAPIKey_def
  by (rule holds_bind [OF holds_parse], rule holds_bind [OF holds_read_any],
      rule holds_bind [OF holds_lift [where Q = "\<lambda>(k, p). ws_key_wf k"]], auto simp: NewWorkspaceAPIKey_wf
      intro!: holds_bind [OF holds_guarded_execs(10)])

lemma keeps_simple:
  "holds I (GetOrg env i) (\<lambda>_. True)" "holds I (ListOrgs env l off) (\<lambda>_. True)" "holds I (DeleteOrg env i) (\<lambda>_. True)"
  "holds I (ListWorkspaces env i) (\<lambda>_. True)" "holds I (DeleteWorkspace env i) (\<lambda>_. True)"
  "holds I (ListAPIKeys env t) (\<lambda>_. True)" "holds I (RevokeWorkspaceAPIKey env i k) (\<lambda>_. True)" "holds I (ListWorkspaceAPIKeys env i l off) (\<lambda>_. True)"
  unfolding GetOrg_def ListOrgs_def DeleteOrg_def ListWorkspaces_def DeleteWorkspace_def ListAPIKeys_def
    RevokeWorkspaceAPIKey_def ListWorkspaceAPIKeys_def
  by (auto intro!: holds_bind [OF holds_parse])

text \<open>The routes.\<close>

lemma GetTenantID_with_claims: "GetTenantID (with_claims c cl) = Some (cl_tid cl)"
  by (simp add: GetTenantID_def with_claims_def ctx_set_def)

lemmas route_defs = h_Register_def h_Login_def h_Refresh_def h_Logout_def h_ResetPassword_def h_VerifyEmail_def
  h_GetMe_def h_UpdateMe_def h_ChangePassword_def h_Signup_def h_CreateOrg_def h_GetOrg_def h_ListOrgs_def h_UpdateOrg_def
  h_DeleteOrg_def h_CreateWorkspace_def h_ListWorkspaces_def h_UpdateWorkspace_def h_DeleteWorkspace_def h_ListMembers_def
  h_AddMember_def h_UpdateMember_def h_RemoveMember_def h_ListAPIKeys_def h_CreateAPIKey_def h_DeleteAPIKey_def
  h_CreateWorkspaceAPIKey_def h_DeleteWorkspaceAPIKey_def h_ListWorkspaceAPIKeys_def

definition keeps :: "(iam \<Rightarrow> iam_response \<times> iam) \<Rightarrow> bool" where
  "keeps run \<longleftrightarrow> (\<forall>s. I (im_db s) \<longrightarrow> I (im_db (snd (run s))))"

lemma keeps_serve: "holds I m (\<lambda>_. True) \<Longrightarrow> keeps (serve emap f m)"
  by (auto simp: keeps_def serve_def split_beta dest: holdsD)

lemma keeps_bound: "(\<And>r. keeps (run r)) \<Longrightarrow> keeps (bound req required run)"
  by (auto simp: keeps_def bound_def split: option.split)

lemma keeps_with: "(\<And>u. keeps (run u)) \<Longrightarrow> keeps (with_user c run)"
  "(\<And>t. GetTenantID c = Some t \<Longrightarrow> keeps (run t)) \<Longrightarrow> keeps (with_tenant c run)"
  by (auto simp: keeps_def with_user_def with_tenant_def split: option.split)

lemmas keeps_rules = keeps_serve keeps_bound keeps_with keeps_Register keeps_Login keeps_Refresh keeps_Logout
  keeps_ResetPassword keeps_VerifyEmail keeps_GetMe keeps_UpdateMe keeps_ChangePassword keeps_SelfSignup keeps_CreateOrg
  keeps_UpdateOrg keeps_CreateWorkspace keeps_UpdateWorkspace keeps_members keeps_keys keeps_CreateWorkspaceAPIKey
  keeps_simple

lemma keeps_forgot: "keeps (h_ForgotPassword env req)"
  unfolding h_ForgotPassword_def
  by (rule keeps_bound) (auto simp: keeps_def dest: holdsD [OF keeps_ForgotPassword])

lemma keeps_auth_open: "E env \<Longrightarrow> auth_open env e c = Some run \<Longrightarrow> keeps run"
  by (cases e) (auto simp: auth_open_def route_defs keeps_forgot intro!: keeps_rules split: prod.split)

lemma keeps_idle: "keeps (\<lambda>s. (r, s))"
  by (simp add: keeps_def)

lemma keeps_protected: "E env \<Longrightarrow> (\<And>t. GetTenantID c = Some t \<Longrightarrow> T t) \<Longrightarrow> keeps (protected env e c)"
  by (cases e) (auto simp: protected_def route_defs Let_def keeps_idle intro!: keeps_rules split: prod.split)

lemma router_keeps:
  assumes "E env" "\<And>tok cl. extractBearerToken c = Ok tok \<Longrightarrow> verify tok = Some cl \<Longrightarrow> T (cl_tid cl)" "I (im_db s)"
  shows "I (im_db (snd (iam_router verify env e c s)))"
proof (cases "auth_open env e c")
  case None
  have "keeps (protected env e c')" if "JWTAuth verify c = (Ok c' :: (iam_response, request) outcome)" for c'
  proof (rule keeps_protected [OF assms(1)])
    fix t assume t: "GetTenantID c' = Some t"
    from that obtain tok cl where "extractBearerToken c = Ok tok" "verify tok = Some cl" "c' = with_claims c cl"
      by (auto simp: JWTAuth_def split: outcome.splits option.splits)
    with assms(2) t show "T t" by (auto simp: GetTenantID_with_claims)
  qed
  with None assms(3) show ?thesis
    by (auto simp: iam_router_def authorized_def keeps_def split: outcome.split)
qed (use keeps_auth_open [OF assms(1)] assms(3) in \<open>auto simp: iam_router_def keeps_def\<close>)

end

section \<open>Sound tables\<close>

definition users_ok :: "iam_db \<Rightarrow> bool" where
  "users_ok db \<longleftrightarrow> distinct (map us_id (ia_users db)) \<and> distinct (map us_email (ia_users db)) \<and>
     (\<forall>u\<in>set (ia_users db). user_wf u \<and> us_tenant u \<in> og_id ` set (ia_orgs db))"

definition roles_ok :: "iam_db \<Rightarrow> bool" where
  "roles_ok db \<longleftrightarrow> distinct (ia_roles db) \<and> fst ` set (ia_roles db) \<subseteq> us_id ` set (ia_users db)"

definition tokens_ok :: "iam_db \<Rightarrow> bool" where
  "tokens_ok db \<longleftrightarrow> distinct (map rt_id (ia_tokens db)) \<and> distinct (map rt_hash (ia_tokens db)) \<and>
     rt_user ` set (ia_tokens db) \<subseteq> us_id ` set (ia_users db)"

definition orgs_ok :: "iam_db \<Rightarrow> bool" where
  "orgs_ok db \<longleftrightarrow> distinct (map og_id (ia_orgs db)) \<and> distinct (map og_slug (ia_orgs db)) \<and>
     (\<forall>o1\<in>set (ia_orgs db). org_wf o1)"

definition workspaces_ok :: "iam_db \<Rightarrow> bool" where
  "workspaces_ok db \<longleftrightarrow> distinct (map wk_id (ia_workspaces db)) \<and> distinct (map wk_slug (ia_workspaces db)) \<and>
     (\<forall>w\<in>set (ia_workspaces db). wk_name w \<noteq> '''' \<and> wk_org w \<in> og_id ` set (ia_orgs db))"

definition members_ok :: "iam_db \<Rightarrow> bool" where
  "members_ok db \<longleftrightarrow> distinct (map mb_id (ia_members db)) \<and> distinct (map (\<lambda>m. (mb_workspace m, mb_user m)) (ia_members db)) \<and>
     (\<forall>m\<in>set (ia_members db). ValidRoles (mb_role m) \<and> mb_workspace m \<in> wk_id ` set (ia_workspaces db) \<and>
        mb_user m \<in> us_id ` set (ia_users db))"

definition keys_ok :: "iam_db \<Rightarrow> bool" where
  "keys_ok db \<longleftrightarrow> distinct (map ak_id (ia_keys db)) \<and> distinct (map ak_hash (ia_keys db))"

definition wskeys_ok :: "iam_db \<Rightarrow> bool" where
  "wskeys_ok db \<longleftrightarrow> distinct (map wa_id (ia_wskeys db)) \<and> distinct (map wa_hash (ia_wskeys db)) \<and>
     (\<forall>k\<in>set (ia_wskeys db). ws_key_wf k \<and> wa_workspace k \<in> wk_id ` set (ia_workspaces db))"

definition iam_inv :: "iam_db \<Rightarrow> bool" where
  "iam_inv db \<longleftrightarrow> users_ok db \<and> roles_ok db \<and> tokens_ok db \<and> orgs_ok db \<and> workspaces_ok db \<and> members_ok db \<and>
     keys_ok db \<and> wskeys_ok db"

lemma iam_invI:
  "users_ok db \<Longrightarrow> roles_ok db \<Longrightarrow> tokens_ok db \<Longrightarrow> orgs_ok db \<Longrightarrow> workspaces_ok db \<Longrightarrow> members_ok db \<Longrightarrow>
     keys_ok db \<Longrightarrow> wskeys_ok db \<Longrightarrow> iam_inv db"
  by (simp add: iam_inv_def)

lemma iam_invE:
  assumes "iam_inv db"
  obtains "users_ok db" "roles_ok db" "tokens_ok db" "orgs_ok db" "workspaces_ok db" "members_ok db" "keys_ok db" "wskeys_ok db"
  using assms by (simp add: iam_inv_def)

text \<open>A table stays sound when it is kept and the tables that it refers to only grow.\<close>

lemma users_mono: "users_ok db \<Longrightarrow> ia_users db' = ia_users db \<Longrightarrow> og_id ` set (ia_orgs db) \<subseteq> og_id ` set (ia_orgs db') \<Longrightarrow> users_ok db'"
  by (auto simp: users_ok_def)

lemma roles_mono: "roles_ok db \<Longrightarrow> ia_roles db' = ia_roles db \<Longrightarrow> us_id ` set (ia_users db) \<subseteq> us_id ` set (ia_users db') \<Longrightarrow> roles_ok db'"
  unfolding roles_ok_def by (metis order_trans)

lemma tokens_mono: "tokens_ok db \<Longrightarrow> ia_tokens db' = ia_tokens db \<Longrightarrow> us_id ` set (ia_users db) \<subseteq> us_id ` set (ia_users db') \<Longrightarrow> tokens_ok db'"
  unfolding tokens_ok_def by (metis order_trans)

lemma orgs_mono: "orgs_ok db \<Longrightarrow> ia_orgs db' = ia_orgs db \<Longrightarrow> orgs_ok db'"
  by (auto simp: orgs_ok_def)

lemma workspaces_mono: "workspaces_ok db \<Longrightarrow> ia_workspaces db' = ia_workspaces db \<Longrightarrow>
    og_id ` set (ia_orgs db) \<subseteq> og_id ` set (ia_orgs db') \<Longrightarrow> workspaces_ok db'"
  by (auto simp: workspaces_ok_def)

lemma members_mono: "members_ok db \<Longrightarrow> ia_members db' = ia_members db \<Longrightarrow>
    us_id ` set (ia_users db) \<subseteq> us_id ` set (ia_users db') \<Longrightarrow>
    wk_id ` set (ia_workspaces db) \<subseteq> wk_id ` set (ia_workspaces db') \<Longrightarrow> members_ok db'"
  by (auto simp: members_ok_def)

lemma keys_mono: "keys_ok db \<Longrightarrow> ia_keys db' = ia_keys db \<Longrightarrow> keys_ok db'"
  by (auto simp: keys_ok_def)

lemma wskeys_mono: "wskeys_ok db \<Longrightarrow> ia_wskeys db' = ia_wskeys db \<Longrightarrow>
    wk_id ` set (ia_workspaces db) \<subseteq> wk_id ` set (ia_workspaces db') \<Longrightarrow> wskeys_ok db'"
  by (auto simp: wskeys_ok_def)

lemma iam_inv_frame:
  assumes "iam_inv db"
    and "ia_users db' = ia_users db \<or> users_ok db'" "ia_roles db' = ia_roles db \<or> roles_ok db'"
    and "ia_tokens db' = ia_tokens db \<or> tokens_ok db'" "ia_orgs db' = ia_orgs db \<or> orgs_ok db'"
    and "ia_workspaces db' = ia_workspaces db \<or> workspaces_ok db'" "ia_members db' = ia_members db \<or> members_ok db'"
    and "ia_keys db' = ia_keys db \<or> keys_ok db'" "ia_wskeys db' = ia_wskeys db \<or> wskeys_ok db'"
    and "og_id ` set (ia_orgs db) \<subseteq> og_id ` set (ia_orgs db')" "us_id ` set (ia_users db) \<subseteq> us_id ` set (ia_users db')"
    and "wk_id ` set (ia_workspaces db) \<subseteq> wk_id ` set (ia_workspaces db')"
  shows "iam_inv db'"
  using assms
  by (blast elim: iam_invE intro: iam_invI users_mono roles_mono tokens_mono orgs_mono workspaces_mono members_mono keys_mono wskeys_mono)

lemma list_ex_ref:
  "list_ex (\<lambda>x. f x = a) xs \<longleftrightarrow> a \<in> f ` set xs"
  "list_ex (\<lambda>x. f x = a \<or> g x = b) xs \<longleftrightarrow> a \<in> f ` set xs \<or> b \<in> g ` set xs"
  by (auto simp: list_ex_iff image_iff)

lemma same_ids: "(\<And>x. f (g x) = f x) \<Longrightarrow> f ` set (map g xs) = f ` set xs"
  by (simp add: image_image)

text \<open>Updating rows in place: \<open>g\<close> keeps what the constraints speak about.\<close>

lemma users_ok_map:
  "users_ok db \<Longrightarrow> (\<And>u. us_id (g u) = us_id u \<and> us_email (g u) = us_email u \<and> us_tenant (g u) = us_tenant u) \<Longrightarrow>
   (\<And>u. u \<in> set (ia_users db) \<Longrightarrow> user_wf (g u)) \<Longrightarrow> users_ok (db\<lparr> ia_users := map g (ia_users db) \<rparr>)"
  by (simp add: users_ok_def comp_def)

lemma orgs_ok_map:
  "orgs_ok db \<Longrightarrow> (\<And>x. og_id (g x) = og_id x \<and> og_slug (g x) = og_slug x) \<Longrightarrow>
   (\<And>x. x \<in> set (ia_orgs db) \<Longrightarrow> org_wf (g x)) \<Longrightarrow> orgs_ok (db\<lparr> ia_orgs := map g (ia_orgs db) \<rparr>)"
  by (simp add: orgs_ok_def comp_def)

lemma tokens_ok_map:
  "tokens_ok db \<Longrightarrow> (\<And>t. rt_id (g t) = rt_id t \<and> rt_hash (g t) = rt_hash t \<and> rt_user (g t) = rt_user t) \<Longrightarrow>
   tokens_ok (db\<lparr> ia_tokens := map g (ia_tokens db) \<rparr>)"
  by (simp add: tokens_ok_def comp_def image_image)

lemma members_ok_map:
  "members_ok db \<Longrightarrow> (\<And>m. mb_id (g m) = mb_id m \<and> mb_workspace (g m) = mb_workspace m \<and> mb_user (g m) = mb_user m) \<Longrightarrow>
   (\<And>m. m \<in> set (ia_members db) \<Longrightarrow> ValidRoles (mb_role (g m))) \<Longrightarrow> members_ok (db\<lparr> ia_members := map g (ia_members db) \<rparr>)"
  by (simp add: members_ok_def comp_def)

lemma wskeys_ok_map:
  "wskeys_ok db \<Longrightarrow> (\<And>k. wa_id (g k) = wa_id k \<and> wa_hash (g k) = wa_hash k \<and> wa_workspace (g k) = wa_workspace k) \<Longrightarrow>
   (\<And>k. ws_key_wf (g k) = ws_key_wf k) \<Longrightarrow> wskeys_ok (db\<lparr> ia_wskeys := map g (ia_wskeys db) \<rparr>)"
  by (simp add: wskeys_ok_def comp_def)

lemma inv_user_create: "iam_inv db \<Longrightarrow> user_wf u \<Longrightarrow> iam_inv (snd (UserRepo_Create up now u db))"
  by (rule iam_inv_frame, assumption)
    (auto simp: UserRepo_Create_def users_ok_def list_ex_ref user_wf_def iam_inv_def)

lemma inv_user_update:
  assumes inv: "iam_inv db" and u: "user_wf u"
  shows "iam_inv (snd (UserRepo_Update up now u db))"
proof -
  let ?g = "\<lambda>x. if us_id x = us_id u
         then x\<lparr> us_first := us_first u, us_last := us_last u, us_password := us_password u, us_status := us_status u,
                 us_verified := us_verified u, us_verify := us_verify u, us_reset := us_reset u,
                 us_reset_expiry := us_reset_expiry u, us_updated := now \<rparr> else x"
  have "users_ok (db\<lparr> ia_users := map ?g (ia_users db) \<rparr>)"
    using inv u by (intro users_ok_map) (auto simp: iam_inv_def users_ok_def user_wf_def)
  moreover have "us_id ` set (map ?g (ia_users db)) = us_id ` set (ia_users db)" by (rule same_ids) simp
  ultimately have "iam_inv (db\<lparr> ia_users := map ?g (ia_users db) \<rparr>)"
    using inv by (rule_tac iam_inv_frame [of db]) (simp_all del: set_map)
  with inv show ?thesis by (simp add: UserRepo_Update_def)
qed

lemma inv_set_roles: "iam_inv db \<Longrightarrow> iam_inv (snd (SetRoles up uid rs db))"
  by (rule iam_inv_frame, assumption)
    (auto simp: SetRoles_def iam_inv_def roles_ok_def list_ex_ref distinct_map inj_on_def)

lemma inv_revoke_tokens: "iam_inv db \<Longrightarrow> iam_inv (revoke_tokens P db)"
  by (rule iam_inv_frame, assumption)
    (auto simp: revoke_tokens_def iam_inv_def intro!: tokens_ok_map)

lemma inv_tokens:
  "iam_inv db \<Longrightarrow> iam_inv (snd (GetAndRevokeRefreshToken up now h db))" "iam_inv db \<Longrightarrow> iam_inv (snd (RevokeRefreshToken up h db))"
  "iam_inv db \<Longrightarrow> iam_inv (snd (RevokeAllForUser up uid db))"
  by (auto simp: GetAndRevokeRefreshToken_def RevokeRefreshToken_def RevokeAllForUser_def inv_revoke_tokens split: outcome.split)

lemma inv_save_token: "iam_inv db \<Longrightarrow> iam_inv (snd (SaveRefreshToken up now t db))"
  by (rule iam_inv_frame, assumption)
    (auto simp: SaveRefreshToken_def iam_inv_def tokens_ok_def list_ex_ref)

text \<open>Rows of organisations, workspaces, members and keys.\<close>

lemma inv_org_create: "iam_inv db \<Longrightarrow> org_wf o1 \<Longrightarrow> iam_inv (snd (OrgRepo_Create up now o1 db))"
  by (rule iam_inv_frame, assumption)
    (auto simp: OrgRepo_Create_def orgs_ok_def list_ex_ref org_wf_def iam_inv_def)

lemma inv_org_update:
  assumes inv: "iam_inv db" and o1: "org_wf o1"
  shows "iam_inv (snd (OrgRepo_Update up now o1 db))"
proof -
  let ?g = "\<lambda>x. if og_id x = og_id o1
         then x\<lparr> og_name := og_name o1, og_logo := og_logo o1, og_website := og_website o1, og_updated := now \<rparr> else x"
  have "orgs_ok (db\<lparr> ia_orgs := map ?g (ia_orgs db) \<rparr>)"
    using inv o1 by (intro orgs_ok_map) (auto simp: iam_inv_def orgs_ok_def org_wf_def)
  moreover have "og_id ` set (map ?g (ia_orgs db)) = og_id ` set (ia_orgs db)" by (rule same_ids) simp
  ultimately have "iam_inv (db\<lparr> ia_orgs := map ?g (ia_orgs db) \<rparr>)"
    using inv by (rule_tac iam_inv_frame [of db]) (simp_all del: set_map)
  with inv show ?thesis by (simp add: OrgRepo_Update_def)
qed

lemma inv_workspace_create: "iam_inv db \<Longrightarrow> wk_name w \<noteq> '''' \<Longrightarrow> iam_inv (snd (WorkspaceRepo_Create up now w db))"
  by (rule iam_inv_frame, assumption)
    (auto simp: WorkspaceRepo_Create_def workspaces_ok_def list_ex_ref iam_inv_def)

lemma distinct_map_set_one:
  assumes "distinct (map f xs)" "distinct (map k xs)" "\<not> (\<exists>x\<in>set xs. k x \<noteq> i \<and> f x = v)"
    and "\<And>x. f (g x) = (if k x = i then v else f x)"
  shows "distinct (map f (map g xs))"
  using assms(1-3)
proof (induction xs)
  case (Cons x xs)
  then show ?case using assms(4) by (auto simp: image_iff)
qed simp

lemma inv_workspace_update:
  assumes inv: "iam_inv db" and w: "wk_name w \<noteq> ''''"
  shows "iam_inv (snd (WorkspaceRepo_Update up now w db))"
proof (cases "up \<and> \<not> (list_ex (\<lambda>x. wk_id x = wk_id w) (ia_workspaces db) \<and>
         list_ex (\<lambda>x. wk_id x \<noteq> wk_id w \<and> wk_slug x = wk_slug w) (ia_workspaces db))")
  case True
  let ?g = "\<lambda>x. if wk_id x = wk_id w
         then x\<lparr> wk_name := wk_name w, wk_slug := wk_slug w, wk_description := wk_description w, wk_updated := now \<rparr> else x"
  have ok: "workspaces_ok db" using inv by (simp add: iam_inv_def)
  have slugs: "distinct (map wk_slug (map ?g (ia_workspaces db)))"
  proof (cases "\<exists>x\<in>set (ia_workspaces db). wk_id x = wk_id w")
    case present: True
    then have "\<not> (\<exists>x\<in>set (ia_workspaces db). wk_id x \<noteq> wk_id w \<and> wk_slug x = wk_slug w)"
      using True by (auto simp: list_ex_iff)
    with ok show ?thesis by (intro distinct_map_set_one [where i = "wk_id w" and v = "wk_slug w" and k = wk_id]) (auto simp: workspaces_ok_def)
  next
    case False
    then have "map ?g (ia_workspaces db) = ia_workspaces db" by (intro map_idI) auto
    with ok show ?thesis by (simp add: workspaces_ok_def)
  qed
  have ids: "wk_id ` set (map ?g (ia_workspaces db)) = wk_id ` set (ia_workspaces db)" by (rule same_ids) simp
  have "map wk_id (map ?g (ia_workspaces db)) = map wk_id (ia_workspaces db)" by simp
  with slugs have "workspaces_ok (db\<lparr> ia_workspaces := map ?g (ia_workspaces db) \<rparr>)"
    using ok w unfolding workspaces_ok_def by (simp del: map_map) auto
  with ids have "iam_inv (db\<lparr> ia_workspaces := map ?g (ia_workspaces db) \<rparr>)"
    using inv by (rule_tac iam_inv_frame [of db]) (simp_all del: set_map)
  with True inv show ?thesis by (simp add: WorkspaceRepo_Update_def)
qed (auto simp: WorkspaceRepo_Update_def inv)

lemma inv_member_add: "iam_inv db \<Longrightarrow> ValidRoles role \<Longrightarrow> iam_inv (snd (AddMember up cast i wid uid role now db))"
  by (rule iam_inv_frame, assumption)
    (auto simp: AddMember_def members_ok_def list_ex_iff iam_inv_def image_iff split: option.split)

lemma inv_members:
  "iam_inv db \<Longrightarrow> ValidRoles role \<Longrightarrow> iam_inv (snd (UpdateMember up cast wid uid role db))"
  "iam_inv db \<Longrightarrow> iam_inv (snd (RemoveMember up cast wid uid db))"
proof -
  show "iam_inv db \<Longrightarrow> ValidRoles role \<Longrightarrow> iam_inv (snd (UpdateMember up cast wid uid role db))"
    by (rule iam_inv_frame, assumption)
      (auto simp: UpdateMember_def iam_inv_def members_ok_def comp_def if_distrib cong: if_cong split: option.split)
  show "iam_inv db \<Longrightarrow> iam_inv (snd (RemoveMember up cast wid uid db))"
    by (rule iam_inv_frame, assumption)
      (auto simp: RemoveMember_def iam_inv_def members_ok_def intro!: distinct_map_filter split: option.split)
qed

lemma inv_keys:
  "iam_inv db \<Longrightarrow> iam_inv (snd (APIKeyRepo_Create up k db))" "iam_inv db \<Longrightarrow> iam_inv (snd (DeleteAPIKey up ki t db))"
proof -
  show "iam_inv db \<Longrightarrow> iam_inv (snd (APIKeyRepo_Create up k db))"
    by (rule iam_inv_frame, assumption) (auto simp: APIKeyRepo_Create_def keys_ok_def list_ex_ref iam_inv_def)
  show "iam_inv db \<Longrightarrow> iam_inv (snd (DeleteAPIKey up ki t db))"
    by (rule iam_inv_frame, assumption) (auto simp: DeleteAPIKey_def keys_ok_def iam_inv_def intro!: distinct_map_filter)
qed

lemma inv_ws_keys:
  "iam_inv db \<Longrightarrow> ws_key_wf k \<Longrightarrow> iam_inv (snd (WsKeyRepo_Save up k db))"
  "iam_inv db \<Longrightarrow> iam_inv (snd (WsKeyRepo_Revoke up now ki wid db))"
proof -
  show "iam_inv db \<Longrightarrow> ws_key_wf k \<Longrightarrow> iam_inv (snd (WsKeyRepo_Save up k db))"
    by (rule iam_inv_frame, assumption) (auto simp: WsKeyRepo_Save_def wskeys_ok_def list_ex_ref iam_inv_def ws_key_wf_def)
  show "iam_inv db \<Longrightarrow> iam_inv (snd (WsKeyRepo_Revoke up now ki wid db))"
    by (rule iam_inv_frame, assumption)
      (auto simp: WsKeyRepo_Revoke_def iam_inv_def ws_key_wf_def split: if_splits intro!: wskeys_ok_map)
qed

text \<open>Deletions with their cascades.\<close>

lemma inv_drop_users: "iam_inv db \<Longrightarrow> iam_inv (drop_users P db)"
  by (rule iam_invI)
    (auto simp: drop_users_def Let_def iam_inv_def users_ok_def roles_ok_def tokens_ok_def orgs_ok_def workspaces_ok_def
      members_ok_def keys_ok_def wskeys_ok_def intro!: distinct_map_filter distinct_filter)

lemma inv_drop_workspaces: "iam_inv db \<Longrightarrow> iam_inv (drop_workspaces P db)"
  by (rule iam_invI)
    (auto simp: drop_workspaces_def Let_def iam_inv_def users_ok_def roles_ok_def tokens_ok_def orgs_ok_def workspaces_ok_def
      members_ok_def keys_ok_def wskeys_ok_def intro!: distinct_map_filter distinct_filter)

lemma inv_org_delete: "iam_inv db \<Longrightarrow> iam_inv (snd (OrgRepo_Delete up ident db))"
proof -
  assume inv: "iam_inv db"
  let ?db = "drop_workspaces (\<lambda>w. wk_org w = ident) (drop_users (\<lambda>u. us_tenant u = ident) db)"
  have inv': "iam_inv ?db" by (intro inv_drop_workspaces inv_drop_users inv)
  have left: "us_tenant u \<noteq> ident" if "u \<in> set (ia_users ?db)" for u
    using that by (auto simp: drop_workspaces_def drop_users_def Let_def)
  have left_ws: "wk_org w \<noteq> ident" if "w \<in> set (ia_workspaces ?db)" for w
    using that by (auto simp: drop_workspaces_def drop_users_def Let_def)
  have orgs: "ia_orgs ?db = ia_orgs db" by (simp add: drop_workspaces_def drop_users_def Let_def)
  let ?db' = "?db\<lparr> ia_orgs := filter (\<lambda>o1. og_id o1 \<noteq> ident) (ia_orgs db) \<rparr>"
  have "users_ok ?db'" using inv' left orgs by (auto simp: iam_inv_def users_ok_def)
  moreover have "workspaces_ok ?db'" using inv' left_ws orgs by (auto simp: iam_inv_def workspaces_ok_def)
  moreover have "orgs_ok ?db'" using inv' orgs by (auto simp: iam_inv_def orgs_ok_def intro!: distinct_map_filter)
  ultimately have "iam_inv ?db'"
    using inv' by (auto simp: iam_inv_def roles_ok_def tokens_ok_def members_ok_def keys_ok_def wskeys_ok_def)
  with inv show ?thesis by (simp add: OrgRepo_Delete_def)
qed

interpretation sound: iam_tables iam_inv env_ok "\<lambda>_. True"
proof (unfold_locales, goal_cases)
  case (2 db u)
  then show ?case by (simp add: iam_inv_def users_ok_def)
next
  case (3 db o1)
  then show ?case by (simp add: iam_inv_def orgs_ok_def)
next
  case (4 db w)
  then show ?case by (simp add: iam_inv_def workspaces_ok_def)
qed (simp_all add: inv_user_create inv_user_update inv_set_roles inv_save_token inv_tokens inv_org_create inv_org_update
    inv_org_delete inv_workspace_create inv_workspace_update WorkspaceRepo_Delete_def inv_drop_workspaces inv_member_add
    inv_members inv_keys inv_ws_keys)

section \<open>Runs of requests\<close>

text \<open>Requests served one after the other, each with what its environment supplied.\<close>

fun iam_run :: "(string \<Rightarrow> claims option) \<Rightarrow> (iam_env \<times> iam_endpoint \<times> request) list \<Rightarrow> iam \<Rightarrow> iam" where
  "iam_run verify [] s = s"
| "iam_run verify ((env, e, c) # calls) s = iam_run verify calls (snd (iam_router verify env e c s))"

text \<open>The tenant in whose name a request speaks, if any, satisfies \<open>P\<close>.\<close>

definition acts_for :: "(string \<Rightarrow> claims option) \<Rightarrow> (string \<Rightarrow> bool) \<Rightarrow> request \<Rightarrow> bool" where
  "acts_for verify P c = (case extractBearerToken c of
      Ok tok \<Rightarrow> (case verify tok of None \<Rightarrow> True | Some cl \<Rightarrow> P (cl_tid cl)) | _ \<Rightarrow> True)"

lemma acts_for_any [simp]: "acts_for verify (\<lambda>_. True) c"
  by (simp add: acts_for_def split: outcome.split option.split)

context iam_tables
begin

lemma run_keeps:
  "\<forall>(env, e, c)\<in>set calls. E env \<and> acts_for verify T c \<Longrightarrow> I (im_db s) \<Longrightarrow> I (im_db (iam_run verify calls s))"
proof (induction verify calls s rule: iam_run.induct)
  case (2 verify env e c calls s)
  then have "I (im_db (snd (iam_router verify env e c s)))"
    by (intro router_keeps) (auto simp: acts_for_def)
  with 2 show ?case by simp
qed simp

end

definition iam_start :: "redis \<Rightarrow> iam" where
  "iam_start r = \<lparr> im_db = empty_iam_db, im_redis = r, im_topic = [] \<rparr>"

lemma iam_inv_start: "iam_inv (im_db (iam_start r))"
  by (simp add: iam_start_def empty_iam_db_def iam_inv_def users_ok_def roles_ok_def tokens_ok_def orgs_ok_def
      workspaces_ok_def members_ok_def keys_ok_def wskeys_ok_def)


definition demo_iam_env :: "string \<Rightarrow> instant \<Rightarrow> iam_env" where
  "demo_iam_env tag now = \<lparr> ie_now = now, ie_fresh = (\<lambda>i. tag @ [char_of (97 + i)]), ie_rand = Some [1, 2],
     ie_parse = (\<lambda>s. if s = '''' then None else Some s), ie_cast = (\<lambda>s. if s = '''' then None else Some s),
     ie_sha = (\<lambda>s. ''h:'' @ s), ie_bcrypt = (\<lambda>s. Some (''b:'' @ s)), ie_matches = (\<lambda>h s. h = ''b:'' @ s),
     ie_mail = (\<lambda>s. CHR ''@'' \<in> set s), ie_lower = map lower_char, ie_issuer = ''greenlab'',
     ie_sign = (\<lambda>cl. Some (''jwt:'' @ cl_uid cl)), ie_db = (\<lambda>_. True), ie_redis = True, ie_kafka = True \<rparr>"

definition demo_verify :: "string \<Rightarrow> claims option" where
  "demo_verify tok = (if take 4 tok = ''jwt:''
     then Some \<lparr> cl_uid = drop 4 tok, cl_tid = ''elsewhere'', cl_email = '''', cl_roles = [] \<rparr> else None)"

definition demo_signup :: "(iam_env \<times> iam_endpoint \<times> request) list" where
  "demo_signup = [(demo_iam_env ''aaaaaaa'' 1, POST_signup (Some (''Ann.B@x.org'', ''password'')), demo_call '''' '''')]"


end
