(* ===== verification/IAM_Properties.thy ===== *)
theory IAM_Properties
  imports IAM_Invariant
begin

text \<open>
  What the identity service promises its callers: refresh tokens that work once, passwords that replace
  each other, accounts that open with their mail, sessions that end, keys that stay with their tenant, and
  what its routes do not check.
\<close>

section \<open>Refresh tokens\<close>

text \<open>No row exchanges the token with this hash any more. Once that holds it stays, as no later call draws
  a token with the same hash.\<close>

definition spent :: "string \<Rightarrow> iam_db \<Rightarrow> bool" where
  "spent h db \<longleftrightarrow> (\<forall>t\<in>set (ia_tokens db). rt_hash t = h \<longrightarrow> rt_revoked t)"

definition never_draws :: "string \<Rightarrow> iam_env \<Rightarrow> bool" where
  "never_draws h env \<longleftrightarrow> env_ok env \<and> (\<forall>j. ie_sha env (ie_fresh env j) \<noteq> h)"

lemma spent_same_tokens: "spent h db \<Longrightarrow> set (ia_tokens db') \<subseteq> set (ia_tokens db) \<Longrightarrow> spent h db'"
  by (auto simp: spent_def)

lemma spent_revoke_tokens: "spent h db \<Longrightarrow> spent h (revoke_tokens P db)"
  by (auto simp: spent_def revoke_tokens_def)

lemma spent_revokes:
  "spent h db \<Longrightarrow> spent h (snd (GetAndRevokeRefreshToken up now h' db))" "spent h db \<Longrightarrow> spent h (snd (RevokeRefreshToken up h' db))"
  "spent h db \<Longrightarrow> spent h (snd (RevokeAllForUser up uid db))"
  by (auto simp: GetAndRevokeRefreshToken_def RevokeRefreshToken_def RevokeAllForUser_def spent_revoke_tokens split: outcome.split)

lemma spent_save: "spent h db \<Longrightarrow> rt_hash t \<noteq> h \<Longrightarrow> spent h (snd (SaveRefreshToken up now t db))"
  by (auto simp: SaveRefreshToken_def spent_def)

lemma spent_untouched:
  "ia_tokens (snd (UserRepo_Create up now u db)) = ia_tokens db" "ia_tokens (snd (UserRepo_Update up now u db)) = ia_tokens db"
  "ia_tokens (snd (SetRoles up uid rs db)) = ia_tokens db" "ia_tokens (snd (OrgRepo_Create up now o1 db)) = ia_tokens db"
  "ia_tokens (snd (OrgRepo_Update up now o1 db)) = ia_tokens db" "ia_tokens (snd (WorkspaceRepo_Create up now w db)) = ia_tokens db"
  "ia_tokens (snd (WorkspaceRepo_Update up now w db)) = ia_tokens db" "ia_tokens (snd (WorkspaceRepo_Delete up i db)) = ia_tokens db"
  "ia_tokens (snd (AddMember up cast i wid uid role now db)) = ia_tokens db" "ia_tokens (snd (UpdateMember up cast wid uid role db)) = ia_tokens db"
  "ia_tokens (snd (RemoveMember up cast wid uid db)) = ia_tokens db" "ia_tokens (snd (APIKeyRepo_Create up k db)) = ia_tokens db"
  "ia_tokens (snd (DeleteAPIKey up i tn db)) = ia_tokens db" "ia_tokens (snd (WsKeyRepo_Save up wk db)) = ia_tokens db"
  "ia_tokens (snd (WsKeyRepo_Revoke up now i wid db)) = ia_tokens db"
  by (auto simp: UserRepo_Create_def UserRepo_Update_def SetRoles_def OrgRepo_Create_def OrgRepo_Update_def WorkspaceRepo_Create_def
      WorkspaceRepo_Update_def WorkspaceRepo_Delete_def drop_workspaces_def Let_def AddMember_def UpdateMember_def RemoveMember_def
      APIKeyRepo_Create_def DeleteAPIKey_def WsKeyRepo_Save_def WsKeyRepo_Revoke_def split: option.split)

lemma spent_org_delete: "spent h db \<Longrightarrow> spent h (snd (OrgRepo_Delete up i db))"
  by (erule spent_same_tokens) (auto simp: OrgRepo_Delete_def drop_workspaces_def drop_users_def Let_def)

interpretation burnt: iam_tables "\<lambda>db. iam_inv db \<and> spent h db" "never_draws h" "\<lambda>_. True" for h
proof (unfold_locales, goal_cases)
  case (8 env db)
  then show ?case by (auto intro!: inv_save_token spent_save simp: never_draws_def NewRefreshToken_def)
qed (auto simp: never_draws_def dest: sound.workspace_row intro: sound.user_row sound.org_row sound.workspace_row sound.execs sound.user_create
    sound.user_update sound.org_create sound.org_update sound.workspace_create sound.workspace_update sound.member_add
    sound.member_update sound.ws_key_save inv_keys spent_revokes spent_org_delete spent_same_tokens [OF _ eq_refl [OF arg_cong [of _ _ set]]]
    spent_untouched)

text \<open>The rest of a call to Refresh saves one new row, whose hash must not be in the table.\<close>

definition burnt_row :: "string \<Rightarrow> iam_db \<Rightarrow> bool" where
  "burnt_row h db \<longleftrightarrow> iam_inv db \<and> spent h db \<and> h \<in> rt_hash ` set (ia_tokens db)"

lemma burnt_row_save: "burnt_row h db \<Longrightarrow> burnt_row h (snd (SaveRefreshToken up now t db))"
  using inv_save_token [of db up now t] by (auto simp: burnt_row_def SaveRefreshToken_def spent_def list_ex_iff)

lemma burnt_row_issue: "holds (burnt_row h) (issueTokenPair env i d u fam ci) (\<lambda>_. True)"
  by (auto simp: issueTokenPair_def Let_def intro!: holds_bind [OF holds_exec] burnt_row_save split: option.split)

lemma revoked_hashes: "rt_hash ` set (ia_tokens (revoke_tokens P db)) = rt_hash ` set (ia_tokens db)"
  unfolding revoke_tokens_def using same_ids [of rt_hash "\<lambda>t. if P t then t\<lparr> rt_revoked := True \<rparr> else t"] by simp

lemma exchange_burns:
  assumes inv: "iam_inv db" and r: "GetAndRevokeRefreshToken up now h db = (Ok t, db')"
  shows "burnt_row h db'"
proof -
  from r obtain t0 where t0: "first_row TokenNotFound up (exchangeable now h) (ia_tokens db) = Ok t0"
    and db': "db' = revoke_tokens (exchangeable now h) db"
    by (auto simp: GetAndRevokeRefreshToken_def split: outcome.splits)
  from first_row_Ok [OF t0] have row: "t0 \<in> set (ia_tokens db)" "exchangeable now h t0" by auto
  have "exchangeable now h x" if "x \<in> set (ia_tokens db)" "rt_hash x = h" for x
  proof -
    have "inj_on rt_hash (set (ia_tokens db))" using inv by (simp add: iam_inv_def tokens_ok_def distinct_map)
    with that row have "x = t0" by (auto simp: exchangeable_def dest: inj_onD)
    with row show ?thesis by simp
  qed
  then have "spent h db'" by (auto simp: db' spent_def revoke_tokens_def)
  moreover have "h \<in> rt_hash ` set (ia_tokens db')"
    using row unfolding db' revoked_hashes by (auto simp: exchangeable_def)
  moreover have "iam_inv db'" unfolding db' by (rule inv_revoke_tokens [OF inv])
  ultimately show ?thesis by (simp add: burnt_row_def)
qed

lemma spent_refused: "spent (ie_sha env t) (im_db s) \<Longrightarrow> fst (Refresh env t ci s) = Fail InvalidToken"
  by (auto simp: Refresh_def svc_defs GetAndRevokeRefreshToken_def spent_def exchangeable_def
      dest!: first_row_Ok split: outcome.splits prod.splits)

lemma Refresh_burns:
  assumes inv: "iam_inv (im_db s)" and r: "fst (Refresh env t ci s) = Ok p"
  shows "burnt_row (ie_sha env t) (im_db (snd (Refresh env t ci s)))"
proof -
  let ?h = "ie_sha env t"
  define rest where "rest stored = bind_s (read_s (UserRepo_GetByID (ie_db env 1) (rt_user stored))) (\<lambda>u.
    if \<not> user_IsActive u then fail_s AccountIsNotActive
    else bind_s (failing GetRolesFailed (read_s (GetRoles (ie_db env 2) (us_id u)))) (\<lambda>roles.
    failing IssueTokenFailed (issueTokenPair env 0 3 (u\<lparr> us_roles := roles \<rparr>) (rt_family stored) ci)))" for stored :: refresh_token
  have rest: "holds (burnt_row ?h) (rest stored) (\<lambda>_. True)" for stored
    unfolding rest_def by (rule holds_bind [OF holds_read_any])
      (auto intro!: holds_bind [OF holds_failing [OF holds_read_any]] holds_failing burnt_row_issue)
  obtain a db' where ex: "GetAndRevokeRefreshToken (ie_db env 0) (ie_now env) ?h (im_db s) = (a, db')" by force
  have R: "Refresh env t ci s = bind_s (failing InvalidToken (\<lambda>_. (a, s\<lparr> im_db := db' \<rparr>))) rest s"
  proof -
    have "Refresh env t ci = bind_s (failing InvalidToken (exec_s (GetAndRevokeRefreshToken (ie_db env 0) (ie_now env) ?h))) rest"
      unfolding Refresh_def rest_def ..
    then show ?thesis by (simp add: exec_s_def bind_s_def failing_def ex)
  qed
  with r obtain stored where a: "a = Ok stored" by (cases a) (auto simp: bind_s_def failing_def)
  then have "Refresh env t ci s = rest stored (s\<lparr> im_db := db' \<rparr>)" using R by (simp add: bind_s_def failing_def)
  moreover have "burnt_row ?h db'" using exchange_burns [OF inv] ex a by simp
  ultimately show ?thesis using holdsD [OF rest, of "s\<lparr> im_db := db' \<rparr>"] by simp
qed

text \<open>C6. A refresh token is exchanged at most once. Once a refresh with it has succeeded, in a state reached by any
  requests, every later attempt with the same token is refused as invalid, whatever requests of whatever endpoints come
  in between and whatever fails, as long as no later call happens to draw a token with the same hash.\<close>

theorem refresh_single_use:
  assumes "\<forall>(env, e, c)\<in>set before. env_ok env" "s = iam_run verify before (iam_start r)"
    and "fst (Refresh env t ci s) = Ok p"
    and "\<forall>(env', e, c)\<in>set calls. never_draws (ie_sha env t) env'" "ie_sha env' = ie_sha env"
  shows "fst (Refresh env' t ci' (iam_run verify calls (snd (Refresh env t ci s)))) = Fail InvalidToken"
proof -
  have "iam_inv (im_db s)" using sound.run_keeps [OF _ iam_inv_start] assms(1,2) by fastforce
  from Refresh_burns [OF this assms(3)]
  have "iam_inv (im_db (snd (Refresh env t ci s))) \<and> spent (ie_sha env t) (im_db (snd (Refresh env t ci s)))"
    by (simp add: burnt_row_def)
  moreover have "\<forall>(env', e, c)\<in>set calls. never_draws (ie_sha env t) env' \<and> acts_for verify (\<lambda>_. True) c" using assms(4) by fastforce
  ultimately show ?thesis
    using burnt.run_keeps by (intro spent_refused) (simp add: assms(5))
qed

theorem refresh_single_use_witness:
  "let s = iam_run demo_verify demo_signup (iam_start Map.empty);
       env = demo_iam_env ''bbbbbbb'' 2; t = ''aaaaaaag''; ci = \<lparr> ci_agent = '''', ci_ip = '''' \<rparr>
   in is_ok (fst (Refresh env t ci s)) \<and>
      fst (Refresh env t ci (iam_run demo_verify [(demo_iam_env ''ccccccc'' 3, POST_login (Some (''Ann.B@x.org'', ''password'')),
        demo_call '''' '''')] (snd (Refresh env t ci s)))) = Fail InvalidToken"
proof -
  let ?s = "iam_run demo_verify demo_signup (iam_start Map.empty)" and ?env = "demo_iam_env ''bbbbbbb'' 2"
    and ?ci = "\<lparr> ci_agent = '''', ci_ip = '''' \<rparr>"
  have ok: "is_ok (fst (Refresh ?env ''aaaaaaag'' ?ci ?s))" by code_simp
  then obtain p where p: "fst (Refresh ?env ''aaaaaaag'' ?ci ?s) = Ok p" by (auto simp: is_ok_iff)
  have pre: "\<forall>(env, e, c)\<in>set demo_signup. env_ok env" by (simp add: demo_signup_def) code_simp
  have "env_ok (demo_iam_env ''ccccccc'' 3)" by code_simp
  then have "\<forall>(env', e, c)\<in>set [(demo_iam_env ''ccccccc'' 3, POST_login (Some (''Ann.B@x.org'', ''password'')), demo_call '''' '''')].
      never_draws (ie_sha ?env ''aaaaaaag'') env'"
    by (simp add: never_draws_def demo_iam_env_def)
  from refresh_single_use [OF pre refl p this refl] ok show ?thesis by (simp add: Let_def)
qed

section \<open>Tenant keys\<close>

definition keys_of :: "string \<Rightarrow> iam_db \<Rightarrow> api_key list" where
  "keys_of tid db = filter (\<lambda>k. ak_tenant k = tid) (ia_keys db)"

lemma keys_untouched:
  "ia_keys (snd (UserRepo_Create up now u db)) = ia_keys db" "ia_keys (snd (UserRepo_Update up now u db)) = ia_keys db"
  "ia_keys (snd (SetRoles up uid rs db)) = ia_keys db" "ia_keys (snd (OrgRepo_Create up now o1 db)) = ia_keys db"
  "ia_keys (snd (OrgRepo_Update up now o1 db)) = ia_keys db" "ia_keys (snd (WorkspaceRepo_Create up now w db)) = ia_keys db"
  "ia_keys (snd (WorkspaceRepo_Update up now w db)) = ia_keys db" "ia_keys (snd (WorkspaceRepo_Delete up i db)) = ia_keys db"
  "ia_keys (snd (AddMember up cast i wid uid role now db)) = ia_keys db" "ia_keys (snd (UpdateMember up cast wid uid role db)) = ia_keys db"
  "ia_keys (snd (RemoveMember up cast wid uid db)) = ia_keys db" "ia_keys (snd (OrgRepo_Delete up i db)) = ia_keys db"
  "ia_keys (snd (GetAndRevokeRefreshToken up now h db)) = ia_keys db" "ia_keys (snd (RevokeRefreshToken up h db)) = ia_keys db"
  "ia_keys (snd (RevokeAllForUser up uid db)) = ia_keys db" "ia_keys (snd (SaveRefreshToken up now t db)) = ia_keys db"
  "ia_keys (snd (WsKeyRepo_Save up wk db)) = ia_keys db" "ia_keys (snd (WsKeyRepo_Revoke up now i wid db)) = ia_keys db"
  by (auto simp: UserRepo_Create_def UserRepo_Update_def SetRoles_def OrgRepo_Create_def OrgRepo_Update_def WorkspaceRepo_Create_def
      WorkspaceRepo_Update_def WorkspaceRepo_Delete_def drop_workspaces_def drop_users_def Let_def AddMember_def UpdateMember_def
      RemoveMember_def OrgRepo_Delete_def GetAndRevokeRefreshToken_def RevokeRefreshToken_def RevokeAllForUser_def revoke_tokens_def
      SaveRefreshToken_def WsKeyRepo_Save_def WsKeyRepo_Revoke_def split: option.split outcome.split)

lemma keys_of_others:
  "ak_tenant k \<noteq> tid \<Longrightarrow> keys_of tid (snd (APIKeyRepo_Create up k db)) = keys_of tid db"
  "t \<noteq> tid \<Longrightarrow> keys_of tid (snd (DeleteAPIKey up ki t db)) = keys_of tid db"
  by (auto simp: keys_of_def APIKeyRepo_Create_def DeleteAPIKey_def intro!: filter_cong)

lemma keys_of_same: "ia_keys db' = ia_keys db \<Longrightarrow> keys_of tid db' = keys_of tid db"
  by (simp add: keys_of_def)

interpretation confined: iam_tables "\<lambda>db. iam_inv db \<and> keys_of tid db = ks" env_ok "\<lambda>t. t \<noteq> tid" for tid ks
  by unfold_locales
    (auto simp: keys_of_others keys_of_same [OF keys_untouched(1)] keys_of_same [OF keys_untouched(2)] keys_of_same [OF keys_untouched(3)]
      keys_of_same [OF keys_untouched(4)] keys_of_same [OF keys_untouched(5)] keys_of_same [OF keys_untouched(6)]
      keys_of_same [OF keys_untouched(7)] keys_of_same [OF keys_untouched(8)] keys_of_same [OF keys_untouched(9)]
      keys_of_same [OF keys_untouched(10)] keys_of_same [OF keys_untouched(11)] keys_of_same [OF keys_untouched(12)]
      keys_of_same [OF keys_untouched(13)] keys_of_same [OF keys_untouched(14)] keys_of_same [OF keys_untouched(15)]
      keys_of_same [OF keys_untouched(16)] keys_of_same [OF keys_untouched(17)] keys_of_same [OF keys_untouched(18)]
      dest: sound.workspace_row intro: sound.user_row sound.org_row sound.execs sound.user_create
      sound.user_update inv_save_token sound.org_create sound.org_update sound.workspace_create sound.workspace_update sound.member_add
      sound.member_update sound.ws_key_save inv_keys)

lemma ListAPIKeys_own: "fst (ListAPIKeys env t s) = Ok ks \<Longrightarrow> set ks = set (keys_of t (im_db s))"
  by (auto simp: ListAPIKeys_def read_s_def APIKeyRepo_List_def keys_of_def split: if_splits)

text \<open>C9. API keys stay with their tenant. Requests that carry no token of a tenant, whatever endpoints they call and
  in whatever order, neither make, change nor revoke one of its keys, and a listing for another tenant shows none of
  them.\<close>

theorem api_keys_confined:
  assumes "\<forall>(env, e, c)\<in>set before. env_ok env" "s = iam_run verify before (iam_start r)"
    and "\<forall>(env, e, c)\<in>set calls. env_ok env \<and> acts_for verify (\<lambda>t. t \<noteq> tid) c"
  shows "keys_of tid (im_db (iam_run verify calls s)) = keys_of tid (im_db s) \<and>
    (\<forall>t ks k. t \<noteq> tid \<longrightarrow> fst (ListAPIKeys env t s) = Ok ks \<longrightarrow> k \<in> set ks \<longrightarrow> k \<notin> set (keys_of tid (im_db s)))"
proof -
  have "iam_inv (im_db s)" using sound.run_keeps [OF _ iam_inv_start] assms(1,2) by fastforce
  then have "keys_of tid (im_db (iam_run verify calls s)) = keys_of tid (im_db s)"
    using confined.run_keeps [of calls verify tid s "keys_of tid (im_db s)"] assms(3) by auto
  then show ?thesis using ListAPIKeys_own [of env _ s] by (auto simp: keys_of_def)
qed

theorem api_keys_confined_witness:
  "let mk = (\<lambda>tag name. (demo_iam_env tag 1, POST_key (Some (name, Some [''read''])), demo_call ''Bearer jwt:ann'' ''''));
       s = iam_run demo_verify [mk ''aaaaaaa'' ''first''] (iam_start Map.empty)
   in map ak_name (keys_of ''elsewhere'' (im_db s)) = [''first''] \<and>
      keys_of ''home'' (im_db (iam_run demo_verify [mk ''bbbbbbb'' ''second''] s)) = keys_of ''home'' (im_db s)"
proof -
  let ?mk = "\<lambda>tag name. (demo_iam_env tag 1, POST_key (Some (name, Some [''read''])), demo_call ''Bearer jwt:ann'' '''')"
  let ?s = "iam_run demo_verify [?mk ''aaaaaaa'' ''first''] (iam_start Map.empty)"
  have "map ak_name (keys_of ''elsewhere'' (im_db ?s)) = [''first'']" by code_simp
  moreover have "\<forall>(env, e, c)\<in>set [?mk ''aaaaaaa'' ''first'']. env_ok env" by simp code_simp
  moreover have "\<forall>(env, e, c)\<in>set [?mk ''bbbbbbb'' ''second'']. env_ok env \<and> acts_for demo_verify (\<lambda>t. t \<noteq> ''home'') c"
    by simp code_simp
  ultimately show ?thesis
    using api_keys_confined [of "[?mk ''aaaaaaa'' ''first'']" "?s" demo_verify "Map.empty" "[?mk ''bbbbbbb'' ''second'']" "''home''"]
    by (simp add: Let_def del: iam_run.simps)
qed

section \<open>What a request leaves alone\<close>

text \<open>A relation between the state before and after a call that holds for writes to the database and for each of the
  four user events holds for every use case and every route: the interface of the arguments about what a run of requests does
  to the cache and to the topic. \<open>J\<close> says whether it also holds for writes to the cache, which only a logout with the
  identifier of an access token makes.\<close>

definition framed :: "(iam \<Rightarrow> iam \<Rightarrow> bool) \<Rightarrow> (iam \<Rightarrow> 'r \<times> iam) \<Rightarrow> bool" where
  "framed R m \<longleftrightarrow> (\<forall>s. R s (snd (m s)))"

locale iam_frame =
  fixes R :: "iam \<Rightarrow> iam \<Rightarrow> bool" and J :: bool
  assumes same: "R s s"
    and step: "R s s' \<Longrightarrow> R s' s'' \<Longrightarrow> R s s''"
    and written: "R s (s\<lparr> im_db := db \<rparr>)"
    and registered: "framed R (PublishUserRegistered env i u)"
    and logged_in: "framed R (PublishUserLoggedIn env i u ip)"
    and changed: "framed R (PublishPasswordChanged env i uid)"
    and verified: "framed R (PublishEmailVerified env i uid)"
    and cached: "J \<Longrightarrow> R s (s\<lparr> im_redis := r \<rparr>)"
begin

lemma basic:
  "framed R (ret_s x)" "framed R (fail_s e)" "framed R (lift_s y)" "framed R (read_s f)" "framed R (exec_s g)"
  "framed R (parse_s env t)"
  by (auto simp: framed_def svc_defs same written split: prod.split)

lemma bind: "framed R m \<Longrightarrow> (\<And>x. framed R (k x)) \<Longrightarrow> framed R (bind_s m k)"
  by (auto simp: framed_def bind_s_def split: prod.split outcome.split) (metis snd_conv step)+

lemma wrap:
  "framed R m \<Longrightarrow> framed R (failing e m)" "framed R u \<Longrightarrow> framed R (quiet u)" "framed R u \<Longrightarrow> framed R (when_s b u)"
  by (auto simp: framed_def failing_def quiet_def when_s_def ret_s_def same split: prod.split outcome.split) (metis snd_conv)+

lemma calls:
  "framed R (issueTokenPair env i d u fam ci)" "framed R (after_password env d uid)" "framed R (ForgotPassword env e)"
  "framed R (new_user env j t e p f l)" "framed R (check_email env e)" "J \<Longrightarrow> framed R (blacklist env jti ttl)"
  by (auto simp: issueTokenPair_def Let_def after_password_def new_user_def check_email_def
      intro!: basic bind wrap changed split: option.split)
    (auto simp: framed_def ForgotPassword_def exec_s_def blacklist_def same written cached
      split: outcome.split iam_err.split prod.split option.split)

lemmas rules = basic bind wrap calls registered logged_in changed verified

lemma uses:
  "framed R (Register env ri)" "framed R (Login env e p ci)" "framed R (Refresh env t ci)" "framed R (ResetPassword env t p)"
  "framed R (VerifyEmail env t)" "framed R (GetMe env i)" "framed R (UpdateMe env i f l)" "framed R (ChangePassword env i p q)"
  "framed R (SelfSignup env e p ci)" "framed R (CreateOrg env co)" "framed R (GetOrg env i)" "framed R (ListOrgs env lm off)"
  "framed R (UpdateOrg env i uo)" "framed R (DeleteOrg env i)" "framed R (CreateWorkspace env cw)"
  "framed R (ListWorkspaces env i)" "framed R (UpdateWorkspace env i uw)" "framed R (DeleteWorkspace env i)"
  "framed R (ListWorkspaceMembers env i)" "framed R (AddWorkspaceMember env i u ro)" "framed R (UpdateWorkspaceMember env i u ro)"
  "framed R (RemoveWorkspaceMember env i u)" "framed R (ListAPIKeys env t)" "framed R (CreateAPIKey env t u n sc)"
  "framed R (RevokeAPIKey env i t)" "framed R (CreateWorkspaceAPIKey env i n so)" "framed R (RevokeWorkspaceAPIKey env i k)"
  "framed R (ListWorkspaceAPIKeys env i lm off)" "J \<or> jti = [] \<Longrightarrow> framed R (Logout env t jti ttl)"
  unfolding Register_def Login_def Refresh_def ResetPassword_def VerifyEmail_def GetMe_def UpdateMe_def
    ChangePassword_def SelfSignup_def CreateOrg_def GetOrg_def ListOrgs_def UpdateOrg_def DeleteOrg_def CreateWorkspace_def
    ListWorkspaces_def UpdateWorkspace_def DeleteWorkspace_def ListWorkspaceMembers_def AddWorkspaceMember_def
    UpdateWorkspaceMember_def RemoveWorkspaceMember_def ListAPIKeys_def CreateAPIKey_def RevokeAPIKey_def
    CreateWorkspaceAPIKey_def RevokeWorkspaceAPIKey_def ListWorkspaceAPIKeys_def Let_def Logout_def
  by (auto intro!: rules simp: when_s_def split: option.split)

lemma handled:
  "framed R m \<Longrightarrow> framed R (serve emap f m)" "(\<And>r. framed R (run r)) \<Longrightarrow> framed R (bound req required run)"
  "(\<And>u. framed R (use u)) \<Longrightarrow> framed R (with_user c use)" "(\<And>u. framed R (use u)) \<Longrightarrow> framed R (with_tenant c use)"
  "framed R (\<lambda>s. (r, s))"
  by (auto simp: framed_def serve_def bound_def with_user_def with_tenant_def same split_beta split: option.split)

lemma forgot: "framed R (h_ForgotPassword env req)"
  using calls(3) by (auto simp: framed_def h_ForgotPassword_def bound_def same split: option.split)

lemma open_routes: "auth_open env e c = Some run \<Longrightarrow> framed R run"
  by (cases e) (auto simp: auth_open_def h_Signup_def h_Register_def h_Login_def h_Refresh_def h_ResetPassword_def
      h_VerifyEmail_def intro!: handled forgot uses split: prod.split)

lemma protected_routes: "J \<or> rq_ctx c ''jti'' = None \<Longrightarrow> framed R (protected env e c)"
  by (cases e) (auto simp: protected_def h_Logout_def h_GetMe_def h_UpdateMe_def h_ChangePassword_def h_CreateOrg_def
      h_GetOrg_def h_ListOrgs_def h_UpdateOrg_def h_DeleteOrg_def h_CreateWorkspace_def h_ListWorkspaces_def
      h_UpdateWorkspace_def h_DeleteWorkspace_def h_ListMembers_def h_AddMember_def h_UpdateMember_def h_RemoveMember_def
      h_ListAPIKeys_def h_CreateAPIKey_def h_DeleteAPIKey_def h_CreateWorkspaceAPIKey_def h_DeleteWorkspaceAPIKey_def
      h_ListWorkspaceAPIKeys_def Let_def intro!: handled uses split: prod.split)

lemma router: "J \<or> rq_ctx c ''jti'' = None \<Longrightarrow> framed R (iam_router verify env e c)"
  using open_routes [of env e c] protected_routes [of "with_claims c _" env e]
  by (auto simp: iam_router_def authorized_def JWTAuth_def framed_def same with_claims_def ctx_set_def
      split: option.split outcome.split)

lemma run: "J \<or> (\<forall>(env, e, c)\<in>set calls. rq_ctx c ''jti'' = None) \<Longrightarrow> R s (iam_run verify calls s)"
proof (induction verify calls s rule: iam_run.induct)
  case (2 verify env e c calls s)
  then have "R s (snd (iam_router verify env e c s))" using router [of c verify env e] by (auto simp: framed_def)
  with 2 show ?case using step by auto
qed (simp add: same)

end

lemma framed_publish: "(\<And>s. R s s) \<Longrightarrow> (\<And>s. R s (s\<lparr> im_topic := im_topic s @ [\<lparr> ue_id = i, ue_type = t, ue_key = k,
    ue_time = ie_now env, ue_payload = p \<rparr>] \<rparr>)) \<Longrightarrow> framed R (publish env i t k p)"
  by (simp add: framed_def publish_def)

interpretation same_redis: iam_frame "\<lambda>s s'. im_redis s' = im_redis s" False
  by unfold_locales (auto simp: framed_def publish_def PublishUserRegistered_def PublishUserLoggedIn_def
      PublishPasswordChanged_def PublishEmailVerified_def)

section \<open>Sessions and access tokens\<close>

lemma with_claims_jti: "rq_ctx (with_claims c cl) ''jti'' = rq_ctx c ''jti''"
  by (simp add: with_claims_def ctx_set_def)

lemma h_Logout_no_jti: "rq_ctx c ''jti'' = None \<Longrightarrow>
   h_Logout env c t = serve (\<lambda>_. Internal (OtherErr [])) (\<lambda>_. resp_NoContent) (Logout env t [] (accessTokenTTL div second))"
  by (simp add: h_Logout_def Let_def)

text \<open>A logout ends the session only in part. With a valid token it always answers 204 and revokes the refresh
  token it is given when the database answers; but the access token keeps working until it expires: the identifier of
  the access token is read from a context key that no middleware sets, so in no run of requests is any token ever put
  on the blacklist.\<close>

theorem logout_never_blacklists:
  assumes "has_valid_token verify c" "rq_ctx c = Map.empty"
  shows "fst (iam_router verify env (POST_logout t) c s) = resp_NoContent \<and>
    (t \<noteq> '''' \<longrightarrow> ie_db env 0 \<longrightarrow> spent (ie_sha env t) (im_db (snd (iam_router verify env (POST_logout t) c s)))) \<and>
    (\<forall>calls. (\<forall>(env', e, c')\<in>set calls. rq_ctx c' = Map.empty) \<longrightarrow>
       IsTokenBlacklisted now up jti (im_redis (iam_run verify calls s)) = IsTokenBlacklisted now up jti (im_redis s))"
proof -
  obtain cl where R: "iam_router verify env (POST_logout t) c s = h_Logout env (with_claims c cl) t s"
    using authorized_passed [OF assms(1)] by (fastforce simp: iam_router_def auth_open_def protected_def)
  have "rq_ctx (with_claims c cl) ''jti'' = None" using assms(2) by (simp add: with_claims_jti)
  note L = h_Logout_no_jti [OF this]
  have "im_redis (iam_run verify calls s) = im_redis s" if "\<forall>(env', e, c')\<in>set calls. rq_ctx c' = Map.empty" for calls
    using that by (intro same_redis.run) auto
  then show ?thesis
    by (auto simp: R L serve_def Logout_def svc_defs RevokeRefreshToken_def spent_def revoke_tokens_def)
qed

theorem logout_never_blacklists_witness:
  "let s = iam_run demo_verify demo_signup (iam_start Map.empty);
       c = demo_call ''Bearer jwt:aaaaaaac'' '''';
       s' = snd (iam_router demo_verify (demo_iam_env ''bbbbbbb'' 2) (POST_logout ''aaaaaaag'') c s)
   in spent ''h:aaaaaaag'' (im_db s') \<and> \<not> spent ''h:aaaaaaag'' (im_db s) \<and>
      rs_status (fst (iam_router demo_verify (demo_iam_env ''ccccccc'' 3) GET_me c s')) = 200"
proof -
  let ?s = "iam_run demo_verify demo_signup (iam_start Map.empty)" and ?c = "demo_call ''Bearer jwt:aaaaaaac'' ''''"
  have "has_valid_token demo_verify ?c" by code_simp
  moreover have "rq_ctx ?c = Map.empty" by (simp add: demo_call_def)
  ultimately have "spent (ie_sha (demo_iam_env ''bbbbbbb'' 2) ''aaaaaaag'')
      (im_db (snd (iam_router demo_verify (demo_iam_env ''bbbbbbb'' 2) (POST_logout ''aaaaaaag'') ?c ?s)))"
    using logout_never_blacklists [of demo_verify ?c "demo_iam_env ''bbbbbbb'' 2" "''aaaaaaag''" ?s] by (simp add: demo_iam_env_def)
  moreover have "\<not> spent ''h:aaaaaaag'' (im_db ?s)" by code_simp
  moreover have "rs_status (fst (iam_router demo_verify (demo_iam_env ''ccccccc'' 3) GET_me ?c
      (snd (iam_router demo_verify (demo_iam_env ''bbbbbbb'' 2) (POST_logout ''aaaaaaag'') ?c ?s)))) = 200" by code_simp
  ultimately show ?thesis by (simp add: Let_def demo_iam_env_def del: iam_run.simps)
qed

end
