(* ===== verification/IAM_Accounts.thy ===== *)
theory IAM_Accounts
  imports IAM_Properties
begin

text \<open>The life of an account: registration, verification, login and changes of password
  (services/iam/internal/application/auth_service.go). The lemmas compute what a successful call leaves in the tables;
  the properties state which logins and refreshes succeed afterwards.\<close>

section \<open>Passwords\<close>

lemma first_row_unique:
  assumes "distinct (map f xs)" "x \<in> set xs"
  shows "first_row e up (\<lambda>y. f y = f x) xs = (if up then Ok x else Fail SqlErr)"
proof -
  have "filter (\<lambda>y. f y = f x) xs = [x]"
    using assms by (induction xs) (auto simp: filter_empty_conv image_iff)
  then show ?thesis by (simp add: first_row_def)
qed

text \<open>What bcrypt documents: a hash matches the input that it was made from, and no other.\<close>

definition bcrypt_law :: "iam_env \<Rightarrow> bool" where
  "bcrypt_law env \<longleftrightarrow> (\<forall>x h y. ie_bcrypt env x = Some h \<longrightarrow> ie_matches env h y = (y = x))"

text \<open>The tables after a user's row got a new password and its refresh tokens were revoked.\<close>

definition after_update :: "iam_env \<Rightarrow> user \<Rightarrow> iam_db \<Rightarrow> iam_db" where
  "after_update env u db = snd (UserRepo_Update True (ie_now env) u db)"

definition signed_out :: "uuid \<Rightarrow> iam_db \<Rightarrow> iam_db" where
  "signed_out uid = revoke_tokens (\<lambda>t. rt_user t = uid)"

lemma after_password_db:
  "fst (after_password env d uid s) = Ok ()"
  "im_db (snd (after_password env d uid s)) = (if ie_db env d then signed_out uid (im_db s) else im_db s)"
  by (auto simp: after_password_def svc_defs RevokeAllForUser_def PublishPasswordChanged_def publish_def signed_out_def)

lemma ChangePassword_Ok:
  assumes "fst (ChangePassword env uid cur new s) = Ok ()" "ie_db env 2"
  obtains u h where "ie_parse env uid = Some (us_id u)" "u \<in> set (ia_users (im_db s))"
    "CheckPassword (ie_sha env) (ie_matches env) u cur" "ie_bcrypt env (ie_sha env new) = Some h"
    "im_db (snd (ChangePassword env uid cur new s)) =
       signed_out (us_id u) (after_update env (u\<lparr> us_password := h, us_updated := ie_now env \<rparr>) (im_db s))"
proof -
  from assms(1) obtain ident u h where "ie_parse env uid = Some ident" "UserRepo_GetByID (ie_db env 0) ident (im_db s) = Ok u"
    "CheckPassword (ie_sha env) (ie_matches env) u cur" "ie_bcrypt env (ie_sha env new) = Some h" "8 \<le> length new" "ie_db env 1"
    by (auto simp: ChangePassword_def svc_defs SetPassword_def hashPasswordInput_def UserRepo_Update_def
        split: option.splits outcome.splits if_splits)
  moreover from this(2) have "us_id u = ident" "u \<in> set (ia_users (im_db s))"
    by (auto simp: UserRepo_GetByID_def dest!: first_row_Ok)
  moreover have "im_db (snd (ChangePassword env uid cur new s)) =
       signed_out (us_id u) (after_update env (u\<lparr> us_password := h, us_updated := ie_now env \<rparr>) (im_db s))"
    using calculation assms(2) by (simp add: ChangePassword_def svc_defs SetPassword_def hashPasswordInput_def UserRepo_Update_def
        after_password_db after_update_def)
  ultimately show ?thesis using that by metis
qed

lemma ResetPassword_Ok:
  assumes "fst (ResetPassword env tok new s) = Ok ()" "ie_db env 2"
  obtains u h where "u \<in> set (ia_users (im_db s))" "us_reset u = ie_sha env tok" "IsResetTokenValid (ie_now env) u (ie_sha env tok)"
    "ie_bcrypt env (ie_sha env new) = Some h"
    "im_db (snd (ResetPassword env tok new s)) =
       signed_out (us_id u) (after_update env (ClearResetToken (ie_now env) (u\<lparr> us_password := h, us_updated := ie_now env \<rparr>)) (im_db s))"
proof -
  from assms(1) obtain u h where "UserRepo_GetByResetToken (ie_db env 0) (ie_now env) (ie_sha env tok) (im_db s) = Ok u"
    "IsResetTokenValid (ie_now env) u (ie_sha env tok)" "ie_bcrypt env (ie_sha env new) = Some h" "8 \<le> length new" "ie_db env 1"
    by (auto simp: ResetPassword_def svc_defs SetPassword_def hashPasswordInput_def UserRepo_Update_def Let_def
        split: option.splits outcome.splits if_splits)
  moreover from this(1) have "us_reset u = ie_sha env tok" "u \<in> set (ia_users (im_db s))"
    by (auto simp: UserRepo_GetByResetToken_def dest!: first_row_Ok)
  moreover have "im_db (snd (ResetPassword env tok new s)) =
       signed_out (us_id u) (after_update env (ClearResetToken (ie_now env) (u\<lparr> us_password := h, us_updated := ie_now env \<rparr>)) (im_db s))"
    using calculation assms(2) by (simp add: ResetPassword_def svc_defs SetPassword_def hashPasswordInput_def UserRepo_Update_def
        after_password_db after_update_def Let_def ClearResetToken_def)
  ultimately show ?thesis using that by metis
qed

text \<open>A login that finds the account: only a wrong password is answered as invalid credentials.\<close>

lemma session_errors:
  "e \<noteq> a \<Longrightarrow> e \<noteq> b \<Longrightarrow>
   fst (bind_s (failing a m) (\<lambda>r. bind_s (failing b (m2 r)) (\<lambda>p. bind_s (quiet (q r p)) (\<lambda>_. ret_s p))) s) \<noteq> Fail e"
  by (auto simp: bind_s_def failing_def quiet_def ret_s_def split: prod.splits outcome.splits)

lemma Login_found:
  assumes "UserRepo_GetByEmail (ie_db env 0) email (im_db s) = Ok u"
  shows "fst (Login env email p ci s) = Fail InvalidCredentials \<longleftrightarrow> \<not> CheckPassword (ie_sha env) (ie_matches env) u p"
proof -
  have found: "bind_s (read_s (\<lambda>db. hide_unknown (UserRepo_GetByEmail (ie_db env 0) email db))) k s = k u s"
    for k :: "user \<Rightarrow> token_pair iam_svc"
    by (simp add: bind_s_def read_s_def assms hide_unknown_def)
  show ?thesis
    unfolding Login_def found Let_def by (simp add: session_errors fail_s_def)
qed

text \<open>What a login sees of an account whose row was updated.\<close>

lemma login_after_update:
  assumes inv: "iam_inv (im_db s)" and u: "u \<in> set (ia_users (im_db s))" "us_id u' = us_id u"
    and s': "im_db s' = signed_out (us_id u) (after_update env u' (im_db s))"
    and law: "bcrypt_law env" "ie_bcrypt env (ie_sha env new) = Some (us_password u')"
    and env': "ie_sha env' = ie_sha env" "ie_matches env' = ie_matches env" "ie_db env' 0"
  shows "fst (Login env' (us_email u) p ci s') = Fail InvalidCredentials \<longleftrightarrow> ie_sha env p \<noteq> ie_sha env new"
proof -
  let ?g = "\<lambda>x. if us_id x = us_id u'
         then x\<lparr> us_first := us_first u', us_last := us_last u', us_password := us_password u', us_status := us_status u',
                 us_verified := us_verified u', us_verify := us_verify u', us_reset := us_reset u',
                 us_reset_expiry := us_reset_expiry u', us_updated := ie_now env \<rparr> else x"
  have rows: "ia_users (im_db s') = map ?g (ia_users (im_db s))"
    by (simp add: s' signed_out_def revoke_tokens_def after_update_def UserRepo_Update_def)
  have email: "us_email (?g x) = us_email x" for x by simp
  have "distinct (map us_email (map ?g (ia_users (im_db s))))"
    using inv unfolding map_map comp_def email by (simp add: iam_inv_def users_ok_def)
  moreover have "?g u \<in> set (map ?g (ia_users (im_db s)))" using u by auto
  ultimately have row: "UserRepo_GetByEmail (ie_db env' 0) (us_email u) (im_db s') = Ok (?g u)"
    using first_row_unique [of us_email "map ?g (ia_users (im_db s))" "?g u" UserNotFound "ie_db env' 0"] env'(3)
    unfolding UserRepo_GetByEmail_def rows email by simp
  have pw: "CheckPassword (ie_sha env') (ie_matches env') (?g u) p \<longleftrightarrow> ie_sha env p = ie_sha env new"
    using law u env' by (simp add: CheckPassword_def hashPasswordInput_def bcrypt_law_def)
  from Login_found [OF row] pw show ?thesis by simp
qed

lemma signed_out_spent:
  assumes inv: "iam_inv db" and x: "x \<in> set (ia_tokens db)" "rt_user x = uid"
  shows "spent (rt_hash x) (signed_out uid (after_update env u db))"
proof -
  have "inj_on rt_hash (set (ia_tokens db))" using inv by (simp add: iam_inv_def tokens_ok_def distinct_map)
  with x show ?thesis
    by (auto simp: spent_def signed_out_def revoke_tokens_def after_update_def UserRepo_Update_def dest: inj_onD)
qed

lemma password_calls:
  assumes "call = ChangePassword env uid cur new \<or> call = ResetPassword env tok new" "fst (call s) = Ok ()" "ie_db env 2"
  shows "\<exists>u u'. u \<in> set (ia_users (im_db s)) \<and>
    (ie_parse env uid = Some (us_id u) \<and> CheckPassword (ie_sha env) (ie_matches env) u cur \<or>
     us_reset u = ie_sha env tok \<and> IsResetTokenValid (ie_now env) u (ie_sha env tok)) \<and> us_id u' = us_id u \<and>
    ie_bcrypt env (ie_sha env new) = Some (us_password u') \<and>
    (call = ResetPassword env tok new \<longrightarrow> us_reset u' = '''' \<and> us_reset_expiry u' = None) \<and>
    im_db (snd (call s)) = signed_out (us_id u) (after_update env u' (im_db s))"
proof (cases "call = ResetPassword env tok new")
  case True
  with assms(2) have "fst (ResetPassword env tok new s) = Ok ()" by simp
  from ResetPassword_Ok [OF this assms(3)] obtain u h where "u \<in> set (ia_users (im_db s))" "us_reset u = ie_sha env tok"
    "IsResetTokenValid (ie_now env) u (ie_sha env tok)" "ie_bcrypt env (ie_sha env new) = Some h"
    "im_db (snd (ResetPassword env tok new s)) = signed_out (us_id u)
      (after_update env (ClearResetToken (ie_now env) (u\<lparr> us_password := h, us_updated := ie_now env \<rparr>)) (im_db s))" .
  with True show ?thesis
    by (intro exI [of _ u] exI [of _ "ClearResetToken (ie_now env) (u\<lparr> us_password := h, us_updated := ie_now env \<rparr>)"])
      (simp add: ClearResetToken_def)
next
  case False
  with assms(1,2) have c: "call = ChangePassword env uid cur new" "fst (ChangePassword env uid cur new s) = Ok ()" by auto
  from ChangePassword_Ok [OF c(2) assms(3)] obtain u h where "ie_parse env uid = Some (us_id u)" "u \<in> set (ia_users (im_db s))"
    "CheckPassword (ie_sha env) (ie_matches env) u cur" "ie_bcrypt env (ie_sha env new) = Some h"
    "im_db (snd (ChangePassword env uid cur new s)) =
      signed_out (us_id u) (after_update env (u\<lparr> us_password := h, us_updated := ie_now env \<rparr>) (im_db s))" .
  with False show ?thesis by (intro exI [of _ u] exI [of _ "u\<lparr> us_password := h, us_updated := ie_now env \<rparr>"]) (simp add: c(1))
qed



section \<open>Opening an account\<close>

lemma Login_row:
  assumes "UserRepo_GetByEmail (ie_db env 0) email (im_db s) = Ok u" "CheckPassword (ie_sha env) (ie_matches env) u p"
  shows "Login env email p ci s = (if \<not> user_IsActive u then (Fail AccountIsNotActive, s) else
    bind_s (failing GetRolesFailed (read_s (GetRoles (ie_db env 1) (us_id u)))) (\<lambda>roles.
    bind_s (failing IssueTokenFailed (issueTokenPair env 1 2 (u\<lparr> us_roles := roles \<rparr>) (ie_fresh env 0) ci)) (\<lambda>pair.
    bind_s (quiet (PublishUserLoggedIn env (ie_fresh env 4) (u\<lparr> us_roles := roles \<rparr>) (ci_ip ci))) (\<lambda>_. ret_s pair))) s)"
proof -
  have found: "bind_s (read_s (\<lambda>db. hide_unknown (UserRepo_GetByEmail (ie_db env 0) email db))) k s = k u s"
    for k :: "user \<Rightarrow> token_pair iam_svc"
    by (simp add: bind_s_def read_s_def assms(1) hide_unknown_def)
  show ?thesis unfolding Login_def found Let_def by (simp add: assms(2) fail_s_def)
qed

lemma Register_Ok:
  assumes "fst (Register env inp s) = Ok u"
  obtains tid h where "ie_parse env (ri_tenant inp) = Some tid" "ie_bcrypt env (ie_sha env (ri_password inp)) = Some h"
    "us_email u = ri_email inp" "us_password u = h" "us_status u = UserStatusPending" "\<not> us_verified u" "us_tenant u = tid"
    "us_id u \<notin> us_id ` set (ia_users (im_db s))" "us_email u \<notin> us_email ` set (ia_users (im_db s))"
    "ia_users (im_db (snd (Register env inp s))) = ia_users (im_db s) @ [u\<lparr> us_verify := ie_sha env (us_verify u), us_roles := [],
       us_reset := '''', us_reset_expiry := None, us_created := ie_now env, us_updated := ie_now env \<rparr>]"
    "ia_roles (im_db (snd (Register env inp s))) = filter (\<lambda>(i, r). i \<noteq> us_id u) (ia_roles (im_db s)) @ [(us_id u, RoleViewer)]"
    "ia_tokens (im_db (snd (Register env inp s))) = ia_tokens (im_db s)"
proof -
  from assms obtain tid h where "ie_parse env (ri_tenant inp) = Some tid" "ie_bcrypt env (ie_sha env (ri_password inp)) = Some h"
    and nu: "NewUser (ie_now env) (ie_mail env) (ie_sha env) (ie_bcrypt env) (ie_fresh env 0) (ie_fresh env 1) tid (ri_email inp)
      (ri_password inp) (ri_first inp) (ri_last inp) = Ok u"
    by (auto simp: Register_def svc_defs new_user_def NewUser_def hashPasswordInput_def split: option.splits outcome.splits prod.splits if_splits)
  moreover have "us_email u = ri_email inp" "us_password u = h" "us_status u = UserStatusPending" "\<not> us_verified u" "us_tenant u = tid"
    "us_roles u = [RoleViewer]" using nu calculation(2) by (auto simp: NewUser_def hashPasswordInput_def split: if_splits option.splits)
  ultimately show ?thesis using assms that
    by (auto simp: Register_def svc_defs new_user_def check_email_def UserRepo_Create_def SetRoles_def list_ex_ref
        PublishUserRegistered_def publish_def RoleViewer_def split: option.splits outcome.splits prod.splits if_splits)
qed

lemma VerifyEmail_db:
  assumes "fst (VerifyEmail env t s) = Ok ()" "u \<in> set (ia_users (im_db s))" "us_verify u = ie_sha env t" "\<not> us_verified u"
    and "\<And>x. x \<in> set (ia_users (im_db s)) \<Longrightarrow> us_verify x = ie_sha env t \<Longrightarrow> x = u"
  shows "im_db (snd (VerifyEmail env t s)) = after_update env (Activate (ie_now env) u) (im_db s)"
proof -
  from assms(1) obtain u0 where u0: "UserRepo_GetByVerifyToken (ie_db env 0) (ie_sha env t) (im_db s) = Ok u0"
    by (auto simp: VerifyEmail_def svc_defs split: outcome.splits)
  then have "u0 = u" using assms(5) by (auto simp: UserRepo_GetByVerifyToken_def dest!: first_row_Ok)
  with u0 assms(1,4) show ?thesis
    by (auto simp: VerifyEmail_def svc_defs UserRepo_Update_def after_update_def PublishEmailVerified_def publish_def
        split: if_splits)
qed

text \<open>The row of an account as its registration stores it, and as the verification of its address leaves it.\<close>

definition stored_row :: "iam_env \<Rightarrow> user \<Rightarrow> user" where
  "stored_row env u = u\<lparr> us_verify := ie_sha env (us_verify u), us_roles := [], us_reset := '''', us_reset_expiry := None,
     us_created := ie_now env, us_updated := ie_now env \<rparr>"

definition opened_row :: "iam_env \<Rightarrow> user \<Rightarrow> user" where
  "opened_row env x = x\<lparr> us_status := UserStatusActive, us_verified := True, us_verify := '''', us_updated := ie_now env \<rparr>"

lemma VerifyEmail_rows:
  assumes "ia_users (im_db s) = us @ [stored_row env u]" "us_id u \<notin> us_id ` set us"
    and "\<forall>x\<in>set us. us_verify x \<noteq> ie_sha env (us_verify u)" "\<not> us_verified u" "ie_sha env2 = ie_sha env"
    and "fst (VerifyEmail env2 (us_verify u) s) = Ok ()" "s2 = snd (VerifyEmail env2 (us_verify u) s)"
  shows "ia_users (im_db s2) = us @ [opened_row env2 (stored_row env u)]" "ia_roles (im_db s2) = ia_roles (im_db s)"
    "ia_tokens (im_db s2) = ia_tokens (im_db s)"
proof -
  have "im_db s2 = after_update env2 (Activate (ie_now env2) (stored_row env u)) (im_db s)"
    unfolding assms(7) by (rule VerifyEmail_db [OF assms(6)]) (use assms in \<open>auto simp: stored_row_def\<close>)
  moreover have "map (\<lambda>x. if us_id x = us_id u then f x else x) us = us" for f
    using assms(2) by (intro map_idI) (auto simp: image_iff)
  ultimately show "ia_users (im_db s2) = us @ [opened_row env2 (stored_row env u)]" "ia_roles (im_db s2) = ia_roles (im_db s)"
    "ia_tokens (im_db s2) = ia_tokens (im_db s)"
    by (simp_all add: after_update_def UserRepo_Update_def assms(1) Activate_def opened_row_def) (simp_all add: stored_row_def)
qed

text \<open>C8. An account opens with its mail. After a registration the new account exists but no login opens it, even with the
  right password; once the raw verification token is presented, a login with the registered address and password
  succeeds (the database answering and the ids drawn being new) and returns an access token signed over exactly the
  account's id, tenant and address with the viewer role.\<close>

theorem verified_account_opens:
  assumes "\<forall>(env, e, c)\<in>set before. env_ok env" "s = iam_run verify before (iam_start r)"
    and reg: "fst (Register env1 inp s) = Ok u" and s1: "s1 = snd (Register env1 inp s)"
    and new: "\<forall>x\<in>set (ia_users (im_db s)). us_verify x \<noteq> ie_sha env1 (us_verify u)"
    and ver: "fst (VerifyEmail env2 (us_verify u) s1) = Ok ()" and s2: "s2 = snd (VerifyEmail env2 (us_verify u) s1)"
    and law: "bcrypt_law env1" and same: "ie_sha env2 = ie_sha env1" "ie_sha env3 = ie_sha env1" "ie_matches env3 = ie_matches env1"
    and up: "\<forall>i. ie_db env3 i" and sign: "ie_sign env3 (token_claims env3 (u\<lparr> us_roles := [RoleViewer] \<rparr>) (ie_fresh env3 1)) = Some tok"
    and fresh: "ie_fresh env3 3 \<notin> rt_id ` set (ia_tokens (im_db s))"
      "ie_sha env3 (ie_fresh env3 2) \<notin> rt_hash ` set (ia_tokens (im_db s))"
  shows "fst (Login env3 (ri_email inp) (ri_password inp) ci s1) = Fail AccountIsNotActive \<and>
    fst (Login env3 (ri_email inp) (ri_password inp) ci s2) =
      Ok \<lparr> tp_access = tok, tp_refresh = ie_fresh env3 2, tp_expires = ie_now env3 + accessTokenTTL, tp_type = ''Bearer'' \<rparr>"
proof -
  have inv: "iam_inv (im_db s)" using sound.run_keeps [OF _ iam_inv_start] assms(1,2) by fastforce
  from Register_Ok [OF reg] obtain tid h where h: "ie_bcrypt env1 (ie_sha env1 (ri_password inp)) = Some h"
    and u: "us_email u = ri_email inp" "us_password u = h" "us_status u = UserStatusPending" "\<not> us_verified u"
    and fr: "us_id u \<notin> us_id ` set (ia_users (im_db s))" "us_email u \<notin> us_email ` set (ia_users (im_db s))"
    and rows: "ia_users (im_db s1) = ia_users (im_db s) @ [u\<lparr> us_verify := ie_sha env1 (us_verify u), us_roles := [],
       us_reset := '''', us_reset_expiry := None, us_created := ie_now env1, us_updated := ie_now env1 \<rparr>]"
    and roles: "ia_roles (im_db s1) = filter (\<lambda>(i, r). i \<noteq> us_id u) (ia_roles (im_db s)) @ [(us_id u, RoleViewer)]"
    and tokens: "ia_tokens (im_db s1) = ia_tokens (im_db s)" unfolding s1 by metis
  define row where "row = stored_row env1 u"
  define row2 where "row2 = opened_row env2 row"
  note row_def = row_def stored_row_def and row2_def = row2_def opened_row_def
  have others: "filter (\<lambda>x. us_email x = us_email u) (ia_users (im_db s)) = []" using fr(2) by (metis (mono_tags, lifting) filter_False imageI)
  have r1: "UserRepo_GetByEmail (ie_db env3 0) (ri_email inp) (im_db s1) = Ok row"
    using up others by (simp add: UserRepo_GetByEmail_def first_row_def rows row_def u(1))
  have pw: "CheckPassword (ie_sha env3) (ie_matches env3) row (ri_password inp)" "CheckPassword (ie_sha env3) (ie_matches env3) row2 (ri_password inp)"
    using law h u(2) by (simp_all add: CheckPassword_def hashPasswordInput_def same bcrypt_law_def row_def row2_def)
  have rows2: "ia_users (im_db s2) = ia_users (im_db s) @ [row2]" "ia_roles (im_db s2) = ia_roles (im_db s1)"
    "ia_tokens (im_db s2) = ia_tokens (im_db s)"
    using VerifyEmail_rows [OF rows [folded stored_row_def] fr(1) new u(4) same(1) ver s2] tokens
    by (simp_all add: row_def row2_def)
  have r2: "UserRepo_GetByEmail (ie_db env3 0) (ri_email inp) (im_db s2) = Ok row2"
    using up others by (simp add: UserRepo_GetByEmail_def first_row_def rows2 row2_def row_def u(1))
  have gr: "GetRoles (ie_db env3 1) (us_id row2) (im_db s2) = Ok [RoleViewer]"
    using up by (simp add: GetRoles_def rows2 roles row2_def row_def filter_filter) (auto simp: filter_empty_conv)
  have sg: "ie_sign env3 (token_claims env3 (row2\<lparr> us_roles := [RoleViewer] \<rparr>) (ie_fresh env3 1)) = Some tok"
    using sign by (simp add: token_claims_def row2_def row_def)
  have save: "SaveRefreshToken (ie_db env3 2) (ie_now env3) (NewRefreshToken (ie_now env3) (ie_fresh env3 3) (us_id row2)
       (ie_sha env3 (ie_fresh env3 2)) (ie_fresh env3 0) refreshTokenTTL (ci_agent ci) (ci_ip ci)) (im_db s2) =
      (Ok (), (im_db s2)\<lparr> ia_tokens := ia_tokens (im_db s2) @ [NewRefreshToken (ie_now env3) (ie_fresh env3 3) (us_id row2)
       (ie_sha env3 (ie_fresh env3 2)) (ie_fresh env3 0) refreshTokenTTL (ci_agent ci) (ci_ip ci)] \<rparr>)"
    using up fresh by (simp add: SaveRefreshToken_def NewRefreshToken_def list_ex_ref rows2)
  have "fst (Login env3 (ri_email inp) (ri_password inp) ci s1) = Fail AccountIsNotActive"
    unfolding Login_row [OF r1 pw(1)] using u(3) by (simp add: user_IsActive_def row_def)
  moreover have "user_IsActive row2" by (simp add: user_IsActive_def row2_def)
  then have "fst (Login env3 (ri_email inp) (ri_password inp) ci s2) =
      Ok \<lparr> tp_access = tok, tp_refresh = ie_fresh env3 2, tp_expires = ie_now env3 + accessTokenTTL, tp_type = ''Bearer'' \<rparr>"
    unfolding Login_row [OF r2 pw(2)]
    by (simp add: issueTokenPair_def Let_def sg save svc_defs gr split_beta PublishUserLoggedIn_def publish_def del: One_nat_def)
  ultimately show ?thesis by blast
qed

theorem verified_account_opens_witness:
  "let s = iam_run demo_verify demo_signup (iam_start Map.empty); ci = \<lparr> ci_agent = '''', ci_ip = '''' \<rparr>;
       inp = \<lparr> ri_tenant = ''aaaaaaab'', ri_email = ''bob@x.org'', ri_password = ''password'', ri_first = ''Bob'', ri_last = ''B'' \<rparr>;
       s1 = snd (Register (demo_iam_env ''bbbbbbb'' 2) inp s); s2 = snd (VerifyEmail (demo_iam_env ''ccccccc'' 3) ''bbbbbbbb'' s1);
       env = demo_iam_env ''ddddddd'' 4
   in fst (Login env ''bob@x.org'' ''password'' ci s1) = Fail AccountIsNotActive \<and>
      fst (Login env ''bob@x.org'' ''password'' ci s2) = Ok \<lparr> tp_access = ''jwt:bbbbbbba'', tp_refresh = ''dddddddc'',
        tp_expires = 4 + accessTokenTTL, tp_type = ''Bearer'' \<rparr>"
proof -
  let ?s = "iam_run demo_verify demo_signup (iam_start Map.empty)" and ?ci = "\<lparr> ci_agent = '''', ci_ip = '''' \<rparr>"
    and ?inp = "\<lparr> ri_tenant = ''aaaaaaab'', ri_email = ''bob@x.org'', ri_password = ''password'', ri_first = ''Bob'', ri_last = ''B'' \<rparr>"
    and ?env1 = "demo_iam_env ''bbbbbbb'' 2" and ?env2 = "demo_iam_env ''ccccccc'' 3" and ?env = "demo_iam_env ''ddddddd'' 4"
  have pre: "\<forall>(env, e, c)\<in>set demo_signup. env_ok env" by (simp add: demo_signup_def) code_simp
  have "is_ok (fst (Register ?env1 ?inp ?s))" by code_simp
  then obtain u where reg: "fst (Register ?env1 ?inp ?s) = Ok u" by (cases "fst (Register ?env1 ?inp ?s)") auto
  have "(case fst (Register ?env1 ?inp ?s) of Ok u \<Rightarrow> us_verify u = ''bbbbbbbb'' \<and> us_id u = ''bbbbbbba'' | Fail _ \<Rightarrow> False)" by code_simp
  then have u: "us_verify u = ''bbbbbbbb''" "us_id u = ''bbbbbbba''" unfolding reg by simp_all
  have "map us_verify (ia_users (im_db ?s)) = ['''']" by code_simp
  then have new: "\<forall>x\<in>set (ia_users (im_db ?s)). us_verify x \<noteq> ie_sha ?env1 (us_verify u)"
    by (auto simp: u demo_iam_env_def)
  have ver: "fst (VerifyEmail ?env2 (us_verify u) (snd (Register ?env1 ?inp ?s))) = Ok ()" unfolding u by code_simp
  have law: "bcrypt_law ?env1" by (auto simp: bcrypt_law_def demo_iam_env_def)
  have "map (\<lambda>t. (rt_id t, rt_hash t)) (ia_tokens (im_db ?s)) = [(''aaaaaaah'', ''h:aaaaaaag'')]" by code_simp
  then have fresh: "ie_fresh ?env 3 \<notin> rt_id ` set (ia_tokens (im_db ?s))"
      "ie_sha ?env (ie_fresh ?env 2) \<notin> rt_hash ` set (ia_tokens (im_db ?s))" by (auto simp: demo_iam_env_def)
  have sign: "ie_sign ?env (token_claims ?env (u\<lparr> us_roles := [RoleViewer] \<rparr>) (ie_fresh ?env 1)) = Some (''jwt:'' @ us_id u)"
    by (simp add: demo_iam_env_def token_claims_def)
  have "ie_sha ?env2 = ie_sha ?env1" "ie_sha ?env = ie_sha ?env1" "ie_matches ?env = ie_matches ?env1" "\<forall>i. ie_db ?env i"
    by (simp_all add: demo_iam_env_def)
  note opens = verified_account_opens [OF pre refl reg refl new ver refl law this sign fresh, of ?ci]
  have "ie_fresh ?env 2 = ''dddddddc''" by code_simp
  moreover have "ie_now ?env = 4" "''jwt:'' @ us_id u = ''jwt:bbbbbbba''"
    by (simp_all add: demo_iam_env_def u)
  ultimately show ?thesis using opens by (simp add: Let_def u)
qed

section \<open>Who may do what\<close>

text \<open>The endpoints that act for the user or the tenant of the token; all others behind JWTAuth take what they
  act on from the path and the body.\<close>

definition own_endpoint :: "iam_endpoint \<Rightarrow> bool" where
  "own_endpoint e = (case e of
      GET_me \<Rightarrow> True | PUT_me _ \<Rightarrow> True | PUT_password _ \<Rightarrow> True | GET_keys \<Rightarrow> True | POST_key _ \<Rightarrow> True | DELETE_key \<Rightarrow> True
    | _ \<Rightarrow> False)"

lemma client_request: "client (with_claims c cl) = client c"
  by (simp add: client_def with_claims_def ctx_set_def)

lemma protected_ignores_claims: "\<not> own_endpoint e \<Longrightarrow> protected env e (with_claims c cl) = protected env e c"
  by (cases e) (simp_all add: own_endpoint_def protected_def h_Logout_def with_claims_jti h_GetOrg_def h_ListOrgs_def h_UpdateOrg_def
      h_DeleteOrg_def h_ListWorkspaces_def h_UpdateWorkspace_def h_DeleteWorkspace_def h_ListMembers_def h_AddMember_def
      h_UpdateMember_def h_RemoveMember_def h_CreateWorkspaceAPIKey_def h_DeleteWorkspaceAPIKey_def h_ListWorkspaceAPIKeys_def)

text \<open>C36. Organisations are not separated. Without a valid token the endpoints of organisations, workspaces, members and workspace keys
  answer 401 and change nothing; with any valid token they do what they do whatever its claims. So every user may delete
  every organisation, and with it go its users, their sessions and roles, its workspaces, members and workspace keys.\<close>

theorem tenants_not_separated:
  assumes "auth_open env e c = None" "\<not> own_endpoint e"
  shows "(\<not> has_valid_token verify c \<longrightarrow> rs_status (fst (iam_router verify env e c s)) = 401 \<and> snd (iam_router verify env e c s) = s) \<and>
    (has_valid_token verify c \<longrightarrow> iam_router verify env e c s = protected env e c s) \<and>
    (has_valid_token verify c \<and> e = DELETE_org \<and> ie_db env 0 \<and> ie_parse env (rq_param c ''id'') = Some i \<longrightarrow>
       im_db (snd (iam_router verify env e c s)) = snd (OrgRepo_Delete True i (im_db s)) \<and>
       i \<notin> og_id ` set (ia_orgs (im_db (snd (iam_router verify env e c s)))) \<union> us_tenant ` set (ia_users (im_db (snd (iam_router verify env e c s))))
         \<union> wk_org ` set (ia_workspaces (im_db (snd (iam_router verify env e c s)))))"
proof -
  have r: "iam_router verify env e c s = authorized verify (\<lambda>c'. protected env e c' s) c s" by (simp add: iam_router_def assms(1))
  have ok: "iam_router verify env e c s = protected env e c s" if "has_valid_token verify c"
    using authorized_passed [OF that, of "\<lambda>c'. protected env e c' s" s] protected_ignores_claims [OF assms(2)] by (auto simp: r)
  have del: "im_db (snd (iam_router verify env e c s)) = snd (OrgRepo_Delete True i (im_db s))"
    if "has_valid_token verify c" "e = DELETE_org" "ie_db env 0" "ie_parse env (rq_param c ''id'') = Some i"
    unfolding ok [OF that(1)] using that(2-4)
    by (simp add: protected_def h_DeleteOrg_def serve_def DeleteOrg_def svc_defs OrgRepo_Delete_def)
  have gone: "i \<notin> og_id ` set (ia_orgs db) \<union> us_tenant ` set (ia_users db) \<union> wk_org ` set (ia_workspaces db)"
    if "db = snd (OrgRepo_Delete True i (im_db s))" for db
    by (auto simp: that OrgRepo_Delete_def drop_workspaces_def drop_users_def Let_def)
  have "rs_status (fst (iam_router verify env e c s)) = 401 \<and> snd (iam_router verify env e c s) = s" if "\<not> has_valid_token verify c"
    unfolding r using that by (rule authorized_refused)
  with ok del gone show ?thesis by blast
qed

theorem tenants_not_separated_witness:
  "let s = iam_run demo_verify demo_signup (iam_start Map.empty);
       run = (\<lambda>tok. iam_router demo_verify (demo_iam_env ''bbbbbbb'' 2) DELETE_org (demo_call tok ''aaaaaaab'') s)
   in rs_status (fst (run '''')) = 401 \<and> snd (run '''') = s \<and>
      ia_users (im_db s) \<noteq> [] \<and> ia_users (im_db (snd (run ''Bearer jwt:eve''))) = [] \<and> ia_orgs (im_db (snd (run ''Bearer jwt:eve''))) = []"
proof -
  let ?s = "iam_run demo_verify demo_signup (iam_start Map.empty)" and ?env = "demo_iam_env ''bbbbbbb'' 2"
  have tok: "\<not> has_valid_token demo_verify (demo_call '''' ''aaaaaaab'')" "has_valid_token demo_verify (demo_call ''Bearer jwt:eve'' ''aaaaaaab'')"
    by code_simp+
  have "auth_open ?env DELETE_org c = None" "\<not> own_endpoint DELETE_org" for c by (simp_all add: auth_open_def own_endpoint_def)
  note claim = tenants_not_separated [OF this, of demo_verify]
  have "ie_db ?env 0 \<and> ie_parse ?env (rq_param (demo_call ''Bearer jwt:eve'' ''aaaaaaab'') ''id'') = Some ''aaaaaaab''" by code_simp
  then have gone: "im_db (snd (iam_router demo_verify ?env DELETE_org (demo_call ''Bearer jwt:eve'' ''aaaaaaab'') ?s)) =
      snd (OrgRepo_Delete True ''aaaaaaab'' (im_db ?s))" using claim tok(2) by blast
  have "ia_users (im_db ?s) \<noteq> [] \<and> ia_users (snd (OrgRepo_Delete True ''aaaaaaab'' (im_db ?s))) = [] \<and>
      ia_orgs (snd (OrgRepo_Delete True ''aaaaaaab'' (im_db ?s))) = []" by code_simp
  then show ?thesis using claim tok(1) unfolding Let_def gone by blast
qed

end
