(* ===== verification/Support_Properties.thy ===== *)
theory Support_Properties
  imports Support_Service IAM_Accounts
begin

text \<open>
  What the supporting service promises: an audit log that only grows, that shows what iam published, that can be
  searched and exported; recordings that stay with their stream.
\<close>

section \<open>The export can be read back\<close>

text \<open>A reader of CSV as RFC 4180 describes it, as a state machine: the field read so far, the fields of the record,
  the records; None for a text that is not CSV.\<close>

datatype csv_state = FieldStart | InPlain | InQuoted | QuoteClosed

fun csv_read :: "csv_state \<Rightarrow> string \<Rightarrow> string list \<Rightarrow> string list list \<Rightarrow> string \<Rightarrow> string list list option" where
  "csv_read st cur row rows [] = (if st = FieldStart \<and> row = [] then Some rows else None)"
| "csv_read st cur row rows (c # s) =
    (if st = InQuoted then (if c = CHR 0x22 then csv_read QuoteClosed cur row rows s else csv_read InQuoted (cur @ [c]) row rows s)
     else if c = CHR '','' then csv_read FieldStart [] (row @ [cur]) rows s
     else if c = CHR 0x0A then csv_read FieldStart [] [] (rows @ [row @ [cur]]) s
     else if c = CHR 0x22 then
       (if st = FieldStart then csv_read InQuoted [] row rows s
        else if st = QuoteClosed then csv_read InQuoted (cur @ [c]) row rows s else None)
     else if c = CHR 0x0D \<or> st = QuoteClosed then None
     else csv_read InPlain (cur @ [c]) row rows s)"

definition csv_end :: "char \<Rightarrow> string \<Rightarrow> string list \<Rightarrow> string list list \<Rightarrow> string \<Rightarrow> string list list option" where
  "csv_end sep f row rows s = (if sep = CHR '','' then csv_read FieldStart [] (row @ [f]) rows s
     else csv_read FieldStart [] [] (rows @ [row @ [f]]) s)"

lemma csv_read_plain:
  assumes "list_all (\<lambda>c. c \<notin> {CHR '','', CHR 0x0A, CHR 0x0D, CHR 0x22}) f" "sep = CHR '','' \<or> sep = CHR 0x0A" "st = FieldStart \<or> st = InPlain"
  shows "csv_read st cur row rows (f @ sep # s) = csv_end sep (cur @ f) row rows s"
  using assms(1,3)
proof (induction f arbitrary: st cur)
  case (Cons c f)
  then show ?case using Cons.IH [of InPlain "cur @ [c]"] by auto
qed (use assms(2) in \<open>auto simp: csv_end_def\<close>)

lemma csv_read_quoted:
  assumes "sep = CHR '','' \<or> sep = CHR 0x0A"
  shows "csv_read InQuoted cur row rows (concat (map (\<lambda>c. if c = CHR 0x22 then [CHR 0x22, CHR 0x22] else [c]) f) @ CHR 0x22 # sep # s)
    = csv_end sep (cur @ f) row rows s"
proof (induction f arbitrary: cur)
  case (Cons c f)
  then show ?case using Cons.IH [of "cur @ [c]"] by auto
qed (use assms in \<open>auto simp: csv_end_def\<close>)

lemma csv_read_field:
  assumes "sep = CHR '','' \<or> sep = CHR 0x0A"
  shows "csv_read FieldStart [] row rows (csv_field f @ sep # s) = csv_end sep f row rows s"
proof (cases "fieldNeedsQuotes f")
  case True
  then show ?thesis using csv_read_quoted [OF assms, of "[]"] by (simp add: csv_field_def)
next
  case False
  then have "list_all (\<lambda>c. c \<notin> {CHR '','', CHR 0x0A, CHR 0x0D, CHR 0x22}) f"
    by (auto simp: fieldNeedsQuotes_def list_all_iff list_ex_iff split: if_splits)
  with False show ?thesis using csv_read_plain [OF _ assms, of f FieldStart "[]"] by (simp add: csv_field_def)
qed

lemma csv_read_record:
  "fs \<noteq> [] \<Longrightarrow> csv_read FieldStart [] row rows (csv_record fs @ s) = csv_read FieldStart [] [] (rows @ [row @ fs]) s"
proof (induction fs arbitrary: row rule: csv_record.induct)
  case (2 f)
  show ?case using csv_read_field [of "CHR 0x0A"] by (simp add: csv_end_def)
next
  case (3 f g fs)
  then show ?case using csv_read_field [of "CHR '',''"] by (simp add: csv_end_def)
qed simp

lemma csv_read_records:
  "[] \<notin> set recs \<Longrightarrow> csv_read FieldStart [] [] rows (concat (map csv_record recs)) = Some (rows @ recs)"
proof (induction recs arbitrary: rows)
  case (Cons r recs)
  then show ?case using csv_read_record [of r "[]" rows] by auto
qed simp


section \<open>The search\<close>

definition like_plain :: "string \<Rightarrow> bool" where
  "like_plain t = list_all (\<lambda>c. c \<noteq> CHR ''%'' \<and> c \<noteq> CHR ''_'' \<and> c \<noteq> CHR 0x5C) t"

lemma like_rest: "like ''%'' s"
  by (induction s) auto

lemma like_prefix: "like_plain t \<Longrightarrow> like (t @ ''%'') s \<longleftrightarrow> prefix t s"
proof (induction t arbitrary: s)
  case Nil
  then show ?case using like_rest by simp
next
  case (Cons c t)
  then show ?case by (cases s) (auto simp: like_plain_def)
qed

lemma like_anywhere: "like (CHR ''%'' # p) s \<longleftrightarrow> (\<exists>s'. suffix s' s \<and> like p s')"
proof (induction s)
  case (Cons c s)
  have "like (CHR ''%'' # p) (c # s) \<longleftrightarrow> like p (c # s) \<or> like (CHR ''%'' # p) s" by simp
  also have "\<dots> \<longleftrightarrow> (\<exists>s'. suffix s' (c # s) \<and> like p s')" unfolding Cons.IH by (auto simp: suffix_Cons)
  finally show ?case .
qed simp

lemma like_contains:
  assumes "like_plain t"
  shows "like (''%'' @ t @ ''%'') s \<longleftrightarrow> sublist t s"
proof -
  have "''%'' @ t @ ''%'' = CHR ''%'' # (t @ ''%'')" by simp
  then show ?thesis by (simp only: like_anywhere like_prefix [OF assms] sublist_altdef' conj_commute)
qed

definition contains_row :: "(string \<Rightarrow> string) \<Rightarrow> (string \<Rightarrow> string) \<Rightarrow> string \<Rightarrow> tenant_filter \<Rightarrow> audit_event \<Rightarrow> bool" where
  "contains_row toLower lower tenantID flt e \<longleftrightarrow> au_tenant e = tenantID \<and>
     tf_resource_type flt \<in> {'''', au_resource_type e} \<and>
     (\<exists>t\<in>{au_user e, au_user_name e, au_type e, au_resource e}. tf_search flt = '''' \<or> sublist (toLower (tf_search flt)) (lower t))"


definition demo_sup_env :: "string \<Rightarrow> instant \<Rightarrow> sup_env" where
  "demo_sup_env tag now = \<lparr> se_now = now, se_fresh = (\<lambda>i. tag @ [char_of (97 + i)]),
     se_parse = (\<lambda>s. if s = '''' then None else Some s), se_jsonb = Some, se_tolower = map lower_char, se_lower = map lower_char,
     se_format = (\<lambda>_. ''2025''), se_presign = (\<lambda>_ m b k ct. Some (b @ ''/'' @ k)), se_bucket = ''b'', se_db = (\<lambda>_. True), se_s3 = True \<rparr>"

definition demo_event :: "string \<Rightarrow> string \<Rightarrow> audit_event" where
  "demo_event ident what = NewAuditEvent 0 ident ''home'' ''u'' ''Ann'' what ''r'' ''unknown'' '''' '''' ''{}''"


section \<open>The log only grows\<close>

datatype sup_action = Call sup_env sup_endpoint request | Consume sup_env bool nat audit_message

fun sup_act :: "(string \<Rightarrow> claims option) \<Rightarrow> sup_action \<Rightarrow> nat \<times> sup \<Rightarrow> nat \<times> sup" where
  "sup_act verify (Call env e c) (off, s) = (off, snd (sup_router verify env e c s))"
| "sup_act verify (Consume env ok n m) cs = audit_message_step env ok n m cs"

definition sup_run :: "(string \<Rightarrow> claims option) \<Rightarrow> sup_action list \<Rightarrow> nat \<times> sup \<Rightarrow> nat \<times> sup" where
  "sup_run verify acts cs = fold (sup_act verify) acts cs"

lemma then_sup_keeps: "P (snd r) \<Longrightarrow> (\<And>x s. P s \<Longrightarrow> P (snd (k x s))) \<Longrightarrow> P (snd (then_sup r k))"
  by (cases r; cases "fst r") (auto simp: then_sup_def)

lemma stream_calls_events:
  "su_events (snd (StreamRepo_Create up x s)) = su_events s" "su_events (snd (StreamRepo_Update up now x s)) = su_events s"
  "su_events (snd (StreamRepo_Delete up i s)) = su_events s" "su_events (snd (Storage_Delete up k s)) = su_events s"
  by (simp_all add: StreamRepo_Create_def StreamRepo_Update_def StreamRepo_Delete_def Storage_Delete_def)

lemma video_calls_events:
  "su_events (snd (CreateStream env inp s)) = su_events s" "su_events (snd (UpdateStreamStatus env i st s)) = su_events s"
  "su_events (snd (GetUploadURL env i ct s)) = su_events s" "su_events (snd (DeleteStream env i s)) = su_events s"
  unfolding CreateStream_def UpdateStreamStatus_def GetUploadURL_def DeleteStream_def Let_def
  by (auto intro!: then_sup_keeps [where P = "\<lambda>x. su_events x = su_events s"] simp: stream_calls_events split: prod.split)
    (metis stream_calls_events(2) snd_conv)+

lemma sup_router_events: "su_events (snd (sup_router verify env e c s)) = su_events s"
proof -
  have "su_events (snd (sup_v1 env e c' s)) = su_events s" for c'
    by (cases e) (simp_all add: sup_v1_def h_CreateStream_def h_ListStreams_def h_GetStream_def h_UpdateStreamStatus_def
        h_GetUploadURL_def h_GetDownloadURL_def h_DeleteStream_def h_ListByTenant_def h_ListByResource_def h_GetEvent_def
        sup_answer_def Let_def video_calls_events split: option.split)
  then show ?thesis unfolding sup_router_def
    by (cases "has_valid_token verify c") (auto simp: authorized_refused dest!: authorized_passed [of _ _ "\<lambda>c'. sup_v1 env e c' s" s])
qed

lemma Record_events: "\<exists>new. su_events (snd (Record env inp s)) = su_events s @ new"
  by (auto simp: Record_def then_sup_def EventRepo_Append_def Let_def split: option.split)

lemma sup_act_events: "\<exists>new. su_events (snd (sup_act verify a cs)) = su_events (snd cs) @ new"
proof (cases a)
  case (Call env e c)
  then show ?thesis by (cases cs) (simp add: sup_router_events)
next
  case (Consume env ok n m)
  then show ?thesis using Record_events by (cases cs) (auto simp: audit_message_step_def split: option.split)
qed

lemma sup_run_events: "\<exists>new. su_events (snd (sup_run verify acts cs)) = su_events (snd cs) @ new"
proof (induction acts arbitrary: cs)
  case (Cons a acts)
  show ?case using Cons.IH [of "sup_act verify a cs"] sup_act_events [of verify a cs] by (auto simp: sup_run_def)
qed (simp add: sup_run_def)

text \<open>C11. Audit events are immutable. Whatever requests the service answers and whatever messages it consumes, the log of
  before is a prefix of the log of after; and an event that a reader got by its id it gets again, unchanged.\<close>

theorem audit_append_only:
  assumes "cs' = sup_run verify acts cs"
  shows "prefix (su_events (snd cs)) (su_events (snd cs')) \<and>
    (GetEvent env i (snd cs) = Ok e \<longrightarrow> GetEvent env i (snd cs') = Ok e)"
proof -
  obtain new where new: "su_events (snd cs') = su_events (snd cs) @ new" using sup_run_events assms by blast
  have "EventRepo_GetByID up u (snd cs') = Ok e" if "EventRepo_GetByID up u (snd cs) = Ok e" for up u
    using that by (auto simp: EventRepo_GetByID_def sup_row_def new split: if_splits list.splits)
  then show ?thesis by (auto simp: GetEvent_def bind_o_eq_Ok new)
qed

definition demo_message :: "string \<Rightarrow> audit_message" where
  "demo_message tn = \<lparr> am_key = ''u'', am_value = ''{}'', am_event = Some \<lparr> ge_type = ''user.registered'', ge_source = '''',
     ge_payload = Some \<lparr> up_user = ''u'', up_tenant = tn, up_name = '''', up_email = ''ann@x.org'', up_ip = '''' \<rparr> \<rparr> \<rparr>"

definition empty_sup :: sup where
  "empty_sup = \<lparr> su_events = [], su_streams = [], su_objects = [] \<rparr>"

theorem audit_append_only_witness:
  "let cs = sup_run stranger [Consume (demo_sup_env ''a'' 1) True 0 (demo_message ''home'')] (0, empty_sup);
       cs' = sup_run stranger [Call (demo_sup_env ''b'' 2) DELETE_stream (demo_call ''Bearer t'' ''aa''),
         Consume (demo_sup_env ''c'' 3) True 1 (demo_message ''home'')] cs
   in prefix (su_events (snd cs)) (su_events (snd cs')) \<and> length (su_events (snd cs)) = 1 \<and> length (su_events (snd cs')) = 2"
proof -
  let ?cs = "sup_run stranger [Consume (demo_sup_env ''a'' 1) True 0 (demo_message ''home'')] (0, empty_sup)"
  let ?acts = "[Call (demo_sup_env ''b'' 2) DELETE_stream (demo_call ''Bearer t'' ''aa''),
    Consume (demo_sup_env ''c'' 3) True 1 (demo_message ''home'')]"
  have "length (su_events (snd ?cs)) = 1 \<and> length (su_events (snd (sup_run stranger ?acts ?cs))) = 2" by code_simp
  with audit_append_only [OF refl, of ?cs stranger ?acts] show ?thesis by (simp add: Let_def del: One_nat_def)
qed

section \<open>What iam publishes, and what the log shows of it\<close>

definition payload_text :: "string \<Rightarrow> user_event \<Rightarrow> string" where
  "payload_text k ue = (case map_of (ue_payload ue) k of Some v \<Rightarrow> v | None \<Rightarrow> '''')"

text \<open>What the consumer decodes from an event of iam: an envelope with the keys id, type, timestamp and payload.\<close>

definition audit_message_of :: "(user_event \<Rightarrow> string) \<Rightarrow> user_event \<Rightarrow> audit_message" where
  "audit_message_of enc ue = \<lparr> am_key = ue_key ue, am_value = enc ue, am_event = Some \<lparr> ge_type = ue_type ue, ge_source = '''',
     ge_payload = Some \<lparr> up_user = payload_text ''user_id'' ue, up_tenant = payload_text ''tenant_id'' ue,
       up_name = payload_text ''name'' ue, up_email = payload_text ''email'' ue, up_ip = payload_text ''ip'' ue \<rparr> \<rparr> \<rparr>"

definition topic_shape :: "user_event \<Rightarrow> bool" where
  "topic_shape ue \<longleftrightarrow> payload_text ''user_id'' ue = ue_key ue \<and>
     (ue_type ue = ''user.registered'' \<or> payload_text ''tenant_id'' ue = '''')"

interpretation topic: iam_frame "\<lambda>s s'. list_all topic_shape (im_topic s) \<longrightarrow> list_all topic_shape (im_topic s')" True
  by unfold_locales (auto simp: framed_def publish_def PublishUserRegistered_def PublishUserLoggedIn_def
      PublishPasswordChanged_def PublishEmailVerified_def topic_shape_def payload_text_def)

lemma iam_topic_shape: "list_all topic_shape (im_topic (iam_run verify calls (iam_start r)))"
  using topic.run [of calls "iam_start r" verify] by (simp add: iam_start_def)

text \<open>Who, what and where of an entry; the last component is the tenant that may list it.\<close>

definition entry_of :: "audit_event \<Rightarrow> string \<times> string \<times> string \<times> string" where
  "entry_of e = (au_type e, au_user e, au_resource e, au_tenant e)"

definition asked :: "audit_message \<Rightarrow> string \<times> string \<times> string \<times> string" where
  "asked m = (case am_event m of None \<Rightarrow> ('''', '''', '''', '''') | Some evt \<Rightarrow>
     let r = record_input_of m evt in (rc_type r, rc_user r, rc_resource r, rc_tenant r))"

lemma Record_entry:
  assumes "am_event m = Some evt"
  shows "su_events (snd (Record env (record_input_of m evt) s)) = su_events s \<or>
    (\<exists>e. su_events (snd (Record env (record_input_of m evt) s)) = su_events s @ [e] \<and> entry_of e = asked m \<and> au_id e = se_fresh env 0)"
    "se_db env 0 \<Longrightarrow> se_jsonb env (am_value m) \<noteq> None \<Longrightarrow> se_fresh env 0 \<notin> au_id ` set (su_events s) \<Longrightarrow>
     \<exists>e. su_events (snd (Record env (record_input_of m evt) s)) = su_events s @ [e] \<and> entry_of e = asked m \<and> au_id e = se_fresh env 0"
  using assms
  by (auto simp: Record_def then_sup_def EventRepo_Append_def NewAuditEvent_def entry_of_def asked_def Let_def list_ex_iff
      record_input_of_def image_iff split: option.splits)

lemma consume_all:
  assumes "list_all2 (\<lambda>(env, ok) m. se_db env 0 \<and> se_jsonb env (am_value m) \<noteq> None \<and> am_event m \<noteq> None) envs ms"
    "distinct (map (\<lambda>(env, ok). se_fresh env 0) envs)" "(\<lambda>(env, ok). se_fresh env 0) ` set envs \<inter> au_id ` set (su_events s) = {}"
  shows "\<exists>new. su_events (snd (audit_consume envs n ms (c, s))) = su_events s @ new \<and> map entry_of new = map asked ms"
  using assms
proof (induction envs ms arbitrary: n c s rule: list_all2_induct)
  case (Cons x envs m ms)
  obtain env ok where x: "x = (env, ok)" by (cases x)
  with Cons(1) obtain evt where evt: "am_event m = Some evt" by auto
  let ?s = "snd (Record env (record_input_of m evt) s)"
  have "\<exists>e. su_events ?s = su_events s @ [e] \<and> entry_of e = asked m \<and> au_id e = se_fresh env 0"
    by (rule Record_entry(2) [OF evt]) (use Cons x in auto)
  then obtain e where e: "su_events ?s = su_events s @ [e]" "entry_of e = asked m" "au_id e = se_fresh env 0" by blast
  have "\<exists>new. su_events (snd (audit_consume envs (Suc n) ms (c', ?s))) = su_events ?s @ new \<and> map entry_of new = map asked ms" for c'
    by (rule Cons.IH) (use Cons.prems x e in \<open>auto simp: image_iff\<close>)
  then obtain new where "su_events (snd (audit_consume (x # envs) n (m # ms) (c, s))) = su_events ?s @ new" "map entry_of new = map asked ms"
    by (auto simp: x audit_message_step_def evt split: if_splits)
  then show ?case using e by (intro exI [of _ "e # new"]) simp
qed simp

lemma step_entries:
  assumes "\<forall>e\<in>set (su_events (snd cs)). P (entry_of e)" "am_event m \<noteq> None \<longrightarrow> P (asked m)"
  shows "\<forall>e\<in>set (su_events (snd (audit_message_step env ok n m cs))). P (entry_of e)"
proof (cases "am_event m")
  case (Some evt)
  then show ?thesis using Record_entry(1) [OF Some, of env "snd cs"] assms
    by (auto simp: audit_message_step_def split: prod.split)
qed (use assms in \<open>auto simp: audit_message_step_def split: prod.split\<close>)

lemma consume_entries:
  assumes "\<forall>e\<in>set (su_events (snd cs)). P (entry_of e)" "\<forall>m\<in>set ms. am_event m \<noteq> None \<longrightarrow> P (asked m)"
  shows "\<forall>e\<in>set (su_events (snd (audit_consume envs n ms cs))). P (entry_of e)"
  using assms
proof (induction envs n ms cs rule: audit_consume.induct)
  case (1 env ok envs n m ms cs)
  have "\<forall>e\<in>set (su_events (snd (audit_message_step env ok n m cs))). P (entry_of e)"
    by (rule step_entries) (use 1(2,3) in auto)
  with 1 show ?case by simp
qed auto

lemma asked_message: "asked (audit_message_of enc ue) =
    (ue_type ue, payload_text ''user_id'' ue, ue_key ue, payload_text ''tenant_id'' ue)"
  by (simp add: asked_def audit_message_of_def record_input_of_def)


definition demo_sessions :: "(iam_env \<times> iam_endpoint \<times> request) list" where
  "demo_sessions = demo_signup @
     [(demo_iam_env ''bbbbbbb'' 2, POST_login (Some (''Ann.B@x.org'', ''password'')), demo_call '''' '''')]"


text \<open>What a tenant sees of it are registrations only. The events of logins, new passwords and verified addresses carry no
  tenant, so they are filed under none: in every run of iam and of the consumer, whatever fails, the list of a tenant holds
  no other events, although the log has them.\<close>

theorem tenant_audit_registrations_only:
  assumes "s = iam_run verify calls (iam_start r)" "ms = map (audit_message_of enc) (im_topic s)"
    and "ListByTenant env tenantID flt lmt off (snd (audit_consume envs n ms (c, empty_sup))) = Ok (es, tot)"
    and "tenantID \<noteq> ''''"
  shows "\<forall>e\<in>set es. au_tenant e = tenantID \<and> au_type e = ''user.registered''"
proof -
  have "\<forall>e\<in>set (su_events (snd (audit_consume envs n ms (c, empty_sup)))).
      (\<lambda>(t, u, rs, tn). tn = '''' \<or> t = ''user.registered'') (entry_of e)"
    by (rule consume_entries) (use iam_topic_shape [of verify calls r] in
      \<open>auto simp: assms(1,2) empty_sup_def asked_message list_all_iff topic_shape_def\<close>)
  then show ?thesis using assms(3,4)
    by (auto simp: ListByTenant_def EventRepo_ListByTenant_def sup_page_def newest_page_def tenant_row_def entry_of_def
        split: if_splits dest!: in_set_takeD in_set_dropD)
qed

theorem tenant_audit_registrations_only_witness:
  "let s = iam_run demo_verify demo_sessions (iam_start Map.empty);
       ms = map (audit_message_of ue_type) (im_topic s);
       s' = snd (audit_consume [(demo_sup_env ''a'' 3, True), (demo_sup_env ''b'' 4, True)] 0 ms (0, empty_sup));
       listed = ListByTenant (demo_sup_env ''c'' 5) ''aaaaaaab'' \<lparr> tf_resource_type = '''', tf_search = '''' \<rparr> 10 0 s'
   in (case listed of Ok (es, tot) \<Rightarrow> tot = 1 \<and> list_all (\<lambda>e. au_tenant e = ''aaaaaaab'' \<and> au_type e = ''user.registered'') es | _ \<Rightarrow> False)
      \<and> map au_type (su_events s') = [''user.registered'', ''user.logged_in'']"
proof -
  let ?ms = "map (audit_message_of ue_type) (im_topic (iam_run demo_verify demo_sessions (iam_start Map.empty)))"
  let ?s' = "snd (audit_consume [(demo_sup_env ''a'' 3, True), (demo_sup_env ''b'' 4, True)] 0 ?ms (0, empty_sup))"
  let ?l = "ListByTenant (demo_sup_env ''c'' 5) ''aaaaaaab'' \<lparr> tf_resource_type = '''', tf_search = '''' \<rparr> 10 0 ?s'"
  have "(case ?l of Ok (es, tot) \<Rightarrow> tot = 1 | _ \<Rightarrow> False)" by code_simp
  then obtain es where es: "?l = Ok (es, 1)" by (auto split: outcome.splits prod.splits)
  have "map au_type (su_events ?s') = [''user.registered'', ''user.logged_in'']" by code_simp
  then show ?thesis using tenant_audit_registrations_only [OF refl refl es] es by (simp add: Let_def list_all_iff)
qed

section \<open>Recordings\<close>

definition own_key :: "stream \<Rightarrow> bool" where
  "own_key x \<longleftrightarrow> st_storage x = '''' \<or> (\<exists>t. st_storage x = ''videos/'' @ st_id x @ ''/'' @ t)"

definition own_keys :: "sup \<Rightarrow> bool" where
  "own_keys s \<longleftrightarrow> (\<forall>x\<in>set (su_streams s). own_key x)"

lemma sup_row_Ok: "sup_row missing up P rows = Ok x \<Longrightarrow> up \<and> x \<in> set rows \<and> P x"
  by (auto simp: sup_row_def dest!: arg_cong [where f = set] split: if_splits list.splits)

lemma GetStream_Ok: "GetStream env i s = Ok x \<Longrightarrow> x \<in> set (su_streams s) \<and> se_parse env i = Some (st_id x) \<and> se_db env 0"
  by (auto simp: GetStream_def parsed_def bind_o_eq_Ok StreamRepo_GetByID_def dest: sup_row_Ok split: option.splits)

lemma own_key_new: "own_key (x\<lparr> st_storage := storage_key env x \<rparr>)"
  by (simp add: own_key_def storage_key_def)

lemma own_keys_repo:
  "own_keys s \<Longrightarrow> st_storage x = '''' \<Longrightarrow> own_keys (snd (StreamRepo_Create up x s))"
  "own_keys s \<Longrightarrow> own_key x \<Longrightarrow> own_keys (snd (StreamRepo_Update up now x s))"
  "own_keys s \<Longrightarrow> own_keys (snd (StreamRepo_Delete up i s))" "own_keys s \<Longrightarrow> own_keys (snd (Storage_Delete up k s))"
  "own_keys s \<Longrightarrow> own_keys (snd (Record env inp s))"
  by (auto simp: own_keys_def own_key_def StreamRepo_Create_def StreamRepo_Update_def StreamRepo_Delete_def Storage_Delete_def
      Record_def EventRepo_Append_def then_sup_def Let_def split: option.split)

lemma own_keys_video:
  assumes "own_keys s"
  shows "own_keys (snd (CreateStream env inp s))" "own_keys (snd (UpdateStreamStatus env i st s))"
    "own_keys (snd (GetUploadURL env i ct s))" "own_keys (snd (DeleteStream env i s))"
proof -
  have own: "own_key x" if "GetStream env i s = Ok x" for x using assms GetStream_Ok [OF that] by (auto simp: own_keys_def)
  show "own_keys (snd (CreateStream env inp s))" unfolding CreateStream_def Let_def
    by (cases "StreamProtocol_IsValid (cs_protocol inp)")
      (auto intro!: then_sup_keeps [where P = own_keys] own_keys_repo assms simp: NewStream_def)
  show "own_keys (snd (UpdateStreamStatus env i st s))"
    using assms own by (cases "GetStream env i s") (auto simp: UpdateStreamStatus_def then_sup_def [of "(_, s)"] Let_def own_key_def
        intro!: then_sup_keeps [where P = own_keys] own_keys_repo)
  show "own_keys (snd (GetUploadURL env i ct s))"
    using assms own_keys_repo(2) [OF assms own_key_new]
    by (cases "GetStream env i s") (auto simp: GetUploadURL_def then_sup_def Let_def split_beta)
  show "own_keys (snd (DeleteStream env i s))"
    using assms by (cases "GetStream env i s") (auto simp: DeleteStream_def then_sup_def Let_def intro!: own_keys_repo)
qed

lemma own_keys_act: "own_keys (snd cs) \<Longrightarrow> own_keys (snd (sup_act verify a cs))"
proof (cases a)
  case (Call env e c)
  assume own: "own_keys (snd cs)"
  have v1: "own_keys (snd (sup_v1 env e c' (snd cs)))" for c'
    using own by (cases e) (auto simp: sup_v1_def h_CreateStream_def h_ListStreams_def h_GetStream_def h_UpdateStreamStatus_def
        h_GetUploadURL_def h_GetDownloadURL_def h_DeleteStream_def h_ListByTenant_def h_ListByResource_def h_GetEvent_def
        sup_answer_def Let_def own_keys_video split: option.split)
  have "own_keys (snd (sup_router verify env e c (snd cs)))" unfolding sup_router_def
    using v1 own by (cases "has_valid_token verify c")
      (auto simp: authorized_refused dest!: authorized_passed [of _ _ "\<lambda>c'. sup_v1 env e c' (snd cs)" "snd cs"])
  then show ?thesis using Call by (cases cs) simp
next
  case (Consume env ok n m)
  then show "own_keys (snd cs) \<Longrightarrow> ?thesis"
    by (cases cs) (auto simp: audit_message_step_def own_keys_repo split: option.split)
qed

lemma own_keys_run: "own_keys (snd cs) \<Longrightarrow> own_keys (snd (sup_run verify acts cs))"
  unfolding sup_run_def by (induction acts arbitrary: cs) (simp_all add: own_keys_act)

text \<open>C14. A recording is reached through its own stream only. In every state that requests and messages lead to, a download
  URL that the service answers for a stream is a presigned GET, valid for an hour, of an object below the prefix of that
  stream, which exists.\<close>

theorem recordings_confined:
  assumes "s = snd (sup_run verify acts (off, empty_sup))" "GetDownloadURL env i s = Ok url"
  shows "\<exists>x t. x \<in> set (su_streams s) \<and> se_parse env i = Some (st_id x) \<and>
    se_presign env hour ''GET'' (se_bucket env) (''videos/'' @ st_id x @ ''/'' @ t) '''' = Some url"
proof -
  have "own_keys s" unfolding assms(1) by (rule own_keys_run) (simp add: own_keys_def empty_sup_def)
  moreover obtain x where x: "GetStream env i s = Ok x" "st_storage x \<noteq> ''''"
    "GenerateDownloadURL (se_presign env) (se_bucket env) (st_storage x) = Ok url"
    using assms(2) by (auto simp: GetDownloadURL_def bind_o_eq_Ok split: if_splits)
  moreover note GetStream_Ok [OF x(1)]
  ultimately obtain t where "st_storage x = ''videos/'' @ st_id x @ ''/'' @ t" by (auto simp: own_keys_def own_key_def)
  with x(3) \<open>x \<in> _ \<and> _\<close> show ?thesis by (auto simp: GenerateDownloadURL_def presigned_def split: option.splits)
qed

definition demo_video :: "sup_action list" where
  "demo_video = [Call (demo_sup_env ''a'' 1) (POST_streams (Some \<lparr> cs_device = ''d'', cs_workspace = ''w'', cs_name = ''door'',
       cs_description = '''', cs_protocol = ''hls'', cs_source = '''' \<rparr>)) (demo_call ''Bearer t'' ''''),
     Call (demo_sup_env ''b'' 2) GET_upload_url (demo_call ''Bearer t'' ''aa'')]"

theorem recordings_confined_witness:
  "let s = snd (sup_run stranger demo_video (0, empty_sup)) in
   GetDownloadURL (demo_sup_env ''c'' 3) ''aa'' s = Ok ''b/videos/aa/ba'' \<and>
   (\<exists>t. ''b/videos/aa/ba'' = ''b/videos/aa/'' @ t)"
proof -
  let ?s = "snd (sup_run stranger demo_video (0, empty_sup))"
  have url: "GetDownloadURL (demo_sup_env ''c'' 3) ''aa'' ?s = Ok ''b/videos/aa/ba''" by code_simp
  from recordings_confined [OF refl url] show ?thesis using url by (auto simp: Let_def demo_sup_env_def)
qed

text \<open>A new upload forgets the old recording. The stream keeps one key: when an upload is requested for a stream
  that has a recording and the stream is deleted later, the object of the first recording stays in the bucket,
  and no stream refers to it.\<close>

theorem upload_orphans_recording:
  assumes "GetStream env i s = Ok x" "st_storage x \<in> set (su_objects s)" "st_storage x \<noteq> storage_key env x" "se_db env 1"
    and "s1 = snd (GetUploadURL env i ct s)" "DeleteStream env' i s1 = (Ok (), s2)" "se_parse env' i = se_parse env i"
  shows "st_storage x \<in> set (su_objects s2) \<and> st_id x \<notin> st_id ` set (su_streams s2)"
proof -
  have s1: "s1 = snd (StreamRepo_Update True (se_now env) (x\<lparr> st_storage := storage_key env x \<rparr>) s)"
    using assms(1,4,5) by (simp add: GetUploadURL_def then_sup_def Let_def split_beta)
  have kept: "su_objects s1 = su_objects s" "\<forall>y\<in>set (su_streams s1). st_id y = st_id x \<longrightarrow> st_storage y = storage_key env x"
    by (auto simp: s1 StreamRepo_Update_def)
  obtain y where y: "GetStream env' i s1 = Ok y" using assms(6) by (cases "GetStream env' i s1") (auto simp: DeleteStream_def then_sup_def)
  with kept(2) have id: "st_id y = st_id x" "st_storage y = storage_key env x"
    using GetStream_Ok [OF y] GetStream_Ok [OF assms(1)] assms(7) by auto
  let ?s = "if storage_key env x \<noteq> '''' then snd (Storage_Delete (se_s3 env') (storage_key env x) s1) else s1"
  have "StreamRepo_Delete (se_db env' 1) (st_id x) ?s = (Ok (), s2)" using assms(6) y id by (auto simp: DeleteStream_def then_sup_def Let_def split: if_splits)
  then have "s2 = ?s\<lparr> su_streams := filter (\<lambda>z. st_id z \<noteq> st_id x) (su_streams ?s) \<rparr>" by (simp add: StreamRepo_Delete_def split: if_splits)
  moreover have "st_storage x \<in> set (su_objects ?s)" using assms(2,3) kept(1) by (auto simp: Storage_Delete_def)
  ultimately show ?thesis by auto
qed

theorem upload_orphans_recording_witness:
  "let s = (snd (sup_run stranger demo_video (0, empty_sup)))\<lparr> su_objects := [''videos/aa/ba''] \<rparr>;
       s1 = snd (GetUploadURL (demo_sup_env ''c'' 3) ''aa'' ''video/mp4'' s); s2 = snd (DeleteStream (demo_sup_env ''d'' 4) ''aa'' s1)
   in ''videos/aa/ba'' \<in> set (su_objects s2) \<and> ''aa'' \<notin> st_id ` set (su_streams s2)"
proof -
  let ?s = "(snd (sup_run stranger demo_video (0, empty_sup)))\<lparr> su_objects := [''videos/aa/ba''] \<rparr>"
  let ?s1 = "snd (GetUploadURL (demo_sup_env ''c'' 3) ''aa'' ''video/mp4'' ?s)"
  have "(case GetStream (demo_sup_env ''c'' 3) ''aa'' ?s of Ok x \<Rightarrow> st_storage x = ''videos/aa/ba'' \<and> st_id x = ''aa'' | _ \<Rightarrow> False)" by code_simp
  then obtain x where x: "GetStream (demo_sup_env ''c'' 3) ''aa'' ?s = Ok x" "st_storage x = ''videos/aa/ba''" "st_id x = ''aa''"
    by (auto split: outcome.splits)
  have "fst (DeleteStream (demo_sup_env ''d'' 4) ''aa'' ?s1) = Ok ()" by code_simp
  then obtain s2 where d: "DeleteStream (demo_sup_env ''d'' 4) ''aa'' ?s1 = (Ok (), s2)" by (metis surjective_pairing)
  have "st_storage x \<in> set (su_objects ?s)" "st_storage x \<noteq> storage_key (demo_sup_env ''c'' 3) x" "se_db (demo_sup_env ''c'' 3) 1"
    "se_parse (demo_sup_env ''d'' 4) ''aa'' = se_parse (demo_sup_env ''c'' 3) ''aa''"
    by (simp_all add: x storage_key_def demo_sup_env_def)
  with upload_orphans_recording [OF x(1) _ _ _ refl d] show ?thesis by (simp add: Let_def x d)
qed

section \<open>Who may read what\<close>

lemma sup_v1_ignores_claims: "e \<noteq> GET_audit_events \<Longrightarrow> sup_v1 env e (with_claims c cl) s = sup_v1 env e c s"
  by (cases e) (simp_all add: sup_v1_def h_CreateStream_def h_ListStreams_def h_GetStream_def h_UpdateStreamStatus_def
      h_GetUploadURL_def h_GetDownloadURL_def h_DeleteStream_def h_ListByResource_def h_GetEvent_def split: option.split)

text \<open>The supporting service tells callers with a token from callers without, and no more. Without a valid token every request
  is refused with 401 and changes nothing; with one, every endpoint but the list of the tenant's own audit events answers
  the same whatever the claims: any user reads any audit event and any resource's log, and deletes any stream.\<close>

theorem sup_router_auth:
  "(\<not> has_valid_token verify c \<longrightarrow> rs_status (fst (sup_router verify env e c s)) = 401 \<and> snd (sup_router verify env e c s) = s) \<and>
   (has_valid_token verify c \<and> e \<noteq> GET_audit_events \<longrightarrow> sup_router verify env e c s = sup_v1 env e c s)"
  using authorized_passed [of verify c "\<lambda>c'. sup_v1 env e c' s" s] sup_v1_ignores_claims [of e env c _ s]
  by (auto simp: sup_router_def authorized_refused)

theorem sup_router_auth_witness:
  "let s = empty_sup\<lparr> su_events := [demo_event ''e'' ''user.logged_in''] \<rparr>; run = (\<lambda>tok. sup_router demo_verify (demo_sup_env ''a'' 1) GET_audit_event (demo_call tok ''e'') s)
   in rs_status (fst (run '''')) = 401 \<and> fst (run ''Bearer jwt:eve'') = resp_OK (AuditData (toAuditEventResponse (demo_event ''e'' ''user.logged_in'')))"
proof -
  let ?s = "empty_sup\<lparr> su_events := [demo_event ''e'' ''user.logged_in''] \<rparr>"
  have "\<not> has_valid_token demo_verify (demo_call '''' ''e'')" "has_valid_token demo_verify (demo_call ''Bearer jwt:eve'' ''e'')" by code_simp+
  moreover have "fst (sup_v1 (demo_sup_env ''a'' 1) GET_audit_event (demo_call ''Bearer jwt:eve'' ''e'') ?s) =
    resp_OK (AuditData (toAuditEventResponse (demo_event ''e'' ''user.logged_in'')))" by code_simp
  ultimately show ?thesis
    using sup_router_auth [of demo_verify "demo_call '''' ''e''" "demo_sup_env ''a'' 1" GET_audit_event ?s]
      sup_router_auth [of demo_verify "demo_call ''Bearer jwt:eve'' ''e''" "demo_sup_env ''a'' 1" GET_audit_event ?s]
    by (simp add: Let_def)
qed

end
