(* ===== verification/Sdk.thy ===== *)
theory Sdk
  imports Prelude
begin

text \<open>
  The Go client library for devices (sdk/go): readings are collected, put into batches by the position of their field
  in the channel's schema, and posted to ingestion. The msgpack, json and LZ4 codecs, the HTTP client and the file
  system are arguments; \<open>'w\<close> is whatever they act on. The library's mutex makes each access to the client's state one step, so a
  method is a function from the state to the state.
\<close>

section \<open>Readings and the schema\<close>

datatype sdk_err =
    NoReadings | SchemaHasNoFields | UnknownField string | EncodeErr | CompressErr | BuildRequestErr | RequestErr
  | SchemaStatus nat | SchemaDecodeErr | SchemaNoSuccess | UnexpectedStatus nat | SchemaMismatch409
  | BaseURLRequired | APIKeyRequired | ChannelIDRequired
  | HomeErr | FileErr | ConfigDecodeErr | ConfigEncodeErr

record sdk_reading =
  sr_field :: string
  sr_value :: f64
  sr_ts :: instant

record sdk_field =
  sf_index :: "8 word"
  sf_name :: string
  sf_type :: string

record schema_data =
  sd_fields :: "sdk_field list"
  sd_version :: "32 word"

record channel_schema =
  sch_nameToIndex :: "string \<rightharpoonup> 8 word"
  sch_indexToName :: "8 word \<rightharpoonup> string"
  sch_version :: "32 word"
  sch_ordered :: "sdk_field list"

definition buildChannelSchema :: "schema_data \<Rightarrow> channel_schema" where
  "buildChannelSchema data =
    \<lparr> sch_nameToIndex = fold (\<lambda>f m. m(sf_name f \<mapsto> sf_index f)) (sd_fields data) Map.empty,
      sch_indexToName = fold (\<lambda>f m. m(sf_index f \<mapsto> sf_name f)) (sd_fields data) Map.empty,
      sch_version = sd_version data, sch_ordered = sd_fields data \<rparr>"

section \<open>Batches\<close>

record msgpack_batch =
  sb_sv :: "32 word"
  sb_ts :: int
  sb_f :: "f64 list"
  sb_td :: "16 word list"

definition maxTDMillis :: int where "maxTDMillis = 65535"

text \<open>\<open>Time.Sub\<close> saturates at the bounds of int64, \<open>Milliseconds\<close> truncates towards zero, \<open>Unix\<close> is the second
  that the instant lies in.\<close>

definition time_sub :: "instant \<Rightarrow> instant \<Rightarrow> duration" where
  "time_sub t u = max (- (2 ^ 63)) (min (2 ^ 63 - 1) (t - u))"

definition in_millis :: "duration \<Rightarrow> int" where
  "in_millis d = (if d < 0 then - ((- d) div millisecond) else d div millisecond)"

definition delta_ms :: "instant \<Rightarrow> instant \<Rightarrow> int" where
  "delta_ms t base = max 0 (in_millis (time_sub t base))"

fun field_positions :: "nat \<Rightarrow> sdk_field list \<Rightarrow> (string \<rightharpoonup> nat) \<Rightarrow> (string \<rightharpoonup> nat)" where
  "field_positions i [] m = m"
| "field_positions i (f # fs) m = field_positions (Suc i) fs (m(sf_name f \<mapsto> i))"

text \<open>The variables that the loop and its two closures share.\<close>

record batch_state =
  bs_base :: instant
  bs_vals :: "f64 list"
  bs_tds :: "16 word list"
  bs_has :: "bool list"
  bs_used :: bool
  bs_result :: "8 word list list"

definition fresh_slots :: "nat \<Rightarrow> instant \<Rightarrow> 8 word list list \<Rightarrow> batch_state" where
  "fresh_slots numFields base res = \<lparr> bs_base = base, bs_vals = replicate numFields (Fin 0), bs_tds = replicate numFields 0,
     bs_has = replicate numFields False, bs_used = False, bs_result = res \<rparr>"

definition kept_slots :: "batch_state \<Rightarrow> nat list" where
  "kept_slots b = filter (\<lambda>i. bs_has b ! i) [0..<length (bs_has b)]"

definition batch_of :: "32 word \<Rightarrow> batch_state \<Rightarrow> msgpack_batch" where
  "batch_of sv b = \<lparr> sb_sv = sv, sb_ts = bs_base b div second, sb_f = map ((!) (bs_vals b)) (kept_slots b),
     sb_td = map ((!) (bs_tds b)) (kept_slots b) \<rparr>"

definition flushBatch :: "(msgpack_batch \<Rightarrow> 8 word list option) \<Rightarrow> 32 word \<Rightarrow> batch_state \<Rightarrow> (sdk_err, batch_state) outcome" where
  "flushBatch marshal sv b =
    (if sb_f (batch_of sv b) = [] then Ok b
     else case marshal (batch_of sv b) of
        None \<Rightarrow> Fail EncodeErr
      | Some encoded \<Rightarrow> Ok (b\<lparr> bs_result := bs_result b @ [encoded] \<rparr>))"

definition resetBatch :: "nat \<Rightarrow> instant \<Rightarrow> batch_state \<Rightarrow> batch_state" where
  "resetBatch numFields newBase b = fresh_slots numFields newBase (bs_result b)"

text \<open>A name that is not in the map reads as position 0.\<close>

definition put_reading :: "(string \<rightharpoonup> nat) \<Rightarrow> sdk_reading \<Rightarrow> int \<Rightarrow> batch_state \<Rightarrow> batch_state" where
  "put_reading fieldPos r deltaMs b =
    (let pos = (case fieldPos (sr_field r) of Some p \<Rightarrow> p | None \<Rightarrow> 0)
     in b\<lparr> bs_vals := (bs_vals b)[pos := sr_value r], bs_tds := (bs_tds b)[pos := word_of_int deltaMs],
           bs_has := (bs_has b)[pos := True], bs_used := True \<rparr>)"

definition batch_step :: "(msgpack_batch \<Rightarrow> 8 word list option) \<Rightarrow> 32 word \<Rightarrow> nat \<Rightarrow> (string \<rightharpoonup> nat) \<Rightarrow> sdk_reading
    \<Rightarrow> batch_state \<Rightarrow> (sdk_err, batch_state) outcome" where
  "batch_step marshal sv numFields fieldPos r b =
    (let deltaMs = delta_ms (sr_ts r) (bs_base b) in
     if deltaMs > maxTDMillis then
       bind_o (if bs_used b then flushBatch marshal sv b else Ok b) (\<lambda>b'.
         Ok (put_reading fieldPos r 0 (resetBatch numFields (sr_ts r) b')))
     else Ok (put_reading fieldPos r deltaMs b))"

fun batch_loop :: "(msgpack_batch \<Rightarrow> 8 word list option) \<Rightarrow> 32 word \<Rightarrow> nat \<Rightarrow> (string \<rightharpoonup> nat) \<Rightarrow> sdk_reading list
    \<Rightarrow> batch_state \<Rightarrow> (sdk_err, batch_state) outcome" where
  "batch_loop marshal sv n fieldPos [] b = Ok b"
| "batch_loop marshal sv n fieldPos (r # rs) b =
    bind_o (batch_step marshal sv n fieldPos r b) (batch_loop marshal sv n fieldPos rs)"

definition buildBatches :: "(msgpack_batch \<Rightarrow> 8 word list option) \<Rightarrow> sdk_reading list \<Rightarrow> channel_schema \<Rightarrow> 32 word
    \<Rightarrow> (sdk_err, 8 word list list) outcome" where
  "buildBatches marshal readings schema schemaVersion =
    (case readings of [] \<Rightarrow> Fail NoReadings | first # _ \<Rightarrow>
     let numFields = length (sch_ordered schema) in
     if numFields = 0 then Fail SchemaHasNoFields else
     let fieldPos = field_positions 0 (sch_ordered schema) Map.empty in
     case find (\<lambda>r. fieldPos (sr_field r) = None) readings of
       Some r \<Rightarrow> Fail (UnknownField (sr_field r))
     | None \<Rightarrow>
         bind_o (batch_loop marshal schemaVersion numFields fieldPos readings (fresh_slots numFields (sr_ts first) [])) (\<lambda>b.
         bind_o (if bs_used b then flushBatch marshal schemaVersion b else Ok b) (\<lambda>b'. Ok (bs_result b'))))"

section \<open>The world of the client\<close>

record sdk_request =
  hq_method :: string
  hq_url :: string
  hq_headers :: "(string \<times> string) list"
  hq_body :: "8 word list"

record sdk_reply =
  hr_status :: nat
  hr_recommended :: string
  hr_body :: "8 word list"

record local_config =
  lc_channel :: string
  lc_version :: "32 word"
  lc_format :: string

datatype file_result = FileData "8 word list" | NotExist | ReadErr

text \<open>\<open>sx_do\<close> sends a request, None for an error of the client (a deadline that passed included); \<open>sx_lz4\<close> is CompressBlock
  into a buffer of its bound, \<open>Some []\<close> for data that does not get smaller; \<open>sx_join\<close> and \<open>sx_dir\<close> are filepath.Join and filepath.Dir.\<close>

record 'w sdk_env =
  sx_marshal :: "msgpack_batch \<Rightarrow> 8 word list option"
  sx_lz4 :: "8 word list \<Rightarrow> 8 word list option"
  sx_url_ok :: "string \<Rightarrow> bool"
  sx_do :: "sdk_request \<Rightarrow> 'w \<Rightarrow> sdk_reply option \<times> 'w"
  sx_envelope :: "8 word list \<Rightarrow> (bool \<times> schema_data) option"
  sx_home :: "string option"
  sx_join :: "string \<Rightarrow> string \<Rightarrow> string"
  sx_dir :: "string \<Rightarrow> string"
  sx_config_decode :: "8 word list \<Rightarrow> local_config option"
  sx_config_encode :: "local_config \<Rightarrow> 8 word list option"
  sx_read_file :: "string \<Rightarrow> 'w \<Rightarrow> file_result"
  sx_mkdir :: "string \<Rightarrow> 'w \<Rightarrow> bool \<times> 'w"
  sx_write_file :: "string \<Rightarrow> 8 word list \<Rightarrow> 'w \<Rightarrow> bool \<times> 'w"

section \<open>The local configuration file\<close>

definition defaultConfigFile :: string where "defaultConfigFile = ''~/.greenlab/sdk.json''"

definition empty_config :: local_config where
  "empty_config = \<lparr> lc_channel = '''', lc_version = 0, lc_format = '''' \<rparr>"

definition expandPath :: "'w sdk_env \<Rightarrow> string \<Rightarrow> (sdk_err, string) outcome" where
  "expandPath env p =
    (case p of
       [] \<Rightarrow> Ok p
     | c # rest \<Rightarrow> if c \<noteq> CHR 0x7E then Ok p
         else (case sx_home env of None \<Rightarrow> Fail HomeErr | Some home \<Rightarrow> Ok (sx_join env home rest)))"

definition loadConfig :: "'w sdk_env \<Rightarrow> string \<Rightarrow> 'w \<Rightarrow> (sdk_err, local_config) outcome" where
  "loadConfig env path w =
    bind_o (expandPath env path) (\<lambda>expanded.
    case sx_read_file env expanded w of
      NotExist \<Rightarrow> Ok empty_config
    | ReadErr \<Rightarrow> Fail FileErr
    | FileData data \<Rightarrow> (case sx_config_decode env data of None \<Rightarrow> Fail ConfigDecodeErr | Some cfg \<Rightarrow> Ok cfg))"

definition saveConfig :: "'w sdk_env \<Rightarrow> string \<Rightarrow> local_config \<Rightarrow> 'w \<Rightarrow> (sdk_err, unit) outcome \<times> 'w" where
  "saveConfig env path cfg w =
    (case expandPath env path of
       Ok expanded \<Rightarrow>
         (let (made, w1) = sx_mkdir env (sx_dir env expanded) w in
          if \<not> made then (Fail FileErr, w1) else
          case sx_config_encode env cfg of
            None \<Rightarrow> (Fail ConfigEncodeErr, w1)
          | Some data \<Rightarrow>
              (let (written, w2) = sx_write_file env expanded data w1 in (if written then Ok () else Fail FileErr, w2)))
     | Fail e \<Rightarrow> (Fail e, w) | Panic \<Rightarrow> (Panic, w))"

section \<open>Fetching the schema\<close>

definition schema_url :: "string \<Rightarrow> string \<Rightarrow> string" where
  "schema_url baseURL channelID = baseURL @ ''/v1/channels/'' @ channelID @ ''/schema''"

definition fetchSchema :: "'w sdk_env \<Rightarrow> string \<Rightarrow> string \<Rightarrow> string \<Rightarrow> 'w \<Rightarrow> (sdk_err, channel_schema) outcome \<times> 'w" where
  "fetchSchema env baseURL channelID apiKey w =
    (let url = schema_url baseURL channelID in
     if \<not> sx_url_ok env url then (Fail BuildRequestErr, w) else
     case sx_do env \<lparr> hq_method = ''GET'', hq_url = url, hq_headers = [(''X-API-Key'', apiKey)], hq_body = [] \<rparr> w of
       (None, w') \<Rightarrow> (Fail RequestErr, w')
     | (Some resp, w') \<Rightarrow>
         (if hr_status resp \<noteq> 200 then Fail (SchemaStatus (hr_status resp)) else
          case sx_envelope env (hr_body resp) of
            None \<Rightarrow> Fail SchemaDecodeErr
          | Some (success, data) \<Rightarrow> if \<not> success then Fail SchemaNoSuccess else Ok (buildChannelSchema data), w'))"

section \<open>The client\<close>

definition defaultBatchSize :: int where "defaultBatchSize = 10"

record sdk_config =
  sc_base :: string
  sc_key :: string
  sc_channel :: string
  sc_batch :: int
  sc_file :: string

record sdk_client =
  cl_cfg :: sdk_config
  cl_schema :: channel_schema
  cl_local :: local_config
  cl_pending :: "sdk_reading list"

definition New :: "'w sdk_env \<Rightarrow> sdk_config \<Rightarrow> 'w \<Rightarrow> (sdk_err, sdk_client) outcome \<times> 'w" where
  "New env cfg0 w =
    (if sc_base cfg0 = '''' then (Fail BaseURLRequired, w)
     else if sc_key cfg0 = '''' then (Fail APIKeyRequired, w)
     else if sc_channel cfg0 = '''' then (Fail ChannelIDRequired, w)
     else
      (let cfg1 = (if sc_batch cfg0 \<le> 0 then cfg0\<lparr> sc_batch := defaultBatchSize \<rparr> else cfg0);
           cfg = (if sc_file cfg1 = '''' then cfg1\<lparr> sc_file := defaultConfigFile \<rparr> else cfg1);
           lc = (case loadConfig env (sc_file cfg) w of Ok l \<Rightarrow> l | _ \<Rightarrow> empty_config)
       in case fetchSchema env (sc_base cfg) (sc_channel cfg) (sc_key cfg) w of
            (Ok schema, w') \<Rightarrow>
              (let lc1 = lc\<lparr> lc_channel := sc_channel cfg, lc_version := sch_version schema \<rparr>;
                   lc2 = (if lc_format lc1 = '''' then lc1\<lparr> lc_format := ''msgpack'' \<rparr> else lc1);
                   (_, w'') = saveConfig env (sc_file cfg) lc2 w'
               in (Ok \<lparr> cl_cfg = cfg, cl_schema = schema, cl_local = lc2, cl_pending = [] \<rparr>, w''))
          | (Fail e, w') \<Rightarrow> (Fail e, w')
          | (Panic, w') \<Rightarrow> (Panic, w')))"

definition SetFieldAt :: "string \<Rightarrow> f64 \<Rightarrow> instant \<Rightarrow> sdk_client \<Rightarrow> sdk_client" where
  "SetFieldAt name val t c = c\<lparr> cl_pending := cl_pending c @ [\<lparr> sr_field = name, sr_value = val, sr_ts = t \<rparr>] \<rparr>"

definition SetField :: "instant \<Rightarrow> string \<Rightarrow> f64 \<Rightarrow> sdk_client \<Rightarrow> sdk_client" where
  "SetField now name val c = SetFieldAt name val now c"

definition compressionThreshold :: nat where "compressionThreshold = 100"

definition maybeCompress :: "'w sdk_env \<Rightarrow> 8 word list \<Rightarrow> (sdk_err, 8 word list \<times> bool) outcome" where
  "maybeCompress env payload =
    (if length payload \<le> compressionThreshold then Ok (payload, False)
     else case sx_lz4 env payload of
        None \<Rightarrow> Fail CompressErr
      | Some out \<Rightarrow> if out = [] then Ok (payload, False) else Ok (out, True))"

definition data_url :: "sdk_config \<Rightarrow> string" where
  "data_url cfg = sc_base cfg @ ''/v1/channels/'' @ sc_channel cfg @ ''/data''"

definition data_request :: "sdk_config \<Rightarrow> 8 word list \<Rightarrow> bool \<Rightarrow> sdk_request" where
  "data_request cfg body didCompress =
    \<lparr> hq_method = ''POST'', hq_url = data_url cfg,
      hq_headers = [(''Content-Type'', ''application/msgpack''), (''X-API-Key'', sc_key cfg)] @
        (if didCompress then [(''Content-Encoding'', ''lz4'')] else []), hq_body = body \<rparr>"

definition post_status :: "nat \<Rightarrow> (sdk_err, unit) outcome" where
  "post_status code = (if code = 409 then Fail SchemaMismatch409 else if code \<ge> 300 then Fail (UnexpectedStatus code) else Ok ())"

definition postPayload :: "'w sdk_env \<Rightarrow> 8 word list \<Rightarrow> sdk_client \<times> 'w \<Rightarrow> (sdk_err, unit) outcome \<times> sdk_client \<times> 'w" where
  "postPayload env payload cw =
    (case cw of (c, w) \<Rightarrow> case maybeCompress env payload of
       Fail e \<Rightarrow> (Fail e, c, w) | Panic \<Rightarrow> (Panic, c, w)
     | Ok (compressed, didCompress) \<Rightarrow>
        if \<not> sx_url_ok env (data_url (cl_cfg c)) then (Fail BuildRequestErr, c, w) else
        case sx_do env (data_request (cl_cfg c) compressed didCompress) w of
          (None, w') \<Rightarrow> (Fail RequestErr, c, w')
        | (Some resp, w') \<Rightarrow>
           if hr_recommended resp \<noteq> '''' then
             (let c' = c\<lparr> cl_local := (cl_local c)\<lparr> lc_format := hr_recommended resp \<rparr> \<rparr>;
                  (_, w'') = saveConfig env (sc_file (cl_cfg c)) (cl_local c') w'
              in (post_status (hr_status resp), c', w''))
           else (post_status (hr_status resp), c, w'))"

fun post_all :: "'w sdk_env \<Rightarrow> 8 word list list \<Rightarrow> sdk_client \<times> 'w \<Rightarrow> (sdk_err, unit) outcome \<times> sdk_client \<times> 'w" where
  "post_all env [] cw = (Ok (), cw)"
| "post_all env (p # ps) cw = (case postPayload env p cw of (Ok _, cw') \<Rightarrow> post_all env ps cw' | r \<Rightarrow> r)"

definition sendReadings :: "'w sdk_env \<Rightarrow> sdk_reading list \<Rightarrow> sdk_client \<times> 'w \<Rightarrow> (sdk_err, unit) outcome \<times> sdk_client \<times> 'w" where
  "sendReadings env readings cw =
    (case buildBatches (sx_marshal env) readings (cl_schema (fst cw)) (lc_version (cl_local (fst cw))) of
       Ok payloads \<Rightarrow> post_all env payloads cw
     | Fail e \<Rightarrow> (Fail e, cw) | Panic \<Rightarrow> (Panic, cw))"

definition isSchemaMismatch :: "(sdk_err, unit) outcome \<Rightarrow> bool" where
  "isSchemaMismatch r = (r = Fail SchemaMismatch409)"

definition Send :: "'w sdk_env \<Rightarrow> sdk_client \<times> 'w \<Rightarrow> (sdk_err, unit) outcome \<times> sdk_client \<times> 'w" where
  "Send env cw =
    (case cw of (c0, w0) \<Rightarrow>
     let toSend = cl_pending c0; c1 = c0\<lparr> cl_pending := [] \<rparr> in
     if toSend = [] then (Ok (), c1, w0) else
     case sendReadings env toSend (c1, w0) of (r, c, w) \<Rightarrow>
       if \<not> isSchemaMismatch r then (r, c, w) else
       case fetchSchema env (sc_base (cl_cfg c)) (sc_channel (cl_cfg c)) (sc_key (cl_cfg c)) w of
         (Ok schema, w') \<Rightarrow>
           (let c' = c\<lparr> cl_schema := schema, cl_local := (cl_local c)\<lparr> lc_version := sch_version schema \<rparr> \<rparr>;
                (_, w'') = saveConfig env (sc_file (cl_cfg c)) (cl_local c') w'
            in sendReadings env toSend (c', w''))
       | (Fail e, w') \<Rightarrow> (Fail e, c, w') | (Panic, w') \<Rightarrow> (Panic, c, w'))"

end
