(* ===== verification/Ingest_Router.thy ===== *)
theory Ingest_Router
  imports Ingest_Handler
begin

text \<open>
  The routes of the ingestion service and the middleware in front of them (transport/http/router.go): the API key, then
  the limit of the key, then the limit of the channel, then the handler.
\<close>

section \<open>Routes\<close>

datatype ingest_route = Update_route | Health_route | Swagger_route | Data_route string | Bulk_route string | Replay_route string

text \<open>Gin matches the segments of the path of a URL (without query, fragment and escapes); a parameter is a segment that is
  not empty. Its redirect of a trailing slash is left out.\<close>

definition path_segments :: "string \<Rightarrow> string list" where
  "path_segments s = split_on (CHR ''/'') [] s"

definition ingest_route_of :: "string \<Rightarrow> string list \<Rightarrow> ingest_route option" where
  "ingest_route_of meth segs =
    (if segs = [''health''] then (if meth = ''GET'' then Some Health_route else None)
     else if segs = [''update''] then (if meth \<in> {''GET'', ''POST''} then Some Update_route else None)
     else case segs of
       (a # b # ch # rest) \<Rightarrow>
         if a = ''swagger'' then (if meth = ''GET'' then Some Swagger_route else None)
         else if a = ''v1'' \<and> b = ''channels'' \<and> ch \<noteq> '''' \<and> meth = ''POST'' then
           (if rest = [''data''] then Some (Data_route ch)
            else if rest = [''data'', ''bulk''] then Some (Bulk_route ch)
            else if rest = [''replay''] then Some (Replay_route ch) else None)
         else None
     | [a, b] \<Rightarrow> if a = ''swagger'' \<and> meth = ''GET'' then Some Swagger_route else None
     | _ \<Rightarrow> None)"

section \<open>The service behind the router\<close>

text \<open>What NewRouter is given, and the Redis sets of the rate limiter: \<open>ri_zset\<close> tells whether the pipeline for a key
  succeeds and which set it finds; \<open>ri_docs\<close> is the status with which the vendored handler answers a page of the API documents.\<close>

record 's ingest_app =
  ri_handler :: "'s handler"
  ri_keys :: "string \<Rightarrow> string \<Rightarrow> 's \<Rightarrow> (ingest_err, device_schema) outcome \<times> 's"
  ri_channels :: "string \<Rightarrow> (ingest_err, device_schema) outcome"
  ri_zset :: "string \<Rightarrow> 's \<Rightarrow> bool \<times> zset"
  ri_put :: "string \<Rightarrow> zset \<Rightarrow> 's \<Rightarrow> 's"
  ri_thing :: "string \<Rightarrow> (bool \<times> zset) option"
  ri_now :: instant
  ri_json :: "8 word list \<Rightarrow> compact_payload option"
  ri_msgp :: "8 word list \<Rightarrow> compact_payload option"
  ri_scan :: "string \<Rightarrow> f64 option"
  ri_docs :: "string list \<Rightarrow> nat"

text \<open>A request with what the binders read from its body.\<close>

record ingest_call =
  ic_method :: string
  ic_path :: "string list"
  ic_request :: request
  ic_type :: string
  ic_one :: "ingest_request option"
  ic_bulk :: "ingest_request list option option"
  ic_replay :: "replay_reading list option option"
  ic_body :: "nat \<Rightarrow> 8 word list option"

datatype ingest_reply = Envelope "ingest_response envelope" | StatusOk | PlainText nat string

definition reply_status :: "ingest_reply \<Rightarrow> nat" where
  "reply_status r = (case r of Envelope e \<Rightarrow> rs_status e | StatusOk \<Rightarrow> 200 | PlainText n _ \<Rightarrow> n)"

definition rate_limited :: "'s ingest_app \<Rightarrow> rl_config \<Rightarrow> string \<Rightarrow> 's \<Rightarrow> rl_decision \<times> 's" where
  "rate_limited app cfg key s =
    (case ri_zset app (''ratelimit:'' @ key) s of (ok, z) \<Rightarrow>
     case RateLimit cfg (ri_now app) ok z of ((d, _), z') \<Rightarrow>
       (d, if ok then ri_put app (''ratelimit:'' @ key) z' s else s))"

definition key_limit :: rl_config where "key_limit = \<lparr> rl_requests = 100, rl_window = 60 * second \<rparr>"
definition channel_limit :: rl_config where "channel_limit = \<lparr> rl_requests = 10, rl_window = second \<rparr>"

definition too_many :: ingest_reply where "too_many = PlainText 429 ''rate limit exceeded''"

text \<open>What the key middleware stores for the handlers.\<close>

definition auth_ctx :: "string \<Rightarrow> device_schema \<Rightarrow> string \<Rightarrow> request \<Rightarrow> request" where
  "auth_ctx key schema ch c = ctx_set (ctx_set (ctx_set (ctx_set c ''device_schema'' COther)
     ''device_id'' (CStr (ds_device schema))) ''channel_id'' (CStr ch)) ''api_key'' (CStr key)"

definition sent_key :: "request \<Rightarrow> string" where
  "sent_key c = (if rq_header c ''X-API-Key'' = '''' then q_get c ''api_key'' else rq_header c ''X-API-Key'')"

definition ingest_v1 :: "'s ingest_app \<Rightarrow> string \<Rightarrow> (device_schema \<Rightarrow> 's \<Rightarrow> ingest_response envelope \<times> 's)
    \<Rightarrow> request \<Rightarrow> 's \<Rightarrow> ingest_reply \<times> 's" where
  "ingest_v1 app ch run c0 s =
    (let c = c0\<lparr> rq_param := (rq_param c0)(''channel_id'' := ch) \<rparr> in
     case apiKeyAuth (ri_keys app) c s of
       (Fail resp, s1) \<Rightarrow> (Envelope resp, s1)
     | (Panic, s1) \<Rightarrow> (Envelope recovered, s1)
     | (Ok schema, s1) \<Rightarrow>
        (let c1 = auth_ctx (sent_key c) schema ch c in
         case rate_limited app key_limit (APIKeyKeyFunc c1) s1 of
           (Reject n, s2) \<Rightarrow> (too_many, s2)
         | (Allow, s2) \<Rightarrow>
            (case rate_limited app channel_limit (ChannelIDKeyFunc c1) s2 of
               (Reject n, s3) \<Rightarrow> (too_many, s3)
             | (Allow, s3) \<Rightarrow> (case run schema s3 of (resp, s4) \<Rightarrow> (Envelope resp, s4)))))"

definition ingest_router :: "'s ingest_app \<Rightarrow> ingest_call \<Rightarrow> 's \<Rightarrow> ingest_reply \<times> 's" where
  "ingest_router app call s =
    (let h = ri_handler app; c = ic_request call in
     case ingest_route_of (ic_method call) (ic_path call) of
       None \<Rightarrow> (PlainText 404 ''404 page not found'', s)
     | Some Health_route \<Rightarrow> (StatusOk, s)
     | Some Swagger_route \<Rightarrow> (PlainText (ri_docs app (ic_path call)) '''', s)
     | Some Update_route \<Rightarrow>
         (case ThingSpeak (ri_now app) (ri_scan app) h (ri_channels app) (ri_thing app) c s of (t, s') \<Rightarrow> (PlainText 200 t, s'))
     | Some (Data_route ch) \<Rightarrow> ingest_v1 app ch (\<lambda>schema. handler_Ingest (ri_now app) (ri_json app) (ri_msgp app) h
           (Some schema) ch (ic_type call) (ic_one call) (ic_body call)) c s
     | Some (Bulk_route ch) \<Rightarrow> ingest_v1 app ch (\<lambda>schema. BulkIngest h (Some schema) ch (ic_bulk call)) c s
     | Some (Replay_route ch) \<Rightarrow> ingest_v1 app ch (\<lambda>schema. handler_Replay h (Some schema) ch (ic_replay call)) c s)"

section \<open>Nothing reaches the service past the middleware\<close>

lemma ThingSpeak_spy:
  "\<forall>inp\<in>set (snd (ThingSpeak now scan (spy_handler r dlq) look lmt c [])).
    \<exists>key schema. look key = Ok schema \<and> owned (ds_channel schema) (ds_device schema) inp"
  by (cases r) (auto simp: ThingSpeak_def Let_def spy_handler_def spy_service_def NewHandler_def WithReplayDLQ_def owned_def
      split: outcome.splits if_splits)

text \<open>The middleware runs the handler for a key that is accepted for the channel of the path, after both limits.\<close>

lemma ingest_v1_runs:
  fixes app :: "'s ingest_app"
  assumes "snd (ingest_v1 app ch run c s) \<noteq> s"
    and keys: "\<And>k x t. snd (ri_keys app k x t) = t" and put: "\<And>k z t. ri_put app k z t = t"
  shows "\<exists>schema. fst (ri_keys app (sent_key c) ch s) = Ok schema \<and> snd (ingest_v1 app ch run c s) = snd (run schema s)"
proof -
  let ?c = "c\<lparr> rq_param := (rq_param c)(''channel_id'' := ch) \<rparr>"
  have lmt: "snd (rate_limited app cfg k t) = t" for cfg k t
    by (simp add: rate_limited_def put split: prod.split)
  have "sent_key ?c = sent_key c" by (simp add: sent_key_def q_get_def)
  then have acc: "fst (apiKeyAuth (ri_keys app) ?c s) = (Ok schema :: (ingest_response envelope, device_schema) outcome) \<Longrightarrow> fst (ri_keys app (sent_key c) ch s) = Ok schema" for schema
    by (auto simp: apiKeyAuth_def sent_key_def Let_def split: prod.splits outcome.splits if_splits)
  have same: "snd (apiKeyAuth (ri_keys app) ?c s :: (ingest_response envelope, device_schema) outcome \<times> 's) = s"
    using keys by (auto simp: apiKeyAuth_def Let_def split: prod.splits outcome.splits) (metis snd_conv)+
  obtain a :: "(ingest_response envelope, device_schema) outcome" where a: "apiKeyAuth (ri_keys app) ?c s = (a, s)" using same by (metis prod.collapse)
  with assms(1) obtain schema where "a = Ok schema" by (cases a) (auto simp: ingest_v1_def Let_def)
  moreover from this a assms(1) have "snd (ingest_v1 app ch run c s) = snd (run schema s)"
    using lmt by (auto simp: ingest_v1_def Let_def split: prod.splits rl_decision.splits) (metis snd_conv)+
  ultimately show ?thesis using acc a by auto
qed


definition demo_app :: "'s handler \<Rightarrow> 's ingest_app" where
  "demo_app h = \<lparr> ri_handler = h, ri_keys = (\<lambda>k ch s. (if k = ''key'' \<and> ch = ''ch1'' then Ok demo_schema else Fail ErrDeviceNotFound, s)),
     ri_channels = (\<lambda>k. if k = ''key'' then Ok demo_schema else Fail ErrDeviceNotFound),
     ri_zset = (\<lambda>k s. (True, zset_empty)), ri_put = (\<lambda>k z s. s), ri_thing = (\<lambda>k. None), ri_now = 10 ^ 18,
     ri_json = (\<lambda>b. None), ri_msgp = (\<lambda>b. None), ri_scan = (\<lambda>t. Some (Fin 1)), ri_docs = (\<lambda>p. 200) \<rparr>"

definition demo_ingest_call :: "string list \<Rightarrow> ingest_call" where
  "demo_ingest_call path = \<lparr> ic_method = ''POST'', ic_path = path,
     ic_request = \<lparr> rq_header = (\<lambda>n. if n = ''X-API-Key'' then ''key'' else ''''), rq_query = Map.empty, rq_form = (\<lambda>n. ''''),
       rq_param = (\<lambda>n. ''''), rq_ip = ''ip'', rq_ctx = Map.empty \<rparr>,
     ic_type = '''', ic_one = Some \<lparr> iq_fields = Some [(''a'', Fin 1)], iq_field_ts = Map.empty, iq_tags = [], iq_timestamp = None \<rparr>,
     ic_bulk = None, ic_replay = None, ic_body = (\<lambda>n. None) \<rparr>"


end
