(* ===== verification/Sdk_Properties.thy ===== *)
theory Sdk_Properties
  imports Sdk Ingest_Router
begin

text \<open>
  What the Go client library promises, and what becomes of its batches in the ingestion service.
\<close>

section \<open>The shape of a batch\<close>

lemma field_positions_Some:
  "field_positions i fs m name = Some p \<Longrightarrow> m name = Some p \<or> (i \<le> p \<and> p < i + length fs \<and> sf_name (fs ! (p - i)) = name)"
proof (induction i fs m arbitrary: p rule: field_positions.induct)
  case (2 i f fs m)
  from "2.IH" [OF "2.prems" [unfolded field_positions.simps]] show ?case
  proof (elim disjE conjE)
    assume "Suc i \<le> p" "p < Suc i + length fs" "sf_name (fs ! (p - Suc i)) = name"
    moreover from this have "p - i = Suc (p - Suc i)" by simp
    ultimately show ?thesis by auto
  qed (auto split: if_splits)
qed simp

lemma field_positions_notin: "name \<notin> sf_name ` set fs \<Longrightarrow> field_positions i fs m name = m name"
  by (induction i fs m rule: field_positions.induct) auto

lemma field_positions_nth:
  "distinct (map sf_name fs) \<Longrightarrow> j < length fs \<Longrightarrow> field_positions i fs m (sf_name (fs ! j)) = Some (i + j)"
proof (induction i fs m arbitrary: j rule: field_positions.induct)
  case (2 i f fs m)
  then show ?case using "2.IH" [of "j - 1"] by (cases j) (auto simp: field_positions_notin simp del: fun_upd_apply, simp)
qed simp

definition typed_batch :: "32 word \<Rightarrow> nat \<Rightarrow> sdk_reading list \<Rightarrow> msgpack_batch \<Rightarrow> bool" where
  "typed_batch sv n rs b \<longleftrightarrow> sb_sv b = sv \<and> sb_f b \<noteq> [] \<and> length (sb_td b) = length (sb_f b) \<and> length (sb_f b) \<le> n \<and>
     set (sb_f b) \<subseteq> sr_value ` set rs \<and> sb_ts b \<in> (\<lambda>r. sr_ts r div second) ` set rs"

text \<open>The invariant of the loop: the slots, and the payloads that have left.\<close>

definition slots_ok :: "nat \<Rightarrow> sdk_reading list \<Rightarrow> batch_state \<Rightarrow> bool" where
  "slots_ok n rs b \<longleftrightarrow> length (bs_vals b) = n \<and> length (bs_tds b) = n \<and> length (bs_has b) = n \<and>
     (\<forall>i<n. bs_has b ! i \<longrightarrow> bs_vals b ! i \<in> sr_value ` set rs) \<and> bs_base b \<in> sr_ts ` set rs \<and>
     (bs_used b \<longleftrightarrow> True \<in> set (bs_has b))"

definition out_ok :: "(msgpack_batch \<Rightarrow> 8 word list option) \<Rightarrow> 32 word \<Rightarrow> nat \<Rightarrow> sdk_reading list \<Rightarrow> batch_state \<Rightarrow> bool" where
  "out_ok marshal sv n rs b \<longleftrightarrow> (\<forall>p\<in>set (bs_result b). \<exists>x. marshal x = Some p \<and> typed_batch sv n rs x)"

definition open_batches :: "batch_state \<Rightarrow> nat" where
  "open_batches b = length (bs_result b) + (if bs_used b then 1 else 0)"

lemma fresh_slots_ok: "t \<in> sr_ts ` set rs \<Longrightarrow> slots_ok n rs (fresh_slots n t res)"
  by (auto simp: slots_ok_def fresh_slots_def)

lemma kept_slots_empty: "kept_slots b = [] \<longleftrightarrow> True \<notin> set (bs_has b)"
  by (auto simp: kept_slots_def filter_empty_conv in_set_conv_nth)

lemma batch_of_typed:
  assumes "slots_ok n rs b" "bs_used b"
  shows "typed_batch sv n rs (batch_of sv b)"
proof -
  have "length (kept_slots b) \<le> n" using assms(1) length_filter_le [of _ "[0..<n]"] by (simp add: kept_slots_def slots_ok_def)
  moreover have "bs_vals b ! i \<in> sr_value ` set rs" if "i \<in> set (kept_slots b)" for i
    using that assms(1) by (auto simp: kept_slots_def slots_ok_def)
  ultimately show ?thesis using assms kept_slots_empty [of b] by (auto simp: typed_batch_def batch_of_def slots_ok_def)
qed

lemma put_reading_ok:
  assumes "slots_ok n rs b" "fieldPos (sr_field r) = Some p" "p < n" "r \<in> set rs"
  shows "slots_ok n rs (put_reading fieldPos r d b)" "bs_result (put_reading fieldPos r d b) = bs_result b"
    "bs_used (put_reading fieldPos r d b)"
proof -
  have "True \<in> set ((bs_has b)[p := True])" using assms by (auto simp: slots_ok_def set_update_memI)
  then show "slots_ok n rs (put_reading fieldPos r d b)"
    using assms by (auto simp: slots_ok_def put_reading_def nth_list_update)
qed (auto simp: put_reading_def Let_def)

lemma flush_ok:
  assumes "flushBatch marshal sv b = Ok b'" "slots_ok n rs b" "bs_used b" "out_ok marshal sv n rs b"
  shows "out_ok marshal sv n rs b'" "length (bs_result b') = Suc (length (bs_result b))"
proof -
  have "typed_batch sv n rs (batch_of sv b)" using batch_of_typed assms(2,3) by blast
  moreover from this have "sb_f (batch_of sv b) \<noteq> []" by (simp add: typed_batch_def)
  ultimately show "out_ok marshal sv n rs b'" "length (bs_result b') = Suc (length (bs_result b))"
    using assms(1,4) by (auto simp: flushBatch_def out_ok_def split: option.splits)
qed

lemma batch_step_ok:
  assumes "batch_step marshal sv n fieldPos r b = Ok b'" "slots_ok n rs b" "out_ok marshal sv n rs b"
    and "fieldPos (sr_field r) = Some p" "p < n" "r \<in> set rs"
  shows "slots_ok n rs b' \<and> out_ok marshal sv n rs b' \<and> bs_used b' \<and> open_batches b' \<le> Suc (open_batches b)"
proof (cases "delta_ms (sr_ts r) (bs_base b) > maxTDMillis")
  case True
  then obtain b1 where b1: "(if bs_used b then flushBatch marshal sv b else Ok b) = Ok b1"
    "b' = put_reading fieldPos r 0 (resetBatch n (sr_ts r) b1)"
    using assms(1) by (auto simp: batch_step_def Let_def bind_o_eq_Ok)
  have "out_ok marshal sv n rs b1 \<and> length (bs_result b1) \<le> open_batches b"
    using b1(1) flush_ok [OF _ assms(2) _ assms(3), of b1] assms(3) by (auto simp: open_batches_def split: if_splits)
  moreover have "slots_ok n rs (resetBatch n (sr_ts r) b1)" using assms(6) by (simp add: resetBatch_def fresh_slots_ok)
  ultimately show ?thesis using put_reading_ok [of n rs "resetBatch n (sr_ts r) b1" fieldPos r p 0] assms(4-6)
    by (simp add: b1(2) out_ok_def open_batches_def resetBatch_def fresh_slots_def)
next
  case False
  then have "b' = put_reading fieldPos r (delta_ms (sr_ts r) (bs_base b)) b" using assms(1) by (simp add: batch_step_def Let_def)
  then show ?thesis using put_reading_ok [of n rs b fieldPos r p "delta_ms (sr_ts r) (bs_base b)"] assms(2-6)
    by (simp add: out_ok_def open_batches_def)
qed

lemma batch_loop_ok:
  assumes "batch_loop marshal sv n fieldPos qs b = Ok b'" "slots_ok n rs b" "out_ok marshal sv n rs b"
    and "\<forall>r\<in>set qs. \<exists>p<n. fieldPos (sr_field r) = Some p" "set qs \<subseteq> set rs"
  shows "slots_ok n rs b' \<and> out_ok marshal sv n rs b' \<and> (qs \<noteq> [] \<longrightarrow> bs_used b') \<and> open_batches b' \<le> open_batches b + length qs"
  using assms
proof (induction qs arbitrary: b)
  case (Cons r qs)
  then obtain b1 where b1: "batch_step marshal sv n fieldPos r b = Ok b1" "batch_loop marshal sv n fieldPos qs b1 = Ok b'"
    by (auto simp: bind_o_eq_Ok)
  from Cons.prems obtain p where "fieldPos (sr_field r) = Some p" "p < n" "r \<in> set rs" by auto
  from batch_step_ok [OF b1(1) Cons.prems(2,3) this]
  have 1: "slots_ok n rs b1 \<and> out_ok marshal sv n rs b1 \<and> bs_used b1 \<and> open_batches b1 \<le> Suc (open_batches b)" .
  with Cons.IH [OF b1(2)] Cons.prems(4,5) b1(2) show ?case by (cases qs) auto
qed simp

lemma buildBatches_Ok:
  assumes "buildBatches marshal rs schema sv = Ok ps"
  defines "n \<equiv> length (sch_ordered schema)" and "pos \<equiv> field_positions 0 (sch_ordered schema) Map.empty"
  shows "rs \<noteq> [] \<and> (\<forall>r\<in>set rs. \<exists>p<n. pos (sr_field r) = Some p) \<and>
    (\<exists>b b'. batch_loop marshal sv n pos rs (fresh_slots n (sr_ts (hd rs)) []) = Ok b \<and>
       (if bs_used b then flushBatch marshal sv b else Ok b) = Ok b' \<and> ps = bs_result b')"
proof -
  have 1: "rs \<noteq> [] \<and> (\<forall>r\<in>set rs. pos (sr_field r) \<noteq> None) \<and>
    (\<exists>b b'. batch_loop marshal sv n pos rs (fresh_slots n (sr_ts (hd rs)) []) = Ok b \<and>
       (if bs_used b then flushBatch marshal sv b else Ok b) = Ok b' \<and> ps = bs_result b')"
    using assms(1) unfolding buildBatches_def Let_def n_def [symmetric] pos_def [symmetric]
    by (cases rs) (auto simp: find_None_iff bind_o_eq_Ok simp del: batch_loop.simps split: if_splits option.splits)
  moreover have "p < n" if "pos name = Some p" for name p
    using field_positions_Some [of 0 "sch_ordered schema" Map.empty name p] that by (simp add: n_def pos_def)
  ultimately show ?thesis by blast
qed

lemma buildBatches_out:
  assumes "buildBatches marshal rs schema sv = Ok ps"
  shows "(\<forall>p\<in>set ps. \<exists>x. marshal x = Some p \<and> typed_batch sv (length (sch_ordered schema)) rs x) \<and>
    1 \<le> length ps \<and> length ps \<le> length rs"
proof -
  let ?n = "length (sch_ordered schema)"
  from buildBatches_Ok [OF assms] obtain b b' where rs: "rs \<noteq> []"
    and known: "\<forall>r\<in>set rs. \<exists>p<?n. field_positions 0 (sch_ordered schema) Map.empty (sr_field r) = Some p"
    and loop: "batch_loop marshal sv ?n (field_positions 0 (sch_ordered schema) Map.empty) rs (fresh_slots ?n (sr_ts (hd rs)) []) = Ok b"
    and last: "(if bs_used b then flushBatch marshal sv b else Ok b) = Ok b'" "ps = bs_result b'" by blast
  let ?b0 = "fresh_slots ?n (sr_ts (hd rs)) []"
  have 0: "slots_ok ?n rs ?b0" "out_ok marshal sv ?n rs ?b0" "open_batches ?b0 = 0" using rs
    by (simp_all add: fresh_slots_ok) (simp_all add: out_ok_def open_batches_def fresh_slots_def)
  from batch_loop_ok [OF loop 0(1,2) known] rs 0(3)
  have 1: "slots_ok ?n rs b" "out_ok marshal sv ?n rs b" "bs_used b" "open_batches b \<le> length rs" by auto
  with flush_ok [OF _ 1(1,3,2), of b'] last show ?thesis by (simp add: out_ok_def open_batches_def)
qed

text \<open>C26. Every payload of the library has the shape its reader expects: it encodes a batch with the schema version of the
  client, at least one value and at most one per field of the schema, one offset for each value, values that are among the
  readings, and a base time that is the second of a reading. There is at least one payload, and no more than readings.\<close>

theorem sdk_batches_typed:
  assumes "buildBatches marshal rs schema sv = Ok ps"
  shows "1 \<le> length ps \<and> length ps \<le> length rs \<and> (\<forall>p\<in>set ps. \<exists>b. marshal b = Some p \<and> sb_sv b = sv \<and>
    1 \<le> length (sb_f b) \<and> length (sb_f b) \<le> length (sch_ordered schema) \<and> length (sb_td b) = length (sb_f b) \<and>
    set (sb_f b) \<subseteq> sr_value ` set rs \<and> sb_ts b \<in> (\<lambda>r. sr_ts r div second) ` set rs)"
  using buildBatches_out [OF assms] by (fastforce simp: typed_batch_def Suc_le_eq)

section \<open>One batch: which value reaches which field\<close>

definition place :: "(string \<rightharpoonup> nat) \<Rightarrow> instant \<Rightarrow> sdk_reading \<Rightarrow> batch_state \<Rightarrow> batch_state" where
  "place fieldPos base r b = put_reading fieldPos r (delta_ms (sr_ts r) base) b"

lemma place_base [simp]: "bs_base (place fieldPos base r b) = bs_base b" "bs_result (place fieldPos base r b) = bs_result b"
  "bs_used (place fieldPos base r b)" "length (bs_has (place fieldPos base r b)) = length (bs_has b)"
  "length (bs_vals (place fieldPos base r b)) = length (bs_vals b)" "length (bs_tds (place fieldPos base r b)) = length (bs_tds b)"
  by (simp_all add: place_def put_reading_def Let_def)

lemma batch_loop_one:
  assumes "\<forall>r\<in>set qs. delta_ms (sr_ts r) (bs_base b) \<le> maxTDMillis"
  shows "batch_loop marshal sv n fieldPos qs b = Ok (fold (place fieldPos (bs_base b)) qs b)"
  using assms
proof (induction qs arbitrary: b)
  case (Cons r qs)
  have "batch_step marshal sv n fieldPos r b = Ok (place fieldPos (bs_base b) r b)"
    using Cons.prems by (simp add: batch_step_def Let_def place_def)
  with Cons.IH [of "place fieldPos (bs_base b) r b"] Cons.prems show ?case by simp
qed simp

lemma place_other:
  assumes "\<And>r. r \<in> set qs \<Longrightarrow> fieldPos (sr_field r) = Some (pos r)" "\<And>r. r \<in> set qs \<Longrightarrow> pos r \<noteq> i"
  shows "bs_has (fold (place fieldPos base) qs b) ! i = bs_has b ! i" "bs_vals (fold (place fieldPos base) qs b) ! i = bs_vals b ! i"
    "bs_tds (fold (place fieldPos base) qs b) ! i = bs_tds b ! i"
  using assms by (induction qs arbitrary: b) (simp_all add: place_def put_reading_def Let_def)

lemma fold_place_lengths [simp]: "length (bs_has (fold (place fieldPos base) qs b)) = length (bs_has b)"
  "bs_base (fold (place fieldPos base) qs b) = bs_base b" "bs_result (fold (place fieldPos base) qs b) = bs_result b"
  "bs_used (fold (place fieldPos base) qs b) \<longleftrightarrow> bs_used b \<or> qs \<noteq> []"
  by (induction qs arbitrary: b) auto

lemma place_own:
  assumes "\<And>r. r \<in> set qs \<Longrightarrow> fieldPos (sr_field r) = Some (pos r) \<and> pos r < length (bs_has b)"
    and "length (bs_vals b) = length (bs_has b)" "length (bs_tds b) = length (bs_has b)"
    and "distinct (map pos qs)" "r \<in> set qs"
  shows "bs_has (fold (place fieldPos base) qs b) ! pos r" "bs_vals (fold (place fieldPos base) qs b) ! pos r = sr_value r"
    "bs_tds (fold (place fieldPos base) qs b) ! pos r = word_of_int (delta_ms (sr_ts r) base)"
proof -
  have "bs_has (fold (place fieldPos base) qs b) ! pos r \<and> bs_vals (fold (place fieldPos base) qs b) ! pos r = sr_value r \<and>
    bs_tds (fold (place fieldPos base) qs b) ! pos r = word_of_int (delta_ms (sr_ts r) base)"
    using assms
  proof (induction qs arbitrary: b)
    case (Cons q qs)
    show ?case
    proof (cases "r \<in> set qs")
      case True
      with Cons.IH [of "place fieldPos base q b"] Cons.prems show ?thesis by simp
    next
      case False
      with Cons.prems have r: "r = q" "\<And>x. x \<in> set qs \<Longrightarrow> pos x \<noteq> pos r" by (auto simp: rev_image_eqI)
      have "bs_has (place fieldPos base q b) ! pos q \<and> bs_vals (place fieldPos base q b) ! pos q = sr_value q \<and>
          bs_tds (place fieldPos base q b) ! pos q = word_of_int (delta_ms (sr_ts q) base)"
        using Cons.prems(1) [of q] Cons.prems(2,3) by (simp add: place_def put_reading_def Let_def)
      with place_other [of qs fieldPos pos "pos q" base "place fieldPos base q b"] r Cons.prems(1) show ?thesis by simp
    qed
  qed simp
  then show "bs_has (fold (place fieldPos base) qs b) ! pos r" "bs_vals (fold (place fieldPos base) qs b) ! pos r = sr_value r"
    "bs_tds (fold (place fieldPos base) qs b) ! pos r = word_of_int (delta_ms (sr_ts r) base)" by blast+
qed

text \<open>Which slots are kept, for readings of distinct fields that are near in time.\<close>

lemma kept_positions:
  assumes "\<And>r. r \<in> set qs \<Longrightarrow> fieldPos (sr_field r) = Some (pos r) \<and> pos r < n" "distinct (map pos qs)"
  shows "kept_slots (fold (place fieldPos base) qs (fresh_slots n t [])) = filter (\<lambda>i. i \<in> pos ` set qs) [0..<n]"
proof -
  let ?b = "fold (place fieldPos base) qs (fresh_slots n t [])"
  have "bs_has ?b ! i \<longleftrightarrow> i \<in> pos ` set qs" if "i < n" for i
  proof (cases "i \<in> pos ` set qs")
    case True
    then show ?thesis using place_own(1) [of qs fieldPos pos "fresh_slots n t []"] assms by (auto simp: fresh_slots_def)
  next
    case False
    then show ?thesis using place_other(1) [of qs fieldPos pos i base "fresh_slots n t []"] assms(1) that
      by (auto simp: fresh_slots_def)
  qed
  then show ?thesis by (auto simp: kept_slots_def fresh_slots_def intro!: filter_cong)
qed

lemma msgpack_is_ojson: "msgpack_Parse = ojson_Parse"
  by (intro ext) (simp add: msgpack_Parse_def ojson_Parse_def)

lemma upt_below: "k \<le> n \<Longrightarrow> filter (\<lambda>i. i < k) [0..<n] = [0..<k]"
  using upt_add_eq_append [of 0 k "n - k"] by (simp add: filter_empty_conv)

text \<open>The two ends agree on the schema: the version, the names in order, and indexes that count from one.\<close>

definition same_schema :: "channel_schema \<Rightarrow> 32 word \<Rightarrow> device_schema \<Rightarrow> bool" where
  "same_schema schema sv ds \<longleftrightarrow> ds_version ds = sv \<and> length (sch_ordered schema) \<le> 8 \<and>
     map fe_name (ds_fields ds) = map sf_name (sch_ordered schema) \<and> distinct (map sf_name (sch_ordered schema)) \<and>
     map fe_index (ds_fields ds) = map (\<lambda>i. uint8 (i + 1)) [0..<length (sch_ordered schema)]"

text \<open>What the msgpack decoder of the server makes of an encoded batch: struct fields are found by their key, a key that the
  struct lacks is skipped. The library writes the base time under \<open>ts\<close>, the server reads \<open>t\<close>.\<close>

definition wire_law :: "(msgpack_batch \<Rightarrow> 8 word list option) \<Rightarrow> (8 word list \<Rightarrow> compact_payload option) \<Rightarrow> bool" where
  "wire_law marshal msgp \<longleftrightarrow> (\<forall>x p. marshal x = Some p \<longrightarrow>
     msgp p = Some \<lparr> cp_f = sb_f x, cp_t = None, cp_td = sb_td x, cp_sv = sb_sv x \<rparr>)"

lemma delta_ms_near: "t < base + 65536 * millisecond \<Longrightarrow> delta_ms t base \<le> maxTDMillis"
  by (auto simp: delta_ms_def in_millis_def time_sub_def maxTDMillis_def millisecond_def max_def min_def)

lemma delta_ms_range: "0 \<le> delta_ms t base"
  by (simp add: delta_ms_def)

lemma index_distinct: "n \<le> 8 \<Longrightarrow> distinct (map (\<lambda>i. uint8 (i + 1)) [0..<n])"
  by (auto simp: distinct_map inj_on_def uint8_eq)

text \<open>The server's reading of any batch of the library: value i goes to field i of the schema.\<close>

lemma batch_decoded:
  assumes law: "wire_law marshal msgp" and p: "marshal x = Some p" and same: "same_schema schema sv ds"
    and x: "typed_batch sv (length (sch_ordered schema)) rs x"
  shows "\<exists>inp. deserializeCompact now p ds (msgpack_Parse msgp) ch = Ok [inp] \<and>
    fst ` set (in_fields inp) = set (take (length (sb_f x)) (map sf_name (sch_ordered schema))) \<and>
    (\<forall>i<length (sb_f x). map_of (in_fields inp) (sf_name (sch_ordered schema ! i)) = Some (sb_f x ! i) \<and>
       in_field_ts inp (sf_name (sch_ordered schema ! i)) = Some (Some (now + int (unat (sb_td x ! i)) * millisecond)))"
proof -
  let ?fs = "sch_ordered schema" and ?k = "length (sb_f x)"
  let ?c = "\<lparr> cp_f = sb_f x, cp_t = None, cp_td = sb_td x, cp_sv = sb_sv x \<rparr>"
  have k: "?k \<le> length ?fs" "0 < ?k" "length (sb_td x) = ?k" "sb_sv x = sv" using x by (auto simp: typed_batch_def)
  have len: "length (ds_fields ds) = length ?fs" using same by (auto simp: same_schema_def dest: arg_cong [of _ _ length])
  have nth: "fe_name (ds_fields ds ! i) = sf_name (?fs ! i)" "fe_index (ds_fields ds ! i) = uint8 (i + 1)" if "i < length ?fs" for i
  proof -
    have "map fe_name (ds_fields ds) ! i = map sf_name ?fs ! i" "map fe_index (ds_fields ds) ! i = map (\<lambda>i. uint8 (i + 1)) [0..<length ?fs] ! i"
      using same by (simp_all only: same_schema_def)
    then show "fe_name (ds_fields ds ! i) = sf_name (?fs ! i)" "fe_index (ds_fields ds ! i) = uint8 (i + 1)"
      using that len by simp_all
  qed
  have "\<exists>inp. deserializeCompact now p ds (ojson_Parse msgp) ch = Ok [inp] \<and> length (in_fields inp) = length (cp_f ?c) \<and>
    (\<forall>f\<in>set (ds_fields ds). \<forall>i<length (cp_f ?c). fe_index f = uint8 (i + 1) \<longrightarrow>
       map_of (in_fields inp) (fe_name f) = Some (cp_f ?c ! i) \<and> in_field_ts inp (fe_name f) = Some (Some
         ((case cp_t ?c of Some t \<Rightarrow> t * millisecond | None \<Rightarrow> now)
          + (if cp_td ?c = [] then 0 else int (unat (cp_td ?c ! i)) * millisecond))))"
  proof (rule compact_fields_aligned)
    show "msgp p = Some ?c" using law p by (simp add: wire_law_def)
    show "distinct (map fe_index (ds_fields ds))" "distinct (map fe_name (ds_fields ds))" "length (cp_f ?c) \<le> 8"
      using same index_distinct k(1) by (auto simp: same_schema_def)
    show "\<forall>i<length (cp_f ?c). \<exists>f\<in>set (ds_fields ds). fe_index f = uint8 (i + 1)"
      using nth(2) k(1) len by (metis (no_types, lifting) compact_payload.select_convs(1) nth_mem order_less_le_trans)
  qed (use k same in \<open>auto simp: same_schema_def\<close>)
  then obtain inp where inp: "deserializeCompact now p ds (msgpack_Parse msgp) ch = Ok [inp]" "length (in_fields inp) = ?k"
    and vals: "\<And>f i. f \<in> set (ds_fields ds) \<Longrightarrow> i < ?k \<Longrightarrow> fe_index f = uint8 (i + 1) \<Longrightarrow>
      map_of (in_fields inp) (fe_name f) = Some (sb_f x ! i) \<and> in_field_ts inp (fe_name f) = Some (Some (now + int (unat (sb_td x ! i)) * millisecond))"
    using k(2,3) unfolding msgpack_is_ojson by fastforce
  have at: "map_of (in_fields inp) (sf_name (?fs ! i)) = Some (sb_f x ! i) \<and>
      in_field_ts inp (sf_name (?fs ! i)) = Some (Some (now + int (unat (sb_td x ! i)) * millisecond))" if "i < ?k" for i
    using vals [of "ds_fields ds ! i" i] nth [of i] that k(1) len by auto
  have "set (take ?k (map sf_name ?fs)) \<subseteq> fst ` set (in_fields inp)"
    using at k(1) by (auto simp: in_set_conv_nth dest!: map_of_SomeD) (metis at fst_conv image_eqI map_of_SomeD)
  moreover have "card (set (take ?k (map sf_name ?fs))) = ?k"
    using same k(1) by (subst distinct_card) (auto simp: same_schema_def)
  moreover have "card (fst ` set (in_fields inp)) \<le> ?k"
    using inp(2) card_image_le [of "set (in_fields inp)" fst] card_length [of "in_fields inp"] by simp
  ultimately have "fst ` set (in_fields inp) = set (take ?k (map sf_name ?fs))" by (intro card_seteq [symmetric]) auto
  with inp(1) at show ?thesis by blast
qed


definition demo_channel_schema :: channel_schema where
  "demo_channel_schema = buildChannelSchema \<lparr> sd_fields =
     [\<lparr> sf_index = 1, sf_name = ''temp'', sf_type = ''float'' \<rparr>, \<lparr> sf_index = 2, sf_name = ''hum'', sf_type = ''float'' \<rparr>], sd_version = 3 \<rparr>"

definition demo_device_schema :: device_schema where
  "demo_device_schema = \<lparr> ds_device = ''dev1'', ds_channel = ''ch1'', ds_fields =
     [\<lparr> fe_index = 1, fe_name = ''temp'', fe_type = ''float'' \<rparr>, \<lparr> fe_index = 2, fe_name = ''hum'', fe_type = ''float'' \<rparr>], ds_version = 3 \<rparr>"

text \<open>A codec for three batches.\<close>

definition demo_batches :: "msgpack_batch list" where
  "demo_batches = [\<lparr> sb_sv = 3, sb_ts = 1000, sb_f = [Fin 28, Fin 60], sb_td = [0, 250] \<rparr>,
     \<lparr> sb_sv = 3, sb_ts = 1000, sb_f = [Fin 60], sb_td = [0] \<rparr>, \<lparr> sb_sv = 3, sb_ts = 5000, sb_f = [Fin 60], sb_td = [0] \<rparr>]"

definition demo_marshal :: "msgpack_batch \<Rightarrow> 8 word list option" where
  "demo_marshal x = map_of (zip demo_batches [[1], [2], [3]]) x"

definition demo_msgp :: "8 word list \<Rightarrow> compact_payload option" where
  "demo_msgp p = map_option (\<lambda>x. \<lparr> cp_f = sb_f x, cp_t = None, cp_td = sb_td x, cp_sv = sb_sv x \<rparr>)
     (map_of (zip [[1], [2], [3]] demo_batches) p)"

lemma demo_wire: "wire_law demo_marshal demo_msgp"
  by (auto simp: wire_law_def demo_marshal_def demo_msgp_def demo_batches_def split: if_splits)

lemma demo_same: "same_schema demo_channel_schema 3 demo_device_schema"
  by (simp add: same_schema_def demo_channel_schema_def demo_device_schema_def buildChannelSchema_def uint8_def upt_rec)

definition demo_at :: "string \<Rightarrow> real \<Rightarrow> int \<Rightarrow> sdk_reading" where
  "demo_at name v ms = \<lparr> sr_field = name, sr_value = Fin v, sr_ts = 1000 * second + ms * millisecond \<rparr>"

lemma demo_build:
  "buildBatches demo_marshal [demo_at ''hum'' 60 0] demo_channel_schema 3 = Ok [[2]]"
  "buildBatches demo_marshal [demo_at ''temp'' 28 0, demo_at ''hum'' 60 250] demo_channel_schema 3 = Ok [[1]]"
  by (simp_all add: demo_at_def demo_channel_schema_def buildChannelSchema_def buildBatches_def batch_step_def delta_ms_def
      in_millis_def time_sub_def put_reading_def fresh_slots_def flushBatch_def batch_of_def kept_slots_def demo_marshal_def
      demo_batches_def maxTDMillis_def second_def millisecond_def numeral_2_eq_2)

theorem sdk_batches_typed_witness:
  "let rs = [demo_at ''temp'' 28 0, demo_at ''hum'' 60 250] in
   \<exists>b. demo_marshal b = Some [1] \<and> sb_sv b = 3 \<and> length (sb_td b) = length (sb_f b)"
  using sdk_batches_typed [OF demo_build(2)] by (auto simp: Let_def)


section \<open>The time of a reading is not sent\<close>

definition later :: "duration \<Rightarrow> sdk_reading \<Rightarrow> sdk_reading" where
  "later d r = r\<lparr> sr_ts := sr_ts r + d \<rparr>"

definition same_payload :: "(msgpack_batch \<Rightarrow> 8 word list option) \<Rightarrow> 8 word list \<Rightarrow> 8 word list \<Rightarrow> bool" where
  "same_payload marshal p q \<longleftrightarrow> (\<exists>x t. marshal x = Some p \<and> marshal (x\<lparr> sb_ts := t \<rparr>) = Some q)"

definition moved :: "(msgpack_batch \<Rightarrow> 8 word list option) \<Rightarrow> duration \<Rightarrow> batch_state \<Rightarrow> batch_state \<Rightarrow> bool" where
  "moved marshal d b c \<longleftrightarrow> bs_base c = bs_base b + d \<and> bs_vals c = bs_vals b \<and> bs_tds c = bs_tds b \<and> bs_has c = bs_has b \<and>
     bs_used c = bs_used b \<and> list_all2 (same_payload marshal) (bs_result b) (bs_result c)"

lemma delta_ms_later [simp]: "delta_ms (t + d) (u + d) = delta_ms t u"
  by (simp add: delta_ms_def time_sub_def)

lemma moved_batch: "moved marshal d b c \<Longrightarrow> batch_of sv c = (batch_of sv b)\<lparr> sb_ts := (bs_base b + d) div second \<rparr>"
  by (simp add: moved_def batch_of_def kept_slots_def)

lemma moved_flush:
  assumes "moved marshal d b c" "flushBatch marshal sv b = Ok b'" "flushBatch marshal sv c = Ok c'"
  shows "moved marshal d b' c'"
proof (cases "sb_f (batch_of sv b) = []")
  case False
  then obtain p q where p: "marshal (batch_of sv b) = Some p" "b' = b\<lparr> bs_result := bs_result b @ [p] \<rparr>"
    and q: "marshal (batch_of sv c) = Some q" "c' = c\<lparr> bs_result := bs_result c @ [q] \<rparr>"
    using assms moved_batch [OF assms(1), of sv] by (auto simp: flushBatch_def split: option.splits if_splits)
  moreover have "same_payload marshal p q" using p(1) q(1) moved_batch [OF assms(1), of sv] by (auto simp: same_payload_def)
  ultimately show ?thesis using assms(1) by (auto simp: moved_def intro: list_all2_appendI)
qed (use assms moved_batch [OF assms(1), of sv] in \<open>auto simp: flushBatch_def\<close>)

lemma moved_put: "moved marshal d b c \<Longrightarrow> moved marshal d (put_reading fieldPos r k b) (put_reading fieldPos (later d r) k c)"
  by (simp add: moved_def put_reading_def later_def Let_def)

lemma moved_step:
  assumes "moved marshal d b c" "batch_step marshal sv n fieldPos r b = Ok b'"
    "batch_step marshal sv n fieldPos (later d r) c = Ok c'"
  shows "moved marshal d b' c'"
proof (cases "delta_ms (sr_ts r) (bs_base b) > maxTDMillis")
  case True
  then obtain b1 c1 where b1: "(if bs_used b then flushBatch marshal sv b else Ok b) = Ok b1"
    "b' = put_reading fieldPos r 0 (resetBatch n (sr_ts r) b1)"
    and c1: "(if bs_used c then flushBatch marshal sv c else Ok c) = Ok c1"
    "c' = put_reading fieldPos (later d r) 0 (resetBatch n (sr_ts r + d) c1)"
    using assms by (auto simp: batch_step_def Let_def bind_o_eq_Ok moved_def later_def)
  have "moved marshal d b1 c1" using assms(1) b1(1) c1(1) moved_flush [OF assms(1), of sv b1 c1] by (auto simp: moved_def split: if_splits)
  then have "moved marshal d (resetBatch n (sr_ts r) b1) (resetBatch n (sr_ts r + d) c1)"
    by (simp add: moved_def resetBatch_def fresh_slots_def)
  then show ?thesis unfolding b1(2) c1(2) by (rule moved_put)
next
  case False
  with assms show ?thesis using moved_put [OF assms(1), of fieldPos r]
    by (auto simp: batch_step_def Let_def moved_def later_def)
qed

lemma moved_loop:
  "moved marshal d b c \<Longrightarrow> batch_loop marshal sv n fieldPos rs b = Ok b' \<Longrightarrow>
   batch_loop marshal sv n fieldPos (map (later d) rs) c = Ok c' \<Longrightarrow> moved marshal d b' c'"
  by (induction rs arbitrary: b c) (auto simp: bind_o_eq_Ok dest: moved_step)



section \<open>Sending\<close>

text \<open>Every request counts: \<open>sent\<close> is a count on the world that a request raises by one and the file system leaves alone.\<close>

definition counts_requests :: "('w \<Rightarrow> nat) \<Rightarrow> 'w sdk_env \<Rightarrow> bool" where
  "counts_requests sent env \<longleftrightarrow> (\<forall>q w. sent (snd (sx_do env q w)) = Suc (sent w)) \<and>
     (\<forall>p w. sent (snd (sx_mkdir env p w)) = sent w) \<and> (\<forall>p d w. sent (snd (sx_write_file env p d w)) = sent w)"

lemma saveConfig_sent: "counts_requests sent env \<Longrightarrow> sent (snd (saveConfig env path cfg w)) = sent w"
  by (auto simp: saveConfig_def counts_requests_def Let_def split: outcome.split option.split prod.split)
     (metis snd_conv)+

lemma fetchSchema_sent:
  assumes "counts_requests sent env"
  shows "sent (snd (fetchSchema env base ch k w)) \<le> Suc (sent w)"
proof -
  have "sent w' = Suc (sent w)" if "sx_do env q w = (r, w')" for q r w'
    using assms that unfolding counts_requests_def by (metis snd_conv)
  then show ?thesis by (auto simp: fetchSchema_def Let_def split: option.split prod.split)
qed

lemma postPayload_sent:
  assumes "counts_requests sent env"
  shows "sent (snd (snd (postPayload env p (c, w)))) \<le> Suc (sent w) \<and>
    cl_pending (fst (snd (postPayload env p (c, w)))) = cl_pending c \<and> cl_cfg (fst (snd (postPayload env p (c, w)))) = cl_cfg c"
proof -
  have "sent w' = Suc (sent w)" if "sx_do env q w = (r, w')" for q r w'
    using assms that unfolding counts_requests_def by (metis snd_conv)
  moreover have "sent w'' = sent w'" if "saveConfig env f l w' = (r, w'')" for f l r w' w''
    using saveConfig_sent [OF assms, of f l w'] that by simp
  ultimately show ?thesis
    by (auto simp: postPayload_def Let_def split: outcome.split option.split prod.split)
qed

lemma post_all_sent:
  assumes "counts_requests sent env"
  shows "sent (snd (snd (post_all env ps (c, w)))) \<le> sent w + length ps \<and>
    cl_pending (fst (snd (post_all env ps (c, w)))) = cl_pending c"
proof (induction ps arbitrary: c w)
  case (Cons p ps)
  obtain r c1 w1 where r: "postPayload env p (c, w) = (r, c1, w1)" by (cases "postPayload env p (c, w)")
  have "sent w1 \<le> Suc (sent w)" "cl_pending c1 = cl_pending c" using postPayload_sent [OF assms, of p c w] r by simp_all
  with Cons.IH [of c1 w1] show ?case by (cases r) (auto simp: r)
qed simp

lemma sendReadings_sent:
  assumes "counts_requests sent env"
  shows "sent (snd (snd (sendReadings env rs (c, w)))) \<le> sent w + length rs \<and>
    cl_pending (fst (snd (sendReadings env rs (c, w)))) = cl_pending c"
proof (cases "buildBatches (sx_marshal env) rs (cl_schema c) (lc_version (cl_local c))")
  case (Ok ps)
  then have "length ps \<le> length rs" using buildBatches_out by blast
  then show ?thesis using post_all_sent [OF assms, of ps c w] by (simp add: sendReadings_def Ok)
qed (simp_all add: sendReadings_def)

text \<open>C27. A call of Send ends after a bounded number of requests, whatever the server answers: at most one for each pending
  reading, one for the schema after a version conflict, and one more for each reading in the only retry.
  A retry that meets a second conflict is not retried.\<close>

theorem sdk_send_bounded:
  assumes "counts_requests sent env"
  shows "sent (snd (snd (Send env (c, w)))) \<le> sent w + 2 * length (cl_pending c) + 1"
proof -
  let ?c1 = "c\<lparr> cl_pending := [] \<rparr>" and ?rs = "cl_pending c"
  obtain r c2 w2 where r: "sendReadings env ?rs (?c1, w) = (r, c2, w2)" by (cases "sendReadings env ?rs (?c1, w)")
  have 1: "sent w2 \<le> sent w + length ?rs" using sendReadings_sent [OF assms, of ?rs ?c1 w] r by simp
  show ?thesis
  proof (cases "?rs = [] \<or> \<not> isSchemaMismatch r")
    case True
    then show ?thesis using 1 by (auto simp: Send_def Let_def r)
  next
    case False
    obtain a w3 where f: "fetchSchema env (sc_base (cl_cfg c2)) (sc_channel (cl_cfg c2)) (sc_key (cl_cfg c2)) w2 = (a, w3)"
      by (cases "fetchSchema env (sc_base (cl_cfg c2)) (sc_channel (cl_cfg c2)) (sc_key (cl_cfg c2)) w2")
    then have 2: "sent w3 \<le> Suc (sent w2)" by (metis fetchSchema_sent [OF assms] snd_conv)
    have 3: "sent (snd (snd (sendReadings env ?rs (c', w4)))) \<le> Suc (sent w2) + length ?rs"
      if "saveConfig env p l w3 = (q, w4)" for c' p l q w4
      using sendReadings_sent [OF assms, of ?rs c' w4] saveConfig_sent [OF assms, of p l w3] that 2 by simp
    show ?thesis
    proof (cases a)
      case (Ok schema)
      obtain q w4 where s: "saveConfig env (sc_file (cl_cfg c2)) ((cl_local c2)\<lparr> lc_version := sch_version schema \<rparr>) w3 = (q, w4)"
        by (cases "saveConfig env (sc_file (cl_cfg c2)) ((cl_local c2)\<lparr> lc_version := sch_version schema \<rparr>) w3")
      show ?thesis using False 1
        3 [OF s, where c' = "c2\<lparr> cl_schema := schema, cl_local := (cl_local c2)\<lparr> lc_version := sch_version schema \<rparr> \<rparr>"]
        by (simp add: Send_def Let_def r f Ok s)
    qed (use False 1 2 in \<open>simp_all add: Send_def Let_def r f\<close>)
  qed
qed

text \<open>A server that answers every batch with a conflict: the bound is reached.\<close>

definition demo_sdk_env :: "(sdk_request \<Rightarrow> 'w \<Rightarrow> sdk_reply option \<times> 'w) \<Rightarrow> 'w sdk_env" where
  "demo_sdk_env run = \<lparr> sx_marshal = demo_marshal, sx_lz4 = (\<lambda>p. Some []), sx_url_ok = (\<lambda>u. True), sx_do = run,
     sx_envelope = (\<lambda>b. Some (True, \<lparr> sd_fields = sch_ordered demo_channel_schema, sd_version = 3 \<rparr>)),
     sx_home = None, sx_join = (@), sx_dir = (\<lambda>p. p), sx_config_decode = (\<lambda>b. None), sx_config_encode = (\<lambda>c. Some []),
     sx_read_file = (\<lambda>p w. NotExist), sx_mkdir = (\<lambda>p w. (True, w)), sx_write_file = (\<lambda>p d w. (True, w)) \<rparr>"

definition demo_client :: "sdk_reading list \<Rightarrow> sdk_client" where
  "demo_client rs = \<lparr> cl_cfg = \<lparr> sc_base = ''http://h'', sc_key = ''key'', sc_channel = ''ch1'', sc_batch = 10, sc_file = ''f'' \<rparr>,
     cl_schema = demo_channel_schema, cl_local = \<lparr> lc_channel = ''ch1'', lc_version = 3, lc_format = ''msgpack'' \<rparr>, cl_pending = rs \<rparr>"

definition demo_conflict :: "sdk_request \<Rightarrow> nat \<Rightarrow> sdk_reply option \<times> nat" where
  "demo_conflict q n = (Some \<lparr> hr_status = if hq_method q = ''GET'' then 200 else 409, hr_recommended = '''', hr_body = [] \<rparr>, Suc n)"

lemma demo_refetched: "buildChannelSchema \<lparr> sd_fields = sch_ordered demo_channel_schema, sd_version = 3 \<rparr> = demo_channel_schema"
    "sch_version demo_channel_schema = 3"
  by (simp_all add: demo_channel_schema_def buildChannelSchema_def)

theorem sdk_send_bounded_witness:
  "snd (snd (Send (demo_sdk_env demo_conflict) (demo_client [demo_at ''hum'' 60 0], 0))) \<le> 2 * 1 + 1 \<and>
   fst (Send (demo_sdk_env demo_conflict) (demo_client [demo_at ''hum'' 60 0], 0)) = Fail SchemaMismatch409"
proof -
  have "counts_requests id (demo_sdk_env demo_conflict)"
    by (simp add: counts_requests_def demo_sdk_env_def demo_conflict_def)
  from sdk_send_bounded [OF this, of "demo_client [demo_at ''hum'' 60 0]" 0] have
    "snd (snd (Send (demo_sdk_env demo_conflict) (demo_client [demo_at ''hum'' 60 0], 0))) \<le> 2 * 1 + 1"
    by (simp add: demo_client_def)
  moreover have "fst (Send (demo_sdk_env demo_conflict) (demo_client [demo_at ''hum'' 60 0], 0)) = Fail SchemaMismatch409"
    by (simp add: demo_client_def Send_def Let_def sendReadings_def demo_sdk_env_def demo_build postPayload_def maybeCompress_def
        compressionThreshold_def demo_conflict_def data_request_def post_status_def isSchemaMismatch_def fetchSchema_def
        saveConfig_def expandPath_def demo_refetched)
  ultimately show ?thesis by blast
qed

lemma postPayload_pending: "cl_pending (fst (snd (postPayload env p (c, w)))) = cl_pending c"
  by (auto simp: postPayload_def Let_def split: outcome.split option.split prod.split)

lemma post_all_pending: "cl_pending (fst (snd (post_all env ps (c, w)))) = cl_pending c"
proof (induction ps arbitrary: c w)
  case (Cons p ps)
  obtain r c1 w1 where r: "postPayload env p (c, w) = (r, c1, w1)" by (cases "postPayload env p (c, w)")
  then have "cl_pending c1 = cl_pending c" using postPayload_pending [of env p c w] by simp
  with Cons.IH [of c1 w1] show ?case by (cases r) (auto simp: r)
qed simp

lemma sendReadings_pending: "cl_pending (fst (snd (sendReadings env rs (c, w)))) = cl_pending c"
  using post_all_pending by (auto simp: sendReadings_def split: outcome.split)

lemma Send_pending: "cl_pending (fst (snd (Send env (c, w)))) = []"
proof -
  let ?c1 = "c\<lparr> cl_pending := [] \<rparr>"
  obtain r c2 w2 where r: "sendReadings env (cl_pending c) (?c1, w) = (r, c2, w2)" by (cases "sendReadings env (cl_pending c) (?c1, w)")
  then have "cl_pending c2 = []" using sendReadings_pending [of env "cl_pending c" ?c1 w] by simp
  then show ?thesis by (auto simp: Send_def Let_def r sendReadings_pending split: outcome.split prod.split)
qed

text \<open>Send forgets what it could not send. Whatever a call of Send answers, the readings leave the
  client: calling it again, as after a failure of the network, sends nothing and reports success.\<close>

theorem sdk_failed_send_drops: "Send env (snd (Send env (c, w))) = (Ok (), snd (Send env (c, w)))"
proof -
  obtain r c' w' where s: "Send env (c, w) = (r, c', w')" by (cases "Send env (c, w)")
  then have "cl_pending c' = []" using Send_pending [of env c w] by simp
  then have "Send env (c', w') = (Ok (), c', w')" by (simp add: Send_def)
  then show ?thesis by (simp add: s)
qed

section \<open>The library and the ingestion service\<close>

text \<open>The service behind a base URL: the request as its router sees it, its answer as the library sees it. The handlers of data
  recommend a format with every 201; \<open>render\<close> is the body of an answer. The header Content-Encoding has no reader.\<close>

definition call_of :: "string \<Rightarrow> sdk_request \<Rightarrow> ingest_call" where
  "call_of base q = (let hd = (\<lambda>n. case map_of (hq_headers q) n of Some v \<Rightarrow> v | None \<Rightarrow> '''') in
     \<lparr> ic_method = hq_method q, ic_path = path_segments (drop (Suc (length base)) (hq_url q)),
       ic_request = \<lparr> rq_header = hd, rq_query = Map.empty, rq_form = (\<lambda>n. ''''), rq_param = (\<lambda>n. ''''), rq_ip = '''', rq_ctx = Map.empty \<rparr>,
       ic_type = hd ''Content-Type'', ic_one = None, ic_bulk = None, ic_replay = None, ic_body = (\<lambda>n. Some (take n (hq_body q))) \<rparr>)"

definition ingest_http :: "(ingest_reply \<Rightarrow> 8 word list) \<Rightarrow> string \<Rightarrow> 's ingest_app \<Rightarrow> sdk_request \<Rightarrow> 's \<Rightarrow> sdk_reply option \<times> 's" where
  "ingest_http render base app q s = (case ingest_router app (call_of base q) s of (r, s') \<Rightarrow>
     (Some \<lparr> hr_status = reply_status r, hr_recommended = if reply_status r = 201 then ''msgpack'' else '''', hr_body = render r \<rparr>, s'))"

lemma get_not_found:
  "ingest_route_of ''GET'' (path_segments (''v1/channels/'' @ x)) = None"
proof -
  have "path_segments (''v1/channels/'' @ x) = ''v1'' # ''channels'' # path_segments x" by (simp add: path_segments_def)
  moreover obtain a l where "path_segments x = a # l" unfolding path_segments_def using split_on_not_Nil by (metis list.exhaust)
  ultimately show ?thesis by (simp add: ingest_route_of_def)
qed

text \<open>C39. The library cannot be set up against the ingestion service. New asks the base URL for the schema of the channel,
  and no route of the service answers a GET below a channel: whatever the state of the service, the
  configuration file and the key, New fails with status 404.\<close>

theorem sdk_New_not_found:
  assumes "sx_do env = ingest_http render (sc_base cfg) app" "sx_url_ok env (schema_url (sc_base cfg) (sc_channel cfg))"
    and "sc_base cfg \<noteq> ''''" "sc_key cfg \<noteq> ''''" "sc_channel cfg \<noteq> ''''"
  shows "New env cfg s = (Fail (SchemaStatus 404), s)"
proof -
  have "drop (Suc (length (sc_base cfg))) (schema_url (sc_base cfg) (sc_channel cfg)) = ''v1/channels/'' @ sc_channel cfg @ ''/schema''"
    by (simp add: schema_url_def)
  then have "fetchSchema env (sc_base cfg) (sc_channel cfg) (sc_key cfg) s = (Fail (SchemaStatus 404), s)"
    using assms(1,2) get_not_found [of "sc_channel cfg @ ''/schema''"]
    by (simp add: fetchSchema_def Let_def ingest_http_def ingest_router_def call_of_def reply_status_def)
  then show ?thesis using assms(3-5) by (simp add: New_def Let_def)
qed

theorem sdk_New_not_found_witness:
  "fst (New (demo_sdk_env (ingest_http (\<lambda>r. []) ''http://h'' (demo_app (spy_handler (Ok ()) False))))
     (cl_cfg (demo_client [])) []) = Fail (SchemaStatus 404)"
proof -
  let ?env = "demo_sdk_env (ingest_http (\<lambda>r. []) (sc_base (cl_cfg (demo_client []))) (demo_app (spy_handler (Ok ()) False)))"
  have "sx_do ?env = ingest_http (\<lambda>r. []) (sc_base (cl_cfg (demo_client []))) (demo_app (spy_handler (Ok ()) False))"
    "sx_url_ok ?env (schema_url (sc_base (cl_cfg (demo_client []))) (sc_channel (cl_cfg (demo_client []))))"
    by (simp_all add: demo_sdk_env_def)
  from sdk_New_not_found [OF this, of "[]"] show ?thesis by (simp add: demo_client_def)
qed

text \<open>A service that knows the client's key and does not limit it.\<close>

definition admits :: "'s ingest_app \<Rightarrow> sdk_config \<Rightarrow> device_schema \<Rightarrow> bool" where
  "admits app cfg ds \<longleftrightarrow> sc_key cfg \<noteq> '''' \<and> sc_channel cfg \<noteq> '''' \<and> CHR ''/'' \<notin> set (sc_channel cfg) \<and>
     (\<forall>s. ri_keys app (sc_key cfg) (sc_channel cfg) s = (Ok ds, s)) \<and>
     (\<forall>k s. rate_limited app key_limit k s = (Allow, s) \<and> rate_limited app channel_limit k s = (Allow, s))"

lemma ingest_v1_admitted:
  assumes "admits app cfg ds" "rq_header c ''X-API-Key'' = sc_key cfg"
  shows "ingest_v1 app (sc_channel cfg) run c s = (case run ds s of (r, s') \<Rightarrow> (Envelope r, s'))"
proof -
  have "apiKeyAuth (ri_keys app) (c\<lparr> rq_param := (rq_param c)(''channel_id'' := sc_channel cfg) \<rparr>) s =
      (Ok ds :: (ingest_response envelope, device_schema) outcome, s)"
    using assms by (simp add: apiKeyAuth_def admits_def Let_def)
  then show ?thesis using assms by (simp add: ingest_v1_def Let_def admits_def)
qed

lemma ingest_http_data:
  fixes app :: "'s ingest_app"
  assumes "admits app cfg ds"
  shows "ingest_http render (sc_base cfg) app (data_request cfg z lz) s =
    (case ingestCompact (ri_now app) (ri_handler app) (sc_channel cfg) ds (msgpack_Parse (ri_msgp app)) maxBodyMsgP
        (Some (take (maxBodyMsgP + 1) z)) s of (resp, s') \<Rightarrow>
     (Some \<lparr> hr_status = rs_status resp, hr_recommended = if rs_status resp = 201 then ''msgpack'' else '''',
        hr_body = render (Envelope resp) \<rparr>, s'))"
proof -
  let ?q = "data_request cfg z lz"
  have "drop (Suc (length (sc_base cfg))) (data_url cfg) = ''v1/channels/'' @ sc_channel cfg @ ''/data''"
    by (simp add: data_url_def)
  then have segs: "path_segments (drop (Suc (length (sc_base cfg))) (hq_url ?q)) = [''v1'', ''channels'', sc_channel cfg, ''data'']"
    using assms split_on_word [of "CHR ''/''" "sc_channel cfg" "[]" "''data''"]
    by (simp add: data_request_def admits_def path_segments_def)
  have route: "ingest_route_of (ic_method (call_of (sc_base cfg) ?q)) (ic_path (call_of (sc_base cfg) ?q)) = Some (Data_route (sc_channel cfg))"
    using assms segs by (simp add: call_of_def data_request_def ingest_route_of_def admits_def)
  have key: "rq_header (ic_request (call_of (sc_base cfg) ?q)) ''X-API-Key'' = sc_key cfg"
    and ct: "ic_type (call_of (sc_base cfg) ?q) = ctMsgPack"
    by (simp_all add: call_of_def data_request_def ctMsgPack_def)
  have body: "ic_body (call_of (sc_base cfg) ?q) = (\<lambda>n. Some (take n z))" by (simp add: call_of_def data_request_def Let_def)
  have "handler_Ingest now json msgp h (Some ds) ch ctMsgPack one (\<lambda>n. Some (take n z)) t =
      ingestCompact now h ch ds (msgpack_Parse msgp) maxBodyMsgP (Some (take (maxBodyMsgP + 1) z)) t" for now json msgp h ch one and t :: 's
    by (simp add: handler_Ingest_def ctMsgPack_def ctJSON_def ctOJSON_def)
  then show ?thesis
    by (simp add: ingest_http_def ingest_router_def Let_def route ingest_v1_admitted [OF assms key] ct body reply_status_def split: prod.split)
qed

definition files_apart :: "'w sdk_env \<Rightarrow> bool" where
  "files_apart env \<longleftrightarrow> (\<forall>p w. snd (sx_mkdir env p w) = w) \<and> (\<forall>p d w. snd (sx_write_file env p d w) = w)"

lemma saveConfig_apart: "files_apart env \<Longrightarrow> snd (saveConfig env path cfg w) = w"
  unfolding saveConfig_def files_apart_def Let_def
  by (auto split: outcome.split option.split prod.split) (metis snd_conv)+

text \<open>A client that speaks to a service with its schema and its key.\<close>

definition paired :: "(ingest_reply \<Rightarrow> 8 word list) \<Rightarrow> (ingest_input list) sdk_env \<Rightarrow> sdk_client \<Rightarrow> (ingest_input list) ingest_app \<Rightarrow> device_schema \<Rightarrow> bool" where
  "paired render env c app ds \<longleftrightarrow> sx_do env = ingest_http render (sc_base (cl_cfg c)) app \<and> admits app (cl_cfg c) ds \<and>
     sx_url_ok env (data_url (cl_cfg c)) \<and> files_apart env"

lemma postPayload_paired:
  assumes "paired render env c app ds" "maybeCompress env p = Ok (z, lz)"
  shows "\<exists>c'. cl_cfg c' = cl_cfg c \<and> postPayload env p (c, s) =
    (case ingestCompact (ri_now app) (ri_handler app) (sc_channel (cl_cfg c)) ds (msgpack_Parse (ri_msgp app)) maxBodyMsgP
        (Some (take (maxBodyMsgP + 1) z)) s of (resp, s') \<Rightarrow> (post_status (rs_status resp), c', s'))"
proof -
  obtain resp s' where r: "ingestCompact (ri_now app) (ri_handler app) (sc_channel (cl_cfg c)) ds (msgpack_Parse (ri_msgp app)) maxBodyMsgP
        (Some (take (maxBodyMsgP + 1) z)) s = (resp, s')" by force
  have apart: "saveConfig env f l s' = (q, w) \<Longrightarrow> w = s'" for f l q w
    using saveConfig_apart [of env f l s'] assms(1) by (simp add: paired_def)
  have "sx_do env (data_request (cl_cfg c) z lz) s = (Some \<lparr> hr_status = rs_status resp,
      hr_recommended = if rs_status resp = 201 then ''msgpack'' else '''', hr_body = render (Envelope resp) \<rparr>, s')"
    using assms(1) ingest_http_data [of app "cl_cfg c" ds render z lz s] r by (simp add: paired_def)
  then show ?thesis unfolding r prod.case
    by (cases "rs_status resp = 201")
       (use assms in \<open>auto simp: postPayload_def paired_def Let_def dest: apart split: prod.split\<close>)
qed

lemma spy_ingestCompact:
  assumes "h = spy_handler (Ok ()) dlq" "deserializeCompact now body ds parse ch = Ok inps" "length body \<le> maxBody"
  shows "ingestCompact now h ch ds parse maxBody (Some body) s = (created (length inps) ch, s @ map (set_owner ch (ds_device ds)) inps)"
  using assms by (simp add: ingestCompact_def spy_handler_def spy_service_def NewHandler_def WithReplayDLQ_def)

lemma post_all_paired:
  assumes "paired render env c app ds" "ri_handler app = spy_handler (Ok ()) dlq"
    and "\<forall>p\<in>set ps. maybeCompress env p = Ok (p, False) \<and> length p \<le> maxBodyMsgP"
    and "list_all2 (\<lambda>p inp. deserializeCompact (ri_now app) p ds (msgpack_Parse (ri_msgp app)) (sc_channel (cl_cfg c)) = Ok [inp]) ps inps"
  shows "\<exists>c'. post_all env ps (c, s) = (Ok (), c', s @ map (set_owner (sc_channel (cl_cfg c)) (ds_device ds)) inps)"
  using assms
proof (induction ps arbitrary: c s inps)
  case (Cons p ps)
  then obtain inp rest where inps: "inps = inp # rest" by (auto simp: list_all2_Cons1)
  let ?ch = "sc_channel (cl_cfg c)"
  have p: "maybeCompress env p = Ok (p, False)" "length p \<le> maxBodyMsgP" using Cons.prems(3) by auto
  have one: "ingestCompact (ri_now app) (ri_handler app) ?ch ds (msgpack_Parse (ri_msgp app)) maxBodyMsgP (Some p) s =
      (created 1 ?ch, s @ [set_owner ?ch (ds_device ds) inp])"
    using spy_ingestCompact [OF Cons.prems(2) _ p(2), of "ri_now app" ds "msgpack_Parse (ri_msgp app)" ?ch "[inp]" s] Cons.prems(4) inps by simp
  obtain c1 where c1: "cl_cfg c1 = cl_cfg c" "postPayload env p (c, s) = (Ok (), c1, s @ [set_owner ?ch (ds_device ds) inp])"
    using postPayload_paired [OF Cons.prems(1) p(1), of s] one p(2)
    by (auto simp: created_def resp_Created_def post_status_def)
  have "paired render env c1 app ds" using Cons.prems(1) c1(1) by (simp add: paired_def)
  from Cons.IH [OF this Cons.prems(2), of rest "s @ [set_owner ?ch (ds_device ds) inp]"] Cons.prems(3,4) c1 inps
  show ?case by simp
qed simp


definition demo_service_app :: "(ingest_input list) ingest_app" where
  "demo_service_app = (demo_app (spy_handler (Ok ()) False))\<lparr> ri_keys := (\<lambda>k ch s. (Ok demo_device_schema, s)), ri_msgp := demo_msgp \<rparr>"

definition demo_pair_env :: "(ingest_input list) sdk_env" where
  "demo_pair_env = demo_sdk_env (ingest_http (\<lambda>r. []) ''http://h'' demo_service_app)"

lemma demo_paired: "paired (\<lambda>r. []) (demo_pair_env\<lparr> sx_marshal := mar, sx_lz4 := lzf \<rparr>) (demo_client rs) demo_service_app demo_device_schema"
    "paired (\<lambda>r. []) demo_pair_env (demo_client rs) demo_service_app demo_device_schema"
  by (simp_all add: paired_def demo_pair_env_def demo_sdk_env_def demo_client_def admits_def demo_service_app_def demo_app_def
      files_apart_def rate_limited_def RateLimit_def key_limit_def channel_limit_def zset_empty_def zset_alive_def
      ZRemRangeByScore_def)


text \<open>Compressed payloads are refused. The library compresses a payload of more than 100 bytes and says so in a
  header that no part of the ingestion service reads: the compressed bytes go to the msgpack decoder, and when it rejects them
  Send fails with status 503, the service receives nothing, and the readings are gone from the client.\<close>

theorem sdk_compressed_refused:
  assumes pair: "paired render env c app ds"
    and build: "buildBatches (sx_marshal env) (cl_pending c) (cl_schema c) (lc_version (cl_local c)) = Ok (p # ps)"
    and long: "compressionThreshold < length p" "sx_lz4 env p = Some z" "z \<noteq> []" "length z \<le> maxBodyMsgP"
    and bad: "ri_msgp app z = None"
  shows "\<exists>c'. Send env (c, s) = (Fail (UnexpectedStatus 503), c', s) \<and> cl_pending c' = []"
proof -
  let ?c1 = "c\<lparr> cl_pending := [] \<rparr>"
  have "paired render env ?c1 app ds" using pair by (simp add: paired_def)
  moreover have "maybeCompress env p = Ok (z, True)" using long by (simp add: maybeCompress_def)
  moreover have "ingestCompact (ri_now app) (ri_handler app) (sc_channel (cl_cfg c)) ds (msgpack_Parse (ri_msgp app)) maxBodyMsgP
      (Some z) s = (errorToHTTPResponse ErrDecode, s)"
    using bad long(4) by (simp add: ingestCompact_def deserializeCompact_def msgpack_Parse_def)
  moreover have "rs_status (errorToHTTPResponse ErrDecode :: ingest_response envelope) = 503"
    by (simp add: errorToHTTPResponse_def http_simps)
  ultimately obtain c1 where "postPayload env p (?c1, s) = (Fail (UnexpectedStatus 503), c1, s)"
    using postPayload_paired [of render env ?c1 app ds p z True s] long(4) by (auto simp: post_status_def)
  then have "sendReadings env (cl_pending c) (?c1, s) = (Fail (UnexpectedStatus 503), c1, s)" using build by (simp add: sendReadings_def)
  moreover have "cl_pending c \<noteq> []" using build by (auto simp: buildBatches_def)
  ultimately have "Send env (c, s) = (Fail (UnexpectedStatus 503), c1, s)" by (simp add: Send_def Let_def isSchemaMismatch_def)
  then show ?thesis using Send_pending [of env c s] by auto
qed

theorem sdk_compressed_refused_witness:
  "fst (Send (demo_pair_env\<lparr> sx_marshal := (\<lambda>x. Some (replicate 101 1)), sx_lz4 := (\<lambda>p. Some [9]) \<rparr>)
     (demo_client [demo_at ''hum'' 60 0], [])) = Fail (UnexpectedStatus 503)"
proof -
  let ?env = "demo_pair_env\<lparr> sx_marshal := (\<lambda>x. Some (replicate 101 1)), sx_lz4 := (\<lambda>p. Some [9]) \<rparr>"
  let ?c = "demo_client [demo_at ''hum'' 60 0]"
  have build: "buildBatches (sx_marshal ?env) (cl_pending ?c) (cl_schema ?c) (lc_version (cl_local ?c)) = Ok [replicate 101 1]"
    by (simp add: demo_client_def demo_at_def demo_channel_schema_def buildChannelSchema_def buildBatches_def batch_step_def
      delta_ms_def in_millis_def time_sub_def put_reading_def fresh_slots_def flushBatch_def batch_of_def kept_slots_def
      maxTDMillis_def numeral_2_eq_2)
  have "ri_msgp demo_service_app [9] = None" by (simp add: demo_service_app_def demo_msgp_def demo_batches_def)
  from sdk_compressed_refused [OF demo_paired(1) build, of "[9]" "[]"] this show ?thesis
    by (auto simp: compressionThreshold_def maxBodyMsgP_def)
qed

end
