(* ===== verification/Startup.thy ===== *)
theory Startup
  imports Config Ingest_Router
begin

text \<open>
  How the services start (cmd/server/main.go of each): the order in which a process reads its settings, connects, checks
  the migrations, reads its keys, starts its consumers and listens, where it gives up, and what it does on a signal.
  Constructors that only store their arguments, loggers and the deferred closing of clients are left out.
\<close>

section \<open>A process that starts\<close>

text \<open>The files and the libraries: a PEM block, a PKIX or PKCS8 key (RSA or another kind), a PKCS1 key; whether Postgres answers at a
  data source, Redis at an address, and the object store for a region, and the newest row of the migrations.\<close>

datatype 'k any_key = RsaKey 'k | OtherKey

datatype key_err = KeyFileUnreadable | NoPemBlock | KeyParseErr | NotAnRsaKey

record 'k machine =
  mx_env :: environ
  mx_file :: "string \<Rightarrow> string option"
  mx_pem :: "string \<Rightarrow> string option"
  mx_pkix :: "string \<Rightarrow> 'k any_key option"
  mx_pkcs8 :: "string \<Rightarrow> 'k any_key option"
  mx_pkcs1 :: "string \<Rightarrow> 'k option"
  mx_postgres :: "string \<Rightarrow> bool"
  mx_migration :: "(nat \<times> bool) option"
  mx_redis :: "redis_config \<Rightarrow> bool"
  mx_s3 :: "string \<Rightarrow> bool"
  mx_rules :: bool

record server_config =
  sv_addr :: string
  sv_read_header :: duration
  sv_read :: duration
  sv_write :: duration
  sv_idle :: duration

datatype fatal = BadConfig config_err | PostgresDown | SchemaMissing | SchemaDirty | RedisDown | BadKey key_err | NoKeyPath | S3Down

text \<open>What is seen of a process: the consumers it starts, the loading of the rules, the port it serves, a fatal end, and the
  shutdown after a signal.\<close>

datatype boot_step = StartConsumer "string list" string | RulesLoaded bool | StartRefresh duration | Serve server_config
  | Fatal fatal | StopConsumers | Shutdown duration

definition parsePublicKey :: "'k machine \<Rightarrow> string \<Rightarrow> (key_err, 'k) outcome" where
  "parsePublicKey w pemBytes =
    (case mx_pem w pemBytes of None \<Rightarrow> Fail NoPemBlock
     | Some block \<Rightarrow> (case mx_pkix w block of
         None \<Rightarrow> Fail KeyParseErr | Some OtherKey \<Rightarrow> Fail NotAnRsaKey | Some (RsaKey k) \<Rightarrow> Ok k))"

text \<open>A private key that is not PKCS8 is tried as PKCS1.\<close>

definition parsePrivateKey :: "'k machine \<Rightarrow> string \<Rightarrow> (key_err, 'k) outcome" where
  "parsePrivateKey w pemBytes =
    (case mx_pem w pemBytes of None \<Rightarrow> Fail NoPemBlock
     | Some block \<Rightarrow> (case mx_pkcs8 w block of
         None \<Rightarrow> (case mx_pkcs1 w block of None \<Rightarrow> Fail KeyParseErr | Some k \<Rightarrow> Ok k)
       | Some OtherKey \<Rightarrow> Fail NotAnRsaKey | Some (RsaKey k) \<Rightarrow> Ok k))"

definition loadPublicKey :: "'k machine \<Rightarrow> string \<Rightarrow> (key_err, 'k) outcome" where
  "loadPublicKey w path =
    (case mx_file w path of None \<Rightarrow> Fail KeyFileUnreadable | Some pem \<Rightarrow> parsePublicKey w pem)"

definition loadRSAKeys :: "'k machine \<Rightarrow> jwt_key_config \<Rightarrow> (key_err, 'k \<times> 'k) outcome" where
  "loadRSAKeys w cfg =
    (case (mx_file w (jw_private cfg), mx_file w (jw_public cfg)) of
       (Some privPEM, Some pubPEM) \<Rightarrow>
         bind_o (parsePrivateKey w privPEM) (\<lambda>privKey. bind_o (parsePublicKey w pubPEM) (\<lambda>pubKey. Ok (privKey, pubKey)))
     | _ \<Rightarrow> Fail KeyFileUnreadable)"

text \<open>Each stage continues with what it obtained or ends the process.\<close>

definition connect_postgres :: "'k machine \<Rightarrow> postgres_config \<Rightarrow> boot_step list \<Rightarrow> boot_step list" where
  "connect_postgres w cfg rest = (if mx_postgres w (pc_dsn cfg) then rest else [Fatal PostgresDown])"

definition connect_redis :: "'k machine \<Rightarrow> redis_config \<Rightarrow> boot_step list \<Rightarrow> boot_step list" where
  "connect_redis w cfg rest = (if mx_redis w cfg then rest else [Fatal RedisDown])"

definition mustCheckSchema :: "'k machine \<Rightarrow> boot_step list \<Rightarrow> boot_step list" where
  "mustCheckSchema w rest =
    (case mx_migration w of None \<Rightarrow> [Fatal SchemaMissing]
     | Some (version, dirty) \<Rightarrow> if dirty then [Fatal SchemaDirty] else rest)"

definition need_key :: "(key_err, 'a) outcome \<Rightarrow> ('a \<Rightarrow> boot_step list) \<Rightarrow> boot_step list" where
  "need_key r rest = (case r of Ok k \<Rightarrow> rest k | Fail e \<Rightarrow> [Fatal (BadKey e)] | Panic \<Rightarrow> [])"

definition need_config :: "(config_err, 'a) outcome \<Rightarrow> ('a \<Rightarrow> boot_step list) \<Rightarrow> boot_step list" where
  "need_config r rest = (case r of Ok cfg \<Rightarrow> rest cfg | Fail e \<Rightarrow> [Fatal (BadConfig e)] | Panic \<Rightarrow> [])"

definition port_addr :: "string \<Rightarrow> string" where
  "port_addr port = CHR '':'' # port"

definition serve_rw :: "'a http_rw_config_scheme \<Rightarrow> boot_step" where
  "serve_rw h = Serve \<lparr> sv_addr = port_addr (ht_port h), sv_read_header = 0, sv_read = ht_read h, sv_write = ht_write h, sv_idle = ht_idle h \<rparr>"

section \<open>The seven programs\<close>

definition main_ingestion :: "'k machine \<Rightarrow> boot_step list" where
  "main_ingestion w =
    (let cfg = Load_ingestion (mx_env w) in
     connect_redis w (ic_redis cfg) [serve_rw (ic_http cfg), Shutdown (ht_shutdown (ic_http cfg))])"

definition main_registry :: "'k machine \<Rightarrow> boot_step list" where
  "main_registry w =
    (let cfg = Load_registry (mx_env w) in
     connect_postgres w (gc_postgres cfg) (mustCheckSchema w (connect_redis w (gc_redis cfg) (need_key (loadPublicKey w (jw_public (gc_jwt cfg))) (\<lambda>k.
       [serve_rw (gc_http cfg), Shutdown (30 * second)])))))"

definition main_iam :: "'k machine \<Rightarrow> boot_step list" where
  "main_iam w =
    (let cfg = Load_iam (mx_env w) in
     need_key (loadRSAKeys w (mc_jwt cfg)) (\<lambda>keys. connect_postgres w (mc_postgres cfg) (mustCheckSchema w (connect_redis w (mc_redis cfg)
       [serve_rw (mc_http cfg), Shutdown (30 * second)]))))"

text \<open>A failure to load the rules is logged; the consumers run before the key is read.\<close>

definition main_alerting :: "'k machine \<Rightarrow> boot_step list" where
  "main_alerting w = need_config (Load_alerting (mx_env w)) (\<lambda>cfg.
     connect_postgres w (ac_postgres cfg) (mustCheckSchema w
       ([RulesLoaded (mx_rules w), StartRefresh (ac_refresh cfg), StartConsumer (ac_brokers cfg) (ac_telemetry_group cfg), StartConsumer (ac_brokers cfg) (ac_alert_group cfg)] @
        need_key (loadPublicKey w (ac_public cfg)) (\<lambda>k.
          [serve_rw (ac_http cfg), StopConsumers, Shutdown (ht_shutdown (ac_http cfg))]))))"

definition main_supporting :: "'k machine \<Rightarrow> boot_step list" where
  "main_supporting w = need_config (Load_supporting (mx_env w)) (\<lambda>cfg.
     connect_postgres w (uc_postgres cfg) (mustCheckSchema w
       (if \<not> mx_s3 w (uc_region cfg) then [Fatal S3Down] else
        StartConsumer (uc_brokers cfg) (uc_audit_group cfg) #
        need_key (loadPublicKey w (uc_public cfg)) (\<lambda>k.
          [Serve \<lparr> sv_addr = port_addr (ht_port (uc_http cfg)), sv_read_header = ht_read_header (uc_http cfg), sv_read = ht_read (uc_http cfg),
             sv_write = ht_write (uc_http cfg), sv_idle = ht_idle (uc_http cfg) \<rparr>,
           StopConsumers, Shutdown (ht_shutdown (uc_http cfg))]))))"

text \<open>The path of the key is not part of the settings: main reads it after the consumer has been started.\<close>

definition main_query :: "'k machine \<Rightarrow> boot_step list" where
  "main_query w = need_config (Load_query (mx_env w)) (\<lambda>cfg.
     connect_redis w (yc_redis cfg) (StartConsumer (yc_brokers cfg) (yc_group cfg) #
       (if mx_env w ''JWT_PUBLIC_KEY_PATH'' = '''' then [Fatal NoKeyPath] else
        need_key (loadPublicKey w (mx_env w ''JWT_PUBLIC_KEY_PATH'')) (\<lambda>k.
          [Serve \<lparr> sv_addr = port_addr (ht_port (yc_http cfg)), sv_read_header = 10 * second, sv_read = 0, sv_write = 0,
             sv_idle = ht_idle (yc_http cfg) \<rparr>,
           StopConsumers, Shutdown (hc_shutdown (yc_http cfg))]))))"

definition main_normalization :: "'k machine \<Rightarrow> boot_step list" where
  "main_normalization w = need_config (Load_normalization (mx_env w)) (\<lambda>cfg.
     [StartConsumer (nc_brokers cfg) ''normalization-service'', serve_rw (nc_http cfg), StopConsumers, Shutdown (ht_shutdown (nc_http cfg))])"

section \<open>The ingestion service as it is wired\<close>

text \<open>The service takes the bound on the age of readings from the settings, the handler the acknowledgement store and the
  dead-letter list.\<close>

definition wire_ingestion :: "ingestion_config \<Rightarrow> instant \<Rightarrow> 's event_publisher \<Rightarrow> 's ack_store \<Rightarrow> 's dlq_writer \<Rightarrow> 's handler" where
  "wire_ingestion cfg now producer ack dlq =
    WithReplayDLQ (NewHandler \<lparr> svc_Ingest = Ingest now (ic_max_age cfg) producer,
       svc_IngestBatch = IngestBatch now (ic_max_age cfg) producer, svc_IngestReplay = IngestReplay now producer \<rparr> (Some ack)) (Some dlq)"

section \<open>What a running service has checked\<close>

lemmas boot_defs = connect_postgres_def connect_redis_def mustCheckSchema_def need_key_def need_config_def serve_rw_def

text \<open>A process serves or ends in an error: never both.\<close>

definition serves :: "boot_step list \<Rightarrow> bool" where
  "serves t \<longleftrightarrow> (\<exists>sv. Serve sv \<in> set t)"

definition has_consumer :: "boot_step list \<Rightarrow> bool" where
  "has_consumer t \<longleftrightarrow> (\<exists>st\<in>set t. case st of StartConsumer _ _ \<Rightarrow> True | _ \<Rightarrow> False)"

definition schema_ok :: "'k machine \<Rightarrow> bool" where
  "schema_ok w \<longleftrightarrow> mx_postgres w (env_string (mx_env w) ''DSN'' default_dsn) \<and> (\<exists>version. mx_migration w = Some (version, False))"

lemma postgres_stage:
  "pc_dsn cfg = env_string (mx_env w) ''DSN'' default_dsn \<Longrightarrow>
    serves (connect_postgres w cfg (mustCheckSchema w rest)) \<longleftrightarrow> schema_ok w \<and> serves rest"
  by (auto simp: serves_def schema_ok_def boot_defs split: option.splits)

lemma redis_stage: "serves (connect_redis w cfg rest) \<longleftrightarrow> mx_redis w cfg \<and> serves rest"
  by (auto simp: serves_def boot_defs)

lemma key_stage: "serves (need_key r rest) \<longleftrightarrow> (\<exists>k. r = Ok k \<and> serves (rest k))"
  by (cases r) (auto simp: serves_def need_key_def)

lemma config_stage: "serves (need_config r rest) \<longleftrightarrow> (\<exists>c. r = Ok c \<and> serves (rest c))"
  by (cases r) (auto simp: serves_def need_config_def)

lemma serves_simps [simp]:
  "\<not> serves []" "serves (Serve sv # t)" "serves (Fatal e # t) = serves t" "serves (StartConsumer bs g # t) = serves t"
  "serves (RulesLoaded b # t) = serves t" "serves (StartRefresh d # t) = serves t" "serves (l @ m) = (serves l \<or> serves m)"
  by (auto simp: serves_def)

lemmas boot_stages = postgres_stage redis_stage key_stage config_stage

lemma loadRSAKeys_Ok:
  "loadRSAKeys w cfg = Ok (priv, pub) \<longleftrightarrow>
   (\<exists>pem. mx_file w (jw_private cfg) = Some pem \<and> parsePrivateKey w pem = Ok priv) \<and> loadPublicKey w (jw_public cfg) = Ok pub"
  by (auto simp: loadRSAKeys_def loadPublicKey_def go_simps split: option.splits)

definition key_setting :: "environ \<Rightarrow> string" where
  "key_setting e = env_string e ''JWT_PUBLIC_KEY_PATH'' ''keys/public.pem''"

definition required_set :: "environ \<Rightarrow> bool" where
  "required_set e \<longleftrightarrow> e ''DSN'' \<noteq> '''' \<and> e ''JWT_PUBLIC_KEY_PATH'' \<noteq> ''''"

definition key_loads :: "'k machine \<Rightarrow> bool" where
  "key_loads w \<longleftrightarrow> (\<exists>k. loadPublicKey w (key_setting (mx_env w)) = Ok k)"

definition private_key_loads :: "'k machine \<Rightarrow> bool" where
  "private_key_loads w \<longleftrightarrow> (\<exists>pem k. mx_file w (env_string (mx_env w) ''JWT_PRIVATE_KEY_PATH'' ''keys/private.pem'') = Some pem \<and>
     parsePrivateKey w pem = Ok k)"

lemma dsn_loaded [simp]: "pc_dsn (load_postgres e dsn) = dsn"
  by (simp add: load_postgres_def)

lemma serve_registry: "serves (main_registry w) \<longleftrightarrow> schema_ok w \<and> mx_redis w (load_redis (mx_env w)) \<and> key_loads w"
  by (simp add: main_registry_def Let_def boot_stages serve_rw_def key_loads_def key_setting_def Load_registry_def)

lemma Load_iam_parts:
  "pc_dsn (mc_postgres (Load_iam e)) = env_string e ''DSN'' default_dsn" "mc_redis (Load_iam e) = load_redis e"
  "jw_public (mc_jwt (Load_iam e)) = key_setting e"
  "jw_private (mc_jwt (Load_iam e)) = env_string e ''JWT_PRIVATE_KEY_PATH'' ''keys/private.pem''"
  by (simp_all add: Load_iam_def key_setting_def)

lemma serve_iam: "serves (main_iam w) \<longleftrightarrow> schema_ok w \<and> mx_redis w (load_redis (mx_env w)) \<and> key_loads w \<and> private_key_loads w"
proof -
  have "(\<exists>keys. loadRSAKeys w (mc_jwt (Load_iam (mx_env w))) = Ok keys) \<longleftrightarrow> key_loads w \<and> private_key_loads w"
    unfolding split_paired_Ex loadRSAKeys_Ok Load_iam_parts key_loads_def private_key_loads_def by metis
  moreover have "serves (main_iam w) \<longleftrightarrow>
      (\<exists>keys. loadRSAKeys w (mc_jwt (Load_iam (mx_env w))) = Ok keys) \<and> schema_ok w \<and> mx_redis w (load_redis (mx_env w))"
    unfolding main_iam_def Let_def key_stage redis_stage postgres_stage [OF Load_iam_parts(1)] Load_iam_parts(2) serve_rw_def serves_simps
    by simp
  ultimately show ?thesis by (simp add: conj_ac)
qed

lemma Load_alerting_Ok:
  "(\<exists>c. Load_alerting e = Ok c) \<longleftrightarrow> required_set e"
  "Load_alerting e = Ok c \<Longrightarrow> pc_dsn (ac_postgres c) = env_string e ''DSN'' default_dsn \<and> ac_public c = key_setting e"
proof -
  show "(\<exists>c. Load_alerting e = Ok c) \<longleftrightarrow> required_set e"
    by (simp add: Load_alerting_def requiredEnv_def required_set_def)
  assume r: "Load_alerting e = Ok c"
  then have set: "e ''DSN'' \<noteq> ''''" "e ''JWT_PUBLIC_KEY_PATH'' \<noteq> ''''"
    by (simp_all add: Load_alerting_def requiredEnv_def split: if_splits)
  from r [symmetric] show "pc_dsn (ac_postgres c) = env_string e ''DSN'' default_dsn \<and> ac_public c = key_setting e"
    by (simp add: Load_alerting_def requiredEnv_def key_setting_def env_string_def set)
qed

lemma Load_supporting_Ok:
  "(\<exists>c. Load_supporting e = Ok c) \<longleftrightarrow> required_set e"
  "Load_supporting e = Ok c \<Longrightarrow> pc_dsn (uc_postgres c) = env_string e ''DSN'' default_dsn \<and> uc_public c = key_setting e
     \<and> uc_region c = env_string e ''AWS_REGION'' ''us-east-1''"
proof -
  show "(\<exists>c. Load_supporting e = Ok c) \<longleftrightarrow> required_set e"
    by (simp add: Load_supporting_def requiredEnv_def required_set_def)
  assume r: "Load_supporting e = Ok c"
  then have set: "e ''DSN'' \<noteq> ''''" "e ''JWT_PUBLIC_KEY_PATH'' \<noteq> ''''"
    by (simp_all add: Load_supporting_def requiredEnv_def split: if_splits)
  from r [symmetric] show "pc_dsn (uc_postgres c) = env_string e ''DSN'' default_dsn \<and> uc_public c = key_setting e
     \<and> uc_region c = env_string e ''AWS_REGION'' ''us-east-1''"
    by (simp add: Load_supporting_def requiredEnv_def key_setting_def env_string_def set)
qed

lemma serve_alerting: "serves (main_alerting w) \<longleftrightarrow> schema_ok w \<and> required_set (mx_env w) \<and> key_loads w"
proof (cases "Load_alerting (mx_env w)")
  case (Ok c)
  note run = Load_alerting_Ok(2) [OF Ok]
  have "required_set (mx_env w)" using Ok Load_alerting_Ok(1) by blast
  then show ?thesis using run by (simp add: main_alerting_def config_stage Ok postgres_stage key_stage serve_rw_def key_loads_def)
qed (use Load_alerting_Ok(1) [of "mx_env w"] in \<open>simp_all add: main_alerting_def config_stage\<close>)

lemma serve_supporting: "serves (main_supporting w) \<longleftrightarrow>
    schema_ok w \<and> mx_s3 w (env_string (mx_env w) ''AWS_REGION'' ''us-east-1'') \<and> required_set (mx_env w) \<and> key_loads w"
proof (cases "Load_supporting (mx_env w)")
  case (Ok c)
  note run = Load_supporting_Ok(2) [OF Ok]
  have "required_set (mx_env w)" using Ok Load_supporting_Ok(1) by blast
  then show ?thesis using run by (simp add: main_supporting_def config_stage Ok postgres_stage key_stage key_loads_def)
qed (use Load_supporting_Ok(1) [of "mx_env w"] in \<open>simp_all add: main_supporting_def config_stage\<close>)


text \<open>In alert-notification, supporting and query-realtime the consumers have been started when the key is read: a key that
  cannot be read ends the process with a consumer that may have taken messages, and nothing was served.\<close>

theorem consumers_before_key:
  assumes "mx_env w ''JWT_PUBLIC_KEY_PATH'' \<noteq> ''''" "loadPublicKey w (mx_env w ''JWT_PUBLIC_KEY_PATH'') = Fail why"
    and "schema_ok w" "\<And>region. mx_s3 w region" "\<And>cfg. mx_redis w cfg" "mx_env w ''DSN'' \<noteq> ''''" "mx_env w ''INFLUXDB_TOKEN'' \<noteq> ''''"
    and "t \<in> {main_alerting w, main_supporting w, main_query w}"
  shows "has_consumer t \<and> last t = Fatal (BadKey why) \<and> \<not> serves t"
proof -
  obtain v where v: "mx_postgres w (mx_env w ''DSN'')" "mx_migration w = Some (v, False)"
    using assms(3,6) by (auto simp: schema_ok_def env_string_def)
  note ready = assms(1,2) v assms(4-7)
  show ?thesis using assms(8) ready
    by (auto simp: main_alerting_def main_supporting_def main_query_def Load_alerting_def Load_supporting_def Load_query_def
        requiredEnv_def boot_defs has_consumer_def)
qed

definition demo_machine :: "string option \<Rightarrow> (nat \<times> bool) option \<Rightarrow> nat machine" where
  "demo_machine pem migration = \<lparr> mx_env = (\<lambda>_. ''v''), mx_file = (\<lambda>_. pem), mx_pem = (\<lambda>p. Some p),
     mx_pkix = (\<lambda>p. Some (RsaKey 1)), mx_pkcs8 = (\<lambda>p. None), mx_pkcs1 = (\<lambda>p. Some 2),
     mx_postgres = (\<lambda>_. True), mx_migration = migration, mx_redis = (\<lambda>_. True), mx_s3 = (\<lambda>_. True), mx_rules = False \<rparr>"

lemma consumers_before_key_witness:
  "has_consumer (main_query (demo_machine None (Some (7, False))))"
  using consumers_before_key [of "demo_machine None (Some (7, False))" KeyFileUnreadable "main_query (demo_machine None (Some (7, False)))"]
  by (simp add: demo_machine_def loadPublicKey_def schema_ok_def)

section \<open>The age of readings\<close>

lemma digits_grow: "list_all is_digit ds \<Longrightarrow> 0 \<le> y \<Longrightarrow> y \<le> foldl (\<lambda>n c. 10 * n + digit_val c) y ds"
proof (induction ds arbitrary: y)
  case (Cons e ds)
  then have "0 \<le> digit_val e" using digit_range [of e] by simp
  with Cons(1) [of "10 * y + digit_val e"] Cons(2,3) show ?case by simp
qed simp

lemma leadingInt_digits:
  "list_all is_digit ds \<Longrightarrow> 0 \<le> x \<Longrightarrow> x \<le> 2 ^ 63 \<Longrightarrow> \<not> is_digit c \<Longrightarrow>
   leadingInt x (ds @ c # r) =
     (if foldl (\<lambda>n c. 10 * n + digit_val c) x ds \<le> 2 ^ 63 then Some (foldl (\<lambda>n c. 10 * n + digit_val c) x ds, c # r) else None)"
proof (induction ds arbitrary: x)
  case (Cons d ds)
  have d: "0 \<le> digit_val d" "digit_val d \<le> 9" using Cons(2) digit_range [of d] by auto
  then show ?case
    using Cons.IH [of "10 * x + digit_val d"] Cons.prems digits_grow [of ds "10 * x + digit_val d"] by (auto simp: mult.commute)
qed simp

text \<open>A text of n seconds is read as n seconds for as long as they fit in 64 bits of nanoseconds, and refused beyond.\<close>

lemma ParseDuration_seconds:
  "ParseDuration (dec n @ ''s'') = (if n \<le> 9223372036 then Some (int n * second) else None)"
proof -
  obtain c r where c: "dec n = c # r" "c \<noteq> CHR ''-''" "c \<noteq> CHR ''+''" using dec_no_sign [of n] by auto
  have dig: "is_digit c" using dec_all_digits [of n] c by simp
  have val: "foldl (\<lambda>n c. 10 * n + digit_val c) 0 (dec n) = int n" using dec_value [of n] by (simp add: digits_val_def)
  have "leadingInt 0 (dec n @ ''s'') = (if int n \<le> 2 ^ 63 then Some (int n, ''s'') else None)"
    using leadingInt_digits [OF dec_all_digits [of n], of 0 "CHR ''s''" "[]"] val by (simp add: is_digit_def)
  then have "duration_term (dec n @ ''s'') = (if n \<le> 9223372036 then Some (int n * second, '''') else None)"
    using dig c by (auto simp: duration_term_def Let_def unitMap_def unit_char_def is_digit_def second_def)
  then have "duration_terms 0 (dec n @ ''s'') = (if n \<le> 9223372036 then Some (int n * second) else None)"
    using c by (subst duration_terms.simps) (auto simp: duration_terms.simps [of _ "[]"] second_def)
  then show ?thesis using c by (auto simp: ParseDuration_def Let_def second_def)
qed

text \<open>What the service answers when it is configured from an environment and asked to take one reading.\<close>

definition configured_answer :: "environ \<Rightarrow> instant \<Rightarrow> 's event_publisher \<Rightarrow> 's ack_store \<Rightarrow> 's dlq_writer \<Rightarrow> ingest_input \<Rightarrow> 's
    \<Rightarrow> (ingest_err, unit) outcome" where
  "configured_answer e now producer ack dlq inp s =
     fst (svc_Ingest (h_svc (wire_ingestion (Load_ingestion e) now producer ack dlq)) inp s)"

lemma group_fields_default: "is_ok (group_fields now maxAge Map.empty ts flds gs)"
  by (induction flds arbitrary: gs) (auto simp: is_ok_iff)

lemma readings_of_one_time:
  assumes "uuidRE (in_channel inp)" "in_channel inp \<noteq> nil_uuid" "in_fields inp \<noteq> []" "in_field_ts inp = Map.empty"
    and "in_timestamp inp = Some ts" "ts \<le> now + 30 * second"
  shows "\<exists>rs. ingest_readings now age inp = (if 0 < age \<and> ts < now - age then Fail ErrTimestampTooOld else Ok rs)"
  using assms group_fields_default [of now age ts "in_fields inp" "[]"]
  by (auto simp: ingest_readings_def ValidateChannelID_def ValidateTimestamp_def groupByTimestamp_def is_ok_iff)

lemma answer_too_old:
  assumes "uuidRE (in_channel inp)" "in_channel inp \<noteq> nil_uuid" "in_fields inp \<noteq> []" "in_field_ts inp = Map.empty"
    and "in_timestamp inp = Some ts" "ts \<le> now + 30 * second"
    and pub: "\<And>rs s. fst (PublishReadings producer rs s) \<noteq> Some ErrTimestampTooOld"
  shows "configured_answer e now producer ack dlq inp s = Fail ErrTimestampTooOld \<longleftrightarrow>
    0 < ic_max_age (Load_ingestion e) \<and> ts < now - ic_max_age (Load_ingestion e)"
proof -
  obtain rs where rs: "ingest_readings now (ic_max_age (Load_ingestion e)) inp =
      (if 0 < ic_max_age (Load_ingestion e) \<and> ts < now - ic_max_age (Load_ingestion e) then Fail ErrTimestampTooOld else Ok rs)"
    using readings_of_one_time [OF assms(1-6)] by blast
  then show ?thesis using pub [of rs s]
    by (auto simp: configured_answer_def wire_ingestion_def WithReplayDLQ_def NewHandler_def Ingest_def as_result_def
        split: prod.splits option.splits)
qed


definition quiet_publisher :: "unit event_publisher" where
  "quiet_publisher = \<lparr> PublishReadings = (\<lambda>rs s. (None, s)), PublishReplayReadings = (\<lambda>rs s. (None, s)) \<rparr>"

definition quiet_acks :: "unit ack_store" where
  "quiet_acks = \<lparr> as_RecordACK = (\<lambda>_ _ _ s. (None, s)), as_IsForceDeprecated = (\<lambda>_ _. Ok False), as_SetStuck = (\<lambda>_ _ s. (None, s)) \<rparr>"

definition quiet_dlq :: "unit dlq_writer" where
  "quiet_dlq = \<lparr> Push = (\<lambda>_ s. (None, s)), IncrFailureMetric = (\<lambda>s. (None, s)) \<rparr>"

definition demo_input :: "instant \<Rightarrow> ingest_input" where
  "demo_input ts = \<lparr> in_channel = ''12345678-1234-1234-1234-123456789abc'', in_device = ''d'', in_fields = [(''t'', Fin 1)],
     in_field_ts = Map.empty, in_tags = [], in_timestamp = Some ts \<rparr>"

definition demo_answer :: "string \<Rightarrow> instant \<Rightarrow> (ingest_err, unit) outcome" where
  "demo_answer setting ts = configured_answer ((\<lambda>_. '''')(''MAX_READING_AGE'' := setting)) (10 ^ 18)
     quiet_publisher quiet_acks quiet_dlq (demo_input ts) ()"


section \<open>Default ports\<close>

definition platform :: "'k machine \<Rightarrow> boot_step list list" where
  "platform w = [main_ingestion w, main_registry w, main_iam w, main_alerting w, main_supporting w, main_query w, main_normalization w]"

lemma ports_read:
  "ht_port (load_http_rw e port secs) = env_string e ''PORT'' port"
  "ht_port (load_http_stop e port secs) = env_string e ''PORT'' port"
  by (simp_all add: load_http_stop_def load_http_rw_def http_rw_config.defs)

lemma ports_configured:
  "ht_port (ic_http (Load_ingestion e)) = env_string e ''PORT'' ''8003''"
  "ht_port (gc_http (Load_registry e)) = env_string e ''PORT'' ''8001''"
  "ht_port (mc_http (Load_iam e)) = env_string e ''PORT'' ''8001''"
  "Load_alerting e = Ok a \<Longrightarrow> ht_port (ac_http a) = env_string e ''PORT'' ''8005''"
  "Load_supporting e = Ok u \<Longrightarrow> ht_port (uc_http u) = env_string e ''PORT'' ''8007''"
  "Load_query e = Ok y \<Longrightarrow> ht_port (yc_http y) = env_string e ''PORT'' ''8004''"
  "Load_normalization e = Ok n \<Longrightarrow> ht_port (nc_http n) = env_string e ''PORT'' ''8006''"
proof -
  show "Load_supporting e = Ok u \<Longrightarrow> ht_port (uc_http u) = env_string e ''PORT'' ''8007''"
    by (auto simp: Load_supporting_def requiredEnv_def http_stop_config.defs ports_read split: if_splits)
qed (auto simp: Load_ingestion_def Load_registry_def Load_iam_def Load_alerting_def Load_query_def Load_normalization_def
    requiredEnv_def ports_read split: if_splits)

lemma served_address:
  assumes "mx_env w ''PORT'' = ''''"
  shows "Serve sv \<in> set (main_ingestion w) \<Longrightarrow> sv_addr sv = '':8003''"
    and "Serve sv \<in> set (main_registry w) \<Longrightarrow> sv_addr sv = '':8001''"
    and "Serve sv \<in> set (main_iam w) \<Longrightarrow> sv_addr sv = '':8001''"
    and "Serve sv \<in> set (main_alerting w) \<Longrightarrow> sv_addr sv = '':8005''"
    and "Serve sv \<in> set (main_supporting w) \<Longrightarrow> sv_addr sv = '':8007''"
    and "Serve sv \<in> set (main_query w) \<Longrightarrow> sv_addr sv = '':8004''"
    and "Serve sv \<in> set (main_normalization w) \<Longrightarrow> sv_addr sv = '':8006''"
  using assms
  by (auto simp: main_ingestion_def main_registry_def main_iam_def main_alerting_def main_supporting_def main_query_def main_normalization_def
      ports_configured env_string_def port_addr_def serve_rw_def Let_def boot_defs split: if_splits option.splits outcome.splits)

text \<open>With no PORT set, device-registry listens on the port of iam, and ingestion, with no DEVICE\_REGISTRY\_URL set, asks for it on
  port 8002, on which no service of the platform listens.\<close>

theorem default_ports_clash:
  assumes "mx_env w ''PORT'' = ''''" "mx_env w ''DEVICE_REGISTRY_URL'' = ''''"
    and "Serve reg \<in> set (main_registry w)" "Serve iam \<in> set (main_iam w)"
    and "t \<in> set (platform w)" "Serve sv \<in> set t"
  shows "sv_addr reg = sv_addr iam \<and> ic_registry_url (Load_ingestion (mx_env w)) = ''http://localhost:8002'' \<and> sv_addr sv \<noteq> '':8002''"
proof -
  note addr = served_address [OF assms(1)]
  have "ic_registry_url (Load_ingestion (mx_env w)) = ''http://localhost:8002''"
    using assms(2) by (simp add: Load_ingestion_def env_string_def)
  moreover have "sv_addr sv \<noteq> '':8002''" using assms(5,6) unfolding platform_def by (auto dest!: addr)
  ultimately show ?thesis using addr(2) [OF assms(3)] addr(3) [OF assms(4)] by simp
qed

lemma default_ports_clash_witness:
  "let w = (demo_machine (Some ''pem'') (Some (7, False)))\<lparr> mx_env := (\<lambda>_. '''') \<rparr> in
   \<exists>reg iam. Serve reg \<in> set (main_registry w) \<and> Serve iam \<in> set (main_iam w) \<and> sv_addr reg = sv_addr iam"
proof -
  define w where "w = (demo_machine (Some ''pem'') (Some (7, False)))\<lparr> mx_env := (\<lambda>_. '''') \<rparr>"
  note machine = w_def demo_machine_def
  have ok: "schema_ok w" "\<And>cfg. mx_redis w cfg" "key_loads w" "private_key_loads w"
    by (simp_all add: machine schema_ok_def key_loads_def private_key_loads_def loadPublicKey_def parsePublicKey_def parsePrivateKey_def)
  then have "serves (main_registry w)" "serves (main_iam w)" by (simp_all only: serve_registry serve_iam simp_thms)
  then obtain reg iam where r: "Serve reg \<in> set (main_registry w)" "Serve iam \<in> set (main_iam w)"
    by (simp only: serves_def) metis
  have "sv_addr reg = sv_addr iam"
    using default_ports_clash [OF _ _ r, of "main_iam w" iam] r by (simp add: platform_def w_def)
  with r show ?thesis by (auto simp: w_def Let_def)
qed

end
