(* ===== verification/Spec2Isabelle.thy ===== *)
theory Spec2Isabelle
  imports Registry_Ingestion Live_Router Alert_Handler Support_Properties Sdk_Properties Startup
begin

text \<open>
  A verification development for GreenLab, an IoT telemetry platform of Go services.

  \<^bold>\<open>The program.\<close> A device sends readings to the \<^emph>\<open>ingestion\<close> service, which accepts its API key (a Redis cache
  in front of \<^emph>\<open>device-registry\<close>), decodes the payload (json, or one of the compact formats), checks the readings and
  publishes them to Kafka. \<^emph>\<open>normalization\<close> consumes them, writes points to InfluxDB and publishes them again;
  \<^emph>\<open>alert-notification\<close> evaluates its rules on them and delivers notifications by mail and webhook;
  \<^emph>\<open>query-realtime\<close> answers queries from InfluxDB and pushes readings to live subscribers. \<^emph>\<open>device-registry\<close> manages
  devices, channels and fields in Postgres, \<^emph>\<open>iam\<close> users, sessions, organisations, workspaces and their keys.
  \<^emph>\<open>supporting\<close> keeps the audit log of what iam publishes, and the video streams and their recordings in an object store.
  The services share an HTTP layer (shared/pkg); devices may use the Go library sdk/go.

  \<^bold>\<open>The theories\<close>, in the order in which they build on each other:
  \<^item> Prelude: the outcome of a Go function (value, error or panic), durations that wrap at 64 bits, floats, lists.
  \<^item> Web: shared/pkg - API errors, envelopes, pagination, the sliding window of the rate limiter, JWT and role
    middleware, validation messages. Redis\<open>_\<close>Store: the Redis commands, with their laws as the locale ttl\<open>_\<close>store.
  \<^item> Ingest\<open>_\<close>Domain, Compact\<open>_\<close>Format, Ingest\<open>_\<close>Service, Key\<open>_\<close>Cache, Ingest\<open>_\<close>Handler, Ingest\<open>_\<close>Router: services/ingestion. The
    service is stated over its interfaces (locale ingest\<open>_\<close>backend: a publisher and a dead-letter writer; locale key\<open>_\<close>cache:
    a lookup behind a cache) and interpreted on the Kafka producer, the Redis list and the Redis cache of the code.
  \<^item> Registry\<open>_\<close>Domain, \<open>_\<close>Store, \<open>_\<close>Service, \<open>_\<close>Invariant, \<open>_\<close>Properties, \<open>_\<close>Handler: services/device-registry. The
    transaction runner is the locale tx\<open>_\<close>runner; every use case keeps the invariant of the tables.
    Registry\<open>_\<close>Ingestion composes its handlers with the client in ingestion.
  \<^item> Alert\<open>_\<close>Rules, Alert\<open>_\<close>Delivery, Alert\<open>_\<close>Handler: services/alert-notification.
  \<^item> Pipeline: services/normalization, the consumers and producers between the services, and the composition of
    ingestion, normalization, InfluxDB and the rule engine.
  \<^item> Query, Realtime, Live\<open>_\<close>Router: services/query-realtime. The hub, its consumer and the connections are a state machine whose
    steps are the critical sections and the writes of the goroutines; the router opens its connections.
  \<^item> IAM\<open>_\<close>Domain, \<open>_\<close>Store, \<open>_\<close>Service, \<open>_\<close>Handler, \<open>_\<close>Invariant, \<open>_\<close>Properties, \<open>_\<close>Accounts: services/iam. The laws that
    the use cases need of the repositories are the locale iam\<open>_\<close>tables over any invariant of the tables; its theorem says
    that every route keeps the invariant. It is interpreted on the soundness of the tables, on a
    refresh token that is spent, and on the keys of a tenant that does not act. What holds of one request for any state is
    the locale iam\<open>_\<close>frame: the Redis store of sessions and the topic of user events.
  \<^item> Support\<open>_\<close>Store, \<open>_\<close>Service, \<open>_\<close>Properties: services/supporting. The repositories with their SQL filters (LIKE as a function on
    patterns), the use cases, the consumer of user events, the CSV export and the routes; the consumer is composed with
    iam, whose topic it reads.
  \<^item> Sdk, Sdk\<open>_\<close>Properties: sdk/go - batches, compression, the configuration file and the client, composed with the router of
    ingestion.
  \<^item> Config: what each service reads from its environment (internal/config), with the standard parsers of numbers and
    durations. Startup: the order in which the main functions connect, check, start consumers and serve, as the list of
    what is seen of the process, and ingestion wired from its settings.

  \<^bold>\<open>How the code is read.\<close> A struct is a record, an enum or a set of sentinel errors a datatype, a method a definition
  that takes and returns the state it changes; an error is a value of the type outcome, a wrapped error its sentinel.
  Durations are int64 nanoseconds (wrapping), instants integers. Every call reads the clock once: the
  calls of time.Now() made within one request return the same instant. A Go map that is ranged over is the list of its
  entries in the order of the run, one that is only looked up a function to option. Tables are lists of rows in
  insertion order, with the constraints and cascades of the migrations. Code outside the repository is an argument: uuid.Parse and
  the drawn ids and random bytes, json and msgpack, JWT signing and checking, SHA-256, HMAC, bcrypt, the mail address
  parser, strings.ToLower outside ASCII, HTTP, DNS, SMTP, Kafka's and InfluxDB's clients; flags say which requests to Postgres,
  Redis, Kafka and InfluxDB succeed, so each failure branch is reachable. Recursion is structural, or ends because the
  text that is left gets shorter (durations, decimal numbers): nothing runs on fuel, a loop that serves for ever is a step relation or a function on the messages it has received.

  \<^bold>\<open>What is shown.\<close> Invariants: of the tables of device-registry and of iam in every run of their services, of the hub's accounts.
  Refinement: key checks through cache, client and registry answer what the tables say; an accepted batch ends as
  points in InfluxDB; a query answers what InfluxDB holds, or held within the life of a cache entry. Round trip and corruption of the binary frame,
  the language of slugs, the bound of the rate limiter. Atomicity and absence of loss in ingestion, provisioning and
  replay; revocation by rotation, deletion, new passwords and exchanged refresh tokens; confinement of tenants
  where the code confines them. What the library sends is ingested, under the clock and the positions of the server; a service
  serves exactly when its checks have passed. The properties of kind error state where it does not, and what is lost.

  \<^bold>\<open>Not modelled\<close>: loggers, request ids and traces (pure I/O); the constructors in main that only store their arguments; the
  Kafka wrappers of shared/pkg, which no service imports; the script that sends sample data; generated mocks and API
  documents; message texts of errors; the redirect of gin for a trailing slash, security headers; the frontend and the gateway.
  time.ParseDuration multiplies a fraction in floating point, here it is exact.
\<close>

end
